(* ===== verification/Prelude.thy ===== *)
theory Prelude
  imports Main "HOL-Library.Word" "HOL-Library.Char_ord" "HOL-Library.List_Lexorder"
begin

text \<open>
  Shared vocabulary of the development: the Rust standard-library operations on strings, options,
  results and machine integers that the sources use, and the generic lemmas about them.

  A Rust \<open>String\<close> is a HOL \<^typ>\<open>string\<close> whose elements are Unicode scalar values up to U+00FF;
  \<open>len()\<close> counts UTF-8 bytes (\<open>str_len\<close>) and \<open>chars().count()\<close> counts scalars (\<open>length\<close>).
  Integers of the sources are \<^typ>\<open>int\<close> with the wrap-around of every \<open>as\<close> cast written out, bytes are
  \<open>8 word\<close>, \<open>Result<T, E>\<close> is the sum type with \<open>Inl\<close> for \<open>Err\<close>.
\<close>

unbundle bit_operations_syntax

named_theorems str_simps \<open>equations for the string operations\<close>
named_theorems dns_intros \<open>introduction rules for generated Kubernetes names\<close>

type_synonym u8 = "8 word"
type_synonym bytes = "u8 list"
type_synonym labels = "(string \<times> string) list"

section \<open>Options\<close>

definition unwrap_or :: "'a option \<Rightarrow> 'a \<Rightarrow> 'a" where
  "unwrap_or x d = (case x of None \<Rightarrow> d | Some v \<Rightarrow> v)"

definition opt_or :: "'a option \<Rightarrow> 'a option \<Rightarrow> 'a option" where
  "opt_or x y = (case x of None \<Rightarrow> y | Some v \<Rightarrow> Some v)"

lemma unwrap_or_simps [simp]: "unwrap_or None d = d" "unwrap_or (Some v) d = v"
  by (simp_all add: unwrap_or_def)

lemma opt_or_simps [simp]: "opt_or None y = y" "opt_or (Some v) y = Some v"
  by (simp_all add: opt_or_def)

section \<open>Casts between machine integers\<close>

text \<open>\<open>x as i32\<close>, \<open>x as u8\<close> and \<open>x as usize\<close> on a 64-bit target: the low bits are kept, a signed
  source is sign-extended first.\<close>

definition as_i32 :: "int \<Rightarrow> int" where
  "as_i32 x = (x + 2 ^ 31) mod 2 ^ 32 - 2 ^ 31"

definition as_u8 :: "int \<Rightarrow> int" where
  "as_u8 x = x mod 2 ^ 8"

definition as_usize :: "int \<Rightarrow> nat" where
  "as_usize x = nat (x mod 2 ^ 64)"

definition i32_range :: "int \<Rightarrow> bool" where
  "i32_range x \<longleftrightarrow> - (2 ^ 31) \<le> x \<and> x < 2 ^ 31"

lemma as_i32_id: "i32_range x \<Longrightarrow> as_i32 x = x"
  by (simp add: i32_range_def as_i32_def)

lemma as_i32_range: "i32_range (as_i32 x)"
  by (simp add: i32_range_def as_i32_def)

lemma as_u8_id: "0 \<le> x \<Longrightarrow> x < 256 \<Longrightarrow> as_u8 x = x"
  by (simp add: as_u8_def)

lemma as_u8_bounds: "0 \<le> as_u8 x" "as_u8 x < 256"
  by (simp_all add: as_u8_def)

lemma as_usize_nonneg: "0 \<le> x \<Longrightarrow> x < 2 ^ 64 \<Longrightarrow> as_usize x = nat x"
  by (simp add: as_usize_def)

lemma as_usize_negative:
  assumes "i32_range x" and "x < 0"
  shows "as_usize x = nat (2 ^ 64 + x)"
proof -
  have "x mod 2 ^ 64 = (x + 2 ^ 64) mod 2 ^ 64" by simp
  also have "\<dots> = x + 2 ^ 64" using assms by (intro mod_pos_pos_trivial) (auto simp: i32_range_def)
  finally show ?thesis by (simp add: as_usize_def add.commute)
qed

section \<open>Characters and strings\<close>

definition is_ascii_digit :: "char \<Rightarrow> bool" where
  "is_ascii_digit c = (let n = (of_char c :: nat) in 48 \<le> n \<and> n \<le> 57)"

definition is_ascii_lowercase :: "char \<Rightarrow> bool" where
  "is_ascii_lowercase c = (let n = (of_char c :: nat) in 97 \<le> n \<and> n \<le> 122)"

definition is_ascii_uppercase :: "char \<Rightarrow> bool" where
  "is_ascii_uppercase c = (let n = (of_char c :: nat) in 65 \<le> n \<and> n \<le> 90)"

definition is_ascii_alphanumeric :: "char \<Rightarrow> bool" where
  "is_ascii_alphanumeric c = (is_ascii_digit c \<or> is_ascii_lowercase c \<or> is_ascii_uppercase c)"

definition is_ascii_hexdigit :: "char \<Rightarrow> bool" where
  "is_ascii_hexdigit c = (let n = (of_char c :: nat) in
     is_ascii_digit c \<or> (97 \<le> n \<and> n \<le> 102) \<or> (65 \<le> n \<and> n \<le> 70))"

definition to_ascii_lowercase :: "char \<Rightarrow> char" where
  "to_ascii_lowercase c = (if is_ascii_uppercase c then char_of ((of_char c :: nat) + 32) else c)"

definition utf8_char :: "char \<Rightarrow> bytes" where
  "utf8_char c = (let n = (of_char c :: nat) in
     if n < 128 then [word_of_nat n] else [word_of_nat (192 + n div 64), word_of_nat (128 + n mod 64)])"

definition as_bytes :: "string \<Rightarrow> bytes" where
  "as_bytes s = concat (map utf8_char s)"

definition str_len :: "string \<Rightarrow> nat" where
  "str_len s = length (as_bytes s)"

definition is_ascii_str :: "string \<Rightarrow> bool" where
  "is_ascii_str s = list_all (\<lambda>c. (of_char c :: nat) < 128) s"

definition trim_start_matches :: "(char \<Rightarrow> bool) \<Rightarrow> string \<Rightarrow> string" where
  "trim_start_matches p s = dropWhile p s"

definition trim_end_matches :: "(char \<Rightarrow> bool) \<Rightarrow> string \<Rightarrow> string" where
  "trim_end_matches p s = rev (dropWhile p (rev s))"

definition trim_matches :: "(char \<Rightarrow> bool) \<Rightarrow> string \<Rightarrow> string" where
  "trim_matches p s = trim_end_matches p (trim_start_matches p s)"

fun strip_prefix :: "string \<Rightarrow> string \<Rightarrow> string option" where
  "strip_prefix [] s = Some s"
| "strip_prefix (p # ps) [] = None"
| "strip_prefix (p # ps) (c # cs) = (if p = c then strip_prefix ps cs else None)"

fun split_once :: "char \<Rightarrow> string \<Rightarrow> (string \<times> string) option" where
  "split_once d [] = None"
| "split_once d (c # cs) =
     (if c = d then Some ([], cs) else map_option (\<lambda>(a, b). (c # a, b)) (split_once d cs))"

definition rsplit_once :: "char \<Rightarrow> string \<Rightarrow> (string \<times> string) option" where
  "rsplit_once d s = map_option (\<lambda>(a, b). (rev b, rev a)) (split_once d (rev s))"

fun split_on :: "char \<Rightarrow> string \<Rightarrow> string list" where
  "split_on d [] = [[]]"
| "split_on d (c # cs) =
     (if c = d then [] # split_on d cs
      else (case split_on d cs of [] \<Rightarrow> [[c]] | x # xs \<Rightarrow> (c # x) # xs))"

function str_replace :: "string \<Rightarrow> string \<Rightarrow> string \<Rightarrow> string" where
  "str_replace pat rep [] = []"
| "str_replace pat rep (c # cs) =
     (case strip_prefix pat (c # cs) of
        Some rest \<Rightarrow> if pat = [] then c # cs else rep @ str_replace pat rep rest
      | None \<Rightarrow> c # str_replace pat rep cs)"
  by pat_completeness auto

lemma strip_prefix_Some: "strip_prefix p s = Some r \<longleftrightarrow> s = p @ r"
  by (induction p s rule: strip_prefix.induct) auto

lemma strip_prefix_append [simp]: "strip_prefix p (p @ r) = Some r"
  by (simp add: strip_prefix_Some)

termination str_replace
proof (relation "measure (\<lambda>(pat, rep, s). length s)", goal_cases)
  case (2 pat rep c cs)
  then show ?case by simp
next
  case (3 pat rep c cs rest)
  then have "c # cs = pat @ rest" by (simp add: strip_prefix_Some)
  then have "length (c # cs) = length pat + length rest" by simp
  then show ?case using 3(2) by (cases pat) auto
qed auto

text \<open>Joining with a separator, as \<open>Vec<String>::join\<close> does.\<close>

fun join :: "string \<Rightarrow> string list \<Rightarrow> string" where
  "join sep [] = []"
| "join sep [x] = x"
| "join sep (x # y # ys) = x @ sep @ join sep (y # ys)"

text \<open>\<open>'{s}'\<close> in a format string.\<close>

definition quoted :: "string \<Rightarrow> string" where
  "quoted s = [CHR 0x27] @ s @ [CHR 0x27]"

text \<open>Printing integers, as \<open>to_string\<close> and \<open>format!\<close> do.\<close>

fun show_nat :: "nat \<Rightarrow> string" where
  "show_nat n = (if n < 10 then [char_of (48 + n)] else show_nat (n div 10) @ [char_of (48 + n mod 10)])"

declare show_nat.simps [simp del]

definition show_int :: "int \<Rightarrow> string" where
  "show_int i = (if i < 0 then CHR ''-'' # show_nat (nat (- i)) else show_nat (nat i))"

section \<open>Ordered maps\<close>

text \<open>A \<open>BTreeMap\<close> is the list of its entries in the order of the keys; strings are ordered by their
  characters, as their UTF-8 bytes are.\<close>

fun bt_insert :: "'k::linorder \<Rightarrow> 'v \<Rightarrow> ('k \<times> 'v) list \<Rightarrow> ('k \<times> 'v) list" where
  "bt_insert k v [] = [(k, v)]"
| "bt_insert k v ((k', v') # m) =
     (if k = k' then (k, v) # m else if k < k' then (k, v) # (k', v') # m else (k', v') # bt_insert k v m)"

definition bt_remove :: "'k \<Rightarrow> ('k \<times> 'v) list \<Rightarrow> ('k \<times> 'v) list" where
  "bt_remove k m = filter (\<lambda>(k', v). k' \<noteq> k) m"

lemma map_of_bt_insert [simp]: "map_of (bt_insert k v m) = (map_of m)(k \<mapsto> v)"
  by (induction m) (auto simp: fun_eq_iff)

lemma map_of_bt_remove [simp]: "map_of (bt_remove k m) = (map_of m)(k := None)"
  by (induction m) (auto simp: bt_remove_def fun_eq_iff)

lemma set_bt_insert: "fst ` set (bt_insert k v m) \<subseteq> insert k (fst ` set m)" "set (bt_insert k v m) \<subseteq> insert (k, v) (set m)"
  by (induction k v m rule: bt_insert.induct) auto

lemma sorted_bt_insert:
  "sorted_wrt (<) (map fst m) \<Longrightarrow> sorted_wrt (<) (map fst (bt_insert k v m))"
proof (induction k v m rule: bt_insert.induct)
  case (2 k v k' v' m)
  have "k' < x" if "k' < k" "x \<in> set (map fst (bt_insert k v m))" for x
  proof -
    have "x \<in> insert k (fst ` set m)" using set_bt_insert(1) [of k v m] that(2) by (auto simp: image_iff)
    then show ?thesis using that(1) 2(2) by auto
  qed
  then show ?case using 2 by (auto dest: less_trans)
qed simp

lemma dom_bt_insert: "fst ` set (bt_insert k v m) = insert k (fst ` set m)"
  by (induction k v m rule: bt_insert.induct) auto

section \<open>Lemmas on strings\<close>

lemma as_bytes_simps [simp]:
  "as_bytes [] = []" "as_bytes (c # s) = utf8_char c @ as_bytes s" "as_bytes (s @ t) = as_bytes s @ as_bytes t"
  by (simp_all add: as_bytes_def)

lemma str_len_simps [simp]:
  "str_len [] = 0" "str_len (c # s) = length (utf8_char c) + str_len s" "str_len (s @ t) = str_len s + str_len t"
  by (simp_all add: str_len_def)

lemma length_utf8_char: "length (utf8_char c) = (if (of_char c :: nat) < 128 then 1 else 2)"
  by (simp add: utf8_char_def Let_def)

lemma str_len_ascii: "is_ascii_str s \<Longrightarrow> str_len s = length s"
  by (induction s) (auto simp: is_ascii_str_def length_utf8_char)

lemma length_le_str_len: "length s \<le> str_len s"
  by (induction s) (auto simp: length_utf8_char)

lemma is_ascii_str_simps [simp]:
  "is_ascii_str []" "is_ascii_str (c # s) \<longleftrightarrow> (of_char c :: nat) < 128 \<and> is_ascii_str s"
  "is_ascii_str (s @ t) \<longleftrightarrow> is_ascii_str s \<and> is_ascii_str t"
  by (simp_all add: is_ascii_str_def)

lemma set_trim_matches: "set (trim_matches p s) \<subseteq> set s"
proof -
  have "set (trim_matches p s) \<subseteq> set (dropWhile p s)"
    unfolding trim_matches_def trim_end_matches_def trim_start_matches_def
    by (metis set_dropWhileD set_rev subsetI)
  then show ?thesis by (meson set_dropWhileD subset_iff)
qed

lemma split_once_Some: "split_once d s = Some (a, b) \<longleftrightarrow> s = a @ d # b \<and> d \<notin> set a"
proof (induction s arbitrary: a)
  case Nil
  then show ?case by simp
next
  case (Cons c cs)
  then show ?case by (cases a) auto
qed

lemma split_once_None: "split_once d s = None \<longleftrightarrow> d \<notin> set s"
  by (induction s) auto

lemma split_once_append: "d \<notin> set a \<Longrightarrow> split_once d (a @ d # b) = Some (a, b)"
  by (simp add: split_once_Some)

lemma split_on_nonempty [simp]: "split_on d s \<noteq> []"
  by (induction s) (auto split: list.splits)

lemma split_on_no_sep: "d \<notin> set s \<Longrightarrow> split_on d s = [s]"
  by (induction s) auto

lemma split_on_append_sep: "d \<notin> set a \<Longrightarrow> split_on d (a @ d # b) = a # split_on d b"
  by (induction a) auto

lemma join_split_on: "join [d] (split_on d s) = s"
proof (induction s)
  case Nil
  then show ?case by simp
next
  case (Cons c s)
  show ?case
  proof (cases "split_on d s")
    case Nil
    then show ?thesis by simp
  next
    case (Cons x xs)
    with Cons.IH show ?thesis by (cases xs) auto
  qed
qed

lemma of_char_bound: "(of_char c :: nat) < 256"
  by (metis nat_of_char_less_256)

lemma lowercase_alnum:
  assumes "is_ascii_alphanumeric c"
  shows "is_ascii_digit (to_ascii_lowercase c) \<or> is_ascii_lowercase (to_ascii_lowercase c)"
proof (cases "is_ascii_uppercase c")
  case True
  then have "(of_char (char_of ((of_char c :: nat) + 32) :: char) :: nat) = of_char c + 32"
    by (simp add: is_ascii_uppercase_def Let_def)
  with True show ?thesis
    by (simp add: to_ascii_lowercase_def is_ascii_lowercase_def is_ascii_uppercase_def Let_def)
next
  case False
  with assms show ?thesis by (auto simp: to_ascii_lowercase_def is_ascii_alphanumeric_def)
qed

lemma lowercase_alnum_iff:
  "is_ascii_alphanumeric (to_ascii_lowercase c) \<longleftrightarrow> is_ascii_alphanumeric c"
proof
  assume "is_ascii_alphanumeric c"
  then show "is_ascii_alphanumeric (to_ascii_lowercase c)"
    using lowercase_alnum by (auto simp: is_ascii_alphanumeric_def)
next
  assume "is_ascii_alphanumeric (to_ascii_lowercase c)"
  then show "is_ascii_alphanumeric c"
    by (auto simp: to_ascii_lowercase_def is_ascii_alphanumeric_def split: if_splits)
qed

section \<open>UTF-8\<close>

text \<open>The encoding is injective on the characters of the model.\<close>

lemma byte_eq_iff: "a < 256 \<Longrightarrow> b < 256 \<Longrightarrow> (word_of_nat a :: u8) = word_of_nat b \<longleftrightarrow> a = b"
  by (simp add: word_unat_eq_iff unat_of_nat)

lemma utf8_char_decode:
  assumes "utf8_char c @ xs = utf8_char d @ ys"
  shows "c = d \<and> xs = ys"
proof -
  let ?c = "of_char c :: nat" and ?d = "of_char d :: nat"
  have lt: "?c < 256" "?d < 256" by (rule of_char_bound)+
  have "?c div 64 < 4" "?d div 64 < 4" using lt by (simp_all add: less_mult_imp_div_less)
  then have "192 + ?c div 64 < 256" "192 + ?d div 64 < 256" by simp_all
  note b = this byte_eq_iff lt
  have "128 + ?c mod 64 < 256" "128 + ?d mod 64 < 256" by (simp_all add: less_Suc_eq_le [symmetric] trans_less_add1)
  note b = this b
  show ?thesis
  proof (cases "?c < 128"; cases "?d < 128")
    assume "?c < 128" "?d < 128"
    with assms b show ?thesis by (simp add: utf8_char_def Let_def)
  next
    assume "?c < 128" "\<not> ?d < 128"
    with assms b show ?thesis by (simp add: utf8_char_def Let_def del: of_nat_add)
  next
    assume "\<not> ?c < 128" "?d < 128"
    with assms b show ?thesis by (simp add: utf8_char_def Let_def del: of_nat_add)
  next
    assume "\<not> ?c < 128" "\<not> ?d < 128"
    with assms b have "?c div 64 = ?d div 64" "?c mod 64 = ?d mod 64" "xs = ys"
      by (simp_all add: utf8_char_def Let_def del: of_nat_add)
    then have "?c = ?d" by (metis div_mult_mod_eq)
    with \<open>xs = ys\<close> show ?thesis by simp
  qed
qed

lemma as_bytes_inj: "as_bytes s = as_bytes t \<longleftrightarrow> s = t"
proof
  show "as_bytes s = as_bytes t \<Longrightarrow> s = t"
  proof (induction s arbitrary: t)
    case Nil
    then show ?case by (cases t) (auto simp: utf8_char_def Let_def split: if_splits)
  next
    case (Cons c s)
    then obtain d t' where t: "t = d # t'"
      by (cases t) (auto simp: utf8_char_def Let_def split: if_splits)
    with Cons.prems have "utf8_char c @ as_bytes s = utf8_char d @ as_bytes t'" by simp
    from utf8_char_decode [OF this] Cons.IH [of t'] t show ?case by simp
  qed
qed simp

section \<open>URLs\<close>

text \<open>The parts of a parsed URL that the code looks at; parsing is a library's.\<close>

record parsed_url =
  pu_host :: "string option"
  pu_username :: string
  pu_password :: "string option"
  pu_query :: "string option"
  pu_fragment :: "string option"
  pu_scheme :: string
  pu_path :: string

text \<open>Percent-encoding of every byte that is not unreserved, as three functions of the sources do it.\<close>

definition is_unreserved :: "u8 \<Rightarrow> bool" where
  "is_unreserved b = (let n = unat b in (65 \<le> n \<and> n \<le> 90) \<or> (97 \<le> n \<and> n \<le> 122) \<or> (48 \<le> n \<and> n \<le> 57) \<or> n \<in> {45, 46, 95, 126})"

definition upper_hex_digit :: "nat \<Rightarrow> char" where
  "upper_hex_digit n = char_of (if n < 10 then 48 + n else 55 + n)"

definition percent_encode :: "string \<Rightarrow> string" where
  "percent_encode value = concat (map (\<lambda>b.
     if is_unreserved b then [char_of (unat b)]
     else [CHR ''%'', upper_hex_digit (unat b div 16), upper_hex_digit (unat b mod 16)]) (as_bytes value))"

end
