(* ===== verification/StateStore.thy ===== *)
theory StateStore
  imports Prelude
begin

text \<open>
  The operator's state store (\<open>src/operator/src/state_store/mod.rs\<close>): the test-case records, the
  \<open>StateStore\<close> trait as a record of operations (the trait object the clients hold), an abstract
  specification of a store as a finite map from \<open>(blue_green_ref, test_id)\<close> to records, and the
  contract every backend promises as the locale \<open>state_store\<close>.

  Instants and durations are integers counted in microseconds, the resolution of the persistent
  backend's timestamps; the current instant is an argument of the operations that read the clock.
\<close>

section \<open>Data\<close>

datatype StoreError = NotFound string | Postgres string | Conflict string | Other string

datatype TestStatus = Triggered | Observing | Passed | Failed | TimedOut

datatype VerificationMode = Data | Custom

record TestCaseRecord =
  tc_test_id :: string
  tc_blue_green_ref :: string
  tc_triggered_at :: int
  tc_source_inception_point :: string
  tc_timeout :: int
  tc_status :: TestStatus
  tc_verdict :: "bool option"
  tc_verification_mode :: VerificationMode
  tc_verify_url :: string
  tc_verifier_auth_token :: string
  tc_retries_remaining :: int
  tc_failure_message :: "string option"

definition expires_at :: "TestCaseRecord \<Rightarrow> int" where
  "expires_at r = tc_triggered_at r + tc_timeout r"

definition is_pending :: "TestCaseRecord \<Rightarrow> bool" where
  "is_pending r = (case tc_status r of Triggered \<Rightarrow> True | Observing \<Rightarrow> True | _ \<Rightarrow> False)"

definition is_finalized :: "TestCaseRecord \<Rightarrow> bool" where
  "is_finalized r = (case tc_status r of Passed \<Rightarrow> True | Failed \<Rightarrow> True | TimedOut \<Rightarrow> True | _ \<Rightarrow> False)"

record Counts =
  counts_passed :: int
  counts_failed :: int
  counts_timed_out :: int
  counts_pending :: int

definition default_counts :: Counts where
  "default_counts = \<lparr>counts_passed = 0, counts_failed = 0, counts_timed_out = 0, counts_pending = 0\<rparr>"

text \<open>The trait object: one field per method of \<open>trait StateStore\<close>, each returning its result and
  the store after the call.\<close>

record 's StateStore =
  op_register :: "TestCaseRecord \<Rightarrow> 's \<Rightarrow> (StoreError + unit) \<times> 's"
  op_get :: "string \<Rightarrow> string \<Rightarrow> 's \<Rightarrow> (StoreError + TestCaseRecord option) \<times> 's"
  op_set_verdict :: "string \<Rightarrow> string \<Rightarrow> bool \<Rightarrow> string option \<Rightarrow> 's \<Rightarrow> (StoreError + unit) \<times> 's"
  op_mark_timed_out :: "string \<Rightarrow> string \<Rightarrow> 's \<Rightarrow> (StoreError + unit) \<times> 's"
  op_decrement_retries :: "string \<Rightarrow> string \<Rightarrow> 's \<Rightarrow> (StoreError + int option) \<times> 's"
  op_list_pending :: "'s \<Rightarrow> (StoreError + TestCaseRecord list) \<times> 's"
  op_list_blue_green_refs :: "'s \<Rightarrow> (StoreError + string list) \<times> 's"
  op_counts :: "string \<Rightarrow> 's \<Rightarrow> (StoreError + Counts) \<times> 's"
  op_counts_for_mode :: "string \<Rightarrow> VerificationMode \<Rightarrow> 's \<Rightarrow> (StoreError + Counts) \<times> 's"
  op_latest_failure_message :: "string \<Rightarrow> 's \<Rightarrow> (StoreError + string option) \<times> 's"
  op_cleanup_blue_green :: "string \<Rightarrow> 's \<Rightarrow> (StoreError + nat) \<times> 's"
  op_cleanup_expired :: "int \<Rightarrow> 's \<Rightarrow> (StoreError + nat) \<times> 's"

lemma pending_or_finalized: "is_pending r \<longleftrightarrow> \<not> is_finalized r"
  by (auto simp: is_pending_def is_finalized_def split: TestStatus.splits)

section \<open>Abstract specification\<close>

type_synonym store_map = "string \<times> string \<Rightarrow> TestCaseRecord option"

definition tc_key :: "TestCaseRecord \<Rightarrow> string \<times> string" where
  "tc_key r = (tc_blue_green_ref r, tc_test_id r)"

text \<open>Registering a case that is already pending fills in what is still missing, keeps the earliest
  trigger and the longest timeout, and changes nothing else.\<close>

definition merge_registration :: "TestCaseRecord \<Rightarrow> TestCaseRecord \<Rightarrow> TestCaseRecord" where
  "merge_registration ex run = ex\<lparr>
     tc_verify_url := (if tc_verify_url ex = [] then tc_verify_url run else tc_verify_url ex),
     tc_verifier_auth_token :=
       (if tc_verifier_auth_token ex = [] then tc_verifier_auth_token run else tc_verifier_auth_token ex),
     tc_triggered_at := min (tc_triggered_at ex) (tc_triggered_at run),
     tc_timeout := max (tc_timeout ex) (tc_timeout run),
     tc_source_inception_point :=
       (if tc_source_inception_point ex = [] then tc_source_inception_point run
        else tc_source_inception_point ex)\<rparr>"

definition register_spec :: "TestCaseRecord \<Rightarrow> store_map \<Rightarrow> store_map" where
  "register_spec run m = (case m (tc_key run) of
     None \<Rightarrow> m(tc_key run \<mapsto> run)
   | Some ex \<Rightarrow> if is_finalized ex then m else m(tc_key run \<mapsto> merge_registration ex run))"

definition verdict_of :: "bool \<Rightarrow> string option \<Rightarrow> TestCaseRecord \<Rightarrow> TestCaseRecord" where
  "verdict_of p msg r = r\<lparr>tc_verdict := Some p, tc_failure_message := msg,
     tc_status := (if p then Passed else Failed)\<rparr>"

definition timed_out_of :: "TestCaseRecord \<Rightarrow> TestCaseRecord" where
  "timed_out_of r = r\<lparr>tc_status := TimedOut, tc_verdict := None\<rparr>"

text \<open>The single-record update both \<open>set_verdict\<close> and \<open>mark_timed_out\<close> perform: only a pending
  record changes, everything else is \<open>NotFound\<close>.\<close>

definition finalize_spec ::
  "(TestCaseRecord \<Rightarrow> TestCaseRecord) \<Rightarrow> string \<Rightarrow> string \<Rightarrow> store_map \<Rightarrow> (StoreError + unit) \<times> store_map" where
  "finalize_spec f bg i m = (case m (bg, i) of
     None \<Rightarrow> (Inl (NotFound i), m)
   | Some r \<Rightarrow> if is_pending r then (Inr (), m((bg, i) \<mapsto> f r)) else (Inl (NotFound i), m))"

definition decrement_spec :: "string \<Rightarrow> string \<Rightarrow> store_map \<Rightarrow> int option \<times> store_map" where
  "decrement_spec bg i m = (case m (bg, i) of
     None \<Rightarrow> (None, m)
   | Some r \<Rightarrow> if is_pending r \<and> tc_retries_remaining r > 0
       then (Some (tc_retries_remaining r - 1),
             m((bg, i) \<mapsto> r\<lparr>tc_retries_remaining := tc_retries_remaining r - 1\<rparr>))
       else (None, m))"

definition records_of :: "store_map \<Rightarrow> string \<Rightarrow> TestCaseRecord set" where
  "records_of m bg = {r. \<exists>i. m (bg, i) = Some r}"

definition counts_spec :: "TestCaseRecord set \<Rightarrow> Counts" where
  "counts_spec R = \<lparr>
     counts_passed = int (card {r \<in> R. tc_status r = Passed}),
     counts_failed = int (card {r \<in> R. tc_status r = Failed}),
     counts_timed_out = int (card {r \<in> R. tc_status r = TimedOut}),
     counts_pending = int (card {r \<in> R. is_pending r})\<rparr>"

definition drop_ref :: "string \<Rightarrow> store_map \<Rightarrow> store_map" where
  "drop_ref bg m = (\<lambda>k. if fst k = bg then None else m k)"

text \<open>Blue-green references are \<open>namespace/name\<close> of Kubernetes objects; none contains the unit
  separator the in-memory key uses.\<close>

definition valid_ref :: "string \<Rightarrow> bool" where
  "valid_ref bg = (CHR 0x1F \<notin> set bg)"

text \<open>A failure of the backend itself, as opposed to an answer of the store.\<close>

fun is_fault :: "StoreError + 'a \<Rightarrow> bool" where
  "is_fault (Inl (Postgres e)) = True"
| "is_fault _ = False"

lemma merge_registration_key [simp]: "tc_key (merge_registration ex run) = tc_key ex"
  by (simp add: merge_registration_def tc_key_def)

lemma verdict_of_simps [simp]:
  "tc_key (verdict_of p msg r) = tc_key r"
  "tc_status (verdict_of p msg r) = (if p then Passed else Failed)"
  "tc_verdict (verdict_of p msg r) = Some p"
  by (simp_all add: verdict_of_def tc_key_def)

lemma timed_out_of_simps [simp]:
  "tc_key (timed_out_of r) = tc_key r"
  "tc_status (timed_out_of r) = TimedOut"
  "tc_verdict (timed_out_of r) = None"
  by (simp_all add: timed_out_of_def tc_key_def)

lemma verdict_of_finalized [simp]: "is_finalized (verdict_of p msg r)"
  by (simp add: is_finalized_def)

lemma timed_out_of_finalized [simp]: "is_finalized (timed_out_of r)"
  by (simp add: is_finalized_def)

lemma merge_registration_pending: "is_pending (merge_registration ex run) = is_pending ex"
  by (simp add: merge_registration_def is_pending_def)

section \<open>What the specification keeps\<close>

text \<open>\<open>keeps_final m m'\<close>: no record that has reached a final status is changed or lost.\<close>

definition keeps_final :: "store_map \<Rightarrow> store_map \<Rightarrow> bool" where
  "keeps_final m m' \<longleftrightarrow> (\<forall>k r. m k = Some r \<and> is_finalized r \<longrightarrow> m' k = Some r)"

lemma keeps_finalD: "keeps_final m m' \<Longrightarrow> m k = Some r \<Longrightarrow> is_finalized r \<Longrightarrow> m' k = Some r"
  unfolding keeps_final_def by blast

lemma keeps_final_refl [simp]: "keeps_final m m"
  by (simp add: keeps_final_def)

lemma keeps_final_trans: "keeps_final a b \<Longrightarrow> keeps_final b c \<Longrightarrow> keeps_final a c"
  unfolding keeps_final_def by blast

lemma keeps_final_register: "keeps_final m (register_spec run m)"
  by (auto simp: keeps_final_def register_spec_def pending_or_finalized split: option.splits)

lemma keeps_final_finalize: "finalize_spec f bg i m = (res, m') \<Longrightarrow> keeps_final m m'"
  by (auto simp: keeps_final_def finalize_spec_def pending_or_finalized split: option.splits if_splits)

lemma keeps_final_decrement: "decrement_spec bg i m = (res, m') \<Longrightarrow> keeps_final m m'"
  by (auto simp: keeps_final_def decrement_spec_def pending_or_finalized split: option.splits if_splits)

lemma card_status_partition:
  assumes "finite R"
  shows "card {r \<in> R. tc_status r = Passed} + card {r \<in> R. tc_status r = Failed}
       + card {r \<in> R. tc_status r = TimedOut} + card {r \<in> R. is_pending r} = card R"
proof -
  let ?P = "{r \<in> R. tc_status r = Passed}" and ?F = "{r \<in> R. tc_status r = Failed}"
  let ?T = "{r \<in> R. tc_status r = TimedOut}" and ?Q = "{r \<in> R. is_pending r}"
  have "r \<in> ?P \<union> ?F \<union> ?T \<union> ?Q" if "r \<in> R" for r
    using that by (cases "tc_status r") (auto simp: is_pending_def)
  then have "R = ?P \<union> ?F \<union> ?T \<union> ?Q" by blast
  then have "card R = card (?P \<union> ?F \<union> ?T \<union> ?Q)" by (rule arg_cong)
  also have "\<dots> = card (?P \<union> ?F \<union> ?T) + card ?Q"
    by (rule card_Un_disjoint) (use assms in \<open>auto simp: is_pending_def\<close>)
  also have "card (?P \<union> ?F \<union> ?T) = card (?P \<union> ?F) + card ?T"
    by (rule card_Un_disjoint) (use assms in auto)
  also have "card (?P \<union> ?F) = card ?P + card ?F"
    by (rule card_Un_disjoint) (use assms in auto)
  finally show ?thesis by simp
qed

lemma counts_spec_total:
  assumes "finite R"
  shows "counts_passed (counts_spec R) + counts_failed (counts_spec R)
       + counts_timed_out (counts_spec R) + counts_pending (counts_spec R) = int (card R)"
  using card_status_partition [OF assms] by (simp add: counts_spec_def)

lemma counts_spec_nonneg:
  "0 \<le> counts_passed (counts_spec R)" "0 \<le> counts_failed (counts_spec R)"
  "0 \<le> counts_timed_out (counts_spec R)" "0 \<le> counts_pending (counts_spec R)"
  by (simp_all add: counts_spec_def)

section \<open>The contract of a backend\<close>

locale state_store =
  fixes ops :: "'s StateStore"
    and abs :: "'s \<Rightarrow> store_map"
    and invar :: "'s \<Rightarrow> bool"
    and storable :: "TestCaseRecord \<Rightarrow> bool"
  assumes abs_finite: "invar s \<Longrightarrow> finite (dom (abs s))"
    and abs_key: "invar s \<Longrightarrow> abs s k = Some r \<Longrightarrow> tc_key r = k \<and> valid_ref (fst k)"
    and register_law: "invar s \<Longrightarrow> valid_ref (tc_blue_green_ref run) \<Longrightarrow> storable run \<Longrightarrow>
      op_register ops run s = (res, s') \<Longrightarrow>
      invar s' \<and> (if is_fault res then abs s' = abs s
                  else res = Inr () \<and> abs s' = register_spec run (abs s))"
    and get_law: "invar s \<Longrightarrow> valid_ref bg \<Longrightarrow> op_get ops bg i s = (rg, s') \<Longrightarrow>
      invar s' \<and> abs s' = abs s \<and> (is_fault rg \<or> rg = Inr (abs s (bg, i)))"
    and set_verdict_law: "invar s \<Longrightarrow> valid_ref bg \<Longrightarrow> op_set_verdict ops bg i p msg s = (res, s') \<Longrightarrow>
      invar s' \<and> (if is_fault res then abs s' = abs s
                  else (res, abs s') = finalize_spec (verdict_of p msg) bg i (abs s))"
    and mark_timed_out_law: "invar s \<Longrightarrow> valid_ref bg \<Longrightarrow> op_mark_timed_out ops bg i s = (res, s') \<Longrightarrow>
      invar s' \<and> (if is_fault res then abs s' = abs s
                  else (res, abs s') = finalize_spec timed_out_of bg i (abs s))"
    and decrement_law: "invar s \<Longrightarrow> valid_ref bg \<Longrightarrow> op_decrement_retries ops bg i s = (rd, s') \<Longrightarrow>
      invar s' \<and> (if is_fault rd then abs s' = abs s
                  else abs s' = snd (decrement_spec bg i (abs s)) \<and>
                       (abs s (bg, i) \<noteq> None \<longrightarrow> rd = Inr (fst (decrement_spec bg i (abs s)))))"
    and list_pending_law: "invar s \<Longrightarrow> op_list_pending ops s = (rp, s') \<Longrightarrow>
      invar s' \<and> abs s' = abs s \<and>
      (is_fault rp \<or> (\<exists>rs. rp = Inr rs \<and> set rs = {r. is_pending r \<and> r \<in> ran (abs s)}))"
    and list_refs_law: "invar s \<Longrightarrow> op_list_blue_green_refs ops s = (rl, s') \<Longrightarrow>
      invar s' \<and> abs s' = abs s \<and>
      (is_fault rl \<or> (\<exists>bs. rl = Inr bs \<and> set bs = fst ` dom (abs s)))"
    and counts_law: "invar s \<Longrightarrow> op_counts ops bg s = (rc, s') \<Longrightarrow>
      invar s' \<and> abs s' = abs s \<and> (is_fault rc \<or> rc = Inr (counts_spec (records_of (abs s) bg)))"
    and counts_for_mode_law: "invar s \<Longrightarrow> op_counts_for_mode ops bg mode s = (rc, s') \<Longrightarrow>
      invar s' \<and> abs s' = abs s \<and>
      (is_fault rc \<or>
       rc = Inr (counts_spec {r \<in> records_of (abs s) bg. tc_verification_mode r = mode}))"
    and latest_failure_law: "invar s \<Longrightarrow> op_latest_failure_message ops bg s = (rm, s') \<Longrightarrow>
      invar s' \<and> abs s' = abs s \<and>
      (is_fault rm \<or>
       (\<exists>msg. rm = Inr msg \<and>
          (case msg of None \<Rightarrow> \<forall>r \<in> records_of (abs s) bg. tc_failure_message r = None
           | Some m \<Rightarrow> \<exists>r \<in> records_of (abs s) bg. tc_failure_message r = Some m)))"
    and cleanup_law: "invar s \<Longrightarrow> op_cleanup_blue_green ops bg s = (rn, s') \<Longrightarrow>
      invar s' \<and> (if is_fault rn then abs s' = abs s
                  else rn = Inr (card (records_of (abs s) bg)) \<and> abs s' = drop_ref bg (abs s))"
    and cleanup_expired_law: "invar s \<Longrightarrow> op_cleanup_expired ops now s = (rn, s') \<Longrightarrow>
      invar s' \<and>
      (\<forall>k. abs s' k = abs s k \<or>
           abs s' k = None \<and> (\<exists>r. abs s k = Some r \<and> is_pending r \<and> expires_at r < now))"
begin

lemma register_keeps_final:
  assumes "invar s" "valid_ref (tc_blue_green_ref run)" "storable run" "op_register ops run s = (res, s')"
  shows "keeps_final (abs s) (abs s')"
  using register_law [OF assms] keeps_final_register by (auto split: if_splits)

lemma set_verdict_keeps_final:
  assumes "invar s" "valid_ref bg" "op_set_verdict ops bg i p msg s = (res, s')"
  shows "keeps_final (abs s) (abs s')"
  using set_verdict_law [OF assms] keeps_final_finalize by (metis keeps_final_refl)

lemma mark_timed_out_keeps_final:
  assumes "invar s" "valid_ref bg" "op_mark_timed_out ops bg i s = (res, s')"
  shows "keeps_final (abs s) (abs s')"
  using mark_timed_out_law [OF assms] keeps_final_finalize by (metis keeps_final_refl)

lemma decrement_keeps_final:
  assumes "invar s" "valid_ref bg" "op_decrement_retries ops bg i s = (res, s')"
  shows "keeps_final (abs s) (abs s')"
  using decrement_law [OF assms] keeps_final_decrement by (metis keeps_final_refl surjective_pairing)

lemma set_verdict_then_get:
  assumes "invar s" "valid_ref bg" and "op_set_verdict ops bg i p msg s = (Inr (), s')"
  shows "\<exists>r. abs s (bg, i) = Some r \<and> is_pending r \<and> abs s' (bg, i) = Some (verdict_of p msg r)"
  using set_verdict_law [OF assms]
  by (auto simp: finalize_spec_def split: option.splits if_splits)

lemma finite_records_of: "invar s \<Longrightarrow> finite (records_of (abs s) bg)"
proof -
  assume "invar s"
  then have "finite (ran (abs s))" by (simp add: abs_finite finite_ran)
  moreover have "records_of (abs s) bg \<subseteq> ran (abs s)" by (auto simp: records_of_def ran_def)
  ultimately show ?thesis by (rule rev_finite_subset)
qed

end

end
