(* ===== verification/StoreTable.thy ===== *)
theory StoreTable
  imports StateStore
begin

text \<open>
  Lists of test-case records with distinct keys, as the common ground of the backends: the map such
  a table denotes, and how the record-wise updates, filters and counts of a backend act on it.
\<close>

definition table_ok :: "TestCaseRecord list \<Rightarrow> bool" where
  "table_ok rs \<longleftrightarrow> distinct (map tc_key rs) \<and> (\<forall>r \<in> set rs. valid_ref (tc_blue_green_ref r))"

definition table_map :: "TestCaseRecord list \<Rightarrow> store_map" where
  "table_map rs = map_of (map (\<lambda>r. (tc_key r, r)) rs)"

definition update_where ::
  "(TestCaseRecord \<Rightarrow> bool) \<Rightarrow> (TestCaseRecord \<Rightarrow> TestCaseRecord) \<Rightarrow> TestCaseRecord list \<Rightarrow> TestCaseRecord list" where
  "update_where P f rs = map (\<lambda>r. if P r then f r else r) rs"

lemma table_map_Some:
  "table_ok rs \<Longrightarrow> table_map rs k = Some r \<longleftrightarrow> r \<in> set rs \<and> tc_key r = k"
proof -
  assume "table_ok rs"
  then have "distinct (map fst (map (\<lambda>r. (tc_key r, r)) rs))" by (simp add: table_ok_def comp_def)
  then have "table_map rs k = Some r \<longleftrightarrow> (k, r) \<in> set (map (\<lambda>r. (tc_key r, r)) rs)"
    unfolding table_map_def by (rule map_of_eq_Some_iff)
  then show ?thesis by auto
qed

lemma table_map_None: "table_map rs k = None \<longleftrightarrow> (\<forall>r \<in> set rs. tc_key r \<noteq> k)"
  by (auto simp: table_map_def map_of_eq_None_iff image_iff)

lemma finite_dom_table_map: "finite (dom (table_map rs))"
  by (simp add: table_map_def finite_dom_map_of)

lemma ran_table_map: "table_ok rs \<Longrightarrow> ran (table_map rs) = set rs"
  by (auto simp: ran_def table_map_Some)

lemma table_ok_distinct: "table_ok rs \<Longrightarrow> distinct rs"
  by (simp add: table_ok_def distinct_map)

lemma records_of_table:
  "table_ok rs \<Longrightarrow> records_of (table_map rs) bg = set (filter (\<lambda>r. tc_blue_green_ref r = bg) rs)"
  by (auto simp: records_of_def table_map_Some tc_key_def)

lemma fst_dom_table: "table_ok rs \<Longrightarrow> fst ` dom (table_map rs) = tc_blue_green_ref ` set rs"
  by (force simp: dom_def table_map_Some tc_key_def image_def)

lemma table_ok_filter: "table_ok rs \<Longrightarrow> table_ok (filter P rs)"
  by (auto simp: table_ok_def distinct_map_filter)

lemma table_map_filter:
  assumes "table_ok rs"
  shows "table_map (filter P rs) k =
    (case table_map rs k of None \<Rightarrow> None | Some r \<Rightarrow> if P r then Some r else None)"
proof (cases "table_map rs k")
  case None
  then have "table_map (filter P rs) k = None" by (simp add: table_map_None)
  with None show ?thesis by simp
next
  case (Some r)
  with assms have r: "r \<in> set rs" "tc_key r = k" by (simp_all add: table_map_Some)
  show ?thesis
  proof (cases "P r")
    case True
    with r table_ok_filter [OF assms] have "table_map (filter P rs) k = Some r"
      by (simp add: table_map_Some)
    with Some True show ?thesis by simp
  next
    case False
    have "table_map (filter P rs) k = None"
      unfolding table_map_None
    proof (intro ballI notI)
      fix x assume x: "x \<in> set (filter P rs)" "tc_key x = k"
      then have "x \<in> set rs" by simp
      with x(2) assms Some have "x = r" by (metis option.inject table_map_Some)
      with x False show False by simp
    qed
    with Some False show ?thesis by simp
  qed
qed

lemma drop_ref_table:
  "table_ok rs \<Longrightarrow> table_map (filter (\<lambda>r. tc_blue_green_ref r \<noteq> bg) rs) = drop_ref bg (table_map rs)"
  by (rule ext) (auto simp: table_map_filter drop_ref_def dest!: table_map_Some [THEN iffD1, rotated]
      simp: tc_key_def split: option.splits)

lemma card_records_table:
  "table_ok rs \<Longrightarrow> card (records_of (table_map rs) bg) = length (filter (\<lambda>r. tc_blue_green_ref r = bg) rs)"
  by (simp add: records_of_table distinct_card table_ok_distinct del: set_filter)

lemma update_where_keys:
  assumes "\<And>r. tc_key (f r) = tc_key r"
  shows "map tc_key (update_where P f rs) = map tc_key rs"
  by (simp add: update_where_def assms)

lemma table_ok_update:
  assumes "table_ok rs" and key: "\<And>r. tc_key (f r) = tc_key r"
  shows "table_ok (update_where P f rs)"
proof -
  have "tc_blue_green_ref (f r) = tc_blue_green_ref r" for r
    using key [of r] by (simp add: tc_key_def)
  then have "\<forall>r \<in> set (update_where P f rs). valid_ref (tc_blue_green_ref r)"
    using assms(1) by (auto simp: update_where_def table_ok_def)
  with assms(1) show ?thesis
    unfolding table_ok_def by (simp add: update_where_keys [OF key])
qed

lemma table_map_update:
  assumes key: "\<And>r. tc_key (f r) = tc_key r"
    and P: "\<And>r. r \<in> set rs \<Longrightarrow> P r \<longleftrightarrow> tc_key r = k \<and> Q r"
  shows "table_map (update_where P f rs) =
    (table_map rs)(k := map_option (\<lambda>r. if Q r then f r else r) (table_map rs k))"
  using P
proof (induction rs)
  case Nil
  then show ?case by (auto simp: update_where_def table_map_def)
next
  case (Cons r rs)
  have IH: "table_map (update_where P f rs) =
      (table_map rs)(k := map_option (\<lambda>r. if Q r then f r else r) (table_map rs k))"
    by (rule Cons.IH) (simp add: Cons.prems)
  have "P r \<longleftrightarrow> tc_key r = k \<and> Q r" using Cons.prems by simp
  with IH show ?case
    by (auto simp: update_where_def table_map_def key fun_eq_iff)
qed

lemma table_map_insert:
  assumes "\<forall>r \<in> set rs. tc_key r \<noteq> tc_key run"
  shows "table_map (take n rs @ run # drop n rs) = (table_map rs)(tc_key run \<mapsto> run)"
proof -
  have none: "\<forall>r \<in> set (take n rs). tc_key r \<noteq> tc_key run"
    using assms by (meson in_set_takeD)
  have "table_map rs = table_map (take n rs @ drop n rs)" by simp
  also have "\<dots> = table_map (drop n rs) ++ table_map (take n rs)"
    unfolding table_map_def map_append map_of_append ..
  finally have split: "table_map rs = table_map (drop n rs) ++ table_map (take n rs)" .
  have "table_map (take n rs @ run # drop n rs)
      = ((table_map (drop n rs))(tc_key run \<mapsto> run)) ++ table_map (take n rs)"
    by (simp add: table_map_def)
  also have "\<dots> = (table_map (drop n rs) ++ table_map (take n rs))(tc_key run \<mapsto> run)"
    by (rule map_add_upd_left) (use none in \<open>auto simp: table_map_def dom_map_of_conv_image_fst\<close>)
  finally show ?thesis by (simp only: split)
qed

lemma table_ok_insert:
  assumes "table_ok rs" and "\<forall>r \<in> set rs. tc_key r \<noteq> tc_key run" and "valid_ref (tc_blue_green_ref run)"
  shows "table_ok (take n rs @ run # drop n rs)"
proof -
  have "distinct (map tc_key (take n rs @ drop n rs))"
    using assms(1) by (simp only: append_take_drop_id table_ok_def)
  then have d: "distinct (map tc_key (take n rs))" "distinct (map tc_key (drop n rs))"
    "set (map tc_key (take n rs)) \<inter> set (map tc_key (drop n rs)) = {}"
    unfolding map_append distinct_append by blast+
  have "tc_key run \<notin> set (map tc_key (take n rs))" "tc_key run \<notin> set (map tc_key (drop n rs))"
    using assms(2) by (auto dest: in_set_takeD in_set_dropD)
  with d have "distinct (map tc_key (take n rs @ run # drop n rs))" by auto
  with assms show ?thesis
    by (auto simp: table_ok_def dest: in_set_takeD in_set_dropD)
qed

section \<open>Counting\<close>

definition count_status :: "TestCaseRecord \<Rightarrow> Counts \<Rightarrow> Counts" where
  "count_status run c = (case tc_status run of
     Passed \<Rightarrow> c\<lparr>counts_passed := counts_passed c + 1\<rparr>
   | Failed \<Rightarrow> c\<lparr>counts_failed := counts_failed c + 1\<rparr>
   | TimedOut \<Rightarrow> c\<lparr>counts_timed_out := counts_timed_out c + 1\<rparr>
   | Triggered \<Rightarrow> c\<lparr>counts_pending := counts_pending c + 1\<rparr>
   | Observing \<Rightarrow> c\<lparr>counts_pending := counts_pending c + 1\<rparr>)"

definition counts_lengths :: "TestCaseRecord list \<Rightarrow> Counts" where
  "counts_lengths rs = \<lparr>
     counts_passed = int (length (filter (\<lambda>r. tc_status r = Passed) rs)),
     counts_failed = int (length (filter (\<lambda>r. tc_status r = Failed) rs)),
     counts_timed_out = int (length (filter (\<lambda>r. tc_status r = TimedOut) rs)),
     counts_pending = int (length (filter is_pending rs))\<rparr>"

lemma fold_count_status:
  "fold count_status rs c = \<lparr>
     counts_passed = counts_passed c + counts_passed (counts_lengths rs),
     counts_failed = counts_failed c + counts_failed (counts_lengths rs),
     counts_timed_out = counts_timed_out c + counts_timed_out (counts_lengths rs),
     counts_pending = counts_pending c + counts_pending (counts_lengths rs)\<rparr>"
proof (induction rs arbitrary: c)
  case Nil
  then show ?case by (simp add: counts_lengths_def)
next
  case (Cons r rs)
  then show ?case
    by (cases "tc_status r") (simp_all add: count_status_def counts_lengths_def is_pending_def)
qed

lemma counts_lengths_spec:
  assumes "distinct rs"
  shows "counts_lengths rs = counts_spec (set rs)"
proof -
  have card: "length (filter P rs) = card {r \<in> set rs. P r}" for P
  proof -
    have "card (set (filter P rs)) = length (filter P rs)"
      using assms by (intro distinct_card) simp
    then show ?thesis by simp
  qed
  show ?thesis by (simp add: counts_lengths_def counts_spec_def card)
qed

lemma counts_table:
  assumes "table_ok rs"
  shows "counts_lengths (filter (\<lambda>r. tc_blue_green_ref r = bg \<and> Q r) rs)
       = counts_spec {r \<in> records_of (table_map rs) bg. Q r}"
proof -
  have "distinct (filter (\<lambda>r. tc_blue_green_ref r = bg \<and> Q r) rs)"
    using table_ok_distinct [OF assms] by simp
  then have "counts_lengths (filter (\<lambda>r. tc_blue_green_ref r = bg \<and> Q r) rs)
      = counts_spec (set (filter (\<lambda>r. tc_blue_green_ref r = bg \<and> Q r) rs))"
    by (rule counts_lengths_spec)
  also have "set (filter (\<lambda>r. tc_blue_green_ref r = bg \<and> Q r) rs) = {r \<in> records_of (table_map rs) bg. Q r}"
    by (auto simp: records_of_table [OF assms])
  finally show ?thesis .
qed

lemmas counts_table_all = counts_table [where Q = "\<lambda>_. True", simplified]

end
