(* ===== verification/MemoryStore.thy ===== *)
theory MemoryStore
  imports StoreTable
begin

text \<open>
  The in-memory backend (\<open>src/operator/src/state_store/memory.rs\<close>). The \<open>HashMap\<close> behind the lock
  is an association list with distinct keys, listed in the map's iteration order; where a new entry
  lands in that order is unspecified, so the position is a parameter \<open>slot\<close> of the model, and
  the interpretation of the store contract holds for every \<open>slot\<close>. Each operation holds the
  lock for its whole body, so an operation is one atomic step.
\<close>

type_synonym mem_store = "(string \<times> TestCaseRecord) list"
type_synonym hash_order = "mem_store \<Rightarrow> string \<Rightarrow> nat"

definition record_key :: "string \<Rightarrow> string \<Rightarrow> string" where
  "record_key bg i = bg @ [CHR 0x1F] @ i"

definition mem_new :: mem_store where
  "mem_new = []"

definition hm_insert :: "hash_order \<Rightarrow> string \<Rightarrow> TestCaseRecord \<Rightarrow> mem_store \<Rightarrow> mem_store" where
  "hm_insert slot k r data = take (slot data k) data @ (k, r) # drop (slot data k) data"

definition hm_modify :: "string \<Rightarrow> (TestCaseRecord \<Rightarrow> TestCaseRecord) \<Rightarrow> mem_store \<Rightarrow> mem_store" where
  "hm_modify k f data = map (\<lambda>(k', r). if k' = k then (k', f r) else (k', r)) data"

definition mem_values :: "mem_store \<Rightarrow> TestCaseRecord list" where
  "mem_values data = map snd data"

text \<open>The mutation of an existing pending entry, one conditional assignment after another.\<close>

definition mem_refresh :: "TestCaseRecord \<Rightarrow> TestCaseRecord \<Rightarrow> TestCaseRecord" where
  "mem_refresh run existing =
    (let e1 = (if tc_verify_url existing = [] \<and> tc_verify_url run \<noteq> []
               then existing\<lparr>tc_verify_url := tc_verify_url run\<rparr> else existing);
         e2 = (if tc_verifier_auth_token e1 = [] \<and> tc_verifier_auth_token run \<noteq> []
               then e1\<lparr>tc_verifier_auth_token := tc_verifier_auth_token run\<rparr> else e1);
         e3 = (if tc_triggered_at run < tc_triggered_at e2
               then e2\<lparr>tc_triggered_at := tc_triggered_at run\<rparr> else e2);
         e4 = (if tc_timeout run > tc_timeout e3
               then e3\<lparr>tc_timeout := tc_timeout run\<rparr> else e3);
         e5 = (if tc_source_inception_point e4 = []
               then e4\<lparr>tc_source_inception_point := tc_source_inception_point run\<rparr> else e4)
     in e5)"

definition mem_register :: "hash_order \<Rightarrow> TestCaseRecord \<Rightarrow> mem_store \<Rightarrow> (StoreError + unit) \<times> mem_store" where
  "mem_register slot run data =
    (let key = record_key (tc_blue_green_ref run) (tc_test_id run)
     in case map_of data key of
          Some existing \<Rightarrow>
            if is_finalized existing then (Inr (), data)
            else (Inr (), hm_modify key (mem_refresh run) data)
        | None \<Rightarrow> (Inr (), hm_insert slot key run data))"

definition mem_get :: "string \<Rightarrow> string \<Rightarrow> mem_store \<Rightarrow> (StoreError + TestCaseRecord option) \<times> mem_store" where
  "mem_get bg i data = (Inr (map_of data (record_key bg i)), data)"

definition mem_set_verdict ::
  "string \<Rightarrow> string \<Rightarrow> bool \<Rightarrow> string option \<Rightarrow> mem_store \<Rightarrow> (StoreError + unit) \<times> mem_store" where
  "mem_set_verdict bg i p msg data =
    (case map_of data (record_key bg i) of
       Some run \<Rightarrow>
         if \<not> is_pending run then (Inl (NotFound i), data)
         else (Inr (), hm_modify (record_key bg i)
                (\<lambda>r. r\<lparr>tc_verdict := Some p, tc_failure_message := msg,
                       tc_status := (if p then Passed else Failed)\<rparr>) data)
     | None \<Rightarrow> (Inl (NotFound i), data))"

definition mem_mark_timed_out :: "string \<Rightarrow> string \<Rightarrow> mem_store \<Rightarrow> (StoreError + unit) \<times> mem_store" where
  "mem_mark_timed_out bg i data =
    (case map_of data (record_key bg i) of
       Some run \<Rightarrow>
         if \<not> is_pending run then (Inl (NotFound i), data)
         else (Inr (), hm_modify (record_key bg i)
                (\<lambda>r. r\<lparr>tc_status := TimedOut, tc_verdict := None\<rparr>) data)
     | None \<Rightarrow> (Inl (NotFound i), data))"

definition mem_decrement_retries :: "string \<Rightarrow> string \<Rightarrow> mem_store \<Rightarrow> (StoreError + int option) \<times> mem_store" where
  "mem_decrement_retries bg i data =
    (case map_of data (record_key bg i) of
       Some run \<Rightarrow>
         if \<not> is_pending run then (Inr None, data)
         else if tc_retries_remaining run > 0 then
           (Inr (Some (tc_retries_remaining run - 1)),
            hm_modify (record_key bg i) (\<lambda>r. r\<lparr>tc_retries_remaining := tc_retries_remaining r - 1\<rparr>) data)
         else (Inr None, data)
     | None \<Rightarrow> (Inl (NotFound i), data))"

definition mem_list_pending :: "mem_store \<Rightarrow> (StoreError + TestCaseRecord list) \<times> mem_store" where
  "mem_list_pending data = (Inr (filter is_pending (mem_values data)), data)"

definition mem_list_blue_green_refs :: "mem_store \<Rightarrow> (StoreError + string list) \<times> mem_store" where
  "mem_list_blue_green_refs data = (Inr (remdups (map tc_blue_green_ref (mem_values data))), data)"

definition counts_for_runs :: "TestCaseRecord list \<Rightarrow> Counts" where
  "counts_for_runs runs = fold count_status runs default_counts"

definition mem_counts :: "string \<Rightarrow> mem_store \<Rightarrow> (StoreError + Counts) \<times> mem_store" where
  "mem_counts bg data =
    (Inr (counts_for_runs (filter (\<lambda>r. tc_blue_green_ref r = bg) (mem_values data))), data)"

definition mem_counts_for_mode :: "string \<Rightarrow> VerificationMode \<Rightarrow> mem_store \<Rightarrow> (StoreError + Counts) \<times> mem_store" where
  "mem_counts_for_mode bg mode data =
    (Inr (counts_for_runs
       (filter (\<lambda>r. tc_blue_green_ref r = bg \<and> tc_verification_mode r = mode) (mem_values data))), data)"

definition mem_latest_failure_message :: "string \<Rightarrow> mem_store \<Rightarrow> (StoreError + string option) \<times> mem_store" where
  "mem_latest_failure_message bg data =
    (let msgs = List.map_filter tc_failure_message (filter (\<lambda>r. tc_blue_green_ref r = bg) (mem_values data))
     in (Inr (if msgs = [] then None else Some (last msgs)), data))"

definition mem_cleanup_blue_green :: "string \<Rightarrow> mem_store \<Rightarrow> (StoreError + nat) \<times> mem_store" where
  "mem_cleanup_blue_green bg data =
    (let data' = filter (\<lambda>(k, run). tc_blue_green_ref run \<noteq> bg) data
     in (Inr (length data - length data'), data'))"

definition mem_cleanup_expired :: "int \<Rightarrow> mem_store \<Rightarrow> (StoreError + nat) \<times> mem_store" where
  "mem_cleanup_expired now data =
    (let data' = filter (\<lambda>(k, run). \<not> (is_pending run \<and> expires_at run < now)) data
     in (Inr (length data - length data'), data'))"

definition memory_ops :: "hash_order \<Rightarrow> mem_store StateStore" where
  "memory_ops slot = \<lparr>
     op_register = mem_register slot,
     op_get = mem_get,
     op_set_verdict = mem_set_verdict,
     op_mark_timed_out = mem_mark_timed_out,
     op_decrement_retries = mem_decrement_retries,
     op_list_pending = mem_list_pending,
     op_list_blue_green_refs = mem_list_blue_green_refs,
     op_counts = mem_counts,
     op_counts_for_mode = mem_counts_for_mode,
     op_latest_failure_message = mem_latest_failure_message,
     op_cleanup_blue_green = mem_cleanup_blue_green,
     op_cleanup_expired = mem_cleanup_expired\<rparr>"

section \<open>Invariant and abstraction\<close>

definition mem_invar :: "mem_store \<Rightarrow> bool" where
  "mem_invar data \<longleftrightarrow> table_ok (mem_values data) \<and>
     (\<forall>(k, r) \<in> set data. k = record_key (tc_blue_green_ref r) (tc_test_id r))"

definition mem_abs :: "mem_store \<Rightarrow> store_map" where
  "mem_abs data = table_map (mem_values data)"

lemma record_key_inj:
  assumes "valid_ref a" and "valid_ref b"
  shows "record_key a i = record_key b j \<longleftrightarrow> a = b \<and> i = j"
proof
  assume eq: "record_key a i = record_key b j"
  have "split_once (CHR 0x1F) (record_key x y) = Some (x, y)" if "valid_ref x" for x y
    using that by (simp add: record_key_def valid_ref_def split_once_append)
  from this [OF assms(1), of i] this [OF assms(2), of j] have "Some (a, i) = Some (b, j)"
    unfolding eq by (rule trans [OF sym])
  then show "a = b \<and> i = j" by simp
next
  assume "a = b \<and> i = j"
  then show "record_key a i = record_key b j" by simp
qed

lemma record_key_tc_key:
  assumes "mem_invar data" and "(k, r) \<in> set data" and "valid_ref bg"
  shows "k = record_key bg i \<longleftrightarrow> tc_key r = (bg, i)"
proof -
  have "k = record_key (tc_blue_green_ref r) (tc_test_id r)" "valid_ref (tc_blue_green_ref r)"
    using assms(1,2) by (auto simp: mem_invar_def table_ok_def mem_values_def)
  with assms(3) record_key_inj show ?thesis by (auto simp: tc_key_def)
qed

lemma map_of_mem:
  assumes "mem_invar data" and "valid_ref bg"
  shows "map_of data (record_key bg i) = mem_abs data (bg, i)"
proof -
  have "\<And>k r. (k, r) \<in> set data \<Longrightarrow> k = record_key bg i \<longleftrightarrow> tc_key r = (bg, i)"
    using record_key_tc_key [OF assms(1) _ assms(2)] by blast
  then show ?thesis
    unfolding mem_abs_def mem_values_def table_map_def
  proof (induction data)
    case Nil
    then show ?case by simp
  next
    case (Cons x data)
    obtain k r where x: "x = (k, r)" by (cases x)
    have "k = record_key bg i \<longleftrightarrow> tc_key r = (bg, i)" using Cons.prems [of k r] x by simp
    moreover have "map_of data (record_key bg i) = map_of (map (\<lambda>r. (tc_key r, r)) (map snd data)) (bg, i)"
      by (rule Cons.IH) (simp add: Cons.prems)
    ultimately show ?case by (simp add: x eq_commute [of "record_key bg i"] eq_commute [of "(bg, i)"])
  qed
qed

lemma mem_values_modify:
  assumes "mem_invar data" and "valid_ref bg"
  shows "mem_values (hm_modify (record_key bg i) f data)
       = update_where (\<lambda>r. tc_key r = (bg, i)) f (mem_values data)"
  using record_key_tc_key [OF assms(1) _ assms(2)]
  by (auto simp: mem_values_def hm_modify_def update_where_def)

lemma mem_modify_law:
  assumes inv: "mem_invar data" and bg: "valid_ref bg"
    and key: "\<And>r. tc_key (f r) = tc_key r"
  shows "mem_invar (hm_modify (record_key bg i) f data)"
    and "mem_abs (hm_modify (record_key bg i) f data)
       = (mem_abs data)((bg, i) := map_option f (mem_abs data (bg, i)))"
proof -
  have "table_ok (mem_values data)" using inv by (simp add: mem_invar_def)
  then have "table_ok (mem_values (hm_modify (record_key bg i) f data))"
    unfolding mem_values_modify [OF inv bg] by (rule table_ok_update) (rule key)
  moreover have "record_key (tc_blue_green_ref (f r)) (tc_test_id (f r))
      = record_key (tc_blue_green_ref r) (tc_test_id r)" for r
    using key [of r] by (simp add: tc_key_def)
  ultimately show "mem_invar (hm_modify (record_key bg i) f data)"
    using inv by (auto simp: mem_invar_def hm_modify_def split: if_splits)
  show "mem_abs (hm_modify (record_key bg i) f data)
       = (mem_abs data)((bg, i) := map_option f (mem_abs data (bg, i)))"
    unfolding mem_abs_def mem_values_modify [OF inv bg]
    by (rule table_map_update [where Q = "\<lambda>_. True", simplified]) (auto simp: key)
qed

lemma mem_insert_law:
  assumes inv: "mem_invar data" and bg: "valid_ref (tc_blue_green_ref run)"
    and none: "mem_abs data (tc_key run) = None"
  shows "mem_invar (hm_insert slot (record_key (tc_blue_green_ref run) (tc_test_id run)) run data)"
    and "mem_abs (hm_insert slot (record_key (tc_blue_green_ref run) (tc_test_id run)) run data)
       = (mem_abs data)(tc_key run \<mapsto> run)"
proof -
  let ?k = "record_key (tc_blue_green_ref run) (tc_test_id run)"
  let ?n = "slot data ?k"
  have vals: "mem_values (hm_insert slot ?k run data)
      = take ?n (mem_values data) @ run # drop ?n (mem_values data)"
    by (simp add: mem_values_def hm_insert_def take_map drop_map)
  have fresh: "\<forall>r \<in> set (mem_values data). tc_key r \<noteq> tc_key run"
    using none by (simp add: mem_abs_def table_map_None)
  have "table_ok (mem_values (hm_insert slot ?k run data))"
    unfolding vals using inv fresh bg by (intro table_ok_insert) (simp_all add: mem_invar_def)
  with inv show "mem_invar (hm_insert slot ?k run data)"
    by (auto simp: mem_invar_def hm_insert_def dest!: in_set_takeD in_set_dropD)
  show "mem_abs (hm_insert slot ?k run data) = (mem_abs data)(tc_key run \<mapsto> run)"
    unfolding mem_abs_def vals using fresh by (rule table_map_insert)
qed

lemma mem_filter_law:
  assumes "mem_invar data"
  shows "mem_invar (filter (\<lambda>(k, r). P r) data)"
    and "mem_values (filter (\<lambda>(k, r). P r) data) = filter P (mem_values data)"
proof -
  show vals: "mem_values (filter (\<lambda>(k, r). P r) data) = filter P (mem_values data)"
    by (simp add: mem_values_def filter_map comp_def case_prod_unfold)
  from assms show "mem_invar (filter (\<lambda>(k, r). P r) data)"
    by (auto simp: mem_invar_def vals table_ok_filter)
qed

lemma mem_refresh_merge: "mem_refresh run ex = merge_registration ex run"
  by (simp add: mem_refresh_def merge_registration_def Let_def min_def max_def)

lemma counts_for_runs_lengths: "counts_for_runs rs = counts_lengths rs"
  by (simp add: counts_for_runs_def fold_count_status default_counts_def)

lemma mem_invar_ok: "mem_invar data \<Longrightarrow> table_ok (mem_values data)"
  by (simp add: mem_invar_def)

lemma mem_set_verdict_alt: "mem_set_verdict bg i p msg data =
    (case map_of data (record_key bg i) of
       Some run \<Rightarrow> if \<not> is_pending run then (Inl (NotFound i), data)
                   else (Inr (), hm_modify (record_key bg i) (verdict_of p msg) data)
     | None \<Rightarrow> (Inl (NotFound i), data))"
  unfolding mem_set_verdict_def verdict_of_def [abs_def] ..

lemma mem_mark_timed_out_alt: "mem_mark_timed_out bg i data =
    (case map_of data (record_key bg i) of
       Some run \<Rightarrow> if \<not> is_pending run then (Inl (NotFound i), data)
                   else (Inr (), hm_modify (record_key bg i) timed_out_of data)
     | None \<Rightarrow> (Inl (NotFound i), data))"
  unfolding mem_mark_timed_out_def timed_out_of_def [abs_def] ..

section \<open>The in-memory store meets the contract\<close>

lemma mem_register_correct:
  assumes "mem_invar data" and "valid_ref (tc_blue_green_ref run)"
    and "mem_register slot run data = (res, data')"
  shows "mem_invar data' \<and> res = Inr () \<and> mem_abs data' = register_spec run (mem_abs data)"
proof -
  have key: "tc_key run = (tc_blue_green_ref run, tc_test_id run)" by (simp add: tc_key_def)
  note look = map_of_mem [OF assms(1,2), of "tc_test_id run", folded key]
  show ?thesis
  proof (cases "mem_abs data (tc_key run)")
    case None
    with assms(3) look have "data' = hm_insert slot (record_key (tc_blue_green_ref run) (tc_test_id run)) run data"
      "res = Inr ()"
      by (simp_all add: mem_register_def)
    with mem_insert_law [OF assms(1,2) None] None show ?thesis by (simp add: register_spec_def)
  next
    case (Some ex)
    with assms(3) look show ?thesis
      using mem_modify_law [OF assms(1,2), where f = "mem_refresh run" and i = "tc_test_id run"] assms(1)
      by (auto simp: mem_register_def register_spec_def mem_refresh_merge key split: if_splits)
  qed
qed

lemma mem_finalize_correct:
  assumes "mem_invar data" and "valid_ref bg" and key: "\<And>r. tc_key (f r) = tc_key r"
    and op: "(case map_of data (record_key bg i) of
       Some run \<Rightarrow> if \<not> is_pending run then (Inl (NotFound i), data)
                   else (Inr (), hm_modify (record_key bg i) f data)
     | None \<Rightarrow> (Inl (NotFound i), data)) = (res, data')"
  shows "mem_invar data' \<and> (res, mem_abs data') = finalize_spec f bg i (mem_abs data) \<and> \<not> is_fault res"
proof (cases "mem_abs data (bg, i)")
  case None
  with op assms(1) show ?thesis
    by (auto simp: map_of_mem [OF assms(1,2)] finalize_spec_def)
next
  case (Some r)
  show ?thesis
  proof (cases "is_pending r")
    case True
    with op Some have "res = Inr ()" "data' = hm_modify (record_key bg i) f data"
      by (simp_all add: map_of_mem [OF assms(1,2)])
    with True Some mem_modify_law [OF assms(1,2), of f, OF key] show ?thesis
      by (simp add: finalize_spec_def)
  next
    case False
    with op Some assms(1) show ?thesis
      by (auto simp: map_of_mem [OF assms(1,2)] finalize_spec_def)
  qed
qed

lemma mem_decrement_correct:
  assumes "mem_invar data" and "valid_ref bg" and op: "mem_decrement_retries bg i data = (res, data')"
  shows "mem_invar data' \<and> mem_abs data' = snd (decrement_spec bg i (mem_abs data)) \<and> \<not> is_fault res \<and>
    (mem_abs data (bg, i) \<noteq> None \<longrightarrow> res = Inr (fst (decrement_spec bg i (mem_abs data))))"
proof -
  let ?f = "\<lambda>r :: TestCaseRecord. r\<lparr>tc_retries_remaining := tc_retries_remaining r - 1\<rparr>"
  have key: "\<And>r. tc_key (?f r) = tc_key r" by (simp add: tc_key_def)
  show ?thesis
    using op assms(1) mem_modify_law [OF assms(1,2), of ?f i, OF key]
    by (auto simp: mem_decrement_retries_def map_of_mem [OF assms(1,2)] decrement_spec_def
        split: option.splits if_splits)
qed

lemma mem_latest_failure_correct:
  assumes "mem_invar data" and op: "mem_latest_failure_message bg data = (res, data')"
  shows "mem_abs data' = mem_abs data \<and> (\<exists>msg. res = Inr msg \<and>
    (case msg of None \<Rightarrow> \<forall>r \<in> records_of (mem_abs data) bg. tc_failure_message r = None
     | Some m \<Rightarrow> \<exists>r \<in> records_of (mem_abs data) bg. tc_failure_message r = Some m))"
proof -
  let ?rs = "filter (\<lambda>r. tc_blue_green_ref r = bg) (mem_values data)"
  let ?ms = "List.map_filter tc_failure_message ?rs"
  have recs: "records_of (mem_abs data) bg = set ?rs"
    unfolding mem_abs_def by (rule records_of_table) (rule mem_invar_ok [OF assms(1)])
  have ms: "set ?ms = {m. \<exists>r \<in> set ?rs. tc_failure_message r = Some m}"
    by (force simp: List.map_filter_def)
  show ?thesis
  proof (cases "?ms = []")
    case True
    then have "set ?ms = {}" by simp
    with ms have "tc_failure_message r \<noteq> Some m" if "r \<in> set ?rs" for r m
      using that by (metis (mono_tags, lifting) empty_iff mem_Collect_eq)
    then have "\<forall>r \<in> set ?rs. tc_failure_message r = None" by (meson not_Some_eq)
    with op True show ?thesis unfolding recs by (auto simp: mem_latest_failure_message_def)
  next
    case False
    then have "last ?ms \<in> set ?ms" by simp
    with ms have "\<exists>r \<in> set ?rs. tc_failure_message r = Some (last ?ms)" by blast
    with op False show ?thesis unfolding recs by (auto simp: mem_latest_failure_message_def Let_def)
  qed
qed

lemma mem_cleanup_correct:
  assumes "mem_invar data" and op: "mem_cleanup_blue_green bg data = (res, data')"
  shows "mem_invar data' \<and> res = Inr (card (records_of (mem_abs data) bg)) \<and>
    mem_abs data' = drop_ref bg (mem_abs data)"
proof -
  let ?keep = "filter (\<lambda>(k, run). tc_blue_green_ref run \<noteq> bg) data"
  note fl = mem_filter_law [OF assms(1), of "\<lambda>run. tc_blue_green_ref run \<noteq> bg"]
  have "length (filter (\<lambda>r. tc_blue_green_ref r = bg) (mem_values data)) + length ?keep = length data"
    using sum_length_filter_compl [of "\<lambda>r. tc_blue_green_ref r = bg" "mem_values data"] fl(2)
    by (metis length_map mem_values_def)
  then have "length data - length ?keep = card (records_of (mem_abs data) bg)"
    unfolding mem_abs_def by (simp add: card_records_table mem_invar_ok [OF assms(1)])
  with op fl show ?thesis
    by (auto simp: mem_cleanup_blue_green_def Let_def mem_abs_def drop_ref_table mem_invar_ok [OF assms(1)])
qed

interpretation mem: state_store "memory_ops slot" mem_abs mem_invar "\<lambda>_. True"
proof (unfold_locales, goal_cases)
  case (1 s) then show ?case by (simp add: mem_abs_def finite_dom_table_map)
next
  case (2 s k r)
  then have "r \<in> set (mem_values s)" "tc_key r = k"
    by (simp_all add: mem_abs_def table_map_Some mem_invar_ok)
  with 2(1) show ?case by (auto simp: mem_invar_def table_ok_def tc_key_def)
next
  case (3 s run res s') then show ?case
    using mem_register_correct [of s run slot res s'] by (auto simp: memory_ops_def)
next
  case (4 s bg i res s') then show ?case
    by (auto simp: memory_ops_def mem_get_def map_of_mem)
next
  case (5 s bg i p msg res s') then show ?case
    using mem_finalize_correct [of s bg "verdict_of p msg" i res s']
    by (simp add: memory_ops_def mem_set_verdict_alt)
next
  case (6 s bg i res s') then show ?case
    using mem_finalize_correct [of s bg timed_out_of i res s']
    by (simp add: memory_ops_def mem_mark_timed_out_alt)
next
  case (7 s bg i res s') then show ?case
    using mem_decrement_correct [of s bg i res s'] by (simp add: memory_ops_def)
next
  case (8 s res s') then show ?case
    by (auto simp: memory_ops_def mem_list_pending_def mem_abs_def ran_table_map mem_invar_ok)
next
  case (9 s res s') then show ?case
    by (auto simp: memory_ops_def mem_list_blue_green_refs_def mem_abs_def fst_dom_table mem_invar_ok)
next
  case (10 s bg res s') then show ?case
    by (auto simp: memory_ops_def mem_counts_def mem_abs_def counts_for_runs_lengths
        counts_table_all mem_invar_ok)
next
  case (11 s bg mode res s') then show ?case
    by (auto simp: memory_ops_def mem_counts_for_mode_def mem_abs_def counts_for_runs_lengths
        counts_table mem_invar_ok)
next
  case (12 s bg res s') then show ?case
    using mem_latest_failure_correct [of s bg res s']
    by (auto simp: memory_ops_def mem_latest_failure_message_def Let_def)
next
  case (13 s bg res s') then show ?case
    using mem_cleanup_correct [of s bg res s'] by (auto simp: memory_ops_def)
next
  case (14 s now res s')
  then show ?case
    using mem_filter_law [of s "\<lambda>run. \<not> (is_pending run \<and> expires_at run < now)"]
    by (auto simp: memory_ops_def mem_cleanup_expired_def Let_def mem_abs_def table_map_filter
        mem_invar_ok split: option.splits)
qed

end
