(* ===== verification/PostgresStore.thy ===== *)
theory PostgresStore
  imports StoreTable
begin

text \<open>
  The Postgres backend (\<open>src/operator/src/state_store/postgres.rs\<close>). A table is the list of its rows;
  each SQL statement of the source is the row-wise operation it denotes. The database connection is
  not part of the repository: whether a query fails is read from the \<open>pg_faults\<close> field, one flag per
  query, and a failed query is \<open>StoreError::Postgres\<close> and leaves the rows alone.
\<close>

record pg_row =
  row_test_id :: string
  row_blue_green_ref :: string
  row_triggered_at :: int
  row_trigger_inception_point :: string
  row_timeout_seconds :: int
  row_status :: string
  row_verdict :: "bool option"
  row_verification_mode :: string
  row_verify_url :: string
  row_verifier_auth_token :: string
  row_retries_remaining :: int
  row_failure_message :: "string option"
  row_expires_at :: int

record pg_db =
  pg_rows :: "pg_row list"
  pg_faults :: "bool list"

definition micros_per_second :: int where
  "micros_per_second = 1000000"

definition num_seconds :: "int \<Rightarrow> int" where
  "num_seconds d = (if 0 \<le> d then d div micros_per_second else - ((- d) div micros_per_second))"

definition status_str :: "TestStatus \<Rightarrow> string" where
  "status_str s = (case s of Triggered \<Rightarrow> ''Triggered'' | Observing \<Rightarrow> ''Observing'' | Passed \<Rightarrow> ''Passed''
     | Failed \<Rightarrow> ''Failed'' | TimedOut \<Rightarrow> ''TimedOut'')"

definition parse_status :: "string \<Rightarrow> TestStatus" where
  "parse_status s = (if s = ''Triggered'' then Triggered
     else if s = ''Observing'' then Observing
     else if s = ''Passed'' then Passed
     else if s = ''Failed'' then Failed
     else if s = ''TimedOut'' then TimedOut
     else Triggered)"

definition mode_str :: "VerificationMode \<Rightarrow> string" where
  "mode_str m = (case m of Data \<Rightarrow> ''Data'' | Custom \<Rightarrow> ''Custom'')"

definition parse_mode :: "string \<Rightarrow> VerificationMode" where
  "parse_mode s = (if s = ''Custom'' then Custom else Data)"

definition row_to_test :: "pg_row \<Rightarrow> TestCaseRecord" where
  "row_to_test row = \<lparr>
     tc_test_id = row_test_id row,
     tc_blue_green_ref = row_blue_green_ref row,
     tc_triggered_at = row_triggered_at row,
     tc_source_inception_point = row_trigger_inception_point row,
     tc_timeout = row_timeout_seconds row * micros_per_second,
     tc_status = parse_status (row_status row),
     tc_verdict = row_verdict row,
     tc_verification_mode = parse_mode (row_verification_mode row),
     tc_verify_url = row_verify_url row,
     tc_verifier_auth_token = row_verifier_auth_token row,
     tc_retries_remaining = row_retries_remaining row,
     tc_failure_message = row_failure_message row\<rparr>"

definition sql_pending :: "pg_row \<Rightarrow> bool" where
  "sql_pending row = (row_status row \<in> {''Triggered'', ''Observing''})"

definition sql_at :: "string \<Rightarrow> string \<Rightarrow> pg_row \<Rightarrow> bool" where
  "sql_at bg i row = (row_blue_green_ref row = bg \<and> row_test_id row = i)"

definition sql_update :: "(pg_row \<Rightarrow> bool) \<Rightarrow> (pg_row \<Rightarrow> pg_row) \<Rightarrow> pg_row list \<Rightarrow> pg_row list" where
  "sql_update P f rows = map (\<lambda>row. if P row then f row else row) rows"

text \<open>One round trip to the database: either it fails, or \<open>body\<close> computes the result and the new rows.\<close>

definition pg_query :: "(pg_row list \<Rightarrow> (StoreError + 'a) \<times> pg_row list) \<Rightarrow> pg_db \<Rightarrow> (StoreError + 'a) \<times> pg_db" where
  "pg_query body db = (case pg_faults db of
     True # fs \<Rightarrow> (Inl (Postgres ''query failed''), db\<lparr>pg_faults := fs\<rparr>)
   | _ \<Rightarrow> (let (res, rows) = body (pg_rows db)
           in (res, db\<lparr>pg_rows := rows, pg_faults := tl (pg_faults db)\<rparr>)))"

definition register_row :: "TestCaseRecord \<Rightarrow> pg_row" where
  "register_row run = \<lparr>
     row_test_id = tc_test_id run,
     row_blue_green_ref = tc_blue_green_ref run,
     row_triggered_at = tc_triggered_at run,
     row_trigger_inception_point = tc_source_inception_point run,
     row_timeout_seconds = as_i32 (num_seconds (tc_timeout run)),
     row_status = status_str (tc_status run),
     row_verdict = tc_verdict run,
     row_verification_mode = mode_str (tc_verification_mode run),
     row_verify_url = tc_verify_url run,
     row_verifier_auth_token = tc_verifier_auth_token run,
     row_retries_remaining = tc_retries_remaining run,
     row_failure_message = tc_failure_message run,
     row_expires_at = expires_at run\<rparr>"

text \<open>The \<open>DO UPDATE SET\<close> clause of the upsert.\<close>

definition upsert_row :: "pg_row \<Rightarrow> pg_row \<Rightarrow> pg_row" where
  "upsert_row new old = old\<lparr>
     row_triggered_at := min (row_triggered_at old) (row_triggered_at new),
     row_timeout_seconds := max (row_timeout_seconds old) (row_timeout_seconds new),
     row_trigger_inception_point :=
       (if row_trigger_inception_point old = [] then row_trigger_inception_point new
        else row_trigger_inception_point old),
     row_verify_url := (if row_verify_url old = [] then row_verify_url new else row_verify_url old),
     row_verifier_auth_token :=
       (if row_verifier_auth_token old = [] then row_verifier_auth_token new else row_verifier_auth_token old),
     row_expires_at := max (row_expires_at old) (row_expires_at new)\<rparr>"

definition pg_register :: "TestCaseRecord \<Rightarrow> pg_db \<Rightarrow> (StoreError + unit) \<times> pg_db" where
  "pg_register run = pg_query (\<lambda>rows.
     let new = register_row run; conflict = sql_at (tc_blue_green_ref run) (tc_test_id run)
     in (Inr (),
         if list_ex conflict rows
         then sql_update (\<lambda>row. conflict row \<and> sql_pending row) (upsert_row new) rows
         else rows @ [new]))"

definition pg_get :: "string \<Rightarrow> string \<Rightarrow> pg_db \<Rightarrow> (StoreError + TestCaseRecord option) \<times> pg_db" where
  "pg_get bg i = pg_query (\<lambda>rows. (Inr (map_option row_to_test (List.find (sql_at bg i) rows)), rows))"

definition pg_set_verdict ::
  "string \<Rightarrow> string \<Rightarrow> bool \<Rightarrow> string option \<Rightarrow> pg_db \<Rightarrow> (StoreError + unit) \<times> pg_db" where
  "pg_set_verdict bg i p msg = pg_query (\<lambda>rows.
     let sel = (\<lambda>row. sql_at bg i row \<and> sql_pending row);
         rows' = sql_update sel (\<lambda>row. row\<lparr>row_status := (if p then ''Passed'' else ''Failed''),
                   row_verdict := Some p, row_failure_message := msg\<rparr>) rows
     in (if length (filter sel rows) = 0 then (Inl (NotFound i), rows') else (Inr (), rows')))"

definition pg_mark_timed_out :: "string \<Rightarrow> string \<Rightarrow> pg_db \<Rightarrow> (StoreError + unit) \<times> pg_db" where
  "pg_mark_timed_out bg i = pg_query (\<lambda>rows.
     let sel = (\<lambda>row. sql_at bg i row \<and> sql_pending row);
         rows' = sql_update sel (\<lambda>row. row\<lparr>row_status := ''TimedOut'', row_verdict := None\<rparr>) rows
     in (if length (filter sel rows) = 0 then (Inl (NotFound i), rows') else (Inr (), rows')))"

definition pg_decrement_retries :: "string \<Rightarrow> string \<Rightarrow> pg_db \<Rightarrow> (StoreError + int option) \<times> pg_db" where
  "pg_decrement_retries bg i = pg_query (\<lambda>rows.
     let sel = (\<lambda>row. sql_at bg i row \<and> sql_pending row \<and> row_retries_remaining row > 0);
         dec = (\<lambda>row. row\<lparr>row_retries_remaining := row_retries_remaining row - 1\<rparr>)
     in (Inr (map_option (\<lambda>row. row_retries_remaining (dec row)) (List.find sel rows)),
         sql_update sel dec rows))"

definition pg_list_pending :: "pg_db \<Rightarrow> (StoreError + TestCaseRecord list) \<times> pg_db" where
  "pg_list_pending = pg_query (\<lambda>rows. (Inr (map row_to_test (filter sql_pending rows)), rows))"

definition pg_list_blue_green_refs :: "pg_db \<Rightarrow> (StoreError + string list) \<times> pg_db" where
  "pg_list_blue_green_refs = pg_query (\<lambda>rows. (Inr (remdups (map row_blue_green_ref rows)), rows))"

definition counts_query :: "(pg_row \<Rightarrow> bool) \<Rightarrow> pg_db \<Rightarrow> (StoreError + Counts) \<times> pg_db" where
  "counts_query predicate = pg_query (\<lambda>rows.
     let sel = filter predicate rows
     in (Inr \<lparr>counts_passed = int (length (filter (\<lambda>r. row_status r = ''Passed'') sel)),
              counts_failed = int (length (filter (\<lambda>r. row_status r = ''Failed'') sel)),
              counts_timed_out = int (length (filter (\<lambda>r. row_status r = ''TimedOut'') sel)),
              counts_pending = int (length (filter sql_pending sel))\<rparr>, rows))"

definition pg_counts :: "string \<Rightarrow> pg_db \<Rightarrow> (StoreError + Counts) \<times> pg_db" where
  "pg_counts bg = counts_query (\<lambda>row. row_blue_green_ref row = bg)"

definition pg_counts_for_mode :: "string \<Rightarrow> VerificationMode \<Rightarrow> pg_db \<Rightarrow> (StoreError + Counts) \<times> pg_db" where
  "pg_counts_for_mode bg mode =
     counts_query (\<lambda>row. row_blue_green_ref row = bg \<and> row_verification_mode row = mode_str mode)"

definition pg_latest_failure_message :: "string \<Rightarrow> pg_db \<Rightarrow> (StoreError + string option) \<times> pg_db" where
  "pg_latest_failure_message bg = pg_query (\<lambda>rows.
     let sel = filter (\<lambda>row. row_blue_green_ref row = bg \<and> row_failure_message row \<noteq> None) rows
     in (Inr (case sort_key (\<lambda>row. - row_triggered_at row) sel of
                [] \<Rightarrow> None | row # _ \<Rightarrow> row_failure_message row), rows))"

definition pg_cleanup_blue_green :: "string \<Rightarrow> pg_db \<Rightarrow> (StoreError + nat) \<times> pg_db" where
  "pg_cleanup_blue_green bg = pg_query (\<lambda>rows.
     (Inr (length (filter (\<lambda>row. row_blue_green_ref row = bg) rows)),
      filter (\<lambda>row. row_blue_green_ref row \<noteq> bg) rows))"

definition pg_cleanup_expired :: "int \<Rightarrow> pg_db \<Rightarrow> (StoreError + nat) \<times> pg_db" where
  "pg_cleanup_expired now = pg_query (\<lambda>rows.
     let del = (\<lambda>row. row_expires_at row < now \<and> sql_pending row)
     in (Inr (length (filter del rows)), filter (\<lambda>row. \<not> del row) rows))"

definition postgres_ops :: "pg_db StateStore" where
  "postgres_ops = \<lparr>
     op_register = pg_register,
     op_get = pg_get,
     op_set_verdict = pg_set_verdict,
     op_mark_timed_out = pg_mark_timed_out,
     op_decrement_retries = pg_decrement_retries,
     op_list_pending = pg_list_pending,
     op_list_blue_green_refs = pg_list_blue_green_refs,
     op_counts = pg_counts,
     op_counts_for_mode = pg_counts_for_mode,
     op_latest_failure_message = pg_latest_failure_message,
     op_cleanup_blue_green = pg_cleanup_blue_green,
     op_cleanup_expired = pg_cleanup_expired\<rparr>"

section \<open>Invariant and abstraction\<close>

definition row_ok :: "pg_row \<Rightarrow> bool" where
  "row_ok row \<longleftrightarrow> row_status row \<in> status_str ` UNIV \<and> row_verification_mode row \<in> mode_str ` UNIV \<and>
     row_triggered_at row + row_timeout_seconds row * micros_per_second \<le> row_expires_at row"

definition pg_tests :: "pg_row list \<Rightarrow> TestCaseRecord list" where
  "pg_tests rows = map row_to_test rows"

definition rows_invar :: "pg_row list \<Rightarrow> bool" where
  "rows_invar rows \<longleftrightarrow> table_ok (pg_tests rows) \<and> (\<forall>row \<in> set rows. row_ok row)"

definition pg_invar :: "pg_db \<Rightarrow> bool" where
  "pg_invar db = rows_invar (pg_rows db)"

definition pg_abs :: "pg_db \<Rightarrow> store_map" where
  "pg_abs db = table_map (pg_tests (pg_rows db))"

text \<open>The column \<open>timeout_seconds\<close> is a 32-bit integer: a record survives the round trip when its timeout
  is a whole number of seconds that fits.\<close>

definition pg_storable :: "TestCaseRecord \<Rightarrow> bool" where
  "pg_storable run \<longleftrightarrow> micros_per_second dvd tc_timeout run \<and>
     i32_range (tc_timeout run div micros_per_second)"

lemma parse_status_str [simp]: "parse_status (status_str s) = s"
  by (cases s) (simp_all add: parse_status_def status_str_def)

lemma parse_mode_str [simp]: "parse_mode (mode_str m) = m"
  by (cases m) (simp_all add: parse_mode_def mode_str_def)

lemma row_ok_status: "row_ok row \<Longrightarrow> \<exists>s. row_status row = status_str s"
  by (auto simp: row_ok_def)

lemma sql_pending_iff:
  assumes "row_ok row"
  shows "sql_pending row \<longleftrightarrow> is_pending (row_to_test row)"
proof -
  obtain s where "row_status row = status_str s" using row_ok_status [OF assms] ..
  then show ?thesis
    by (cases s) (simp_all add: sql_pending_def is_pending_def row_to_test_def parse_status_def status_str_def)
qed

lemma status_str_iff: "row_ok row \<Longrightarrow> row_status row = status_str s \<longleftrightarrow> tc_status (row_to_test row) = s"
  by (drule row_ok_status) (auto simp: row_to_test_def, metis parse_status_str)

lemma mode_str_iff:
  "row_ok row \<Longrightarrow> row_verification_mode row = mode_str m \<longleftrightarrow> tc_verification_mode (row_to_test row) = m"
  by (auto simp: row_ok_def row_to_test_def) (metis parse_mode_str)

lemma sql_at_iff: "sql_at bg i row \<longleftrightarrow> tc_key (row_to_test row) = (bg, i)"
  by (simp add: sql_at_def tc_key_def row_to_test_def)

lemma row_ref [simp]: "tc_blue_green_ref (row_to_test row) = row_blue_green_ref row"
  by (simp add: row_to_test_def)

lemma pg_tests_filter:
  assumes "\<forall>row \<in> set rows. P row \<longleftrightarrow> Q (row_to_test row)"
  shows "pg_tests (filter P rows) = filter Q (pg_tests rows)"
  using assms by (induction rows) (auto simp: pg_tests_def)

lemma pg_tests_update:
  assumes "\<forall>row \<in> set rows. P row \<longleftrightarrow> Q (row_to_test row)"
    and "\<forall>row \<in> set rows. P row \<longrightarrow> row_to_test (f row) = g (row_to_test row)"
  shows "pg_tests (sql_update P f rows) = update_where Q g (pg_tests rows)"
  using assms by (induction rows) (auto simp: pg_tests_def sql_update_def update_where_def)

lemma timeout_roundtrip:
  assumes "pg_storable run"
  shows "as_i32 (num_seconds (tc_timeout run)) * micros_per_second = tc_timeout run"
proof -
  obtain q where q: "tc_timeout run = micros_per_second * q"
    using assms by (auto simp: pg_storable_def)
  have pos: "micros_per_second \<noteq> 0" by (simp add: micros_per_second_def)
  have "num_seconds (tc_timeout run) = q"
    unfolding num_seconds_def q using pos by (simp flip: mult_minus_right)
  moreover have "as_i32 q = q"
    using assms pos by (intro as_i32_id) (simp add: pg_storable_def q)
  ultimately show ?thesis by (simp add: q)
qed

lemma row_to_test_register:
  assumes "pg_storable run"
  shows "row_to_test (register_row run) = run" and "row_ok (register_row run)"
proof -
  show "row_to_test (register_row run) = run"
    by (simp add: row_to_test_def register_row_def timeout_roundtrip [OF assms])
  show "row_ok (register_row run)"
    by (simp add: row_ok_def register_row_def timeout_roundtrip [OF assms] expires_at_def)
qed

lemma row_to_test_upsert:
  assumes "row_to_test new = run"
  shows "row_to_test (upsert_row new old) = merge_registration (row_to_test old) run"
proof -
  have "0 < micros_per_second" by (simp add: micros_per_second_def)
  then have "max a b * micros_per_second = max (a * micros_per_second) (b * micros_per_second)" for a b
    by (simp add: max_def mult_le_cancel_right)
  then show ?thesis
    unfolding assms [symmetric]
    by (simp add: row_to_test_def upsert_row_def merge_registration_def)
qed

lemma row_ok_upsert:
  assumes "row_ok new" and "row_ok old"
  shows "row_ok (upsert_row new old)"
proof -
  have "0 < micros_per_second" by (simp add: micros_per_second_def)
  then have "row_triggered_at (upsert_row new old) + row_timeout_seconds (upsert_row new old) * micros_per_second
      \<le> row_expires_at (upsert_row new old)"
    using assms by (auto simp: row_ok_def upsert_row_def min_def max_def)
  with assms show ?thesis by (simp add: row_ok_def upsert_row_def)
qed

section \<open>The Postgres store meets the contract\<close>

lemma pg_query_law:
  assumes q: "pg_query body db = (res, db')" and inv: "pg_invar db"
    and body: "\<And>r rows'. body (pg_rows db) = (r, rows') \<Longrightarrow>
      \<not> is_fault r \<and> rows_invar rows' \<and> Q r (table_map (pg_tests rows'))"
  shows "pg_invar db' \<and> (if is_fault res then pg_abs db' = pg_abs db else Q res (pg_abs db'))"
proof (cases "\<exists>fs. pg_faults db = True # fs")
  case True
  with q inv show ?thesis by (auto simp: pg_query_def pg_invar_def pg_abs_def)
next
  case False
  obtain r rows' where b: "body (pg_rows db) = (r, rows')" by fastforce
  have "pg_query body db = (r, db\<lparr>pg_rows := rows', pg_faults := tl (pg_faults db)\<rparr>)"
    using False b by (auto simp: pg_query_def split: list.splits bool.splits)
  with q body [OF b] show ?thesis by (auto simp: pg_invar_def pg_abs_def)
qed

text \<open>Queries that only read.\<close>

lemma pg_read_law:
  assumes "pg_query (\<lambda>rows. (Inr (f rows), rows)) db = (res, db')" and "pg_invar db" and "P (f (pg_rows db))"
  shows "pg_invar db' \<and> pg_abs db' = pg_abs db \<and> (is_fault res \<or> (\<exists>v. res = Inr v \<and> P v))"
proof -
  have "pg_invar db' \<and> (if is_fault res then pg_abs db' = pg_abs db
      else (\<lambda>r m. m = pg_abs db \<and> (\<exists>v. r = Inr v \<and> P v)) res (pg_abs db'))"
    by (rule pg_query_law [OF assms(1,2)]) (use assms in \<open>auto simp: pg_invar_def pg_abs_def\<close>)
  then show ?thesis by (auto split: if_splits)
qed

lemma rows_invar_update:
  assumes "rows_invar rows"
    and "\<And>row. tc_key (row_to_test (f row)) = tc_key (row_to_test row)"
    and "\<And>row. row \<in> set rows \<Longrightarrow> row_ok (f row)"
  shows "rows_invar (sql_update P f rows)"
proof -
  have keys: "map tc_key (pg_tests (sql_update P f rows)) = map tc_key (pg_tests rows)"
    using assms(2) by (simp add: pg_tests_def sql_update_def)
  have "row_blue_green_ref (f row) = row_blue_green_ref row" for row
    using assms(2) [of row] by (simp add: tc_key_def)
  then have "\<forall>r \<in> set (pg_tests (sql_update P f rows)). valid_ref (tc_blue_green_ref r)"
    using assms(1) by (auto simp: rows_invar_def table_ok_def pg_tests_def sql_update_def)
  moreover have "\<forall>row \<in> set (sql_update P f rows). row_ok row"
    using assms(1,3) by (auto simp: rows_invar_def sql_update_def)
  ultimately show ?thesis
    using assms(1) keys by (simp add: rows_invar_def table_ok_def)
qed

lemma rows_invar_filter: "rows_invar rows \<Longrightarrow> rows_invar (filter P rows)"
  by (auto simp: rows_invar_def table_ok_def pg_tests_def distinct_map_filter comp_def
      simp flip: map_map)
    (simp add: distinct_map_filter)

text \<open>\<open>UPDATE ... WHERE blue_green_ref = $1 AND test_id = $2 AND C\<close>: the row at the key changes
  when \<open>C\<close> holds of it, no other row does.\<close>

lemma sql_update_at:
  assumes inv: "rows_invar rows"
    and C: "\<And>row. row_ok row \<Longrightarrow> C row \<longleftrightarrow> D (row_to_test row)"
    and f: "\<And>row. row_ok row \<Longrightarrow> row_to_test (f row) = g (row_to_test row)"
    and key: "\<And>row. tc_key (row_to_test (f row)) = tc_key (row_to_test row)" "\<And>r. tc_key (g r) = tc_key r"
    and ok: "\<And>row. row_ok row \<Longrightarrow> row_ok (f row)"
  shows "rows_invar (sql_update (\<lambda>row. sql_at bg i row \<and> C row) f rows)"
    and "table_map (pg_tests (sql_update (\<lambda>row. sql_at bg i row \<and> C row) f rows))
       = (table_map (pg_tests rows))((bg, i) :=
           map_option (\<lambda>r. if D r then g r else r) (table_map (pg_tests rows) (bg, i)))"
    and "filter (\<lambda>row. sql_at bg i row \<and> C row) rows = [] \<longleftrightarrow>
         (case table_map (pg_tests rows) (bg, i) of None \<Rightarrow> True | Some r \<Rightarrow> \<not> D r)"
    and "map_option row_to_test (List.find (\<lambda>row. sql_at bg i row \<and> C row) rows)
       = (case table_map (pg_tests rows) (bg, i) of None \<Rightarrow> None | Some r \<Rightarrow> if D r then Some r else None)"
proof -
  have rok: "row_ok row" if "row \<in> set rows" for row
    using inv that by (simp add: rows_invar_def)
  have tok: "table_ok (pg_tests rows)" using inv by (simp add: rows_invar_def)
  show "rows_invar (sql_update (\<lambda>row. sql_at bg i row \<and> C row) f rows)"
    by (rule rows_invar_update [OF inv key(1)]) (simp add: ok rok)
  have upd: "pg_tests (sql_update (\<lambda>row. sql_at bg i row \<and> C row) f rows)
      = update_where (\<lambda>r. tc_key r = (bg, i) \<and> D r) g (pg_tests rows)"
    by (rule pg_tests_update) (simp_all add: sql_at_iff C f rok)
  show "table_map (pg_tests (sql_update (\<lambda>row. sql_at bg i row \<and> C row) f rows))
       = (table_map (pg_tests rows))((bg, i) :=
           map_option (\<lambda>r. if D r then g r else r) (table_map (pg_tests rows) (bg, i)))"
    unfolding upd by (rule table_map_update) (simp_all add: key)
  have mem: "row \<in> set rows \<Longrightarrow> tc_key (row_to_test row) = (bg, i) \<Longrightarrow>
      table_map (pg_tests rows) (bg, i) = Some (row_to_test row)" for row
    using tok by (simp add: table_map_Some pg_tests_def)
  show found: "map_option row_to_test (List.find (\<lambda>row. sql_at bg i row \<and> C row) rows)
       = (case table_map (pg_tests rows) (bg, i) of None \<Rightarrow> None | Some r \<Rightarrow> if D r then Some r else None)"
  proof (cases "List.find (\<lambda>row. sql_at bg i row \<and> C row) rows")
    case fnd: None
    then have none: "\<not> (sql_at bg i row \<and> C row)" if "row \<in> set rows" for row
      using that by (simp add: find_None_iff)
    show ?thesis
    proof (cases "table_map (pg_tests rows) (bg, i)")
      case None
      then show ?thesis by (simp add: fnd)
    next
      case (Some r)
      with tok obtain row where "row \<in> set rows" "r = row_to_test row" "tc_key r = (bg, i)"
        by (auto simp: table_map_Some pg_tests_def)
      with none [of row] have "\<not> D r" by (simp add: sql_at_iff C rok)
      with Some show ?thesis unfolding fnd by simp
    qed
  next
    case (Some row)
    then have row: "row \<in> set rows" "sql_at bg i row" "C row"
      by (auto simp: find_Some_iff)
    then have "table_map (pg_tests rows) (bg, i) = Some (row_to_test row)"
      using mem [of row] by (simp add: sql_at_iff)
    moreover have "D (row_to_test row)" using row C rok by blast
    ultimately show ?thesis by (simp add: Some)
  qed
  have "filter (\<lambda>row. sql_at bg i row \<and> C row) rows = [] \<longleftrightarrow>
      map_option row_to_test (List.find (\<lambda>row. sql_at bg i row \<and> C row) rows) = None"
    by (auto simp: filter_empty_conv find_None_iff)
  then show "filter (\<lambda>row. sql_at bg i row \<and> C row) rows = [] \<longleftrightarrow>
         (case table_map (pg_tests rows) (bg, i) of None \<Rightarrow> True | Some r \<Rightarrow> \<not> D r)"
    unfolding found by (simp split: option.splits)
qed

lemma pg_finalize_law:
  fixes f :: "pg_row \<Rightarrow> pg_row"
  assumes q: "pg_query (\<lambda>rows. let sel = (\<lambda>row. sql_at bg i row \<and> sql_pending row);
      rows' = sql_update sel f rows
      in (if length (filter sel rows) = 0 then (Inl (NotFound i), rows') else (Inr (), rows'))) db = (res, db')"
    and inv: "pg_invar db"
    and f: "\<And>row. row_ok row \<Longrightarrow> row_to_test (f row) = g (row_to_test row)"
    and key: "\<And>row. tc_key (row_to_test (f row)) = tc_key (row_to_test row)" "\<And>r. tc_key (g r) = tc_key r"
    and ok: "\<And>row. row_ok row \<Longrightarrow> row_ok (f row)"
  shows "pg_invar db' \<and> (if is_fault res then pg_abs db' = pg_abs db
      else (res, pg_abs db') = finalize_spec g bg i (pg_abs db))"
proof (rule pg_query_law [OF q inv])
  fix r rows'
  assume b: "(let sel = (\<lambda>row. sql_at bg i row \<and> sql_pending row); rows' = sql_update sel f (pg_rows db)
      in (if length (filter sel (pg_rows db)) = 0 then (Inl (NotFound i), rows') else (Inr (), rows'))) = (r, rows')"
  note at = sql_update_at [where C = sql_pending and D = is_pending and f = f and g = g and bg = bg and i = i,
      OF inv [unfolded pg_invar_def] sql_pending_iff f key ok]
  have rows': "rows' = sql_update (\<lambda>row. sql_at bg i row \<and> sql_pending row) f (pg_rows db)"
    and r: "r = (if length (filter (\<lambda>row. sql_at bg i row \<and> sql_pending row) (pg_rows db)) = 0
                 then Inl (NotFound i) else Inr ())"
    using b by (auto simp: Let_def split: if_splits)
  show "\<not> is_fault r \<and> rows_invar rows' \<and>
      (\<lambda>r m. (r, m) = finalize_spec g bg i (pg_abs db)) r (table_map (pg_tests rows'))"
    using at(1-3) r rows'
    by (cases "table_map (pg_tests (pg_rows db)) (bg, i)") (auto simp: pg_abs_def finalize_spec_def fun_upd_idem)
qed

lemma pg_register_law:
  assumes "pg_invar db" and bg: "valid_ref (tc_blue_green_ref run)" and st: "pg_storable run"
    and "pg_register run db = (res, db')"
  shows "pg_invar db' \<and> (if is_fault res then pg_abs db' = pg_abs db
      else res = Inr () \<and> pg_abs db' = register_spec run (pg_abs db))"
proof (rule pg_query_law [OF assms(4) [unfolded pg_register_def] assms(1)])
  fix r :: "StoreError + unit" and rows'
  let ?rows = "pg_rows db" and ?new = "register_row run"
  let ?at = "sql_at (tc_blue_green_ref run) (tc_test_id run)"
  assume b: "(let new = ?new; conflict = ?at in (Inr (),
      if list_ex conflict ?rows then sql_update (\<lambda>row. conflict row \<and> sql_pending row) (upsert_row new) ?rows
      else ?rows @ [new])) = (r, rows')"
  note new = row_to_test_register [OF st]
  have inv: "rows_invar ?rows" using assms(1) by (simp add: pg_invar_def)
  have key: "tc_key run = (tc_blue_green_ref run, tc_test_id run)" by (simp add: tc_key_def)
  have ex: "list_ex ?at ?rows \<longleftrightarrow> table_map (pg_tests ?rows) (tc_key run) \<noteq> None"
    by (auto simp: list_ex_iff table_map_None pg_tests_def sql_at_iff key)
  show "\<not> is_fault r \<and> rows_invar rows' \<and>
      (\<lambda>r m. r = Inr () \<and> m = register_spec run (pg_abs db)) r (table_map (pg_tests rows'))"
  proof (cases "table_map (pg_tests ?rows) (tc_key run)")
    case None
    with b ex have r: "r = Inr ()" "rows' = ?rows @ [?new]" by (auto simp: Let_def)
    have fresh: "\<forall>t \<in> set (pg_tests ?rows). tc_key t \<noteq> tc_key run" using None by (simp add: table_map_None)
    have tests: "pg_tests rows' = take (length ?rows) (pg_tests ?rows) @ run # drop (length ?rows) (pg_tests ?rows)"
      by (simp add: r pg_tests_def new)
    have "rows_invar rows'"
      unfolding rows_invar_def tests using inv fresh bg new
      by (auto simp: r rows_invar_def intro!: table_ok_insert)
    moreover have "table_map (pg_tests rows') = (pg_abs db)(tc_key run \<mapsto> run)"
      unfolding tests pg_abs_def using fresh by (rule table_map_insert)
    ultimately show ?thesis using None r by (simp add: register_spec_def pg_abs_def)
  next
    case (Some t)
    let ?rows' = "sql_update (\<lambda>row. ?at row \<and> sql_pending row) (upsert_row ?new) ?rows"
    have r: "r = Inr ()" "rows' = ?rows'" using b ex Some by (auto simp: Let_def)
    have "rows_invar ?rows' \<and> table_map (pg_tests ?rows') = (table_map (pg_tests ?rows))(tc_key run :=
        map_option (\<lambda>t. if is_pending t then merge_registration t run else t)
          (table_map (pg_tests ?rows) (tc_key run)))"
      unfolding key
      by (intro conjI sql_update_at [where C = sql_pending and D = is_pending and f = "upsert_row ?new"
            and g = "\<lambda>t. merge_registration t run", OF inv])
        (simp_all add: sql_pending_iff row_to_test_upsert [OF new(1)] row_ok_upsert [OF new(2)])
    with Some r show ?thesis
      by (auto simp: register_spec_def pg_abs_def pending_or_finalized fun_upd_idem)
  qed
qed

lemma pg_decrement_law:
  assumes inv: "pg_invar db" and q: "pg_decrement_retries bg i db = (res, db')"
  shows "pg_invar db' \<and> (if is_fault res then pg_abs db' = pg_abs db
      else pg_abs db' = snd (decrement_spec bg i (pg_abs db)) \<and> res = Inr (fst (decrement_spec bg i (pg_abs db))))"
proof (rule pg_query_law [OF q [unfolded pg_decrement_retries_def] inv])
  fix r :: "StoreError + int option" and rows'
  let ?dec = "\<lambda>row. row\<lparr>row_retries_remaining := row_retries_remaining row - 1\<rparr>"
  let ?g = "\<lambda>t :: TestCaseRecord. t\<lparr>tc_retries_remaining := tc_retries_remaining t - 1\<rparr>"
  let ?C = "\<lambda>row. sql_pending row \<and> row_retries_remaining row > 0"
  let ?D = "\<lambda>t. is_pending t \<and> tc_retries_remaining t > 0"
  have C: "row_ok row \<Longrightarrow> ?C row \<longleftrightarrow> ?D (row_to_test row)" for row
    by (simp add: sql_pending_iff) (simp add: row_to_test_def)
  have g: "row_to_test (?dec row) = ?g (row_to_test row)" for row by (simp add: row_to_test_def)
  have key: "tc_key (row_to_test (?dec row)) = tc_key (row_to_test row)" "tc_key (?g t) = tc_key t" for row t
    by (simp_all add: tc_key_def row_to_test_def)
  have ok: "row_ok row \<Longrightarrow> row_ok (?dec row)" for row by (simp add: row_ok_def)
  note at = sql_update_at [where C = ?C and D = ?D and f = ?dec and g = ?g and bg = bg and i = i,
      OF inv [unfolded pg_invar_def] C g key ok]
  assume "(let sel = \<lambda>row. sql_at bg i row \<and> sql_pending row \<and> row_retries_remaining row > 0; dec = ?dec
      in (Inr (map_option (\<lambda>row. row_retries_remaining (dec row)) (List.find sel (pg_rows db))),
          sql_update sel dec (pg_rows db))) = (r, rows')"
  then have r: "r = Inr (map_option (\<lambda>row. row_retries_remaining row - 1) (List.find (\<lambda>row. sql_at bg i row \<and> ?C row) (pg_rows db)))"
    and rows': "rows' = sql_update (\<lambda>row. sql_at bg i row \<and> ?C row) ?dec (pg_rows db)"
    by (simp_all add: Let_def)
  have "map_option (\<lambda>row. row_retries_remaining row - 1) x
      = map_option (\<lambda>t. tc_retries_remaining t - 1) (map_option row_to_test x)" for x
    by (simp add: option.map_comp comp_def row_to_test_def)
  then have "map_option (\<lambda>row. row_retries_remaining row - 1) (List.find (\<lambda>row. sql_at bg i row \<and> ?C row) (pg_rows db))
      = fst (decrement_spec bg i (pg_abs db))"
    by (simp add: at(4) pg_abs_def decrement_spec_def split: option.splits)
  moreover have "table_map (pg_tests rows') = snd (decrement_spec bg i (pg_abs db))"
  proof -
    have "table_map (pg_tests rows') = (pg_abs db)((bg, i) :=
        map_option (\<lambda>t. if ?D t then ?g t else t) (pg_abs db (bg, i)))"
      unfolding pg_abs_def rows' by (rule at(2))
    then show ?thesis by (simp add: decrement_spec_def fun_upd_idem split: option.splits)
  qed
  ultimately show "\<not> is_fault r \<and> rows_invar rows' \<and>
      (\<lambda>r m. m = snd (decrement_spec bg i (pg_abs db)) \<and> r = Inr (fst (decrement_spec bg i (pg_abs db)))) r
        (table_map (pg_tests rows'))"
    using at(1) by (simp add: r rows')
qed

lemma pg_counts_query:
  assumes inv: "pg_invar db" and q: "counts_query P db = (res, db')"
    and P: "\<And>row. row_ok row \<Longrightarrow> P row \<longleftrightarrow> tc_blue_green_ref (row_to_test row) = bg \<and> Q (row_to_test row)"
  shows "pg_invar db' \<and> pg_abs db' = pg_abs db \<and>
    (is_fault res \<or> res = Inr (counts_spec {r \<in> records_of (pg_abs db) bg. Q r}))"
proof -
  let ?rows = "pg_rows db" and ?sel = "\<lambda>t. tc_blue_green_ref t = bg \<and> Q t"
  let ?count = "\<lambda>rows. \<lparr>counts_passed = int (length (filter (\<lambda>r. row_status r = ''Passed'') (filter P rows))),
              counts_failed = int (length (filter (\<lambda>r. row_status r = ''Failed'') (filter P rows))),
              counts_timed_out = int (length (filter (\<lambda>r. row_status r = ''TimedOut'') (filter P rows))),
              counts_pending = int (length (filter sql_pending (filter P rows)))\<rparr>"
  have rok: "row \<in> set ?rows \<Longrightarrow> row_ok row" for row using inv by (simp add: pg_invar_def rows_invar_def)
  have len: "length (filter A (filter P ?rows)) = length (filter B (filter ?sel (pg_tests ?rows)))"
    if "\<And>row. row_ok row \<Longrightarrow> A row \<longleftrightarrow> B (row_to_test row)" for A B
  proof -
    have "pg_tests (filter (\<lambda>row. P row \<and> A row) ?rows) = filter (\<lambda>t. ?sel t \<and> B t) (pg_tests ?rows)"
      by (rule pg_tests_filter) (simp add: P that rok)
    then have "length (pg_tests (filter (\<lambda>row. P row \<and> A row) ?rows))
        = length (filter (\<lambda>t. ?sel t \<and> B t) (pg_tests ?rows))" by simp
    then show ?thesis by (simp add: pg_tests_def conj_commute conj_left_commute)
  qed
  have st: "row_ok row \<Longrightarrow> row_status row = ''Passed'' \<longleftrightarrow> tc_status (row_to_test row) = Passed"
    "row_ok row \<Longrightarrow> row_status row = ''Failed'' \<longleftrightarrow> tc_status (row_to_test row) = Failed"
    "row_ok row \<Longrightarrow> row_status row = ''TimedOut'' \<longleftrightarrow> tc_status (row_to_test row) = TimedOut" for row
    using status_str_iff [of row Passed] status_str_iff [of row Failed] status_str_iff [of row TimedOut]
    by (simp_all add: status_str_def)
  have "?count ?rows = counts_lengths (filter ?sel (pg_tests ?rows))"
    unfolding counts_lengths_def
    using len [of "\<lambda>r. row_status r = ''Passed''" "\<lambda>t. tc_status t = Passed"]
      len [of "\<lambda>r. row_status r = ''Failed''" "\<lambda>t. tc_status t = Failed"]
      len [of "\<lambda>r. row_status r = ''TimedOut''" "\<lambda>t. tc_status t = TimedOut"]
      len [of sql_pending is_pending] st sql_pending_iff
    by (simp only:)
  also have "\<dots> = counts_spec {r \<in> records_of (pg_abs db) bg. Q r}"
    unfolding pg_abs_def using inv by (intro counts_table) (simp add: pg_invar_def rows_invar_def)
  finally have "?count ?rows = counts_spec {r \<in> records_of (pg_abs db) bg. Q r}" .
  then show ?thesis
    using pg_read_law [where f = ?count and P = "\<lambda>c. c = counts_spec {r \<in> records_of (pg_abs db) bg. Q r}",
        OF q [unfolded counts_query_def Let_def] inv] by blast
qed

lemma pg_latest_failure_law:
  assumes inv: "pg_invar db" and q: "pg_latest_failure_message bg db = (res, db')"
  shows "pg_invar db' \<and> pg_abs db' = pg_abs db \<and> (is_fault res \<or> (\<exists>msg. res = Inr msg \<and>
    (case msg of None \<Rightarrow> \<forall>r \<in> records_of (pg_abs db) bg. tc_failure_message r = None
     | Some m \<Rightarrow> \<exists>r \<in> records_of (pg_abs db) bg. tc_failure_message r = Some m)))"
proof (rule pg_read_law [OF q [unfolded pg_latest_failure_message_def Let_def] inv])
  let ?sel = "filter (\<lambda>row. row_blue_green_ref row = bg \<and> row_failure_message row \<noteq> None) (pg_rows db)"
  have recs: "records_of (pg_abs db) bg = row_to_test ` {row \<in> set (pg_rows db). row_blue_green_ref row = bg}"
    unfolding pg_abs_def using inv
    by (subst records_of_table) (auto simp: pg_invar_def rows_invar_def pg_tests_def)
  have fm: "tc_failure_message (row_to_test row) = row_failure_message row" for row
    by (simp add: row_to_test_def)
  show "case (case sort_key (\<lambda>row. - row_triggered_at row) ?sel of [] \<Rightarrow> None | row # _ \<Rightarrow> row_failure_message row) of
      None \<Rightarrow> \<forall>r \<in> records_of (pg_abs db) bg. tc_failure_message r = None
    | Some m \<Rightarrow> \<exists>r \<in> records_of (pg_abs db) bg. tc_failure_message r = Some m"
  proof (cases "sort_key (\<lambda>row. - row_triggered_at row) ?sel")
    case Nil
    then have "set ?sel = {}" by (metis set_empty set_sort)
    with Nil show ?thesis by (auto simp: recs fm filter_empty_conv)
  next
    case (Cons row rest)
    then have "row \<in> set ?sel" by (metis list.set_intros(1) set_sort)
    then obtain m where m: "row_failure_message row = Some m" and "row_to_test row \<in> records_of (pg_abs db) bg"
      by (auto simp: recs)
    then have "\<exists>r \<in> records_of (pg_abs db) bg. tc_failure_message r = Some m" by (metis fm)
    with Cons m show ?thesis by simp
  qed
qed

lemma pg_get_law:
  assumes inv: "pg_invar db" and q: "pg_get bg i db = (res, db')"
  shows "pg_invar db' \<and> pg_abs db' = pg_abs db \<and> (is_fault res \<or> res = Inr (pg_abs db (bg, i)))"
proof -
  have "map_option row_to_test (List.find (\<lambda>row. sql_at bg i row \<and> True) (pg_rows db))
      = (case table_map (pg_tests (pg_rows db)) (bg, i) of None \<Rightarrow> None | Some r \<Rightarrow> if True then Some r else None)"
    by (rule sql_update_at(4) [where f = id and g = id]) (use inv in \<open>simp_all add: pg_invar_def\<close>)
  then have "map_option row_to_test (List.find (sql_at bg i) (pg_rows db)) = pg_abs db (bg, i)"
    by (simp add: pg_abs_def split: option.splits)
  then show ?thesis
    using pg_read_law [where P = "\<lambda>v. v = pg_abs db (bg, i)", OF q [unfolded pg_get_def] inv] by blast
qed

lemma pg_cleanup_law:
  assumes inv: "pg_invar db" and q: "pg_cleanup_blue_green bg db = (res, db')"
  shows "pg_invar db' \<and> (if is_fault res then pg_abs db' = pg_abs db
      else res = Inr (card (records_of (pg_abs db) bg)) \<and> pg_abs db' = drop_ref bg (pg_abs db))"
proof (rule pg_query_law [OF q [unfolded pg_cleanup_blue_green_def] inv])
  fix r :: "StoreError + nat" and rows'
  assume "(Inr (length (filter (\<lambda>row. row_blue_green_ref row = bg) (pg_rows db))),
      filter (\<lambda>row. row_blue_green_ref row \<noteq> bg) (pg_rows db)) = (r, rows')"
  then have r: "r = Inr (length (filter (\<lambda>row. row_blue_green_ref row = bg) (pg_rows db)))"
    and rows': "rows' = filter (\<lambda>row. row_blue_green_ref row \<noteq> bg) (pg_rows db)" by auto
  have tok: "table_ok (pg_tests (pg_rows db))" using inv by (simp add: pg_invar_def rows_invar_def)
  have "length (filter (\<lambda>row. row_blue_green_ref row = bg) (pg_rows db))
      = length (pg_tests (filter (\<lambda>row. row_blue_green_ref row = bg) (pg_rows db)))"
    by (simp add: pg_tests_def)
  also have "\<dots> = card (records_of (pg_abs db) bg)"
    unfolding pg_abs_def card_records_table [OF tok] by (subst pg_tests_filter) simp_all
  finally have "r = Inr (card (records_of (pg_abs db) bg))" by (simp add: r)
  moreover have "pg_tests rows' = filter (\<lambda>t. tc_blue_green_ref t \<noteq> bg) (pg_tests (pg_rows db))"
    unfolding rows' by (rule pg_tests_filter) simp
  then have "table_map (pg_tests rows') = drop_ref bg (pg_abs db)"
    by (simp add: pg_abs_def drop_ref_table [OF tok])
  moreover have "rows_invar rows'" using inv rows_invar_filter by (simp add: rows' pg_invar_def)
  ultimately show "\<not> is_fault r \<and> rows_invar rows' \<and>
      (\<lambda>r m. r = Inr (card (records_of (pg_abs db) bg)) \<and> m = drop_ref bg (pg_abs db)) r (table_map (pg_tests rows'))"
    by simp
qed

lemma pg_cleanup_expired_law:
  assumes inv: "pg_invar db" and q: "pg_cleanup_expired now db = (res, db')"
  shows "pg_invar db' \<and> (\<forall>k. pg_abs db' k = pg_abs db k \<or> pg_abs db' k = None \<and>
    (\<exists>r. pg_abs db k = Some r \<and> is_pending r \<and> expires_at r < now))"
proof -
  let ?del = "\<lambda>row. row_expires_at row < now \<and> sql_pending row"
  let ?rows' = "filter (\<lambda>row. \<not> ?del row) (pg_rows db)"
  let ?Q = "\<lambda>m. \<forall>k. m k = pg_abs db k \<or> m k = None \<and>
    (\<exists>r. pg_abs db k = Some r \<and> is_pending r \<and> expires_at r < now)"
  have tok: "table_ok (pg_tests (pg_rows db))" using inv by (simp add: pg_invar_def rows_invar_def)
  have inv': "rows_invar ?rows'" using inv by (simp add: pg_invar_def rows_invar_filter)
  then have tok': "table_ok (pg_tests ?rows')" by (simp add: rows_invar_def)
  have "?Q (table_map (pg_tests ?rows'))"
  proof
    fix k
    show "table_map (pg_tests ?rows') k = pg_abs db k \<or> table_map (pg_tests ?rows') k = None \<and>
      (\<exists>r. pg_abs db k = Some r \<and> is_pending r \<and> expires_at r < now)"
    proof (cases "pg_abs db k")
      case None
      then have "table_map (pg_tests ?rows') k = None" by (simp add: pg_abs_def table_map_None pg_tests_def)
      with None show ?thesis by simp
    next
      case (Some t)
      with tok obtain row where row: "row \<in> set (pg_rows db)" "t = row_to_test row" "tc_key t = k"
        by (auto simp: pg_abs_def table_map_Some pg_tests_def)
      then have ok: "row_ok row" using inv by (simp add: pg_invar_def rows_invar_def)
      show ?thesis
      proof (cases "?del row")
        case False
        with row tok' have "table_map (pg_tests ?rows') k = Some t"
          by (auto simp: table_map_Some pg_tests_def)
        with Some show ?thesis by simp
      next
        case True
        then have "is_pending t" "expires_at t < now"
          using ok row by (auto simp: sql_pending_iff expires_at_def row_to_test_def row_ok_def)
        moreover have "table_map (pg_tests ?rows') k = None \<or> table_map (pg_tests ?rows') k = Some t"
        proof (cases "table_map (pg_tests ?rows') k")
          case (Some u)
          with tok' have "u \<in> set (pg_tests (pg_rows db))" "tc_key u = k"
            by (auto simp: table_map_Some pg_tests_def)
          with tok have "pg_abs db k = Some u" by (simp add: pg_abs_def table_map_Some)
          with Some \<open>pg_abs db k = Some t\<close> show ?thesis by simp
        qed simp
        ultimately show ?thesis using Some by auto
      qed
    qed
  qed
  with inv' have "pg_invar db' \<and> (if is_fault res then pg_abs db' = pg_abs db else (\<lambda>_. ?Q) res (pg_abs db'))"
    by (intro pg_query_law [OF q [unfolded pg_cleanup_expired_def Let_def] inv]) auto
  then show ?thesis by (auto split: if_splits)
qed

interpretation pg: state_store postgres_ops pg_abs pg_invar pg_storable
proof (unfold_locales, goal_cases)
  case (1 s) then show ?case by (simp add: pg_abs_def finite_dom_table_map)
next
  case (2 s k r)
  then have "r \<in> set (pg_tests (pg_rows s))" "tc_key r = k"
    by (simp_all add: pg_abs_def table_map_Some pg_invar_def rows_invar_def)
  with 2(1) show ?case by (auto simp: pg_invar_def rows_invar_def table_ok_def tc_key_def)
next
  case (3 s run res s') then show ?case
    using pg_register_law [of s run res s'] by (simp add: postgres_ops_def)
next
  case (4 s bg i res s') then show ?case
    using pg_get_law [of s bg i res s'] by (simp add: postgres_ops_def)
next
  case (5 s bg i p msg res s') then show ?case
    unfolding postgres_ops_def StateStore.simps pg_set_verdict_def
    by (elim pg_finalize_law) (auto simp: row_to_test_def verdict_of_def parse_status_def tc_key_def
        row_ok_def image_def status_str_def intro: exI [of _ Passed] exI [of _ Failed])
next
  case (6 s bg i res s') then show ?case
    unfolding postgres_ops_def StateStore.simps pg_mark_timed_out_def
    by (elim pg_finalize_law) (auto simp: row_to_test_def timed_out_of_def parse_status_def tc_key_def
        row_ok_def image_def status_str_def intro: exI [of _ TimedOut])
next
  case (7 s bg i res s') then show ?case
    using pg_decrement_law [of s bg i res s'] by (auto simp: postgres_ops_def split: if_splits)
next
  case (8 s res s')
  have "set (map row_to_test (filter sql_pending (pg_rows s))) = {r. is_pending r \<and> r \<in> ran (pg_abs s)}"
    using 8(1) by (auto simp: pg_abs_def pg_invar_def rows_invar_def ran_table_map pg_tests_def sql_pending_iff)
  with 8 show ?case
    using pg_read_law [where P = "\<lambda>v. set v = {r. is_pending r \<and> r \<in> ran (pg_abs s)}" and db = s and res = res
        and db' = s' and f = "\<lambda>rows. map row_to_test (filter sql_pending rows)"]
    by (simp add: postgres_ops_def pg_list_pending_def)
next
  case (9 s res s')
  have "set (remdups (map row_blue_green_ref (pg_rows s))) = fst ` dom (pg_abs s)"
    using 9(1) by (auto simp: pg_abs_def pg_invar_def rows_invar_def fst_dom_table pg_tests_def image_image)
  with 9 show ?case
    using pg_read_law [where P = "\<lambda>v. set v = fst ` dom (pg_abs s)" and db = s and res = res
        and db' = s' and f = "\<lambda>rows. remdups (map row_blue_green_ref rows)"]
    by (simp add: postgres_ops_def pg_list_blue_green_refs_def)
next
  case (10 s bg res s') then show ?case
    using pg_counts_query [of s "\<lambda>row. row_blue_green_ref row = bg" res s' bg "\<lambda>_. True"]
    by (simp add: postgres_ops_def pg_counts_def)
next
  case (11 s bg mode res s') then show ?case
    using pg_counts_query [of s "\<lambda>row. row_blue_green_ref row = bg \<and> row_verification_mode row = mode_str mode"
        res s' bg "\<lambda>t. tc_verification_mode t = mode"]
    by (simp add: postgres_ops_def pg_counts_for_mode_def mode_str_iff)
next
  case (12 s bg res s') then show ?case
    using pg_latest_failure_law [of s bg res s'] by (simp add: postgres_ops_def)
next
  case (13 s bg res s') then show ?case
    using pg_cleanup_law [of s bg res s'] by (simp add: postgres_ops_def)
next
  case (14 s now res s') then show ?case
    using pg_cleanup_expired_law [of s now res s'] by (simp add: postgres_ops_def)
qed

end
