(* ===== verification/Json.thy ===== *)
theory Json
  imports Prelude Complex_Main
begin

text \<open>
  JSON values as \<open>serde_json::Value\<close> has them, and the accessors the sources use. An object is the list of
  its entries; \<open>Map::get\<close> is \<open>map_of\<close>, \<open>Map::insert\<close> overwrites. Kubernetes API types that the sources
  only pass on (\<open>DeploymentSpec\<close>, \<open>ServiceSpec\<close>, \<open>EnvVar\<close>, ...) are represented by their JSON form.
\<close>

datatype json =
  JNull
| JBool bool
| JInt int
| JFloat rat
| JStr string
| JArr "json list"
| JObj "(string \<times> json) list"

fun as_object :: "json \<Rightarrow> (string \<times> json) list option" where
  "as_object (JObj m) = Some m"
| "as_object _ = None"

fun as_array :: "json \<Rightarrow> json list option" where
  "as_array (JArr xs) = Some xs"
| "as_array _ = None"

fun as_str :: "json \<Rightarrow> string option" where
  "as_str (JStr s) = Some s"
| "as_str _ = None"

fun is_null :: "json \<Rightarrow> bool" where
  "is_null JNull = True"
| "is_null _ = False"

text \<open>\<open>Value::get(key)\<close>: \<open>None\<close> when the value is not an object or has no such key.\<close>

definition jget :: "string \<Rightarrow> json \<Rightarrow> json option" where
  "jget k v = Option.bind (as_object v) (\<lambda>m. map_of m k)"

definition jset :: "string \<Rightarrow> json \<Rightarrow> json \<Rightarrow> json" where
  "jset k x v = (case v of JObj m \<Rightarrow> JObj (bt_insert k x m) | _ \<Rightarrow> v)"

definition jremove :: "string \<Rightarrow> json \<Rightarrow> json" where
  "jremove k v = (case v of JObj m \<Rightarrow> JObj (bt_remove k m) | _ \<Rightarrow> v)"

definition labels_json :: "labels \<Rightarrow> json" where
  "labels_json ls = JObj (map (\<lambda>(k, v). (k, JStr v)) ls)"

definition opt_json :: "('a \<Rightarrow> json) \<Rightarrow> 'a option \<Rightarrow> json" where
  "opt_json f x = (case x of None \<Rightarrow> JNull | Some v \<Rightarrow> f v)"

lemma jget_jset:
  "jget k (jset k' x v) = (if k = k' \<and> as_object v \<noteq> None then Some x else jget k v)"
  by (cases v) (auto simp: jget_def jset_def)

lemma jget_jremove: "jget k (jremove k' v) = (if k = k' then None else jget k v)"
  by (cases v) (auto simp: jget_def jremove_def)

end
