(* ===== verification/KubeTypes.thy ===== *)
theory KubeTypes
  imports Json
begin

text \<open>
  The Kubernetes API objects the operator builds and reads (\<open>k8s_openapi\<close>), cut down to the fields the
  sources under \<open>src/operator/src\<close> touch. Every other field of an object travels in a \<open>rest\<close>
  field of JSON. An absent optional map or list is the empty one.
\<close>

record ObjectMeta =
  md_name :: "string option"
  md_namespace :: "string option"
  md_uid :: "string option"
  md_generation :: "int option"
  md_resource_version :: "string option"
  md_deletion_timestamp :: "string option"
  md_finalizers :: "string list"
  md_labels :: labels
  md_annotations :: labels

definition default_meta :: ObjectMeta where
  "default_meta = \<lparr>md_name = None, md_namespace = None, md_uid = None, md_generation = None,
     md_resource_version = None, md_deletion_timestamp = None, md_finalizers = [], md_labels = [],
     md_annotations = []\<rparr>"

definition named_meta :: "string \<Rightarrow> string \<Rightarrow> labels \<Rightarrow> ObjectMeta" where
  "named_meta namespace name ls = default_meta\<lparr>md_name := Some name, md_namespace := Some namespace, md_labels := ls\<rparr>"

text \<open>The two sources of an environment variable's value that occur.\<close>

record SecretKeySelector =
  sk_name :: string
  sk_key :: string
  sk_optional :: "bool option"

record EnvVar =
  env_name :: string
  env_value :: "string option"
  env_secret :: "SecretKeySelector option"

definition plain_env :: "string \<Rightarrow> string \<Rightarrow> EnvVar" where
  "plain_env n v = \<lparr>env_name = n, env_value = Some v, env_secret = None\<rparr>"

record Volume =
  vol_name :: string
  vol_config_map :: "string option"
  vol_rest :: json

record MountSpec =
  mnt_name :: string
  mnt_path :: string
  mnt_read_only :: "bool option"

record PortSpec =
  port_name :: "string option"
  port_number :: int

record Container =
  ct_name :: string
  ct_image :: "string option"
  ct_env :: "EnvVar list"
  ct_ports :: "PortSpec list"
  ct_volume_mounts :: "MountSpec list"
  ct_rest :: json

record PodSpec =
  pod_containers :: "Container list"
  pod_volumes :: "Volume list"
  pod_termination_grace_period_seconds :: "int option"
  pod_service_account_name :: "string option"
  pod_rest :: json

record PodTemplateSpec =
  tpl_metadata :: "ObjectMeta option"
  tpl_spec :: "PodSpec option"

record DeploymentSpec =
  ds_replicas :: "int option"
  ds_match_labels :: labels
  ds_template :: PodTemplateSpec
  ds_rest :: json

record DeploymentStatus =
  dst_observed_generation :: "int option"
  dst_updated_replicas :: "int option"
  dst_available_replicas :: "int option"

record Deployment =
  d_metadata :: ObjectMeta
  d_spec :: "DeploymentSpec option"
  d_status :: "DeploymentStatus option"

record ServiceSpec =
  svc_selector :: labels
  svc_ports :: "PortSpec list"
  svc_rest :: json

datatype kind = KDeployment | KService | KConfigMap | KSecret | KPod

datatype resource =
  RDeployment Deployment
| RService ObjectMeta ServiceSpec
| RConfigMap ObjectMeta "(string \<times> string) list"
| RSecret ObjectMeta "(string \<times> bytes) list"

definition resource_meta :: "resource \<Rightarrow> ObjectMeta" where
  "resource_meta r = (case r of RDeployment d \<Rightarrow> d_metadata d | RService m _ \<Rightarrow> m | RConfigMap m _ \<Rightarrow> m | RSecret m _ \<Rightarrow> m)"

definition resource_kind :: "resource \<Rightarrow> kind" where
  "resource_kind r = (case r of RDeployment _ \<Rightarrow> KDeployment | RService _ _ \<Rightarrow> KService | RConfigMap _ _ \<Rightarrow> KConfigMap
     | RSecret _ _ \<Rightarrow> KSecret)"

end
