(* ===== verification/Crd.thy ===== *)
theory Crd
  imports KubeTypes
begin

text \<open>
  The custom resources (\<open>src/operator/src/crd/blue_green.rs\<close>, \<open>src/operator/src/crd/inception_plugin.rs\<close>):
  one record per struct, one datatype per enum.
\<close>

section \<open>InceptionPlugin\<close>

datatype PluginRole = Duplicator | Splitter | Combiner | Observer | Mock | Writer | Consumer

datatype Topology = Standalone

record ContainerPort =
  cp_name :: string
  cp_container_port :: int

record VolumeMount =
  vm_name :: string
  vm_mount_path :: string
  vm_read_only :: "bool option"

record ControlPlaneTls =
  tls_enabled :: bool
  tls_port :: "int option"
  tls_ca_cert_path :: "string option"
  tls_insecure_skip_verify :: bool

record PluginInceptor =
  pi_env :: "EnvVar list"
  pi_volumes :: "Volume list"
  pi_ports :: "ContainerPort list"
  pi_volume_mounts :: "VolumeMount list"
  pi_pod_labels :: labels
  pi_pod_annotations :: labels
  pi_service_account_name :: "string option"
  pi_control_plane_tls :: "ControlPlaneTls option"

record EnvInjection =
  ei_name_from_config :: string
  ei_value_template :: string
  ei_restore_value_template :: "string option"

record ContainerInjection =
  ci_env :: "EnvInjection list"

record Injects =
  inj_green_container :: "ContainerInjection option"
  inj_blue_container :: "ContainerInjection option"
  inj_test_container :: "ContainerInjection option"

record PluginFeatures =
  pf_supports_progressive_shifting :: bool

record MutuallyExclusiveRoleGroup =
  mx_roles :: "PluginRole list"
  mx_reason :: "string option"

record PluginRoleConstraints =
  rc_mutually_exclusive :: "MutuallyExclusiveRoleGroup list"

record PluginLifecycle =
  lc_prepare_path :: "string option"
  lc_activate_path :: "string option"
  lc_drain_path :: "string option"
  lc_drain_status_path :: "string option"
  lc_cleanup_path :: "string option"
  lc_traffic_shift_path :: "string option"

record PluginManager =
  pm_service_name :: string
  pm_namespace :: "string option"
  pm_port :: "int option"
  pm_prepare_path :: "string option"
  pm_cleanup_path :: "string option"
  pm_sync_path :: "string option"
  pm_control_plane_tls :: "ControlPlaneTls option"

record InceptionPluginSpec =
  ip_description :: string
  ip_image :: string
  ip_supported_roles :: "PluginRole list"
  ip_role_constraints :: "PluginRoleConstraints option"
  ip_topology :: Topology
  ip_field_namespaces :: "string list"
  ip_config_schema :: json
  ip_config_template :: "string option"
  ip_inceptor :: PluginInceptor
  ip_lifecycle :: "PluginLifecycle option"
  ip_manager :: "PluginManager option"
  ip_injects :: "Injects option"
  ip_features :: "PluginFeatures option"

record InceptionPlugin =
  plugin_metadata :: ObjectMeta
  plugin_spec :: InceptionPluginSpec

section \<open>BlueGreenDeployment\<close>

record ManagedDeploymentSpec =
  dep_namespace :: "string option"
  dep_spec :: DeploymentSpec

record CandidateDeploymentPatch =
  patch_replicas :: "int option"
  patch_strategy :: "json option"
  patch_min_ready_seconds :: "int option"
  patch_revision_history_limit :: "int option"
  patch_paused :: "bool option"
  patch_progress_deadline_seconds :: "int option"
  patch_template :: "json option"

record DeploymentSelector =
  sel_namespace :: "string option"
  sel_match_labels :: labels

record PluginRef =
  ref_name :: string

record InceptionPointDrainSpec =
  drain_max_wait_seconds :: "int option"

record InceptionPoint =
  pt_name :: string
  pt_plugin_ref :: PluginRef
  pt_roles :: "PluginRole list"
  pt_config :: json
  pt_drain :: "InceptionPointDrainSpec option"

record DataVerificationSpec =
  dv_verify_path :: string
  dv_timeout_seconds :: "int option"

record CustomVerificationSpec =
  cv_start_path :: string
  cv_verify_path :: string
  cv_timeout_seconds :: "int option"
  cv_retries :: "int option"

record TestSpec =
  test_name :: string
  test_deployment :: DeploymentSpec
  test_service :: ServiceSpec
  test_data_verification :: "DataVerificationSpec option"
  test_custom_verification :: "CustomVerificationSpec option"

record DataPromotionSpec =
  dp_min_test_cases :: "int option"
  dp_success_rate :: "rat option"
  dp_timeout_seconds :: "int option"

record CustomPromotionSpec =
  cup_timeout_seconds :: "int option"
  cup_retries :: "int option"

record ProgressiveStep =
  st_traffic_percent :: int
  st_observe_cases :: int
  st_success_rate :: rat

record ProgressiveSpec =
  ps_steps :: "ProgressiveStep list"
  ps_rollback_on_step_failure :: bool
  ps_step_timeout_minutes :: "int option"

datatype StrategyType = HardSwitch | Progressive

record PromotionStrategySpec =
  strat_type :: StrategyType
  strat_progressive :: "ProgressiveSpec option"

record PromotionSpec =
  prom_data :: "DataPromotionSpec option"
  prom_custom :: "CustomPromotionSpec option"
  prom_strategy :: PromotionStrategySpec

datatype ActiveRolloutUpdatePolicy = Defer | ForceReplace

record UpdatePolicy =
  up_active_rollout :: "ActiveRolloutUpdatePolicy option"

datatype BGDPhase =
  PhPending | PhObserving | PhPromoting | PhDraining | PhCompleted | PhRolledBack | PhInvalid

datatype InceptionPointDrainPhase = DrainPending | DrainSuccessful | DrainTimedOutMaybeSuccessful

record InceptionPointDrainStatus =
  ds_name :: string
  ds_phase :: InceptionPointDrainPhase
  ds_message :: "string option"
  ds_completed_at :: "string option"

datatype ConditionStatus = CondTrue | CondFalse | CondUnknown

record BlueGreenDeploymentCondition =
  cond_type :: string
  cond_status :: ConditionStatus
  cond_reason :: string
  cond_message :: string
  cond_observed_generation :: int
  cond_last_transition_time :: string

record BlueGreenDeploymentStatus =
  s_phase :: "BGDPhase option"
  s_generated_deployment_name :: "string option"
  s_observed_generation :: "int option"
  s_rollout_generation :: "int option"
  s_test_cases_observed :: "int option"
  s_test_cases_passed :: "int option"
  s_test_cases_failed :: "int option"
  s_test_cases_pending :: "int option"
  s_test_cases_timed_out :: "int option"
  s_current_success_rate :: "rat option"
  s_last_failure_message :: "string option"
  s_current_traffic_percent :: "int option"
  s_current_step :: "int option"
  s_started_at :: "string option"
  s_last_case_at :: "string option"
  s_drain_started_at :: "string option"
  s_inception_point_drains :: "InceptionPointDrainStatus list"
  s_conditions :: "BlueGreenDeploymentCondition list"

definition default_status :: BlueGreenDeploymentStatus where
  "default_status = \<lparr>s_phase = None, s_generated_deployment_name = None, s_observed_generation = None,
     s_rollout_generation = None, s_test_cases_observed = None, s_test_cases_passed = None,
     s_test_cases_failed = None, s_test_cases_pending = None, s_test_cases_timed_out = None,
     s_current_success_rate = None, s_last_failure_message = None, s_current_traffic_percent = None,
     s_current_step = None, s_started_at = None, s_last_case_at = None, s_drain_started_at = None,
     s_inception_point_drains = [], s_conditions = []\<rparr>"

record BlueGreenDeploymentSpec =
  spec_selector :: DeploymentSelector
  spec_deployment :: ManagedDeploymentSpec
  spec_candidate_patch :: "CandidateDeploymentPatch option"
  spec_inception_points :: "InceptionPoint list"
  spec_test :: "TestSpec option"
  spec_promotion :: "PromotionSpec option"
  spec_update_policy :: "UpdatePolicy option"

record BlueGreenDeployment =
  bgd_metadata :: ObjectMeta
  bgd_spec :: BlueGreenDeploymentSpec
  bgd_status :: "BlueGreenDeploymentStatus option"

section \<open>Errors\<close>

text \<open>\<open>kube::Error\<close>: an error answer of the API server with its HTTP code, or anything else; and the error
  type of the reconciler (\<open>src/operator/src/controller.rs\<close>).\<close>

datatype kube_error = ApiError nat string | TransportError string

datatype ReconcileError =
  InvalidSpec string
| Store string
| StateStoreError string
| Lease string
| PluginManagerError string
| PluginInceptorError string
| PluginDrainStatusError string
| PluginTrafficShift string
| Auth string
| Resource string
| K8s kube_error

section \<open>A minimal object, for concrete evaluations\<close>

definition sample_deployment_spec :: DeploymentSpec where
  "sample_deployment_spec = \<lparr>ds_replicas = Some 1, ds_match_labels = [(''app'', ''orders'')],
     ds_template = \<lparr>tpl_metadata = Some (default_meta\<lparr>md_labels := [(''app'', ''orders'')]\<rparr>),
       tpl_spec = Some \<lparr>pod_containers = [\<lparr>ct_name = ''main'', ct_image = Some ''orders:1'', ct_env = [], ct_ports = [],
           ct_volume_mounts = [], ct_rest = JObj []\<rparr>], pod_volumes = [], pod_termination_grace_period_seconds = None,
         pod_service_account_name = None, pod_rest = JObj []\<rparr>\<rparr>, ds_rest = JObj []\<rparr>"

definition default_spec :: BlueGreenDeploymentSpec where
  "default_spec = \<lparr>spec_selector = \<lparr>sel_namespace = None, sel_match_labels = [(''app'', ''orders'')]\<rparr>,
     spec_deployment = \<lparr>dep_namespace = None, dep_spec = sample_deployment_spec\<rparr>, spec_candidate_patch = None,
     spec_inception_points = [], spec_test = None, spec_promotion = None, spec_update_policy = None\<rparr>"

definition sample_bgd :: BlueGreenDeployment where
  "sample_bgd = \<lparr>bgd_metadata = default_meta\<lparr>md_name := Some ''orders'', md_namespace := Some ''shop'',
       md_uid := Some ''uid-1'', md_generation := Some 1\<rparr>,
     bgd_spec = default_spec, bgd_status = None\<rparr>"

end
