(* ===== verification/Sdk.thy ===== *)
theory Sdk
  imports Crd
begin

text \<open>
  The plugin SDK (\<open>src/sdk/rust/src\<close>): wire models, role selection, traffic routing, field extraction and
  filters, environment configuration and the retrying delivery of notifications. Environment variables are
  the parameter \<open>env\<close>; the standard hasher's value, the regular-expression engine and the decimal
  printing of a float are parameters of the functions that use them.
\<close>

section \<open>Models (models.rs)\<close>

definition rust_whitespace :: "char \<Rightarrow> bool" where
  "rust_whitespace c = (let n = (of_char c :: nat) in (9 \<le> n \<and> n \<le> 13) \<or> n = 32 \<or> n = 133 \<or> n = 160)"

definition parse_role :: "string \<Rightarrow> PluginRole option" where
  "parse_role value = (let v = trim_matches rust_whitespace value in
     if v = ''duplicator'' then Some Duplicator
     else if v = ''splitter'' then Some Splitter
     else if v = ''combiner'' then Some Combiner
     else if v = ''observer'' then Some Observer
     else if v = ''mock'' then Some Mock
     else if v = ''writer'' then Some Writer
     else if v = ''consumer'' then Some Consumer
     else None)"

datatype TrafficRoute = RouteBlue | RouteGreen | RouteBoth | RouteUnknown

definition route_as_str :: "TrafficRoute \<Rightarrow> string" where
  "route_as_str r = (case r of RouteBlue \<Rightarrow> ''blue'' | RouteGreen \<Rightarrow> ''green'' | RouteBoth \<Rightarrow> ''both''
     | RouteUnknown \<Rightarrow> ''unknown'')"

definition should_register_case :: "TrafficRoute \<Rightarrow> bool" where
  "should_register_case r = (case r of RouteGreen \<Rightarrow> False | _ \<Rightarrow> True)"

record TestIdSelector =
  ts_field :: "string option"
  ts_json_path :: "string option"
  ts_path_segment :: "int option"
  ts_value :: "string option"

record FilterCondition =
  fc_field :: string
  fc_equals :: "string option"
  fc_matches :: "string option"
  fc_json_path :: "string option"

datatype PayloadSelection = PayRequest | PayResponse | PayBoth

record NotificationFilter =
  nf_match :: "FilterCondition list"
  nf_notify_path :: "string option"
  nf_mock_path :: "string option"
  nf_payload :: "PayloadSelection option"

datatype AssignmentTarget = TargetGreen | TargetBlue | TargetTest

datatype AssignmentKind = KindEnv

record PropertyAssignment =
  pa_target :: AssignmentTarget
  pa_kind :: AssignmentKind
  pa_name :: string
  pa_value :: string
  pa_container_name :: "string option"

record InceptorEnvVar =
  ev_name :: string
  ev_value :: string

record PluginLifecycleResponse =
  plr_assignments :: "PropertyAssignment list"
  plr_inceptor_env :: "InceptorEnvVar list"
  plr_config :: "json option"

definition default_lifecycle_response :: PluginLifecycleResponse where
  "default_lifecycle_response = \<lparr>plr_assignments = [], plr_inceptor_env = [], plr_config = None\<rparr>"

record PluginDrainStatusResponse =
  pds_drained :: bool
  pds_message :: "string option"

record ActiveInception =
  ai_namespace :: string
  ai_blue_green_ref :: string
  ai_blue_green_uid :: "string option"
  ai_inception_point :: string
  ai_plugin :: string
  ai_roles :: "string list"
  ai_config :: json

record PluginManagerLifecycleRequest =
  mr_namespace :: string
  mr_blue_green_ref :: string
  mr_blue_green_uid :: "string option"
  mr_inception_point :: string
  mr_plugin :: string
  mr_roles :: "string list"
  mr_config :: json
  mr_active_inceptions :: "ActiveInception list"

record PluginManagerSyncRequest =
  sr_plugin :: string
  sr_active_inceptions :: "ActiveInception list"

record RegisterTestCaseRequest =
  rq_test_id :: string
  rq_blue_green_ref :: string
  rq_inception_point :: string
  rq_triggered_at :: "int option"
  rq_timeout_seconds :: "int option"
  rq_verify_url :: "string option"

section \<open>Role selection (roles.rs)\<close>

datatype QueueWorkerRole = WorkerInput | WorkerCombiner

definition movement_roles :: "PluginRole list" where
  "movement_roles = [Duplicator, Splitter, Combiner, Consumer]"

definition queue_worker_role :: "PluginRole list \<Rightarrow> string + QueueWorkerRole option" where
  "queue_worker_role roles =
     (let active = filter (\<lambda>role. role \<in> set roles) movement_roles
      in if length active > 1 then Inl ''queue movement roles are mutually exclusive''
         else Inr (case active of [] \<Rightarrow> None
                   | Combiner # _ \<Rightarrow> Some WorkerCombiner
                   | _ # _ \<Rightarrow> Some WorkerInput))"

section \<open>Routing (routing.rs)\<close>

text \<open>\<open>hash\<close> is the 64-bit value of the standard library's default hasher on the payload.\<close>

definition routes_to_blue :: "(bytes \<Rightarrow> nat) \<Rightarrow> bytes \<Rightarrow> nat \<Rightarrow> bool" where
  "routes_to_blue hash payload traffic_percent =
     (if traffic_percent = 0 then False
      else if traffic_percent \<ge> 100 then True
      else hash payload mod 100 < traffic_percent)"

section \<open>Fields and filters (fields.rs)\<close>

fun follow_path :: "string list \<Rightarrow> json \<Rightarrow> json option" where
  "follow_path [] v = Some v"
| "follow_path (key # keys) v = Option.bind (jget key v) (follow_path keys)"

definition show_bool :: "bool \<Rightarrow> string" where
  "show_bool b = (if b then ''true'' else ''false'')"

definition extract_json_path :: "(rat \<Rightarrow> string) \<Rightarrow> json \<Rightarrow> string \<Rightarrow> string option" where
  "extract_json_path show_f64 value path =
     (let s1 = unwrap_or (strip_prefix ''$'' path) path;
          s2 = unwrap_or (strip_prefix ''.'' s1) s1
      in case follow_path (split_on (CHR ''.'') s2) value of
           None \<Rightarrow> None
         | Some (JStr s) \<Rightarrow> Some s
         | Some (JInt n) \<Rightarrow> Some (show_int n)
         | Some (JFloat r) \<Rightarrow> Some (show_f64 r)
         | Some (JBool b) \<Rightarrow> Some (show_bool b)
         | Some _ \<Rightarrow> None)"

text \<open>\<open>regex p s\<close> is \<open>None\<close> when the pattern does not compile.\<close>

definition condition_matches :: "(string \<Rightarrow> string \<Rightarrow> bool option) \<Rightarrow> string option \<Rightarrow> FilterCondition \<Rightarrow> bool" where
  "condition_matches regex v condition = (case v of
     None \<Rightarrow> False
   | Some value \<Rightarrow>
       (case fc_equals condition of
          Some expected \<Rightarrow> value = expected
        | None \<Rightarrow>
            (case fc_matches condition of
               Some pattern \<Rightarrow> unwrap_or (regex pattern value) False
             | None \<Rightarrow> True)))"

definition match_conditions ::
  "(string \<Rightarrow> string \<Rightarrow> bool option) \<Rightarrow> FilterCondition list \<Rightarrow> (FilterCondition \<Rightarrow> string option) \<Rightarrow> bool" where
  "match_conditions regex conditions resolver =
     (if conditions = [] then True
      else list_all (\<lambda>c. condition_matches regex (resolver c) c) conditions)"

section \<open>Configuration from the environment (config.rs)\<close>

type_synonym env_vars = "string \<Rightarrow> string option"

definition active_roles :: "env_vars \<Rightarrow> PluginRole list" where
  "active_roles env =
     List.map_filter parse_role (split_on (CHR '','') (unwrap_or (env ''FLUIDBG_ACTIVE_ROLES'') []))"

definition has_role :: "PluginRole list \<Rightarrow> PluginRole \<Rightarrow> bool" where
  "has_role roles role = (role \<in> set roles)"

text \<open>\<open>str::parse\<close> for an unsigned integer of the given width: an optional plus sign, then at least one
  digit, no overflow.\<close>

definition digits_value :: "string \<Rightarrow> nat" where
  "digits_value s = foldl (\<lambda>acc c. 10 * acc + ((of_char c :: nat) - 48)) 0 s"

definition parse_unsigned :: "nat \<Rightarrow> string \<Rightarrow> nat option" where
  "parse_unsigned width s =
     (let ds = unwrap_or (strip_prefix ''+'' s) s
      in if ds = [] \<or> \<not> list_all is_ascii_digit ds then None
         else if digits_value ds < 2 ^ width then Some (digits_value ds) else None)"

definition traffic_percent_from_env :: "env_vars \<Rightarrow> nat" where
  "traffic_percent_from_env env =
     min (unwrap_or (Option.bind (env ''FLUIDBG_TRAFFIC_PERCENT'') (parse_unsigned 8)) 100) 100"

definition env_port :: "env_vars \<Rightarrow> string \<Rightarrow> nat \<Rightarrow> nat" where
  "env_port env name dflt = unwrap_or (Option.bind (env name) (parse_unsigned 16)) dflt"

definition env_flag :: "env_vars \<Rightarrow> string \<Rightarrow> bool" where
  "env_flag env name = (case env name of
     None \<Rightarrow> False | Some v \<Rightarrow> v \<in> {''1'', ''true'', ''TRUE'', ''yes'', ''YES''})"

definition optional_env :: "env_vars \<Rightarrow> string \<Rightarrow> string option" where
  "optional_env env name = (case env name of None \<Rightarrow> None | Some v \<Rightarrow> if v = [] then None else Some v)"

record ControlPlaneServerTls =
  cpt_enabled :: bool
  cpt_cert_path :: "string option"
  cpt_key_path :: "string option"

definition control_plane_tls_from_env :: "env_vars \<Rightarrow> ControlPlaneServerTls" where
  "control_plane_tls_from_env env = \<lparr>
     cpt_enabled = env_flag env ''FLUIDBG_CONTROL_PLANE_TLS_ENABLED'',
     cpt_cert_path = optional_env env ''FLUIDBG_CONTROL_PLANE_TLS_CERT_PATH'',
     cpt_key_path = optional_env env ''FLUIDBG_CONTROL_PLANE_TLS_KEY_PATH''\<rparr>"

section \<open>Delivery (notify.rs)\<close>

definition render_path :: "string \<Rightarrow> string \<Rightarrow> string \<Rightarrow> string" where
  "render_path template test_id inception_point =
     str_replace ''{inceptionPoint}'' inception_point (str_replace ''{testId}'' test_id template)"

datatype http_reply = HttpStatus nat | HttpError string

definition status_success :: "nat \<Rightarrow> bool" where
  "status_success st = (200 \<le> st \<and> st < 300)"

definition retryable_status :: "nat \<Rightarrow> bool" where
  "retryable_status st = (st = 408 \<or> st = 429 \<or> (500 \<le> st \<and> st < 600))"

definition delivery_attempts :: nat where
  "delivery_attempts = 10"

text \<open>The loop of \<open>retry_status_request\<close>: \<open>attempt\<close> counts from 1, \<open>reply\<close> is what the peer answers to each
  attempt; the result carries the number of requests sent. \<open>error_for_status\<close> fails on 4xx and 5xx.\<close>

function retry_from :: "(nat \<Rightarrow> http_reply) \<Rightarrow> nat \<Rightarrow> string option \<Rightarrow> (string + unit) \<times> nat" where
  "retry_from reply attempt last_error =
     (if attempt > delivery_attempts then (Inl (unwrap_or last_error ''request failed''), attempt - 1)
      else (case reply attempt of
              HttpStatus st \<Rightarrow>
                if status_success st then (Inr (), attempt)
                else if \<not> retryable_status st then
                  (if 400 \<le> st \<and> st < 600 then (Inl ''HTTP status client error'', attempt) else (Inr (), attempt))
                else retry_from reply (attempt + 1) (Some (''HTTP status '' @ show_nat st))
            | HttpError e \<Rightarrow> retry_from reply (attempt + 1) (Some e)))"
  by pat_completeness auto
termination
  by (relation "measure (\<lambda>(reply, attempt, e). Suc delivery_attempts - attempt)") auto

declare retry_from.simps [simp del]

definition retry_status_request :: "(nat \<Rightarrow> http_reply) \<Rightarrow> (string + unit) \<times> nat" where
  "retry_status_request reply = retry_from reply 1 None"

definition trim_end_slash :: "string \<Rightarrow> string" where
  "trim_end_slash url = trim_end_matches (\<lambda>c. c = CHR ''/'') url"

text \<open>The request \<open>register_test_case\<close> posts: the timeout is fixed at 120 seconds.\<close>

definition registration_request ::
  "string \<Rightarrow> string \<Rightarrow> string \<Rightarrow> string \<Rightarrow> string option \<Rightarrow> int \<Rightarrow> RegisterTestCaseRequest" where
  "registration_request blue_green_ref inception_point test_id test_container_url verify_path_template now = \<lparr>
     rq_test_id = test_id,
     rq_blue_green_ref = blue_green_ref,
     rq_inception_point = inception_point,
     rq_triggered_at = Some now,
     rq_timeout_seconds = Some 120,
     rq_verify_url = map_option (\<lambda>path. trim_end_slash test_container_url @ render_path path test_id inception_point)
       verify_path_template\<rparr>"

definition notify_url :: "string \<Rightarrow> string \<Rightarrow> string \<Rightarrow> string \<Rightarrow> string" where
  "notify_url test_container_url notify_path test_id inception_point =
     trim_end_slash test_container_url @ render_path notify_path test_id inception_point"

section \<open>Properties\<close>

lemma movement_roles_distinct: "distinct movement_roles"
  by (simp add: movement_roles_def)

text \<open>Shifting traffic only ever adds to blue. A payload that is routed to blue at one traffic share is
  routed to blue at every larger share, so raising the share never moves a payload back; no payload goes to
  blue at 0 and every payload does at 100 percent.\<close>

theorem routes_to_blue_monotone:
  "(p \<le> q \<longrightarrow> routes_to_blue hash payload p \<longrightarrow> routes_to_blue hash payload q) \<and>
   \<not> routes_to_blue hash payload 0 \<and> (100 \<le> q \<longrightarrow> routes_to_blue hash payload q)"
  by (auto simp: routes_to_blue_def)

theorem routes_to_blue_monotone_witness:
  "routes_to_blue (\<lambda>_. 1234) [] 35 \<and> routes_to_blue (\<lambda>_. 1234) [] 50"
proof -
  have "routes_to_blue (\<lambda>_. 1234) [] 35" by (simp add: routes_to_blue_def)
  then show ?thesis using routes_to_blue_monotone [of 35 50 "\<lambda>_. 1234" "[]"] by simp
qed

text \<open>A queue plugin has one movement role. Selecting a worker succeeds exactly when at most one of the
  queue-moving roles is active; it is a combiner exactly for the combiner role and an input worker exactly
  for the other three, whatever observing roles come with it.\<close>

theorem queue_worker_role_exclusive:
  "((\<exists>w. queue_worker_role roles = Inr w) \<longleftrightarrow> card (set roles \<inter> set movement_roles) \<le> 1) \<and>
   (queue_worker_role roles = Inr (Some WorkerCombiner) \<longleftrightarrow> set roles \<inter> set movement_roles = {Combiner}) \<and>
   (queue_worker_role roles = Inr None \<longleftrightarrow> set roles \<inter> set movement_roles = {})"
proof -
  let ?active = "filter (\<lambda>role. role \<in> set roles) movement_roles"
  have "length ?active = card (set ?active)"
    by (rule distinct_card [symmetric]) (simp add: movement_roles_distinct)
  also have "set ?active = set roles \<inter> set movement_roles" by auto
  finally have len: "length ?active = card (set roles \<inter> set movement_roles)" .
  show ?thesis
    by (cases "Duplicator \<in> set roles"; cases "Splitter \<in> set roles"; cases "Combiner \<in> set roles";
        cases "Consumer \<in> set roles") (use len in \<open>auto simp: queue_worker_role_def movement_roles_def\<close>)
qed

lemma retry_from_bound:
  "attempt \<le> delivery_attempts \<Longrightarrow> attempt \<le> snd (retry_from reply attempt e) \<and> snd (retry_from reply attempt e) \<le> delivery_attempts"
proof (induction reply attempt e rule: retry_from.induct)
  case (1 reply attempt e)
  then show ?case
  proof (cases "attempt + 1 \<le> delivery_attempts")
    case True
    with 1 show ?thesis
      by (subst (1 2) retry_from.simps) (auto split: http_reply.splits intro: Suc_leD)
  next
    case False
    with 1 show ?thesis
      by (subst (1 2) retry_from.simps) (auto simp: retry_from.simps [of reply "Suc attempt"] split: http_reply.splits)
  qed
qed

definition retried :: "http_reply \<Rightarrow> bool" where
  "retried r = (case r of HttpStatus st \<Rightarrow> \<not> status_success st \<and> retryable_status st | HttpError e \<Rightarrow> True)"

lemma retry_from_skip:
  assumes "attempt \<le> n" and "n \<le> delivery_attempts" and "\<forall>k. attempt \<le> k \<and> k < n \<longrightarrow> retried (reply k)"
    and "reply n = HttpStatus st" and "status_success st"
  shows "retry_from reply attempt e = (Inr (), n)"
  using assms
proof (induction "n - attempt" arbitrary: attempt e)
  case 0
  then show ?case by (subst retry_from.simps) simp
next
  case (Suc d)
  then have r: "retried (reply attempt)" and next_attempt: "\<And>e. retry_from reply (attempt + 1) e = (Inr (), n)" by simp_all
  then show ?case
    using Suc.prems(1,2) by (subst retry_from.simps) (auto simp: retried_def split: http_reply.splits)
qed

text \<open>Deliveries are retried a bounded number of times. At least one and at most ten requests are sent; a
  delivery succeeds at the first attempt that is answered with success, when every earlier one failed in a way
  that is retried.\<close>

theorem delivery_retries_bounded:
  "1 \<le> snd (retry_status_request reply) \<and> snd (retry_status_request reply) \<le> 10 \<and>
   (\<forall>n st. 1 \<le> n \<and> n \<le> 10 \<and> (\<forall>k. 1 \<le> k \<and> k < n \<longrightarrow> retried (reply k)) \<and>
      reply n = HttpStatus st \<and> status_success st \<longrightarrow> retry_status_request reply = (Inr (), n))"
  using retry_from_bound [of 1 reply None] retry_from_skip [of 1 _ reply _ None]
  by (auto simp: retry_status_request_def delivery_attempts_def)

theorem delivery_retries_bounded_witness:
  "retry_status_request (\<lambda>k. if k < 3 then HttpStatus 503 else HttpStatus 200) = (Inr (), 3)"
proof -
  let ?r = "\<lambda>k :: nat. if k < 3 then HttpStatus 503 else HttpStatus 200"
  have "\<forall>k. 1 \<le> k \<and> k < 3 \<longrightarrow> retried (?r k)" by (simp add: retried_def status_success_def retryable_status_def)
  moreover have "?r 3 = HttpStatus 200" "status_success 200" by (simp_all add: status_success_def)
  moreover have "1 \<le> (3 :: nat) \<and> (3 :: nat) \<le> 10" by simp
  ultimately show ?thesis
    using delivery_retries_bounded [of ?r, THEN conjunct2, THEN conjunct2, THEN spec [of _ 3], THEN spec [of _ 200]] by blast
qed

end
