(* ===== verification/AuthTokens.thy ===== *)
theory AuthTokens
  imports Sdk
begin

text \<open>
  Bearer tokens and signed plugin tokens (\<open>src/sdk/rust/src/auth.rs\<close>). SHA-256, base64url and the JSON
  codec of the two token structs are third-party code: they are the fields of the parameter
  \<open>jwt_lib\<close>; what a statement relies on is a named hypothesis about it.
\<close>

record PluginAuthClaims =
  cl_iss :: string
  cl_aud :: string
  cl_namespace :: string
  cl_blue_green_ref :: string
  cl_blue_green_uid :: "string option"
  cl_inception_point :: string
  cl_plugin :: string

record JwtHeader =
  jh_alg :: string
  jh_typ :: string

record jwt_lib =
  jl_sha256 :: "bytes \<Rightarrow> bytes"
  jl_b64_encode :: "bytes \<Rightarrow> string"
  jl_b64_decode :: "string \<Rightarrow> bytes option"
  jl_header_to_json :: "JwtHeader \<Rightarrow> bytes"
  jl_header_from_json :: "bytes \<Rightarrow> JwtHeader option"
  jl_claims_to_json :: "PluginAuthClaims \<Rightarrow> bytes"
  jl_claims_from_json :: "bytes \<Rightarrow> PluginAuthClaims option"

definition plugin_auth_issuer :: string where
  "plugin_auth_issuer = ''fluidbg-operator''"

definition plugin_auth_audience :: string where
  "plugin_auth_audience = ''fluidbg-inception-plugin''"

definition claims_new :: "string \<Rightarrow> string \<Rightarrow> string \<Rightarrow> string \<Rightarrow> PluginAuthClaims" where
  "claims_new ns bg ip plugin = \<lparr>cl_iss = plugin_auth_issuer, cl_aud = plugin_auth_audience, cl_namespace = ns,
     cl_blue_green_ref = bg, cl_blue_green_uid = None, cl_inception_point = ip, cl_plugin = plugin\<rparr>"

definition claims_new_with_uid :: "string \<Rightarrow> string \<Rightarrow> string \<Rightarrow> string \<Rightarrow> string \<Rightarrow> PluginAuthClaims" where
  "claims_new_with_uid ns bg uid ip plugin = (claims_new ns bg ip plugin)\<lparr>cl_blue_green_uid := Some uid\<rparr>"

definition auth_token_from_env :: "env_vars \<Rightarrow> string option" where
  "auth_token_from_env env = optional_env env ''FLUIDBG_PLUGIN_AUTH_TOKEN''"

section \<open>Bearer tokens\<close>

definition bearer_value :: "string \<Rightarrow> string" where
  "bearer_value token = ''Bearer '' @ token"

definition bearer_token :: "string \<Rightarrow> string option" where
  "bearer_token header_value = strip_prefix ''Bearer '' header_value"

definition constant_time_eq :: "bytes \<Rightarrow> bytes \<Rightarrow> bool" where
  "constant_time_eq l r =
     (if length l \<noteq> length r then False
      else fold (\<lambda>(x, y) acc. acc OR (x XOR y)) (zip l r) 0 = 0)"

definition bearer_matches :: "string option \<Rightarrow> string option \<Rightarrow> bool" where
  "bearer_matches header_value expected_token =
     (case expected_token of
        None \<Rightarrow> False
      | Some expected \<Rightarrow>
          if expected = [] then False
          else (case header_value of
                  None \<Rightarrow> False
                | Some hv \<Rightarrow>
                    unwrap_or (map_option (\<lambda>actual. constant_time_eq (as_bytes actual) (as_bytes expected))
                      (bearer_token hv)) False))"

definition require_bearer_token :: "string option \<Rightarrow> string option \<Rightarrow> string + unit" where
  "require_bearer_token header_value expected_token =
     (if bearer_matches header_value expected_token then Inr () else Inl ''missing or invalid bearer token'')"

section \<open>Signed tokens\<close>

definition hmac_pad :: "u8 \<Rightarrow> bytes \<Rightarrow> bytes" where
  "hmac_pad c key_block = map (\<lambda>k. c XOR k) key_block"

definition hmac_key_block :: "jwt_lib \<Rightarrow> bytes \<Rightarrow> bytes" where
  "hmac_key_block lib key =
     (if length key > 64 then jl_sha256 lib key @ replicate 32 0 else key @ replicate (64 - length key) 0)"

definition hmac_sha256 :: "jwt_lib \<Rightarrow> bytes \<Rightarrow> bytes \<Rightarrow> bytes" where
  "hmac_sha256 lib key msg =
     (let key_block = hmac_key_block lib key;
          inner_hash = jl_sha256 lib (hmac_pad 0x36 key_block @ msg)
      in jl_sha256 lib (hmac_pad 0x5c key_block @ inner_hash))"

definition hs256_header :: JwtHeader where
  "hs256_header = \<lparr>jh_alg = ''HS256'', jh_typ = ''JWT''\<rparr>"

definition sign_plugin_auth_token :: "jwt_lib \<Rightarrow> PluginAuthClaims \<Rightarrow> bytes \<Rightarrow> string + string" where
  "sign_plugin_auth_token lib claims signing_key =
     (if signing_key = [] then Inl ''plugin auth signing key must not be empty''
      else let encoded_header = jl_b64_encode lib (jl_header_to_json lib hs256_header);
               encoded_claims = jl_b64_encode lib (jl_claims_to_json lib claims);
               signing_input = encoded_header @ ''.'' @ encoded_claims;
               signature = hmac_sha256 lib signing_key (as_bytes signing_input)
           in Inr (signing_input @ ''.'' @ jl_b64_encode lib signature))"

text \<open>The checks of \<open>verify_plugin_auth_token\<close> once the token has been cut into its three segments.\<close>

definition verify_segments :: "jwt_lib \<Rightarrow> string \<Rightarrow> string \<Rightarrow> string \<Rightarrow> bytes \<Rightarrow> string + PluginAuthClaims" where
  "verify_segments lib encoded_header encoded_claims encoded_signature signing_key =
     (case Option.bind (jl_b64_decode lib encoded_header) (jl_header_from_json lib) of
        None \<Rightarrow> Inl ''invalid JWT header''
      | Some header \<Rightarrow>
          if jh_alg header \<noteq> ''HS256'' \<or> jh_typ header \<noteq> ''JWT'' then Inl ''unsupported JWT header''
          else let expected = hmac_sha256 lib signing_key (as_bytes (encoded_header @ ''.'' @ encoded_claims))
               in case jl_b64_decode lib encoded_signature of
                    None \<Rightarrow> Inl ''invalid JWT signature encoding''
                  | Some actual \<Rightarrow>
                      if \<not> constant_time_eq actual expected then Inl ''JWT signature mismatch''
                      else (case Option.bind (jl_b64_decode lib encoded_claims) (jl_claims_from_json lib) of
                              None \<Rightarrow> Inl ''invalid JWT claims''
                            | Some claims \<Rightarrow>
                                if cl_iss claims \<noteq> plugin_auth_issuer \<or> cl_aud claims \<noteq> plugin_auth_audience
                                then Inl ''JWT issuer or audience mismatch''
                                else Inr claims))"

definition verify_plugin_auth_token :: "jwt_lib \<Rightarrow> string \<Rightarrow> bytes \<Rightarrow> string + PluginAuthClaims" where
  "verify_plugin_auth_token lib token signing_key =
     (if signing_key = [] then Inl ''plugin auth signing key must not be empty''
      else (case split_on (CHR ''.'') token of
              [] \<Rightarrow> Inl ''JWT header missing''
            | [h] \<Rightarrow> Inl ''JWT claims missing''
            | [h, c] \<Rightarrow> Inl ''JWT signature missing''
            | [h, c, s] \<Rightarrow> verify_segments lib h c s signing_key
            | _ \<Rightarrow> Inl ''JWT contains too many segments''))"

definition verify_manager_bearer_token :: "jwt_lib \<Rightarrow> string option \<Rightarrow> bytes \<Rightarrow> string + PluginAuthClaims" where
  "verify_manager_bearer_token lib header_value signing_key =
     (case header_value of
        None \<Rightarrow> Inl ''missing authorization header''
      | Some hv \<Rightarrow>
          (case bearer_token hv of
             None \<Rightarrow> Inl ''missing bearer token''
           | Some token \<Rightarrow> verify_plugin_auth_token lib token signing_key))"

definition manager_request_matches_claims :: "PluginManagerLifecycleRequest \<Rightarrow> PluginAuthClaims \<Rightarrow> bool" where
  "manager_request_matches_claims req claims \<longleftrightarrow>
     mr_namespace req = cl_namespace claims \<and> mr_blue_green_ref req = cl_blue_green_ref claims \<and>
     mr_inception_point req = cl_inception_point claims \<and> mr_plugin req = cl_plugin claims \<and>
     mr_blue_green_uid req = cl_blue_green_uid claims"

definition require_manager_request_matches_claims ::
  "PluginManagerLifecycleRequest \<Rightarrow> PluginAuthClaims \<Rightarrow> string + unit" where
  "require_manager_request_matches_claims req claims =
     (if manager_request_matches_claims req claims then Inr ()
      else Inl ''manager lifecycle request does not match token claims'')"

section \<open>Comparison in constant time\<close>

lemma or_xor_fold_zero:
  "length l = length r \<Longrightarrow>
   fold (\<lambda>(x, y) acc. acc OR (x XOR y)) (zip l r) (a :: u8) = 0 \<longleftrightarrow> a = 0 \<and> l = r"
proof (induction l r arbitrary: a rule: list_induct2)
  case (Cons x xs y ys)
  have "a OR (x XOR y) = 0 \<longleftrightarrow> a = 0 \<and> x = y"
    by (auto simp: bit_eq_iff bit_or_iff bit_xor_iff)
  with Cons show ?case by auto
qed simp

lemma constant_time_eq_iff: "constant_time_eq l r \<longleftrightarrow> l = r"
  using or_xor_fold_zero [of l r 0] by (auto simp: constant_time_eq_def)

lemma bearer_matches_iff:
  "bearer_matches hv expected \<longleftrightarrow> (\<exists>t. expected = Some t \<and> t \<noteq> [] \<and> hv = Some (bearer_value t))"
  by (auto simp: bearer_matches_def bearer_token_def bearer_value_def constant_time_eq_iff as_bytes_inj
      unwrap_or_def strip_prefix_Some split: option.splits)

section \<open>Signed tokens\<close>

lemma split_three:
  assumes "CHR ''.'' \<notin> set h" and "CHR ''.'' \<notin> set c" and "CHR ''.'' \<notin> set s"
  shows "split_on (CHR ''.'') (h @ ''.'' @ c @ ''.'' @ s) = [h, c, s]"
  using assms by (simp add: split_on_append_sep split_on_no_sep)

lemma split_three_iff:
  assumes "split_on (CHR ''.'') token = [h, c, s]"
  shows "token = h @ ''.'' @ c @ ''.'' @ s"
  using join_split_on [of "CHR ''.''" token] assms by simp

text \<open>What signing and verifying rely on, for the one header and the claims at hand: base64url decodes what it
  encoded and its alphabet has no dot; the JSON codec reads back what it wrote.\<close>

definition jwt_roundtrips :: "jwt_lib \<Rightarrow> PluginAuthClaims \<Rightarrow> bool" where
  "jwt_roundtrips lib claims \<longleftrightarrow>
     (\<forall>b. jl_b64_decode lib (jl_b64_encode lib b) = Some b \<and> CHR ''.'' \<notin> set (jl_b64_encode lib b)) \<and>
     jl_header_from_json lib (jl_header_to_json lib hs256_header) = Some hs256_header \<and>
     jl_claims_from_json lib (jl_claims_to_json lib claims) = Some claims"

lemma verify_segments_Inr:
  "verify_segments lib h c s key = Inr claims \<longleftrightarrow>
     Option.bind (jl_b64_decode lib h) (jl_header_from_json lib) = Some hs256_header \<and>
     jl_b64_decode lib s = Some (hmac_sha256 lib key (as_bytes (h @ ''.'' @ c))) \<and>
     Option.bind (jl_b64_decode lib c) (jl_claims_from_json lib) = Some claims \<and>
     cl_iss claims = plugin_auth_issuer \<and> cl_aud claims = plugin_auth_audience"
  by (auto simp: verify_segments_def hs256_header_def constant_time_eq_iff Let_def split: option.splits if_splits)

text \<open>What is signed verifies.\<close>

lemma sign_verify:
  assumes "jwt_roundtrips lib claims" and "key \<noteq> []"
    and "cl_iss claims = plugin_auth_issuer" and "cl_aud claims = plugin_auth_audience"
  shows "\<exists>token. sign_plugin_auth_token lib claims key = Inr token \<and> verify_plugin_auth_token lib token key = Inr claims"
proof -
  let ?h = "jl_b64_encode lib (jl_header_to_json lib hs256_header)"
  let ?c = "jl_b64_encode lib (jl_claims_to_json lib claims)"
  let ?s = "jl_b64_encode lib (hmac_sha256 lib key (as_bytes (?h @ ''.'' @ ?c)))"
  have "verify_segments lib ?h ?c ?s key = Inr claims"
    using assms by (simp add: verify_segments_Inr jwt_roundtrips_def)
  moreover have "split_on (CHR ''.'') (?h @ ''.'' @ ?c @ ''.'' @ ?s) = [?h, ?c, ?s]"
    using assms(1) by (intro split_three) (simp_all add: jwt_roundtrips_def)
  ultimately show ?thesis
    using assms(2) by (simp add: sign_plugin_auth_token_def verify_plugin_auth_token_def Let_def)
qed

section \<open>Properties\<close>

text \<open>Comparing in constant time is comparing. The bearer check accepts a header exactly when a non-empty
  token is expected and the header is \<open>Bearer\<close> followed by that very token.\<close>

theorem bearer_check_exact:
  "require_bearer_token header_value expected = Inr () \<longleftrightarrow>
     (\<exists>t. expected = Some t \<and> t \<noteq> [] \<and> header_value = Some (bearer_value t))"
  by (simp add: require_bearer_token_def bearer_matches_iff)

text \<open>A token the operator signs for an inception point is accepted by a plugin manager that holds the same
  key, and yields the very claims that were signed.\<close>

theorem token_roundtrip:
  assumes "jwt_roundtrips lib claims" and "key \<noteq> []"
    and "cl_iss claims = plugin_auth_issuer" and "cl_aud claims = plugin_auth_audience"
  shows "\<exists>token. sign_plugin_auth_token lib claims key = Inr token \<and>
    verify_manager_bearer_token lib (Some (bearer_value token)) key = Inr claims"
  using sign_verify [OF assms]
  by (auto simp: verify_manager_bearer_token_def bearer_token_def bearer_value_def)

text \<open>A concrete codec: two letters per byte.\<close>

definition hex_encode :: "bytes \<Rightarrow> string" where
  "hex_encode bs = concat (map (\<lambda>b. [char_of (97 + unat b div 16), char_of (97 + unat b mod 16)]) bs)"

fun hex_decode :: "string \<Rightarrow> bytes option" where
  "hex_decode [] = Some []"
| "hex_decode [c] = None"
| "hex_decode (c # d # s) =
     map_option ((#) (word_of_nat (16 * ((of_char c :: nat) - 97) + ((of_char d :: nat) - 97)))) (hex_decode s)"

lemma hex_roundtrip: "hex_decode (hex_encode bs) = Some bs"
proof (induction bs)
  case Nil
  then show ?case by (simp add: hex_encode_def)
next
  case (Cons b bs)
  have "unat b < 256" using unsigned_less [of b, where ?'a = nat] by simp
  then have "unat b div 16 < 16" by (simp add: less_mult_imp_div_less)
  then have "(of_char (char_of (97 + unat b div 16) :: char) :: nat) = 97 + unat b div 16"
    "(of_char (char_of (97 + unat b mod 16) :: char) :: nat) = 97 + unat b mod 16" by simp_all
  with Cons show ?case by (simp add: hex_encode_def)
qed

lemma hex_alphabet: "c \<in> set (hex_encode bs) \<Longrightarrow> 97 \<le> (of_char c :: nat)"
proof (induction bs)
  case (Cons b bs)
  have "unat b < 256" using unsigned_less [of b, where ?'a = nat] by simp
  then have "unat b div 16 < 16" by (simp add: less_mult_imp_div_less)
  with Cons show ?case by (auto simp: hex_encode_def)
qed (simp add: hex_encode_def)

lemma hex_no_dot: "CHR ''.'' \<notin> set (hex_encode bs)"
  using hex_alphabet [of "CHR ''.''" bs] by auto

definition toy_jwt :: "PluginAuthClaims \<Rightarrow> jwt_lib" where
  "toy_jwt claims = \<lparr>jl_sha256 = (\<lambda>b. replicate 32 (fold (+) b 0)), jl_b64_encode = hex_encode,
     jl_b64_decode = hex_decode, jl_header_to_json = (\<lambda>_. [1]), jl_header_from_json = (\<lambda>_. Some hs256_header),
     jl_claims_to_json = (\<lambda>_. [2]), jl_claims_from_json = (\<lambda>_. Some claims)\<rparr>"

lemma toy_jwt_roundtrips: "jwt_roundtrips (toy_jwt claims) claims"
  by (simp add: jwt_roundtrips_def toy_jwt_def hex_roundtrip hex_no_dot)

theorem token_roundtrip_witness:
  "\<exists>token. verify_manager_bearer_token (toy_jwt (claims_new ''ns'' ''bg'' ''ip'' ''http''))
     (Some (bearer_value token)) [1, 2, 3] = Inr (claims_new ''ns'' ''bg'' ''ip'' ''http'')"
  using token_roundtrip [OF toy_jwt_roundtrips, of "[1, 2, 3]" "claims_new ''ns'' ''bg'' ''ip'' ''http''"]
  by (auto simp: claims_new_def)

text \<open>C20: a manager acts on a request only for the inception point its caller was issued a token for. When a
  request passes both checks, the bearer token has three segments, the third decodes to the keyed hash of the
  first two under the manager's non-empty key, and the second decodes to claims of the operator that name the
  request's namespace, deployment, deployment UID, inception point and plugin.\<close>

theorem manager_auth_sound:
  assumes "verify_manager_bearer_token lib header_value key = Inr claims"
    and "require_manager_request_matches_claims req claims = Inr ()"
  shows "key \<noteq> [] \<and> (\<exists>h c s. header_value = Some (''Bearer '' @ h @ ''.'' @ c @ ''.'' @ s) \<and>
    jl_b64_decode lib s = Some (hmac_sha256 lib key (as_bytes (h @ ''.'' @ c))) \<and>
    Option.bind (jl_b64_decode lib c) (jl_claims_from_json lib) = Some claims) \<and>
    cl_iss claims = plugin_auth_issuer \<and> cl_aud claims = plugin_auth_audience \<and>
    mr_namespace req = cl_namespace claims \<and> mr_blue_green_ref req = cl_blue_green_ref claims \<and>
    mr_blue_green_uid req = cl_blue_green_uid claims \<and>
    mr_inception_point req = cl_inception_point claims \<and> mr_plugin req = cl_plugin claims"
proof -
  obtain token where t: "header_value = Some (''Bearer '' @ token)"
    "verify_plugin_auth_token lib token key = Inr claims"
    using assms(1) by (auto simp: verify_manager_bearer_token_def bearer_token_def strip_prefix_Some split: option.splits)
  then obtain h c s where "key \<noteq> []" "split_on (CHR ''.'') token = [h, c, s]"
    "verify_segments lib h c s key = Inr claims"
    by (auto simp: verify_plugin_auth_token_def split: if_splits list.splits)
  with t split_three_iff [of token h c s] assms(2) show ?thesis
    by (auto simp: verify_segments_Inr require_manager_request_matches_claims_def manager_request_matches_claims_def
        split: if_splits)
qed

definition sample_request :: PluginManagerLifecycleRequest where
  "sample_request = \<lparr>mr_namespace = ''ns'', mr_blue_green_ref = ''bg'', mr_blue_green_uid = None,
     mr_inception_point = ''ip'', mr_plugin = ''http'', mr_roles = [], mr_config = JNull, mr_active_inceptions = []\<rparr>"

theorem manager_auth_sound_witness:
  "\<exists>header. verify_manager_bearer_token (toy_jwt (claims_new ''ns'' ''bg'' ''ip'' ''http'')) (Some header) [7]
     = Inr (claims_new ''ns'' ''bg'' ''ip'' ''http'') \<and>
   (\<exists>h c s. header = ''Bearer '' @ h @ ''.'' @ c @ ''.'' @ s)"
proof -
  let ?claims = "claims_new ''ns'' ''bg'' ''ip'' ''http''"
  let ?sig = "hex_encode (hmac_sha256 (toy_jwt ?claims) [7] (as_bytes (hex_encode [1] @ ''.'' @ hex_encode [2])))"
  let ?header = "''Bearer '' @ hex_encode [1] @ ''.'' @ hex_encode [2] @ ''.'' @ ?sig"
  have sp: "split_on (CHR ''.'') (hex_encode [1] @ ''.'' @ hex_encode [2] @ ''.'' @ ?sig) = [hex_encode [1], hex_encode [2], ?sig]"
    by (intro split_three hex_no_dot)
  have "verify_segments (toy_jwt ?claims) (hex_encode [1]) (hex_encode [2]) ?sig [7] = Inr ?claims"
    by (simp add: verify_segments_Inr) (simp add: toy_jwt_def hex_roundtrip claims_new_def)
  with sp have v: "verify_manager_bearer_token (toy_jwt ?claims) (Some ?header) [7] = Inr ?claims"
    unfolding verify_manager_bearer_token_def bearer_token_def
    by (simp only: option.case strip_prefix_append verify_plugin_auth_token_def) simp
  moreover have "require_manager_request_matches_claims sample_request ?claims = Inr ()"
    by (simp add: require_manager_request_matches_claims_def manager_request_matches_claims_def sample_request_def claims_new_def)
  ultimately show ?thesis
    using manager_auth_sound [of "toy_jwt ?claims" "Some ?header" "[7]" ?claims sample_request] by blast
qed

end
