(* ===== verification/Tracker.thy ===== *)
theory Tracker
  imports MemoryStore PostgresStore AuthTokens
begin

text \<open>
  The background tracker (\<open>src/operator/src/inception.rs\<close>): polling the verifier for pending cases and
  timing out the expired ones, against any store. The verifier is a user-owned HTTP service: its
  answers are the parameter \<open>verifier\<close>, indexed by the number of requests sent before in the pass,
  the URL and the authorization header.
\<close>

datatype verifier_reply =
  SendError string
| Unparsable
| TestResult "bool option" "string option"

type_synonym verifier = "nat \<Rightarrow> string \<Rightarrow> string option \<Rightarrow> verifier_reply"

definition poll_header :: "TestCaseRecord \<Rightarrow> string option" where
  "poll_header run = (if tc_verifier_auth_token run = [] then None
     else Some (bearer_value (tc_verifier_auth_token run)))"

text \<open>The body of the loop over the pending cases: store errors are logged and otherwise ignored.\<close>

definition poll_run :: "'s StateStore \<Rightarrow> verifier_reply \<Rightarrow> TestCaseRecord \<Rightarrow> 's \<Rightarrow> 's" where
  "poll_run ops reply run s = (case reply of
     SendError e \<Rightarrow> s
   | TestResult (Some p) msg \<Rightarrow>
       snd (op_set_verdict ops (tc_blue_green_ref run) (tc_test_id run) p msg s)
   | TestResult None msg \<Rightarrow> s
   | Unparsable \<Rightarrow>
       if tc_verification_mode run = Custom then
         (case op_decrement_retries ops (tc_blue_green_ref run) (tc_test_id run) s of
            (Inr (Some remaining), s') \<Rightarrow> s'
          | (Inr None, s') \<Rightarrow> snd (op_set_verdict ops (tc_blue_green_ref run) (tc_test_id run) False
                               (Some ''custom verification retries exhausted'') s')
          | (Inl e, s') \<Rightarrow> s')
       else s)"

fun poll_runs :: "'s StateStore \<Rightarrow> verifier \<Rightarrow> nat \<Rightarrow> TestCaseRecord list \<Rightarrow> 's \<Rightarrow> 's" where
  "poll_runs ops verifier n [] s = s"
| "poll_runs ops verifier n (run # runs) s =
     poll_runs ops verifier (Suc n) runs
       (poll_run ops (verifier n (tc_verify_url run) (poll_header run)) run s)"

definition poll_pending :: "'s StateStore \<Rightarrow> verifier \<Rightarrow> 's \<Rightarrow> (StoreError + unit) \<times> 's" where
  "poll_pending ops verifier s = (case op_list_pending ops s of
     (Inl e, s') \<Rightarrow> (Inl e, s')
   | (Inr pending, s') \<Rightarrow> (Inr (), poll_runs ops verifier 0 pending s'))"

fun timeout_runs :: "'s StateStore \<Rightarrow> int \<Rightarrow> TestCaseRecord list \<Rightarrow> 's \<Rightarrow> 's" where
  "timeout_runs ops now [] s = s"
| "timeout_runs ops now (run # runs) s =
     timeout_runs ops now runs
       (if expires_at run < now
        then snd (op_mark_timed_out ops (tc_blue_green_ref run) (tc_test_id run) s) else s)"

definition check_timeouts :: "'s StateStore \<Rightarrow> int \<Rightarrow> 's \<Rightarrow> (StoreError + unit) \<times> 's" where
  "check_timeouts ops now s = (case op_list_pending ops s of
     (Inl e, s') \<Rightarrow> (Inl e, s')
   | (Inr pending, s') \<Rightarrow> (Inr (), timeout_runs ops now pending s'))"

text \<open>\<open>InceptionTracker::run\<close>: the loop serves poll ticks and timeout ticks in whatever order the timers
  fire; an error of a pass is logged and the loop goes on.\<close>

datatype tick = PollTick verifier | TimeoutTick int

fun tracker_tick :: "'s StateStore \<Rightarrow> tick \<Rightarrow> 's \<Rightarrow> 's" where
  "tracker_tick ops (PollTick v) s = snd (poll_pending ops v s)"
| "tracker_tick ops (TimeoutTick now) s = snd (check_timeouts ops now s)"

definition tracker_run :: "'s StateStore \<Rightarrow> tick list \<Rightarrow> 's \<Rightarrow> 's" where
  "tracker_run ops ticks s = fold (tracker_tick ops) ticks s"

section \<open>Against any store\<close>

text \<open>\<open>final_step m m'\<close>: a step of the tracker changes records only by finalizing pending ones or using up a
  retry; it registers and removes nothing.\<close>

definition final_step :: "store_map \<Rightarrow> store_map \<Rightarrow> bool" where
  "final_step m m' \<longleftrightarrow> keeps_final m m' \<and> dom m' = dom m"

lemma final_step_refl [simp]: "final_step m m"
  by (simp add: final_step_def)

lemma final_step_trans: "final_step a b \<Longrightarrow> final_step b c \<Longrightarrow> final_step a c"
  unfolding final_step_def using keeps_final_trans by blast

lemma final_step_finalize: "finalize_spec f bg i m = (res, m') \<Longrightarrow> final_step m m'"
  using keeps_final_finalize [of f bg i m res m']
  by (auto simp: final_step_def finalize_spec_def split: option.splits if_splits)

lemma final_step_decrement: "decrement_spec bg i m = (res, m') \<Longrightarrow> final_step m m'"
  using keeps_final_decrement [of bg i m res m']
  by (auto simp: final_step_def decrement_spec_def split: option.splits if_splits)

context state_store
begin

lemma set_verdict_final_step:
  assumes "invar s" "valid_ref bg"
  shows "invar (snd (op_set_verdict ops bg i p msg s)) \<and>
    final_step (abs s) (abs (snd (op_set_verdict ops bg i p msg s)))"
proof -
  obtain res s' where r: "op_set_verdict ops bg i p msg s = (res, s')" by fastforce
  from set_verdict_law [OF assms this] show ?thesis
    by (cases "is_fault res") (auto simp: r dest: final_step_finalize [OF sym])
qed

lemma mark_timed_out_final_step:
  assumes "invar s" "valid_ref bg"
  shows "invar (snd (op_mark_timed_out ops bg i s)) \<and>
    final_step (abs s) (abs (snd (op_mark_timed_out ops bg i s)))"
proof -
  obtain res s' where r: "op_mark_timed_out ops bg i s = (res, s')" by fastforce
  from mark_timed_out_law [OF assms this] show ?thesis
    by (cases "is_fault res") (auto simp: r dest: final_step_finalize [OF sym])
qed

lemma decrement_final_step:
  assumes "invar s" "valid_ref bg"
  shows "invar (snd (op_decrement_retries ops bg i s)) \<and>
    final_step (abs s) (abs (snd (op_decrement_retries ops bg i s)))"
proof -
  obtain res s' where r: "op_decrement_retries ops bg i s = (res, s')" by fastforce
  have "final_step (abs s) (snd (decrement_spec bg i (abs s)))"
    using final_step_decrement surjective_pairing by metis
  with decrement_law [OF assms r] show ?thesis
    by (cases "is_fault res") (simp_all add: r)
qed

lemma poll_run_final_step:
  assumes inv: "invar s" and ref: "valid_ref (tc_blue_green_ref run)"
  shows "invar (poll_run ops reply run s) \<and> final_step (abs s) (abs (poll_run ops reply run s))"
proof -
  let ?dec = "op_decrement_retries ops (tc_blue_green_ref run) (tc_test_id run) s"
  note dec = decrement_final_step [OF inv ref, of "tc_test_id run"]
  have seq: "invar (snd (op_set_verdict ops (tc_blue_green_ref run) (tc_test_id run) p msg (snd ?dec))) \<and>
      final_step (abs s) (abs (snd (op_set_verdict ops (tc_blue_green_ref run) (tc_test_id run) p msg (snd ?dec))))"
    for p msg
    using dec set_verdict_final_step [of "snd ?dec" "tc_blue_green_ref run"] ref final_step_trans by blast
  show ?thesis
    using inv dec seq set_verdict_final_step [OF inv ref]
    by (cases ?dec) (auto simp: poll_run_def split: verifier_reply.splits option.splits sum.splits)
qed

lemma poll_runs_final_step:
  assumes "invar s" and "\<forall>run \<in> set runs. valid_ref (tc_blue_green_ref run)"
  shows "invar (poll_runs ops v n runs s) \<and> final_step (abs s) (abs (poll_runs ops v n runs s))"
  using assms
proof (induction runs arbitrary: n s)
  case (Cons run runs)
  let ?s = "poll_run ops (v n (tc_verify_url run) (poll_header run)) run s"
  have "invar ?s \<and> final_step (abs s) (abs ?s)" using Cons.prems by (simp add: poll_run_final_step)
  moreover have "invar (poll_runs ops v (Suc n) runs ?s) \<and>
      final_step (abs ?s) (abs (poll_runs ops v (Suc n) runs ?s))"
    using Cons calculation by simp
  ultimately show ?case using final_step_trans by auto
qed simp

lemma timeout_runs_final_step:
  assumes "invar s" and "\<forall>run \<in> set runs. valid_ref (tc_blue_green_ref run)"
  shows "invar (timeout_runs ops now runs s) \<and> final_step (abs s) (abs (timeout_runs ops now runs s))"
  using assms
proof (induction runs arbitrary: s)
  case (Cons run runs)
  let ?s = "if expires_at run < now then snd (op_mark_timed_out ops (tc_blue_green_ref run) (tc_test_id run) s) else s"
  have "invar ?s \<and> final_step (abs s) (abs ?s)" using Cons.prems by (simp add: mark_timed_out_final_step)
  moreover have "invar (timeout_runs ops now runs ?s) \<and> final_step (abs ?s) (abs (timeout_runs ops now runs ?s))"
    by (rule Cons.IH) (use Cons.prems calculation in auto)
  ultimately show ?case using final_step_trans by auto
qed simp

lemma pending_refs_valid:
  assumes "invar s" and "op_list_pending ops s = (Inr pending, s')"
  shows "invar s' \<and> abs s' = abs s \<and> (\<forall>run \<in> set pending. valid_ref (tc_blue_green_ref run)) \<and>
    set pending = {r. is_pending r \<and> r \<in> ran (abs s)}"
  using list_pending_law [OF assms] abs_key [OF assms(1)]
  by (fastforce simp: ran_def tc_key_def)

lemma poll_pending_final_step:
  assumes "invar s"
  shows "invar (snd (poll_pending ops v s)) \<and> final_step (abs s) (abs (snd (poll_pending ops v s)))"
proof (cases "op_list_pending ops s")
  case (Pair res s')
  show ?thesis
  proof (cases res)
    case (Inl e)
    with Pair list_pending_law [OF assms] show ?thesis by (simp add: poll_pending_def)
  next
    case (Inr pending)
    with Pair pending_refs_valid [OF assms, of pending s'] poll_runs_final_step [of s' pending v 0]
    show ?thesis by (simp add: poll_pending_def)
  qed
qed

lemma check_timeouts_final_step:
  assumes "invar s"
  shows "invar (snd (check_timeouts ops now s)) \<and> final_step (abs s) (abs (snd (check_timeouts ops now s)))"
proof (cases "op_list_pending ops s")
  case (Pair res s')
  show ?thesis
  proof (cases res)
    case (Inl e)
    with Pair list_pending_law [OF assms] show ?thesis by (simp add: check_timeouts_def)
  next
    case (Inr pending)
    with Pair pending_refs_valid [OF assms, of pending s'] timeout_runs_final_step [of s' pending now]
    show ?thesis by (simp add: check_timeouts_def)
  qed
qed

lemma tracker_run_final_step:
  assumes "invar s"
  shows "invar (tracker_run ops ticks s) \<and> final_step (abs s) (abs (tracker_run ops ticks s))"
  using assms
proof (induction ticks arbitrary: s)
  case (Cons t ticks)
  have "invar (tracker_tick ops t s) \<and> final_step (abs s) (abs (tracker_tick ops t s))"
    using Cons.prems poll_pending_final_step check_timeouts_final_step by (cases t) auto
  moreover have "invar (tracker_run ops ticks (tracker_tick ops t s)) \<and>
      final_step (abs (tracker_tick ops t s)) (abs (tracker_run ops ticks (tracker_tick ops t s)))"
    using Cons calculation by simp
  ultimately show ?case using final_step_trans by (auto simp: tracker_run_def)
qed (simp add: tracker_run_def)

end

section \<open>Against a store whose calls do not fail\<close>

locale reliable_store = state_store +
  assumes list_pending_ok: "invar s \<Longrightarrow> \<not> is_fault (fst (op_list_pending ops s))"
    and mark_timed_out_ok: "invar s \<Longrightarrow> valid_ref bg \<Longrightarrow> \<not> is_fault (fst (op_mark_timed_out ops bg i s))"
    and set_verdict_ok: "invar s \<Longrightarrow> valid_ref bg \<Longrightarrow> \<not> is_fault (fst (op_set_verdict ops bg i p msg s))"
    and decrement_ok: "invar s \<Longrightarrow> valid_ref bg \<Longrightarrow> \<not> is_fault (fst (op_decrement_retries ops bg i s))"
begin

lemma set_verdict_exact:
  assumes "invar s" "valid_ref bg"
  shows "abs (snd (op_set_verdict ops bg i p msg s)) = snd (finalize_spec (verdict_of p msg) bg i (abs s))"
proof -
  obtain res s' where r: "op_set_verdict ops bg i p msg s = (res, s')" by fastforce
  with set_verdict_law [OF assms r] set_verdict_ok [OF assms, of i p msg] show ?thesis
    by (simp add: prod_eq_iff)
qed

lemma mark_timed_out_exact:
  assumes "invar s" "valid_ref bg"
  shows "abs (snd (op_mark_timed_out ops bg i s)) = snd (finalize_spec timed_out_of bg i (abs s))"
proof -
  obtain res s' where r: "op_mark_timed_out ops bg i s = (res, s')" by fastforce
  with mark_timed_out_law [OF assms r] mark_timed_out_ok [OF assms, of i] show ?thesis
    by (simp add: prod_eq_iff)
qed

text \<open>A pass of \<open>check_timeouts\<close> over a list of runs: what is pending afterwards was pending before,
  unchanged, and did not expire if it was on the list.\<close>

lemma timeout_runs_pending:
  assumes "invar s" and "\<forall>run \<in> set runs. valid_ref (tc_blue_green_ref run)"
    and "abs (timeout_runs ops now runs s) k = Some r" and "is_pending r"
  shows "abs s k = Some r \<and> (\<forall>run \<in> set runs. tc_key run = k \<longrightarrow> now \<le> expires_at run)"
  using assms
proof (induction runs arbitrary: s)
  case (Cons run runs)
  let ?s = "if expires_at run < now then snd (op_mark_timed_out ops (tc_blue_green_ref run) (tc_test_id run) s) else s"
  have inv: "invar ?s" using Cons.prems mark_timed_out_final_step by simp
  have IH: "abs ?s k = Some r \<and> (\<forall>run \<in> set runs. tc_key run = k \<longrightarrow> now \<le> expires_at run)"
    using Cons.IH [OF inv] Cons.prems by simp
  show ?case
  proof (cases "expires_at run < now")
    case True
    with IH Cons.prems have "snd (finalize_spec timed_out_of (tc_blue_green_ref run) (tc_test_id run) (abs s)) k = Some r"
      by (simp add: mark_timed_out_exact)
    moreover have "\<not> is_pending (timed_out_of x)" for x by (simp add: pending_or_finalized)
    ultimately have "abs s k = Some r" "tc_key run \<noteq> k"
      using Cons.prems(4) by (auto simp: finalize_spec_def tc_key_def split: option.splits if_splits)
    with IH show ?thesis by auto
  next
    case False
    with IH show ?thesis by auto
  qed
qed simp

lemma check_timeouts_complete:
  assumes "invar s" and "abs (snd (check_timeouts ops now s)) k = Some r" and "is_pending r"
  shows "now \<le> expires_at r"
proof (cases "op_list_pending ops s")
  case (Pair res s')
  have "\<exists>pending. res = Inr pending"
    using list_pending_law [OF assms(1) Pair] list_pending_ok [OF assms(1)] Pair by auto
  then obtain pending where "res = Inr pending" ..
  with Pair have l: "op_list_pending ops s = (Inr pending, s')" by simp
  note pv = pending_refs_valid [OF assms(1) l]
  have "abs (timeout_runs ops now pending s') k = Some r" using assms(2) l by (simp add: check_timeouts_def)
  with timeout_runs_pending [of s' pending now k r] pv assms(3)
  have "abs s k = Some r" and all: "\<forall>run \<in> set pending. tc_key run = k \<longrightarrow> now \<le> expires_at run" by auto
  from \<open>abs s k = Some r\<close> have "r \<in> ran (abs s)" by (rule ranI)
  with pv assms(3) have "r \<in> set pending" by auto
  moreover have "tc_key r = k" using abs_key [OF assms(1) \<open>abs s k = Some r\<close>] by simp
  ultimately show ?thesis using all by blast
qed

text \<open>A custom case whose verifier keeps answering nonsense uses up its retries one by one and is then failed.\<close>

lemma poll_unparsable:
  assumes inv: "invar s" and ref: "valid_ref (tc_blue_green_ref run)" and mode: "tc_verification_mode run = Custom"
    and r: "abs s (tc_key run) = Some r" "is_pending r"
  shows "abs (poll_run ops Unparsable run s) (tc_key run) = Some
    (if tc_retries_remaining r > 0 then r\<lparr>tc_retries_remaining := tc_retries_remaining r - 1\<rparr>
     else verdict_of False (Some ''custom verification retries exhausted'') r)"
proof -
  let ?bg = "tc_blue_green_ref run" and ?i = "tc_test_id run"
  obtain res s' where d: "op_decrement_retries ops ?bg ?i s = (res, s')" by fastforce
  have key: "tc_key run = (?bg, ?i)" by (simp add: tc_key_def)
  have law: "invar s'" "abs s' = snd (decrement_spec ?bg ?i (abs s))" "res = Inr (fst (decrement_spec ?bg ?i (abs s)))"
    using decrement_law [OF inv ref d] decrement_ok [OF inv ref, of ?i] d r(1) by (auto simp: key)
  show ?thesis
  proof (cases "tc_retries_remaining r > 0")
    case True
    with law r mode d show ?thesis by (simp add: poll_run_def decrement_spec_def key)
  next
    case False
    with law r key have "res = Inr None" "abs s' = abs s" by (auto simp: decrement_spec_def)
    with False law(1) r mode d ref show ?thesis
      by (simp add: poll_run_def set_verdict_exact finalize_spec_def key)
  qed
qed

lemma retries_counted:
  assumes "invar s" and "valid_ref (tc_blue_green_ref run)" and "tc_verification_mode run = Custom"
    and "abs s (tc_key run) = Some r" and "is_pending r" and "int k \<le> tc_retries_remaining r"
  shows "invar ((poll_run ops Unparsable run ^^ k) s) \<and>
    abs ((poll_run ops Unparsable run ^^ k) s) (tc_key run)
      = Some (r\<lparr>tc_retries_remaining := tc_retries_remaining r - int k\<rparr>)"
  using assms
proof (induction k)
  case (Suc k)
  let ?s = "(poll_run ops Unparsable run ^^ k) s" and ?r = "r\<lparr>tc_retries_remaining := tc_retries_remaining r - int k\<rparr>"
  have IH: "invar ?s" "abs ?s (tc_key run) = Some ?r" using Suc by simp_all
  have p: "is_pending ?r" using Suc.prems(5) by (simp add: is_pending_def)
  have "abs (poll_run ops Unparsable run ?s) (tc_key run) = Some (r\<lparr>tc_retries_remaining := tc_retries_remaining r - int (Suc k)\<rparr>)"
    using poll_unparsable [OF IH(1) Suc.prems(2,3) IH(2) p] Suc.prems(6) by (simp add: algebra_simps)
  moreover have "invar (poll_run ops Unparsable run ?s)"
    using poll_run_final_step [OF IH(1) Suc.prems(2)] by simp
  ultimately show ?case by simp
qed simp

lemma retries_exhausted:
  assumes "invar s" and "valid_ref (tc_blue_green_ref run)" and "tc_verification_mode run = Custom"
    and "abs s (tc_key run) = Some r" and "is_pending r" and "tc_retries_remaining r = int n"
  shows "\<exists>r'. abs ((poll_run ops Unparsable run ^^ Suc n) s) (tc_key run) = Some r' \<and>
    tc_status r' = Failed \<and> tc_verdict r' = Some False"
proof -
  let ?s = "(poll_run ops Unparsable run ^^ n) s" and ?r = "r\<lparr>tc_retries_remaining := 0\<rparr>"
  have c: "invar ?s" "abs ?s (tc_key run) = Some ?r"
    using retries_counted [of s run r n] assms by simp_all
  have "is_pending ?r" using assms(5) by (simp add: is_pending_def)
  with poll_unparsable [OF c(1) assms(2,3) c(2)] show ?thesis by simp
qed

end

interpretation mem_reliable: reliable_store "memory_ops slot" mem_abs mem_invar "\<lambda>_. True"
proof (unfold_locales, goal_cases)
  case (1 s) then show ?case by (simp add: memory_ops_def mem_list_pending_def)
next
  case (2 s bg i) then show ?case by (simp add: memory_ops_def mem_mark_timed_out_def split: option.splits)
next
  case (3 s bg i p msg) then show ?case by (simp add: memory_ops_def mem_set_verdict_def split: option.splits)
next
  case (4 s bg i) then show ?case by (simp add: memory_ops_def mem_decrement_retries_def split: option.splits)
qed

end
