(* ===== verification/StoreClients.thy ===== *)
theory StoreClients
  imports Tracker
begin

text \<open>
  What the clients of the state store rely on, stated of both backends
  (\<open>src/operator/src/state_store/memory.rs\<close>, \<open>src/operator/src/state_store/postgres.rs\<close>) and of the
  background tracker running on them: the two backends are interchangeable, a final verdict is never
  overwritten, counts are conserved, expired cases do not stay pending, and retries are bounded.
\<close>

section \<open>Sequences of store commands\<close>

datatype store_cmd =
  CmdRegister TestCaseRecord
| CmdVerdict string string bool "string option"
| CmdTimedOut string string
| CmdDecrement string string
| CmdCleanup string

fun cmd_ok :: "store_cmd \<Rightarrow> bool" where
  "cmd_ok (CmdRegister run) = (valid_ref (tc_blue_green_ref run) \<and> pg_storable run)"
| "cmd_ok (CmdVerdict bg i p msg) = valid_ref bg"
| "cmd_ok (CmdTimedOut bg i) = valid_ref bg"
| "cmd_ok (CmdDecrement bg i) = valid_ref bg"
| "cmd_ok (CmdCleanup bg) = valid_ref bg"

fun exec_cmd :: "'s StateStore \<Rightarrow> store_cmd \<Rightarrow> 's \<Rightarrow> bool \<times> 's" where
  "exec_cmd ops (CmdRegister run) s = map_prod is_fault id (op_register ops run s)"
| "exec_cmd ops (CmdVerdict bg i p msg) s = map_prod is_fault id (op_set_verdict ops bg i p msg s)"
| "exec_cmd ops (CmdTimedOut bg i) s = map_prod is_fault id (op_mark_timed_out ops bg i s)"
| "exec_cmd ops (CmdDecrement bg i) s = map_prod is_fault id (op_decrement_retries ops bg i s)"
| "exec_cmd ops (CmdCleanup bg) s = map_prod is_fault id (op_cleanup_blue_green ops bg s)"

text \<open>\<open>exec_cmds\<close> runs the commands in order; its flag says whether some call failed in the backend.\<close>

fun exec_cmds :: "'s StateStore \<Rightarrow> store_cmd list \<Rightarrow> 's \<Rightarrow> bool \<times> 's" where
  "exec_cmds ops [] s = (False, s)"
| "exec_cmds ops (c # cs) s =
     (let (f, s1) = exec_cmd ops c s; (g, s2) = exec_cmds ops cs s1 in (f \<or> g, s2))"

fun spec_cmd :: "store_cmd \<Rightarrow> store_map \<Rightarrow> store_map" where
  "spec_cmd (CmdRegister run) m = register_spec run m"
| "spec_cmd (CmdVerdict bg i p msg) m = snd (finalize_spec (verdict_of p msg) bg i m)"
| "spec_cmd (CmdTimedOut bg i) m = snd (finalize_spec timed_out_of bg i m)"
| "spec_cmd (CmdDecrement bg i) m = snd (decrement_spec bg i m)"
| "spec_cmd (CmdCleanup bg) m = drop_ref bg m"

locale client_store = state_store +
  assumes storable_pg: "pg_storable run \<Longrightarrow> storable run"
begin

lemma exec_cmd_refines:
  assumes "invar s" and "cmd_ok c" and "exec_cmd ops c s = (f, s')"
  shows "invar s' \<and> (\<not> f \<longrightarrow> abs s' = spec_cmd c (abs s)) \<and> (f \<longrightarrow> abs s' = abs s)"
proof (cases c)
  case (CmdRegister run)
  with assms storable_pg register_law [OF assms(1), of run] show ?thesis
    by (cases "op_register ops run s") (auto split: if_splits)
next
  case (CmdVerdict bg i p msg)
  with assms set_verdict_law [OF assms(1), of bg i p msg] show ?thesis
    by (cases "op_set_verdict ops bg i p msg s") (auto split: if_splits dest: sym)
next
  case (CmdTimedOut bg i)
  with assms mark_timed_out_law [OF assms(1), of bg i] show ?thesis
    by (cases "op_mark_timed_out ops bg i s") (auto split: if_splits dest: sym)
next
  case (CmdDecrement bg i)
  with assms decrement_law [OF assms(1), of bg i] show ?thesis
    by (cases "op_decrement_retries ops bg i s") (auto split: if_splits)
next
  case (CmdCleanup bg)
  with assms cleanup_law [OF assms(1), of bg] show ?thesis
    by (cases "op_cleanup_blue_green ops bg s") (auto split: if_splits)
qed

lemma exec_cmds_refines:
  assumes "invar s" and "list_all cmd_ok cs" and "exec_cmds ops cs s = (False, s')"
  shows "invar s' \<and> abs s' = fold spec_cmd cs (abs s)"
  using assms
proof (induction cs arbitrary: s)
  case (Cons c cs)
  obtain f s1 where c: "exec_cmd ops c s = (f, s1)" by fastforce
  obtain g s2 where cs: "exec_cmds ops cs s1 = (g, s2)" by fastforce
  have "\<not> f" "\<not> g" "s2 = s'" using Cons.prems(3) by (auto simp: c cs)
  moreover have "invar s1" "abs s1 = spec_cmd c (abs s)"
    using exec_cmd_refines [OF Cons.prems(1) _ c] Cons.prems(2) \<open>\<not> f\<close> by auto
  ultimately show ?case using Cons.IH [of s1] Cons.prems(2) cs by simp
qed simp

lemma counts_after_cmds:
  assumes "invar s" and "list_all cmd_ok cs" and "exec_cmds ops cs s = (False, s')"
    and "op_counts ops bg s' = (Inr c, s'')"
  shows "c = counts_spec (records_of (fold spec_cmd cs (abs s)) bg)"
  using exec_cmds_refines [OF assms(1-3)] counts_law [of s' bg "Inr c" s''] assms(4) by auto

end

interpretation mem_client: client_store "memory_ops slot" mem_abs mem_invar "\<lambda>_. True"
  by unfold_locales simp

interpretation pg_client: client_store postgres_ops pg_abs pg_invar pg_storable
  by unfold_locales simp

section \<open>Properties\<close>

definition sample_case :: "string \<Rightarrow> TestCaseRecord" where
  "sample_case i = \<lparr>tc_test_id = i, tc_blue_green_ref = ''ns/app'', tc_triggered_at = 0,
     tc_source_inception_point = ''ip'', tc_timeout = 60000000, tc_status = Triggered, tc_verdict = None,
     tc_verification_mode = Custom, tc_verify_url = ''http://verifier'', tc_verifier_auth_token = ''t'',
     tc_retries_remaining = 1, tc_failure_message = None\<rparr>"

lemmas sample_simps = sample_case_def record_key_def valid_ref_def pg_storable_def micros_per_second_def
  i32_range_def tc_key_def is_pending_def is_finalized_def expires_at_def

lemma mem_sample_invar: "mem_invar [(record_key ''ns/app'' ''a'', sample_case ''a'')]"
  by (simp add: mem_invar_def table_ok_def mem_values_def sample_simps)

lemma mem_sample_abs:
  "mem_abs [(record_key ''ns/app'' ''a'', sample_case ''a'')] (''ns/app'', ''a'') = Some (sample_case ''a'')"
  by (simp add: mem_abs_def table_map_def mem_values_def sample_simps)



text \<open>C21: a verdict is final. Whatever polls and timeout passes the tracker runs, in whatever order, with
  whatever verifier answers and database failures, no record that has passed, failed or timed out is
  changed or lost, and no record appears or disappears.\<close>

theorem tracker_keeps_verdicts:
  assumes "pg_invar db"
  shows "pg_invar (tracker_run postgres_ops ticks db) \<and>
    keeps_final (pg_abs db) (pg_abs (tracker_run postgres_ops ticks db)) \<and>
    dom (pg_abs (tracker_run postgres_ops ticks db)) = dom (pg_abs db)"
  using pg.tracker_run_final_step [OF assms, of ticks] by (simp add: final_step_def)

theorem tracker_keeps_verdicts_witness:
  "dom (pg_abs (tracker_run postgres_ops [TimeoutTick 90000000]
     \<lparr>pg_rows = [register_row (sample_case ''a'')], pg_faults = [False, True]\<rparr>)) = {(''ns/app'', ''a'')}"
proof -
  let ?db = "\<lparr>pg_rows = [register_row (sample_case ''a'')], pg_faults = [False, True]\<rparr>"
  have st: "pg_storable (sample_case ''a'')" by (simp add: sample_simps)
  note r = row_to_test_register [OF st]
  have "pg_invar ?db" using r
    by (simp add: pg_invar_def rows_invar_def table_ok_def pg_tests_def) (simp add: sample_simps)
  moreover have "dom (pg_abs ?db) = {(''ns/app'', ''a'')}"
    using r by (simp add: pg_abs_def pg_tests_def table_map_def) (simp add: sample_simps)
  ultimately show ?thesis using tracker_keeps_verdicts [of ?db "[TimeoutTick 90000000]"] by simp
qed

text \<open>Counts are conserved. For every rollout the passed, failed, timed-out and pending counts the
  in-memory store reports add up to the number of its records, and the store is unchanged by counting.\<close>

theorem mem_counts_conserved:
  assumes "mem_invar d"
  shows "\<exists>c. mem_counts bg d = (Inr c, d) \<and>
    counts_passed c + counts_failed c + counts_timed_out c + counts_pending c = int (card (records_of (mem_abs d) bg))"
proof -
  obtain c where c: "mem_counts bg d = (Inr c, d)" by (simp add: mem_counts_def)
  then have "c = counts_spec (records_of (mem_abs d) bg)"
    using mem.counts_law [of d undefined bg "Inr c" d] assms by (simp add: memory_ops_def)
  with c counts_spec_total [OF mem.finite_records_of [OF assms]] show ?thesis by simp
qed

theorem mem_counts_conserved_witness:
  "counts_pending (projr (fst (mem_counts ''ns/app'' [(record_key ''ns/app'' ''a'', sample_case ''a'')])))
   = int (card (records_of (mem_abs [(record_key ''ns/app'' ''a'', sample_case ''a'')]) ''ns/app''))"
  using mem_counts_conserved [OF mem_sample_invar, of "''ns/app''"]
  by (auto simp: mem_counts_def counts_for_runs_def default_counts_def count_status_def mem_values_def)
     (simp_all add: sample_simps)

text \<open>A timeout pass is complete. After one pass of the tracker at time \<open>now\<close> over the in-memory store,
  no record whose deadline lies before \<open>now\<close> is still pending.\<close>

theorem timeouts_complete:
  assumes "mem_invar d" and "mem_abs (snd (check_timeouts (memory_ops slot) now d)) k = Some r" and "is_pending r"
  shows "now \<le> expires_at r"
  using mem_reliable.check_timeouts_complete [OF assms] .

theorem timeouts_complete_witness:
  "(30000000 :: int) \<le> expires_at (sample_case ''a'')"
proof -
  let ?d = "[(record_key ''ns/app'' ''a'', sample_case ''a'')]"
  have "snd (check_timeouts (memory_ops (\<lambda>_ _. 0)) 30000000 ?d) = ?d"
    by (simp add: check_timeouts_def memory_ops_def mem_list_pending_def mem_values_def sample_simps)
  then show ?thesis
    using timeouts_complete [OF mem_sample_invar, of "\<lambda>_ _. 0" 30000000 "(''ns/app'', ''a'')" "sample_case ''a''"]
      mem_sample_abs by (simp add: is_pending_def) (simp add: sample_case_def)
qed

text \<open>Retries are bounded. A pending custom case with \<open>n\<close> retries left whose verifier only ever gives
  unparsable answers is failed, with verdict false, by the poll after the \<open>n\<close>-th.\<close>

theorem custom_retries_bounded:
  assumes "mem_invar d" and "valid_ref (tc_blue_green_ref run)" and "tc_verification_mode run = Custom"
    and "mem_abs d (tc_key run) = Some r" and "is_pending r" and "tc_retries_remaining r = int n"
  shows "\<exists>r'. mem_abs ((poll_run (memory_ops slot) Unparsable run ^^ Suc n) d) (tc_key run) = Some r' \<and>
    tc_status r' = Failed \<and> tc_verdict r' = Some False"
  using mem_reliable.retries_exhausted [OF assms] .

theorem custom_retries_bounded_witness:
  "\<exists>r'. mem_abs ((poll_run (memory_ops (\<lambda>_ _. 0)) Unparsable (sample_case ''a'') ^^ 2)
     [(record_key ''ns/app'' ''a'', sample_case ''a'')]) (''ns/app'', ''a'') = Some r' \<and> tc_status r' = Failed"
  using custom_retries_bounded [OF mem_sample_invar, of "sample_case ''a''" "sample_case ''a''" 1 "\<lambda>_ _. 0"]
    mem_sample_abs by (auto simp: numeral_2_eq_2) (auto simp: sample_simps)

text \<open>Registering a case twice. A registration that repeats one the store already merged changes
  nothing: after two identical registrations the Postgres store holds what it held after the first.\<close>

theorem pg_register_idempotent:
  assumes "pg_invar db" and "valid_ref (tc_blue_green_ref run)" and "pg_storable run"
    and "pg_register run db = (Inr (), db1)" and "pg_register run db1 = (Inr (), db2)"
  shows "pg_abs db2 = pg_abs db1"
proof -
  have 1: "pg_invar db1" "pg_abs db1 = register_spec run (pg_abs db)"
    using pg.register_law [of db run "Inr ()" db1] assms by (simp_all add: postgres_ops_def)
  have 2: "pg_abs db2 = register_spec run (pg_abs db1)"
    using pg.register_law [of db1 run "Inr ()" db2] 1(1) assms by (simp_all add: postgres_ops_def)
  have "tc_key run = k \<Longrightarrow> merge_registration run run = run" for k
    by (simp add: merge_registration_def)
  moreover have "merge_registration (merge_registration ex run) run = merge_registration ex run" for ex
    by (simp add: merge_registration_def)
  ultimately show ?thesis
    unfolding 2 1(2)
    by (auto simp: register_spec_def fun_eq_iff is_finalized_def merge_registration_def split: option.splits)
qed

theorem pg_register_idempotent_witness:
  "pg_abs (snd (pg_register (sample_case ''a'') (snd (pg_register (sample_case ''a'') \<lparr>pg_rows = [], pg_faults = []\<rparr>))))
   = pg_abs (snd (pg_register (sample_case ''a'') \<lparr>pg_rows = [], pg_faults = []\<rparr>))"
proof -
  let ?db = "\<lparr>pg_rows = [], pg_faults = []\<rparr>"
  have "fst (pg_register (sample_case ''a'') ?db) = Inr ()"
    "fst (pg_register (sample_case ''a'') (snd (pg_register (sample_case ''a'') ?db))) = Inr ()"
    by (simp_all add: pg_register_def pg_query_def Let_def)
  then show ?thesis
    using pg_register_idempotent [of ?db "sample_case ''a''" "snd (pg_register (sample_case ''a'') ?db)"
        "snd (pg_register (sample_case ''a'') (snd (pg_register (sample_case ''a'') ?db)))"]
    by (simp add: prod_eq_iff pg_invar_def rows_invar_def table_ok_def pg_tests_def sample_simps)
qed

end
