(* ===== verification/Float64.thy ===== *)
theory Float64
  imports Complex_Main "HOL-Library.Log_Nat"
begin

text \<open>
  The IEEE binary64 arithmetic the promotion decisions use: conversion of an \<open>i64\<close> to \<open>f64\<close> and the
  division of two \<open>f64\<close>. A finite \<open>f64\<close> is the rational number it denotes; \<open>rnd\<close> is rounding to the
  nearest representable number, ties to even, with 53 bits of precision and gradual underflow. Overflow
  to infinity lies beyond \<open>2 ^ 1024\<close> and cannot arise from quotients of 64-bit integers.
\<close>

definition rne :: "rat \<Rightarrow> int" where
  "rne x = (let f = \<lfloor>x\<rfloor>; d = x - of_int f in
     if d < 1 / 2 then f else if 1 / 2 < d then f + 1 else if even f then f else f + 1)"

text \<open>The binary exponent of a positive number: \<open>2 powi binexp r \<le> r < 2 powi (binexp r + 1)\<close>.\<close>

definition binexp :: "rat \<Rightarrow> int" where
  "binexp r = (if 1 \<le> r then bitlen \<lfloor>r\<rfloor> - 1 else - bitlen (\<lceil>1 / r\<rceil> - 1))"

definition ulpexp :: "rat \<Rightarrow> int" where
  "ulpexp r = max (binexp r) (- 1022) - 52"

definition rnd_pos :: "rat \<Rightarrow> rat" where
  "rnd_pos r = of_int (rne (r / 2 powi ulpexp r)) * 2 powi ulpexp r"

definition rnd :: "rat \<Rightarrow> rat" where
  "rnd r = (if r = 0 then 0 else if r < 0 then - rnd_pos (- r) else rnd_pos r)"

definition f64_of_int :: "int \<Rightarrow> rat" where
  "f64_of_int n = rnd (of_int n)"

definition f64_div :: "rat \<Rightarrow> rat \<Rightarrow> rat" where
  "f64_div x y = rnd (x / y)"

section \<open>Rounding to an integer\<close>

lemma rne_of_int [simp]: "rne (of_int n) = n"
  by (simp add: rne_def)

lemma rne_bounds: "\<lfloor>x\<rfloor> \<le> rne x" "rne x \<le> \<lfloor>x\<rfloor> + 1"
  by (simp_all add: rne_def Let_def)

lemma rne_mono: "x \<le> y \<Longrightarrow> rne x \<le> rne y"
proof (cases "\<lfloor>x\<rfloor> = \<lfloor>y\<rfloor>")
  case True
  moreover assume "x \<le> y"
  ultimately show ?thesis by (simp add: rne_def Let_def)
next
  case False
  moreover assume "x \<le> y"
  ultimately have "\<lfloor>x\<rfloor> + 1 \<le> \<lfloor>y\<rfloor>" using floor_mono [of x y] by simp
  with rne_bounds show ?thesis by (meson order_trans)
qed

section \<open>The exponent\<close>

lemma two_powi_nat: "0 \<le> e \<Longrightarrow> (2 :: rat) powi e = of_int (2 ^ nat e)"
  by (simp add: power_int_def)

lemma two_powi_mono: "a \<le> b \<Longrightarrow> (2 :: rat) powi a \<le> 2 powi b"
  by (rule power_int_increasing) simp_all

lemma bitlen_bounds_powi:
  assumes "0 < n"
  shows "2 powi (bitlen n - 1) \<le> (of_int n :: rat)" "(of_int n :: rat) + 1 \<le> 2 powi bitlen n"
proof -
  have b: "2 ^ nat (bitlen n - 1) \<le> n \<and> n < 2 ^ nat (bitlen n)" by (rule bitlen_bounds [OF assms])
  have "0 \<le> bitlen n" "bitlen n \<noteq> 0" using bitlen_eq_zero_iff [of n] bitlen_nonneg [of n] assms by auto
  then have "0 \<le> bitlen n - 1" by simp
  then show "2 powi (bitlen n - 1) \<le> (of_int n :: rat)" using b
    by (simp only: two_powi_nat of_int_le_iff)
  have "n + 1 \<le> 2 ^ nat (bitlen n)" using b by simp
  then have "(of_int (n + 1) :: rat) \<le> 2 powi bitlen n" using \<open>0 \<le> bitlen n\<close>
    by (simp only: two_powi_nat of_int_le_iff)
  then show "(of_int n :: rat) + 1 \<le> 2 powi bitlen n" by simp
qed

lemma binexp_bounds:
  assumes "0 < r"
  shows "2 powi binexp r \<le> r \<and> r < 2 powi (binexp r + 1)"
proof (cases "1 \<le> r")
  case True
  then have "0 < \<lfloor>r\<rfloor>" by simp
  note b = bitlen_bounds_powi [OF this]
  have "2 powi (bitlen \<lfloor>r\<rfloor> - 1) \<le> r" using b(1) of_int_floor_le order_trans by blast
  moreover have "r < 2 powi bitlen \<lfloor>r\<rfloor>" using b(2) floor_correct [of r] by (simp add: less_le_trans)
  ultimately show ?thesis using True by (simp add: binexp_def)
next
  case False
  let ?c = "\<lceil>1 / r\<rceil> - 1"
  have "1 < 1 / r" using False assms by simp
  then have "0 < ?c" by (simp add: less_ceiling_iff)
  note b = bitlen_bounds_powi [OF this]
  have "1 / r \<le> of_int ?c + 1" using ceiling_correct [of "1 / r"] by simp
  with b(2) have "1 / r \<le> 2 powi bitlen ?c" by (rule order_trans [rotated])
  then have le: "1 \<le> 2 powi bitlen ?c * r" using assms by (simp add: field_simps)
  have "2 powi (bitlen ?c - 1) < 1 / r" using b(1) ceiling_correct [of "1 / r"] by simp
  then have lt: "2 powi (bitlen ?c - 1) * r < 1" using assms by (simp add: field_simps)
  have "1 / 2 powi bitlen ?c \<le> r" using le by (simp add: field_simps)
  moreover have "r < 1 / 2 powi (bitlen ?c - 1)" using lt by (simp add: field_simps)
  moreover have "1 / 2 powi bitlen ?c = (2 :: rat) powi binexp r"
    using False by (simp add: binexp_def power_int_minus field_simps)
  moreover have "1 / 2 powi (bitlen ?c - 1) = (2 :: rat) powi (binexp r + 1)"
    using False by (simp add: binexp_def power_int_minus power_int_diff power_int_add field_simps)
  ultimately show ?thesis by simp
qed

lemma binexp_mono:
  assumes "0 < r" "r \<le> s"
  shows "binexp r \<le> binexp s"
proof (rule ccontr)
  assume "\<not> binexp r \<le> binexp s"
  then have "(2 :: rat) powi (binexp s + 1) \<le> 2 powi binexp r" by (intro two_powi_mono) simp
  with binexp_bounds [of r] binexp_bounds [of s] assms show False by linarith
qed

section \<open>Rounding\<close>

lemma rnd_pos_grid:
  assumes "0 \<le> k"
  shows "of_int (rne (2 powi (q + k) / 2 powi q)) * 2 powi q = (2 :: rat) powi (q + k)"
proof -
  have "(2 :: rat) powi (q + k) = of_int (2 ^ nat k) * 2 powi q"
    using power_int_add [of "2 :: rat" q k] two_powi_nat [OF assms] by (simp add: mult.commute)
  then have "(2 :: rat) powi (q + k) / 2 powi q = of_int (2 ^ nat k)" by simp
  then have "rne (2 powi (q + k) / 2 powi q) = 2 ^ nat k" by (simp only: rne_of_int)
  with \<open>(2 :: rat) powi (q + k) = _\<close> show ?thesis by simp
qed

lemma scaled_mono: "x \<le> y \<Longrightarrow> of_int (rne (x / 2 powi q)) * 2 powi q \<le> of_int (rne (y / 2 powi q)) * (2 :: rat) powi q"
  by (intro mult_right_mono) (simp_all add: rne_mono divide_right_mono)

lemma rnd_pos_mono:
  assumes "0 < r" "r \<le> s"
  shows "rnd_pos r \<le> rnd_pos s"
proof (cases "ulpexp r = ulpexp s")
  case True
  then show ?thesis using scaled_mono [OF assms(2), of "ulpexp s"] by (simp add: rnd_pos_def)
next
  case False
  let ?q = "ulpexp r" and ?e = "binexp s"
  have e: "max (binexp r) (- 1022) < max ?e (- 1022)"
    using False binexp_mono [OF assms] by (auto simp: ulpexp_def)
  then have s: "ulpexp s = ?e - 52" and q: "?q + 53 \<le> ?e" by (auto simp: ulpexp_def)
  have "r < 2 powi (binexp r + 1)" using binexp_bounds assms by simp
  also have "\<dots> \<le> 2 powi (?q + 53)" by (intro two_powi_mono) (simp add: ulpexp_def)
  finally have "rnd_pos r \<le> of_int (rne (2 powi (?q + 53) / 2 powi ?q)) * 2 powi ?q"
    unfolding rnd_pos_def by (intro scaled_mono) simp
  also have "\<dots> = 2 powi (?q + 53)" by (rule rnd_pos_grid) simp
  also have "\<dots> \<le> 2 powi ?e" using q by (rule two_powi_mono)
  also have "(2 :: rat) powi ?e = of_int (rne (2 powi ?e / 2 powi ulpexp s)) * 2 powi ulpexp s"
    using rnd_pos_grid [of 52 "ulpexp s"] s by simp
  also have "\<dots> \<le> rnd_pos s"
    unfolding rnd_pos_def using binexp_bounds assms by (intro scaled_mono) simp
  finally show ?thesis .
qed

lemma rnd_pos_nonneg: "0 \<le> r \<Longrightarrow> 0 \<le> rnd_pos r"
proof -
  assume "0 \<le> r"
  then have "rne 0 \<le> rne (r / 2 powi ulpexp r)" by (intro rne_mono) simp
  moreover have "rne 0 = 0" by (simp add: rne_def)
  ultimately show ?thesis by (simp add: rnd_pos_def)
qed

theorem rnd_mono: "r \<le> s \<Longrightarrow> rnd r \<le> rnd s"
  using rnd_pos_mono [of r s] rnd_pos_mono [of "- s" "- r"] rnd_pos_nonneg [of s] rnd_pos_nonneg [of "- r"]
  by (auto simp: rnd_def)

lemma rnd_int_exact:
  assumes "\<bar>n\<bar> \<le> 2 ^ 53"
  shows "f64_of_int n = of_int n"
proof -
  have pos: "rnd_pos (of_int m) = of_int m" if m: "0 < m" "m \<le> 2 ^ 53" for m
  proof -
    have ge: "0 \<le> binexp (of_int m)" using binexp_mono [of 1 "of_int m"] m by (simp add: binexp_def) (simp add: bitlen_def floorlog_def)
    have "bitlen (2 ^ 53) = 54" using bitlen_pow2 [of 1 53] by (simp add: bitlen_def floorlog_def)
    then have "binexp (of_int (2 ^ 53)) = 53" by (simp add: binexp_def)
    then have le: "ulpexp (of_int m) \<le> 1"
      using binexp_mono [of "of_int m" "of_int (2 ^ 53)"] m by (simp add: ulpexp_def)
    show ?thesis
    proof (cases "ulpexp (of_int m) \<le> 0")
      case True
      let ?k = "- ulpexp (of_int m)"
      have "(of_int m :: rat) / 2 powi ulpexp (of_int m) = of_int (m * 2 ^ nat ?k)"
        using True by (simp add: power_int_def field_simps)
      then have "rne (of_int m / 2 powi ulpexp (of_int m)) = m * 2 ^ nat ?k" by (simp only: rne_of_int)
      with \<open>_ = of_int (m * 2 ^ nat ?k)\<close> show ?thesis
        unfolding rnd_pos_def by (metis nonzero_eq_divide_eq power_int_not_zero zero_neq_numeral)
    next
      case False
      with le have u: "ulpexp (of_int m) = 1" by simp
      then have "binexp (of_int m) = 53" by (simp add: ulpexp_def)
      with binexp_bounds [of "of_int m"] m have "(of_int (2 ^ 53) :: rat) \<le> of_int m" by simp
      then have "2 ^ 53 \<le> m" by (simp only: of_int_le_iff)
      with m have "m = 2 ^ 53" by simp
      then have "(of_int m :: rat) / 2 powi ulpexp (of_int m) = of_int (2 ^ 52)" unfolding u by simp
      then have "rnd_pos (of_int m) = of_int (2 ^ 52) * 2 powi 1"
        unfolding rnd_pos_def u by (simp only: rne_of_int)
      with \<open>m = 2 ^ 53\<close> show ?thesis by simp
    qed
  qed
  show ?thesis
    using pos [of n] pos [of "- n"] assms by (auto simp: f64_of_int_def rnd_def)
qed

section \<open>Rates\<close>

text \<open>\<open>passed as f64 / total as f64\<close>.\<close>

definition f64_rate :: "int \<Rightarrow> int \<Rightarrow> rat" where
  "f64_rate p t = f64_div (f64_of_int p) (f64_of_int t)"

lemma f64_rate_exact:
  assumes "\<bar>p\<bar> \<le> 2 ^ 53" and "\<bar>t\<bar> \<le> 2 ^ 53"
  shows "f64_rate p t = rnd (of_int p / of_int t)"
  using assms by (simp add: f64_rate_def f64_div_def rnd_int_exact)

lemma f64_rate_mono:
  assumes "0 \<le> p" "p \<le> 2 ^ 53" "0 < t" "t \<le> 2 ^ 53" "0 \<le> p'" "p' \<le> 2 ^ 53" "0 < t'" "t' \<le> 2 ^ 53"
    and "p * t' \<le> p' * t"
  shows "f64_rate p t \<le> f64_rate p' t'"
proof -
  have "(of_int (p * t') :: rat) \<le> of_int (p' * t)" using assms(9) by (simp only: of_int_le_iff)
  then have "(of_int p :: rat) / of_int t \<le> of_int p' / of_int t'"
    using assms by (simp add: field_simps)
  then have "rnd (of_int p / of_int t) \<le> rnd (of_int p' / of_int t')" by (rule rnd_mono)
  with assms show ?thesis by (simp add: f64_rate_exact)
qed

end
