(* ===== verification/Promotion.thy ===== *)
theory Promotion
  imports MemoryStore Crd Float64
begin

text \<open>
  The promotion decision: the two strategies (\<open>src/operator/src/strategy\<close>), their combination with the
  custom criterion (\<open>src/operator/src/controller/promotion.rs\<close>) and the standalone evaluation of a
  rollout's counts (\<open>src/operator/src/evaluator.rs\<close>). A \<open>Box<dyn PromotionStrategy>\<close> is its
  \<open>decide\<close> function.
\<close>

datatype PromotionAction =
  ContinueObserving
| Promote
| Rollback
| AdvanceStep int int

definition counts_total :: "Counts \<Rightarrow> int" where
  "counts_total c = counts_passed c + counts_failed c + counts_timed_out c"

definition actual_rate :: "Counts \<Rightarrow> rat" where
  "actual_rate c = (if counts_total c > 0 then f64_rate (counts_passed c) (counts_total c) else 0)"

section \<open>Hard switch\<close>

record HardSwitchStrategy =
  hs_min_test_cases :: int
  hs_success_rate :: rat

text \<open>The default rate is the \<open>f64\<close> nearest to 0.98.\<close>

definition from_criteria :: "DataPromotionSpec \<Rightarrow> HardSwitchStrategy" where
  "from_criteria criteria = \<lparr>hs_min_test_cases = unwrap_or (dp_min_test_cases criteria) 100,
     hs_success_rate = unwrap_or (dp_success_rate criteria) (rnd (98 / 100))\<rparr>"

definition best_possible_rate :: "HardSwitchStrategy \<Rightarrow> Counts \<Rightarrow> rat option" where
  "best_possible_rate s c =
     (let best_total = counts_passed c + counts_failed c + counts_timed_out c + counts_pending c
      in if best_total < hs_min_test_cases s \<or> best_total = 0 then None
         else Some (f64_rate (counts_passed c + counts_pending c) best_total))"

definition hard_switch_decide :: "HardSwitchStrategy \<Rightarrow> Counts \<Rightarrow> int option \<Rightarrow> PromotionAction" where
  "hard_switch_decide s c current_step =
     (let total = counts_total c;
          finish = (if actual_rate c \<ge> hs_success_rate s then Promote else Rollback)
      in if counts_pending c > 0 then
           (if (case best_possible_rate s c of Some b \<Rightarrow> b < hs_success_rate s | None \<Rightarrow> False) then Rollback
            else if total < hs_min_test_cases s then ContinueObserving
            else finish)
         else if total < hs_min_test_cases s then ContinueObserving
         else finish)"

section \<open>Progressive\<close>

record ProgressiveStrategy =
  pg_steps :: "ProgressiveStep list"
  pg_rollback_on_step_failure :: bool

definition from_steps :: "ProgressiveStep list \<Rightarrow> bool \<Rightarrow> ProgressiveStrategy" where
  "from_steps steps rb = \<lparr>pg_steps = steps, pg_rollback_on_step_failure = rb\<rparr>"

definition best_possible_step_rate :: "Counts \<Rightarrow> rat" where
  "best_possible_step_rate c =
     (let best_total = counts_passed c + counts_failed c + counts_timed_out c + counts_pending c
      in if best_total = 0 then 0 else f64_rate (counts_passed c + counts_pending c) best_total)"

definition progressive_decide :: "ProgressiveStrategy \<Rightarrow> Counts \<Rightarrow> int option \<Rightarrow> PromotionAction" where
  "progressive_decide s c current_step =
     (let step_idx = as_usize (unwrap_or current_step 0)
      in if step_idx \<ge> length (pg_steps s) then Promote
         else
           let step = pg_steps s ! step_idx;
               total = counts_total c;
               finish =
                 (if actual_rate c < st_success_rate step then
                    (if pg_rollback_on_step_failure s then Rollback else ContinueObserving)
                  else if step_idx + 1 \<ge> length (pg_steps s) then Promote
                  else AdvanceStep (as_i32 (int (step_idx + 1)))
                         (st_traffic_percent (pg_steps s ! (step_idx + 1))))
           in if counts_pending c > 0 then
                (if pg_rollback_on_step_failure s \<and> best_possible_step_rate c < st_success_rate step then Rollback
                 else if total < st_observe_cases step then ContinueObserving
                 else finish)
              else if total < st_observe_cases step then ContinueObserving
              else finish)"

section \<open>The decision for a rollout\<close>

definition decide_custom_promotion :: "Counts \<Rightarrow> CustomPromotionSpec \<Rightarrow> PromotionAction" where
  "decide_custom_promotion c custom =
     (if counts_pending c > 0 then ContinueObserving
      else if counts_failed c > 0 \<or> counts_timed_out c > 0 then Rollback
      else if counts_passed c = 0 then ContinueObserving
      else Promote)"

definition promotion_strategy_for ::
  "BlueGreenDeployment \<Rightarrow> DataPromotionSpec \<Rightarrow> ReconcileError + (Counts \<Rightarrow> int option \<Rightarrow> PromotionAction)" where
  "promotion_strategy_for bgd data_promotion =
     (case spec_promotion (bgd_spec bgd) of
        None \<Rightarrow> Inl (InvalidSpec ''blue green deployment is missing promotion spec'')
      | Some promotion \<Rightarrow>
          (case strat_type (prom_strategy promotion) of
             HardSwitch \<Rightarrow> Inr (hard_switch_decide (from_criteria data_promotion))
           | Progressive \<Rightarrow>
               (case strat_progressive (prom_strategy promotion) of
                  None \<Rightarrow> Inl (InvalidSpec ''progressive strategy selected without steps'')
                | Some progressive \<Rightarrow>
                    Inr (progressive_decide
                      (from_steps (ps_steps progressive) (ps_rollback_on_step_failure progressive))))))"

text \<open>The final match of \<open>decide_promotion_action\<close>, arm by arm.\<close>

definition combine_actions ::
  "PromotionAction option \<Rightarrow> PromotionAction option \<Rightarrow> ReconcileError + PromotionAction" where
  "combine_actions data_action custom_action =
     (if data_action = Some Rollback \<or> custom_action = Some Rollback then Inr Rollback
      else if data_action = Some ContinueObserving \<or> custom_action = Some ContinueObserving
        then Inr ContinueObserving
      else (case (data_action, custom_action) of
              (Some (AdvanceStep step traffic), None) \<Rightarrow> Inr (AdvanceStep step traffic)
            | (Some Promote, Some Promote) \<Rightarrow> Inr Promote
            | (Some Promote, None) \<Rightarrow> Inr Promote
            | (None, Some Promote) \<Rightarrow> Inr Promote
            | (None, None) \<Rightarrow> Inl (InvalidSpec ''promotion must define at least one of data or custom'')
            | _ \<Rightarrow> Inr ContinueObserving))"

definition decide_promotion_action ::
  "BlueGreenDeployment \<Rightarrow> Counts \<Rightarrow> Counts \<Rightarrow> int option \<Rightarrow> ReconcileError + PromotionAction" where
  "decide_promotion_action bgd data_counts custom_counts current_step =
     (case spec_promotion (bgd_spec bgd) of
        None \<Rightarrow> Inl (InvalidSpec ''blue green deployment is missing promotion spec'')
      | Some promotion \<Rightarrow>
          (let custom_action = map_option (decide_custom_promotion custom_counts) (prom_custom promotion)
           in case prom_data promotion of
                None \<Rightarrow> combine_actions None custom_action
              | Some data \<Rightarrow>
                  (case promotion_strategy_for bgd data of
                     Inl e \<Rightarrow> Inl e
                   | Inr decide \<Rightarrow> combine_actions (Some (decide data_counts current_step)) custom_action)))"

definition validate_test_configuration :: "BlueGreenDeployment \<Rightarrow> ReconcileError + unit" where
  "validate_test_configuration bgd =
     (case spec_promotion (bgd_spec bgd) of
        None \<Rightarrow> if spec_test (bgd_spec bgd) = None then Inr ()
                 else Inl (InvalidSpec ''test requires a promotion spec'')
      | Some promotion \<Rightarrow>
          if prom_data promotion = None \<and> prom_custom promotion = None
          then Inl (InvalidSpec ''promotion must define at least one of data or custom'')
          else (case spec_test (bgd_spec bgd) of
                  None \<Rightarrow> Inr ()
                | Some test \<Rightarrow>
                    if svc_ports (test_service test) = []
                    then Inl (InvalidSpec (''test '' @ quoted (test_name test) @ '' service spec must define at least one port''))
                    else if test_data_verification test = None \<and> test_custom_verification test = None
                    then Inl (InvalidSpec (''test '' @ quoted (test_name test) @
                           '' must define at least one of dataVerification or customVerification''))
                    else if test_data_verification test \<noteq> None \<and> prom_data promotion = None
                    then Inl (InvalidSpec (''test '' @ quoted (test_name test) @
                           '' uses dataVerification but promotion.data is missing''))
                    else if test_custom_verification test \<noteq> None \<and> prom_custom promotion = None
                    then Inl (InvalidSpec (''test '' @ quoted (test_name test) @
                           '' uses customVerification but promotion.custom is missing''))
                    else Inr ()))"

definition has_splitter :: "BlueGreenDeployment \<Rightarrow> bool" where
  "has_splitter bgd = list_ex (\<lambda>ip. list_ex (\<lambda>r. r = Splitter) (pt_roles ip)) (spec_inception_points (bgd_spec bgd))"

definition initial_splitter_traffic_percent :: "BlueGreenDeployment \<Rightarrow> int option" where
  "initial_splitter_traffic_percent bgd =
     (if \<not> has_splitter bgd then None
      else (case spec_promotion (bgd_spec bgd) of
              None \<Rightarrow> None
            | Some promotion \<Rightarrow>
                (case strat_type (prom_strategy promotion) of
                   HardSwitch \<Rightarrow> Some 100
                 | Progressive \<Rightarrow>
                     (case strat_progressive (prom_strategy promotion) of
                        None \<Rightarrow> None
                      | Some progressive \<Rightarrow>
                          (case ps_steps progressive of [] \<Rightarrow> None | step # _ \<Rightarrow> Some (st_traffic_percent step))))))"

section \<open>Evaluation of a rollout\<close>

datatype EvaluationResult =
  InsufficientData
| EvalPassed rat int int
| EvalFailed rat int int

definition evaluate :: "'s StateStore \<Rightarrow> string \<Rightarrow> int \<Rightarrow> rat \<Rightarrow> 's \<Rightarrow> EvaluationResult \<times> 's" where
  "evaluate ops bg_ref min_test_cases success_rate s =
     (case op_counts ops bg_ref s of
        (Inl e, s') \<Rightarrow> (InsufficientData, s')
      | (Inr counts, s') \<Rightarrow>
          (let total = counts_total counts
           in if total < min_test_cases then (InsufficientData, s')
              else if actual_rate counts \<ge> success_rate
                then (EvalPassed (actual_rate counts) total (counts_passed counts), s')
                else (EvalFailed (actual_rate counts) total (counts_passed counts), s')))"

section \<open>Rates of counts\<close>

text \<open>Counts the stores report: non-negative, and few enough for every \<open>i64\<close> to be an exact \<open>f64\<close>.\<close>

definition counts_ok :: "Counts \<Rightarrow> bool" where
  "counts_ok c \<longleftrightarrow> 0 \<le> counts_passed c \<and> 0 \<le> counts_failed c \<and> 0 \<le> counts_timed_out c \<and> 0 \<le> counts_pending c \<and>
     counts_total c + counts_pending c \<le> 2 ^ 53"

text \<open>\<open>outcome_of c c'\<close>: \<open>c'\<close> arises from \<open>c\<close> when some of its pending cases reach a result.\<close>

definition outcome_of :: "Counts \<Rightarrow> Counts \<Rightarrow> bool" where
  "outcome_of c c' \<longleftrightarrow> counts_passed c \<le> counts_passed c' \<and> counts_failed c \<le> counts_failed c' \<and>
     counts_timed_out c \<le> counts_timed_out c' \<and> 0 \<le> counts_pending c' \<and>
     counts_total c' + counts_pending c' = counts_total c + counts_pending c"

lemma outcome_refl: "counts_ok c \<Longrightarrow> outcome_of c c"
  by (simp add: outcome_of_def counts_ok_def)

lemma rate_le_best:
  assumes "counts_ok c" and "outcome_of c c'" and "0 < counts_total c'"
  shows "actual_rate c' \<le> f64_rate (counts_passed c + counts_pending c) (counts_total c + counts_pending c)"
proof -
  let ?p = "counts_passed c" and ?p' = "counts_passed c'" and ?t' = "counts_total c'"
  let ?b = "?p + counts_pending c" and ?n = "counts_total c + counts_pending c"
  have b: "0 \<le> ?p" "?p \<le> ?p'" "?p' \<le> ?t'" "?t' \<le> ?n" "?n \<le> 2 ^ 53" "?b \<le> ?n" "0 \<le> ?b"
    using assms by (auto simp: counts_ok_def outcome_of_def counts_total_def)
  have d: "?p' + (?n - ?t') \<le> ?b" using assms by (auto simp: outcome_of_def counts_ok_def counts_total_def)
  have "?p' * ?n = ?p' * ?t' + ?p' * (?n - ?t')" by (simp add: algebra_simps)
  also have "\<dots> \<le> ?p' * ?t' + ?t' * (?n - ?t')" using b by (simp add: mult_right_mono)
  also have "\<dots> = (?p' + (?n - ?t')) * ?t'" by (simp add: algebra_simps)
  also have "\<dots> \<le> ?b * ?t'" using d assms(3) by (intro mult_right_mono) auto
  finally have m: "?p' * ?n \<le> ?b * ?t'" .
  have "f64_rate ?p' ?t' \<le> f64_rate ?b ?n"
  proof (rule f64_rate_mono [OF _ _ _ _ _ _ _ _ m])
    show "?p' \<le> 2 ^ 53" "?t' \<le> 2 ^ 53" "?b \<le> 2 ^ 53" "?n \<le> 2 ^ 53" using b(3-6) by (blast intro: order_trans)+
    show "0 < ?n" using b(4) assms(3) by (rule less_le_trans [rotated])
    show "0 \<le> ?p'" using b(1,2) by (rule order_trans)
  qed (fact assms(3) b(7))+
  with assms(3) show ?thesis by (simp add: actual_rate_def)
qed

lemma best_possible_rate_bound:
  assumes "counts_ok c" and "outcome_of c c'" and "0 < counts_total c'" and "best_possible_rate s c = Some b"
  shows "actual_rate c' \<le> b"
  using rate_le_best [OF assms(1-3)] assms(4)
  by (auto simp: best_possible_rate_def Let_def counts_total_def split: if_splits)

lemma hard_switch_cases:
  "hard_switch_decide s c cs =
    (if counts_pending c > 0 \<and> (\<exists>b. best_possible_rate s c = Some b \<and> b < hs_success_rate s) then Rollback
     else if counts_total c < hs_min_test_cases s then ContinueObserving
     else if hs_success_rate s \<le> actual_rate c then Promote else Rollback)"
  by (auto simp: hard_switch_decide_def Let_def split: option.splits)

lemma hard_switch_promote_iff:
  assumes "counts_ok c" and "0 < hs_min_test_cases s"
  shows "hard_switch_decide s c cs = Promote \<longleftrightarrow>
    hs_min_test_cases s \<le> counts_total c \<and> hs_success_rate s \<le> actual_rate c"
proof -
  have best: "hs_success_rate s \<le> b"
    if "hs_min_test_cases s \<le> counts_total c" "hs_success_rate s \<le> actual_rate c" "best_possible_rate s c = Some b" for b
    using best_possible_rate_bound [OF assms(1) outcome_refl [OF assms(1)] _ that(3)] that(1,2) assms(2) by simp
  have "\<not> (\<exists>b. best_possible_rate s c = Some b \<and> b < hs_success_rate s)"
    if "hs_min_test_cases s \<le> counts_total c" "hs_success_rate s \<le> actual_rate c"
    using best [OF that] not_le by blast
  then show ?thesis unfolding hard_switch_cases by (simp split: if_split)
qed

section \<open>Properties\<close>

definition sample_counts :: "int \<Rightarrow> int \<Rightarrow> int \<Rightarrow> Counts" where
  "sample_counts p f q = \<lparr>counts_passed = p, counts_failed = f, counts_timed_out = 0, counts_pending = q\<rparr>"

lemmas sample_counts_simps = sample_counts_def counts_ok_def outcome_of_def counts_total_def

text \<open>C17: the hard switch promotes exactly when the minimum number of cases has a result and the success rate
  meets the threshold. The shortcut that looks at the best rate the pending cases could still reach never
  blocks such a promotion, in spite of the rounding of the two floating-point quotients.\<close>

theorem hard_switch_promotes_iff:
  assumes "counts_ok c" and "0 < hs_min_test_cases s"
  shows "hard_switch_decide s c current_step = Promote \<longleftrightarrow>
    hs_min_test_cases s \<le> counts_total c \<and> hs_success_rate s \<le> f64_rate (counts_passed c) (counts_total c)"
  using hard_switch_promote_iff [OF assms] assms(2) by (auto simp: actual_rate_def)

theorem hard_switch_promotes_iff_witness:
  "hard_switch_decide \<lparr>hs_min_test_cases = 3, hs_success_rate = 4 / 5\<rparr> (sample_counts 4 0 1) None = Promote \<longleftrightarrow>
   4 / 5 \<le> f64_rate 4 4"
  using hard_switch_promotes_iff [of "sample_counts 4 0 1" "\<lparr>hs_min_test_cases = 3, hs_success_rate = 4 / 5\<rparr>"]
  by (simp add: sample_counts_simps)






definition custom_bgd :: BlueGreenDeployment where
  "custom_bgd = sample_bgd\<lparr>bgd_spec := default_spec\<lparr>spec_promotion := Some \<lparr>prom_data = None,
     prom_custom = Some \<lparr>cup_timeout_seconds = None, cup_retries = None\<rparr>,
     prom_strategy = \<lparr>strat_type = HardSwitch, strat_progressive = None\<rparr>\<rparr>\<rparr>\<rparr>"


text \<open>A configuration accepted by \<open>validate_test_configuration\<close> that has a promotion spec always gets a
  decision, unless it selects the progressive strategy and gives no steps for it.\<close>

theorem validated_spec_decides:
  assumes "validate_test_configuration bgd = Inr ()" and "spec_promotion (bgd_spec bgd) = Some promotion"
    and "strat_type (prom_strategy promotion) = HardSwitch \<or> strat_progressive (prom_strategy promotion) \<noteq> None"
  shows "\<exists>action. decide_promotion_action bgd data_counts custom_counts current_step = Inr action"
proof -
  have some: "prom_data promotion \<noteq> None \<or> prom_custom promotion \<noteq> None"
    using assms(1,2) by (auto simp: validate_test_configuration_def split: if_splits)
  have strategy: "\<exists>decide. promotion_strategy_for bgd data = Inr decide" for data
    using assms(2,3) by (cases "strat_type (prom_strategy promotion)") (auto simp: promotion_strategy_for_def)
  have combine: "\<exists>a. combine_actions x y = Inr a" if "x \<noteq> None \<or> y \<noteq> None" for x y
    using that by (auto simp: combine_actions_def split: option.splits PromotionAction.splits)
  show ?thesis
  proof (cases "prom_data promotion")
    case None
    with some assms(2) combine [of None] show ?thesis by (simp add: decide_promotion_action_def)
  next
    case (Some data)
    obtain decide where "promotion_strategy_for bgd data = Inr decide" using strategy by blast
    with Some assms(2) combine [of "Some (decide data_counts current_step)"] show ?thesis
      by (simp add: decide_promotion_action_def)
  qed
qed

theorem validated_spec_decides_witness:
  "\<exists>action. decide_promotion_action custom_bgd (sample_counts 0 0 0) (sample_counts 0 0 1) None = Inr action"
  using validated_spec_decides [of custom_bgd "the (spec_promotion (bgd_spec custom_bgd))"]
  by (simp add: custom_bgd_def validate_test_configuration_def default_spec_def)

text \<open>The evaluator and the hard switch agree. Once no case is pending, evaluating a rollout passes exactly
  when the hard switch with the same two parameters promotes it, and fails exactly when it rolls it back.\<close>

theorem evaluate_agrees_with_hard_switch:
  assumes "op_counts ops bg st = (Inr c, st')" and "counts_pending c = 0"
  shows "((\<exists>r t p. fst (evaluate ops bg (hs_min_test_cases s) (hs_success_rate s) st) = EvalPassed r t p) \<longleftrightarrow>
      hard_switch_decide s c cs = Promote) \<and>
    ((\<exists>r t p. fst (evaluate ops bg (hs_min_test_cases s) (hs_success_rate s) st) = EvalFailed r t p) \<longleftrightarrow>
      hard_switch_decide s c cs = Rollback)"
  using assms by (auto simp: evaluate_def hard_switch_cases Let_def)

theorem evaluate_agrees_with_hard_switch_witness:
  "(\<exists>r t p. fst (evaluate (memory_ops (\<lambda>_ _. 0)) ''ns/app'' 1 (1 / 2) []) = EvalPassed r t p) \<longleftrightarrow>
   hard_switch_decide \<lparr>hs_min_test_cases = 1, hs_success_rate = 1 / 2\<rparr> default_counts None = Promote"
  using evaluate_agrees_with_hard_switch [of "memory_ops (\<lambda>_ _. 0)" "''ns/app''" "[]" default_counts "[]"
      "\<lparr>hs_min_test_cases = 1, hs_success_rate = 1 / 2\<rparr>" None]
  by (simp add: memory_ops_def mem_counts_def mem_values_def counts_for_runs_def default_counts_def)

text \<open>With a data and a custom criterion together, a progressive rollout never advances a step: the
  decision for it is never \<open>AdvanceStep\<close>, whatever the counts.\<close>

theorem data_and_custom_never_advance:
  assumes "spec_promotion (bgd_spec bgd) = Some promotion" and "prom_custom promotion = Some custom"
  shows "decide_promotion_action bgd data_counts custom_counts current_step \<noteq> Inr (AdvanceStep step traffic)"
  using assms
  by (auto simp: decide_promotion_action_def combine_actions_def decide_custom_promotion_def Let_def
      split: option.splits sum.splits if_splits PromotionAction.splits)

theorem data_and_custom_never_advance_witness:
  "decide_promotion_action custom_bgd (sample_counts 9 0 0) (sample_counts 1 0 0) (Some 0) \<noteq> Inr (AdvanceStep 1 50)"
  using data_and_custom_never_advance [of custom_bgd "the (spec_promotion (bgd_spec custom_bgd))"
      "\<lparr>cup_timeout_seconds = None, cup_retries = None\<rparr>"]
  by (simp add: custom_bgd_def)

end
