(* ===== verification/Naming.thy ===== *)
theory Naming
  imports Crd
begin

text \<open>
  The names the operator and the SDK derive for Kubernetes objects, queues and identities:
  \<open>src/sdk/rust/src/resources.rs\<close>, the naming functions of \<open>src/operator/src/controller/lease.rs\<close>,
  \<open>src/operator/src/controller/resources.rs\<close>, \<open>src/operator/src/controller/deployments.rs\<close>,
  \<open>src/operator/src/plugins/reconciler.rs\<close> and \<open>src/operator/src/controller.rs\<close>.
  SHA-256 is the parameter \<open>sha\<close>.
\<close>

type_synonym sha256 = "bytes \<Rightarrow> bytes"

definition is_dash :: "char \<Rightarrow> bool" where
  "is_dash c = (c = CHR ''-'')"

definition hex_digit :: "nat \<Rightarrow> char" where
  "hex_digit n = (if n < 10 then char_of (48 + n) else char_of (87 + n))"

definition byte_hex :: "u8 \<Rightarrow> string" where
  "byte_hex b = [hex_digit (unat b div 16), hex_digit (unat b mod 16)]"

definition hex_digest :: "bytes \<Rightarrow> string" where
  "hex_digest bs = concat (map byte_hex bs)"

definition base36_char :: "u8 \<Rightarrow> char" where
  "base36_char b = (let v = unat b mod 36 in if v \<le> 9 then char_of (48 + v) else char_of (97 + (v - 10)))"

definition to_le_bytes :: "nat \<Rightarrow> bytes" where
  "to_le_bytes n = map (\<lambda>i. word_of_nat (n div 256 ^ i)) [0..<8]"

definition frame_parts :: "string list \<Rightarrow> bytes" where
  "frame_parts parts = concat (map (\<lambda>p. to_le_bytes (str_len p) @ as_bytes p) parts)"

text \<open>The cleaning loop shared by the two \<open>sanitize_dns_label\<close> functions and \<open>sanitize\<close>: letters and digits
  in lower case, every run of anything else as one dash.\<close>

fun dash_runs :: "bool \<Rightarrow> string \<Rightarrow> string" where
  "dash_runs last_was_dash [] = []"
| "dash_runs last_was_dash (c # cs) =
     (let l = to_ascii_lowercase c
      in if is_ascii_alphanumeric l then l # dash_runs False cs
         else if \<not> last_was_dash then CHR ''-'' # dash_runs True cs
         else dash_runs last_was_dash cs)"

definition sanitize_dns_label :: "string \<Rightarrow> string" where
  "sanitize_dns_label v = trim_matches is_dash (dash_runs False v)"

section \<open>Queues and identities (SDK)\<close>

definition stable_suffix :: "sha256 \<Rightarrow> string list \<Rightarrow> string" where
  "stable_suffix sha parts = take 16 (hex_digest (sha (frame_parts parts)))"

definition sanitize :: "string \<Rightarrow> string" where
  "sanitize v = (let trimmed = trim_matches is_dash (dash_runs False v)
     in if trimmed = [] then ''queue'' else take 38 trimmed)"

definition sanitize_identifier :: "string \<Rightarrow> string" where
  "sanitize_identifier v = filter is_ascii_alphanumeric (map to_ascii_lowercase v)"

definition sanitize_shadow_suffix :: "string \<Rightarrow> string" where
  "sanitize_shadow_suffix v = take 24 (filter (\<lambda>c. is_ascii_alphanumeric c \<or> c \<in> set ''-_.'') v)"

definition temporary_queue_identifier_token :: "sha256 \<Rightarrow> string \<Rightarrow> string option" where
  "temporary_queue_identifier_token sha v =
     (let normalized = sanitize_identifier v
      in if normalized = [] then None
         else let suffix = take 4 (stable_suffix sha [v]);
                  prefix_len = 10 - str_len suffix
              in Some (take prefix_len normalized @ suffix))"

definition temp_queue_kind :: "string \<Rightarrow> string" where
  "temp_queue_kind logical =
     (if logical = ''green-input'' then ''green-in''
      else if logical = ''blue-input'' then ''blue-in''
      else if logical = ''green-output'' then ''green-out''
      else if logical = ''blue-output'' then ''blue-out''
      else ''tmp'')"

definition derived_temp_queue_name_with_uid_and_identifier ::
  "sha256 \<Rightarrow> string \<Rightarrow> string \<Rightarrow> string \<Rightarrow> string \<Rightarrow> string \<Rightarrow> string \<Rightarrow> string option \<Rightarrow> string" where
  "derived_temp_queue_name_with_uid_and_identifier sha ns bg uid ip role logical tqi =
     (let identifier = Option.bind tqi (temporary_queue_identifier_token sha);
          suffix = stable_suffix sha [ns, bg, uid, ip, role, logical, unwrap_or identifier []]
      in case identifier of
           Some i \<Rightarrow> ''fluidbg-'' @ temp_queue_kind logical @ ''-'' @ i @ ''-'' @ suffix
         | None \<Rightarrow> ''fluidbg-'' @ temp_queue_kind logical @ ''-'' @ suffix)"

definition derived_temp_queue_name_with_uid ::
  "sha256 \<Rightarrow> string \<Rightarrow> string \<Rightarrow> string \<Rightarrow> string \<Rightarrow> string \<Rightarrow> string \<Rightarrow> string" where
  "derived_temp_queue_name_with_uid sha ns bg uid ip role logical =
     derived_temp_queue_name_with_uid_and_identifier sha ns bg uid ip role logical None"

definition derived_temp_queue_name :: "sha256 \<Rightarrow> string \<Rightarrow> string \<Rightarrow> string \<Rightarrow> string \<Rightarrow> string \<Rightarrow> string" where
  "derived_temp_queue_name sha ns bg ip role logical = derived_temp_queue_name_with_uid sha ns bg [] ip role logical"

definition stable_suffix_from_name :: "string \<Rightarrow> (string \<times> string) option" where
  "stable_suffix_from_name name =
     (case rsplit_once (CHR ''-'') name of
        None \<Rightarrow> None
      | Some (prefix, suffix) \<Rightarrow>
          if str_len suffix = 16 \<and> list_all is_ascii_hexdigit suffix then Some (prefix, suffix) else None)"

definition max_derived_queue_name_len :: nat where
  "max_derived_queue_name_len = 63"

definition derived_shadow_queue_name :: "string \<Rightarrow> string \<Rightarrow> string" where
  "derived_shadow_queue_name temp_queue_name shadow =
     (let shadow_suffix = sanitize_shadow_suffix shadow
      in if list_all (\<lambda>c. c \<in> set ''-_.'') shadow_suffix then temp_queue_name
         else if length temp_queue_name + length shadow_suffix \<le> max_derived_queue_name_len
         then temp_queue_name @ shadow_suffix
         else (case stable_suffix_from_name temp_queue_name of
                 Some (prefix, suffix) \<Rightarrow>
                   let budget = max (max_derived_queue_name_len - (length shadow_suffix + 1 + str_len suffix)) 1;
                       prefix' = take budget (trim_end_matches (\<lambda>c. c \<in> set ''-_.'') prefix)
                   in prefix' @ shadow_suffix @ ''-'' @ suffix
               | None \<Rightarrow>
                   let budget = max_derived_queue_name_len - length shadow_suffix
                   in take budget temp_queue_name @ shadow_suffix))"

definition derived_scoped_identity_name ::
  "sha256 \<Rightarrow> string \<Rightarrow> string \<Rightarrow> string \<Rightarrow> string \<Rightarrow> string \<Rightarrow> nat \<Rightarrow> string" where
  "derived_scoped_identity_name sha prefix ns bg uid ip max_len =
     (let suffix = stable_suffix sha [ns, bg, uid, ip];
          safe_prefix = sanitize prefix;
          budget = max (max_len - (str_len suffix + 2)) 1;
          readable = take budget (sanitize (ns @ ''-'' @ bg @ ''-'' @ ip))
      in take max_len (safe_prefix @ ''-'' @ readable @ ''-'' @ suffix))"

section \<open>Leases\<close>

definition short_hash :: "sha256 \<Rightarrow> string \<Rightarrow> string" where
  "short_hash sha v = hex_digest (take 5 (sha (as_bytes v)))"

fun dns_prefix_loop :: "nat \<Rightarrow> string \<Rightarrow> string \<Rightarrow> string" where
  "dns_prefix_loop max_len out [] = out"
| "dns_prefix_loop max_len out (c # cs) =
     (if str_len out \<ge> max_len then out
      else let mapped = (if is_ascii_alphanumeric c then to_ascii_lowercase c else CHR ''-'')
           in if is_dash mapped \<and> out \<noteq> [] \<and> last out = CHR ''-'' then dns_prefix_loop max_len out cs
              else dns_prefix_loop max_len (out @ [mapped]) cs)"

definition dns_label_prefix :: "string \<Rightarrow> nat \<Rightarrow> string" where
  "dns_label_prefix v max_len =
     (let trimmed = trim_matches is_dash (dns_prefix_loop max_len [] v)
      in if trimmed = [] then ''bgd'' else trimmed)"

definition lease_name :: "sha256 \<Rightarrow> string \<Rightarrow> string \<Rightarrow> string \<Rightarrow> string" where
  "lease_name sha prefix name discriminator =
     (let suffix = short_hash sha discriminator;
          max_name_len = 63 - (str_len prefix + str_len suffix + 2);
          normalized = dns_label_prefix name max_name_len
      in prefix @ ''-'' @ normalized @ ''-'' @ suffix)"

section \<open>Test and inception resources\<close>

definition bgd_name_or :: "string \<Rightarrow> BlueGreenDeployment \<Rightarrow> string" where
  "bgd_name_or d bgd = unwrap_or (md_name (bgd_metadata bgd)) d"

definition bgd_uid_or :: "string \<Rightarrow> BlueGreenDeployment \<Rightarrow> string" where
  "bgd_uid_or d bgd = unwrap_or (md_uid (bgd_metadata bgd)) d"

definition test_instance_name :: "sha256 \<Rightarrow> BlueGreenDeployment \<Rightarrow> string \<Rightarrow> string" where
  "test_instance_name sha bgd logical_name =
     (let bgd_name = bgd_name_or ''bgd'' bgd;
          bgd_uid = bgd_uid_or [] bgd;
          logical = sanitize_dns_label logical_name;
          logical' = (if logical = [] then ''test'' else logical);
          suffix = map base36_char (take 12 (sha (as_bytes (bgd_name @ '':'' @ bgd_uid @ '':'' @ logical_name))));
          max_base_len = 63 - (str_len ''fluidbg-test-'' + str_len suffix + 1)
      in ''fluidbg-test-'' @ take max_base_len logical' @ ''-'' @ suffix)"

definition verifier_auth_secret_name :: "sha256 \<Rightarrow> BlueGreenDeployment \<Rightarrow> string" where
  "verifier_auth_secret_name sha bgd =
     (let bgd_name = bgd_name_or ''bgd'' bgd;
          bgd_uid = bgd_uid_or [] bgd;
          suffix = hex_digest (take 6 (sha (as_bytes (bgd_name @ '':'' @ bgd_uid @ '':verifier-auth''))));
          max_name_len = 63 - (str_len ''fluidbg-verifier-auth-'' + str_len suffix + 1);
          safe = sanitize_dns_label bgd_name;
          safe_name = (if safe = [] then ''bgd'' else safe)
      in ''fluidbg-verifier-auth-'' @ take max_name_len safe_name @ ''-'' @ suffix)"

definition stable_name_suffix :: "sha256 \<Rightarrow> string list \<Rightarrow> string" where
  "stable_name_suffix sha parts = take 12 (hex_digest (sha (frame_parts parts)))"

definition inception_label :: "string \<Rightarrow> string" where
  "inception_label inception_point =
     (let ip = sanitize_dns_label inception_point in if ip = [] then ''ip'' else ip)"

definition inception_instance_base_name :: "sha256 \<Rightarrow> string \<Rightarrow> string \<Rightarrow> string" where
  "inception_instance_base_name sha bg ip =
     (let suffix = stable_name_suffix sha [bg, ip]; max_ip_len = 63 - (str_len ''fluidbg--'' + str_len suffix)
      in ''fluidbg-'' @ take max_ip_len (inception_label ip) @ ''-'' @ suffix)"

definition inception_service_name :: "sha256 \<Rightarrow> string \<Rightarrow> string \<Rightarrow> string" where
  "inception_service_name sha bg ip =
     (let suffix = stable_name_suffix sha [bg, ip]; max_ip_len = 63 - (str_len ''fluidbg---svc'' + str_len suffix)
      in ''fluidbg-'' @ take max_ip_len (inception_label ip) @ ''-'' @ suffix @ ''-svc'')"

definition inception_config_map_name :: "sha256 \<Rightarrow> string \<Rightarrow> string \<Rightarrow> string" where
  "inception_config_map_name sha bg ip =
     (let suffix = stable_name_suffix sha [bg, ip]; max_ip_len = 63 - (str_len ''fluidbg-config-'' + 1 + str_len suffix)
      in ''fluidbg-config-'' @ take max_ip_len (inception_label ip) @ ''-'' @ suffix)"

definition inception_auth_secret_name :: "sha256 \<Rightarrow> string \<Rightarrow> string \<Rightarrow> string" where
  "inception_auth_secret_name sha bg ip =
     (let suffix = stable_name_suffix sha [bg, ip]; max_ip_len = 63 - (str_len ''fluidbg-auth-'' + 1 + str_len suffix)
      in ''fluidbg-auth-'' @ take max_ip_len (inception_label ip) @ ''-'' @ suffix)"

section \<open>Candidates and snapshots\<close>

text \<open>\<open>&s[..n]\<close>: the prefix of \<open>n\<close> bytes; \<open>None\<close> stands for the panic on a cut inside a character.\<close>

fun byte_prefix :: "nat \<Rightarrow> string \<Rightarrow> string option" where
  "byte_prefix n [] = (if n = 0 then Some [] else None)"
| "byte_prefix n (c # cs) =
     (if n = 0 then Some []
      else if length (utf8_char c) \<le> n then map_option ((#) c) (byte_prefix (n - length (utf8_char c)) cs)
      else None)"

definition candidate_name_with_suffix :: "string \<Rightarrow> string \<Rightarrow> string option" where
  "candidate_name_with_suffix base suffix =
     (let max_base_len = 253 - (str_len suffix + 1)
      in if str_len base > max_base_len
         then map_option (\<lambda>b. b @ ''-'' @ suffix) (byte_prefix max_base_len base)
         else Some (base @ ''-'' @ suffix))"

definition deterministic_candidate_suffixes :: "sha256 \<Rightarrow> string \<Rightarrow> string list" where
  "deterministic_candidate_suffixes sha seed =
     map (\<lambda>attempt. map base36_char (take 6 (sha (as_bytes (seed @ '':'' @ show_nat attempt))))) [0..<32]"

definition rollout_spec_snapshot_name :: "sha256 \<Rightarrow> BlueGreenDeployment \<Rightarrow> string \<Rightarrow> string" where
  "rollout_spec_snapshot_name sha bgd namespace =
     (let name = bgd_name_or ''unknown'' bgd;
          uid = bgd_uid_or ''unknown'' bgd;
          suffix = hex_digest (take 6 (sha (as_bytes namespace @ as_bytes ''/'' @ as_bytes name @ as_bytes ''/'' @ as_bytes uid)));
          prefix_limit = 253 - (str_len suffix + 1);
          safe_name = map (\<lambda>c. if is_ascii_alphanumeric c \<or> is_dash c then to_ascii_lowercase c else CHR ''-'') name;
          truncated = take prefix_limit (trim_matches is_dash safe_name);
          base = (if truncated = [] then ''fluidbg-rollout'' else truncated)
      in base @ ''-'' @ suffix)"

definition blue_green_state_key :: "string \<Rightarrow> string \<Rightarrow> string" where
  "blue_green_state_key namespace name = namespace @ ''/'' @ name"

definition split_blue_green_state_key :: "string \<Rightarrow> ReconcileError + string \<times> string" where
  "split_blue_green_state_key key =
     (case split_once (CHR ''/'') key of
        None \<Rightarrow> Inl (Resource (''state key '' @ quoted key @ '' is not namespace-qualified''))
      | Some (namespace, name) \<Rightarrow> Inr (namespace, name))"

definition orphan_namespace :: "string \<Rightarrow> string option" where
  "orphan_namespace key = map_option fst (split_once (CHR ''/'') key)"

section \<open>Characters of generated names\<close>

definition dns_alnum :: "char \<Rightarrow> bool" where
  "dns_alnum c = (is_ascii_lowercase c \<or> is_ascii_digit c)"

definition dns_char :: "char \<Rightarrow> bool" where
  "dns_char c = (dns_alnum c \<or> c = CHR ''-'')"

text \<open>A DNS label as Kubernetes requires it of the name of a service.\<close>

definition dns_label :: "string \<Rightarrow> bool" where
  "dns_label s \<longleftrightarrow> s \<noteq> [] \<and> length s \<le> 63 \<and> list_all dns_char s \<and> dns_alnum (hd s) \<and> dns_alnum (last s)"

lemma of_char_nat [simp]: "n < 256 \<Longrightarrow> (of_char (char_of n :: char) :: nat) = n"
  by simp

lemma hex_digit_alnum [simp]: "n < 16 \<Longrightarrow> dns_alnum (hex_digit n)"
  by (auto simp: hex_digit_def dns_alnum_def is_ascii_lowercase_def is_ascii_digit_def Let_def)

lemma base36_alnum [simp]: "dns_alnum (base36_char b)"
proof -
  have "unat b mod 36 < 36" by simp
  then show ?thesis
    by (auto simp: base36_char_def dns_alnum_def is_ascii_lowercase_def is_ascii_digit_def Let_def)
qed

lemma byte_hex_alnum: "list_all dns_alnum (byte_hex b)"
proof -
  have "unat b < 256" using unsigned_less [of b, where ?'a = nat] by simp
  then have "unat b div 16 < 16" by (simp add: less_mult_imp_div_less)
  then show ?thesis by (simp add: byte_hex_def)
qed

lemma hex_digest_alnum [simp]: "list_all dns_alnum (hex_digest bs)"
  using byte_hex_alnum by (induction bs) (auto simp: hex_digest_def)

lemma length_hex_digest [simp]: "length (hex_digest bs) = 2 * length bs"
  by (induction bs) (auto simp: hex_digest_def byte_hex_def)

lemma list_all_take: "list_all P xs \<Longrightarrow> list_all P (take n xs)"
  by (metis append_take_drop_id list_all_append)

lemma alnum_dns_char: "list_all dns_alnum s \<Longrightarrow> list_all dns_char s"
  by (induction s) (auto simp: dns_char_def)

lemma lowercase_dns: "is_ascii_alphanumeric c \<Longrightarrow> dns_alnum (to_ascii_lowercase c)"
  using lowercase_alnum by (auto simp: dns_alnum_def)

lemma dash_runs_dns: "list_all dns_char (dash_runs b s)"
  by (induction b s rule: dash_runs.induct)
     (auto simp: Let_def dns_char_def lowercase_alnum_iff intro: lowercase_dns)

lemma list_all_trim: "list_all P s \<Longrightarrow> list_all P (trim_matches q s)"
  using set_trim_matches [of q s] by (auto simp: list_all_iff)

lemma sanitize_dns_label_dns: "list_all dns_char (sanitize_dns_label v)"
  unfolding sanitize_dns_label_def by (intro list_all_trim dash_runs_dns)

lemma dns_char_ascii: "dns_char c \<Longrightarrow> (of_char c :: nat) < 128"
  by (auto simp: dns_char_def dns_alnum_def is_ascii_lowercase_def is_ascii_digit_def Let_def)

lemma str_len_dns: "list_all dns_char s \<Longrightarrow> str_len s = length s"
  by (rule str_len_ascii) (auto simp: is_ascii_str_def list_all_iff dns_char_ascii)

lemma str_len_alnum: "list_all dns_alnum s \<Longrightarrow> str_len s = length s"
  by (intro str_len_dns alnum_dns_char)

lemma literal_dns [simp]:
  "dns_char (CHR ''-'')"
  by (simp add: dns_char_def)

text \<open>The common shape of the names: a prefix, a cleaned part cut to a budget, a dash and a suffix.\<close>

lemma dns_labelI:
  assumes "list_all dns_char prefix" "prefix \<noteq> []" "dns_alnum (hd prefix)"
    and "list_all dns_char body" and "list_all dns_char suffix" "suffix \<noteq> []" "dns_alnum (last suffix)"
    and "length prefix + length body + 1 + length suffix \<le> 63"
  shows "dns_label (prefix @ body @ ''-'' @ suffix)"
  using assms by (simp add: dns_label_def hd_append)

lemma last_alnum: "list_all dns_alnum s \<Longrightarrow> s \<noteq> [] \<Longrightarrow> dns_alnum (last s)"
  by (simp add: list_all_iff)

lemma dns_label_digest:
  assumes "list_all dns_alnum suffix" "0 < length suffix" and "list_all dns_char body"
    and "list_all dns_char prefix \<and> prefix \<noteq> [] \<and> dns_alnum (hd prefix)"
    and "length prefix + length body + 1 + length suffix \<le> 63"
  shows "dns_label (prefix @ body @ ''-'' @ suffix)"
  using assms alnum_dns_char last_alnum [of suffix] by (intro dns_labelI) auto

lemma stable_name_suffix_props:
  assumes "\<forall>b. length (sha b) = 32"
  shows "list_all dns_alnum (stable_name_suffix sha parts)" "length (stable_name_suffix sha parts) = 12"
  using assms by (simp_all add: stable_name_suffix_def list_all_take)

lemma inception_label_dns: "list_all dns_char (inception_label ip)"
  using sanitize_dns_label_dns [of ip]
  by (auto simp: inception_label_def Let_def dns_char_def dns_alnum_def is_ascii_lowercase_def)

lemmas dns_eval = dns_char_def dns_alnum_def is_ascii_lowercase_def is_ascii_digit_def

section \<open>Bounds on the loops\<close>

lemma dns_prefix_loop_dns:
  "list_all dns_char out \<Longrightarrow> list_all dns_char (dns_prefix_loop n out cs)"
  by (induction n out cs rule: dns_prefix_loop.induct)
     (auto simp: Let_def dns_char_def lowercase_dns)

lemma dns_prefix_loop_len:
  "list_all dns_char out \<Longrightarrow> length out \<le> n \<Longrightarrow> length (dns_prefix_loop n out cs) \<le> n"
proof (induction n out cs rule: dns_prefix_loop.induct)
  case (2 n out c cs)
  have "dns_char (if is_ascii_alphanumeric c then to_ascii_lowercase c else CHR ''-'')"
    by (auto simp: dns_char_def lowercase_dns)
  with 2 show ?case by (auto simp: Let_def str_len_dns)
qed simp

lemma length_trim: "length (trim_matches p s) \<le> length s"
  by (metis length_dropWhile_le length_rev order_trans trim_end_matches_def trim_matches_def trim_start_matches_def)

lemma dns_label_prefix_props:
  "list_all dns_char (dns_label_prefix v n)" "3 \<le> n \<Longrightarrow> length (dns_label_prefix v n) \<le> n"
proof -
  have d: "list_all dns_char (dns_prefix_loop n [] v)" by (rule dns_prefix_loop_dns) simp
  then show "list_all dns_char (dns_label_prefix v n)"
    by (auto simp: dns_label_prefix_def Let_def list_all_trim dns_eval)
  show "length (dns_label_prefix v n) \<le> n" if "3 \<le> n"
    using dns_prefix_loop_len [of "[]" n v] length_trim [of is_dash "dns_prefix_loop n [] v"] that
    by (simp add: dns_label_prefix_def Let_def)
qed

lemma short_hash_props:
  assumes "\<forall>b. length (sha b) = 32"
  shows "list_all dns_alnum (short_hash sha v)" "length (short_hash sha v) = 10"
  using assms by (simp_all add: short_hash_def)

section \<open>Properties\<close>

text \<open>C32: every Kubernetes object created for an inception point has a valid name. Whatever the rollout and the
  inception point are called, the names of the instance, its service, its configuration and its secret are DNS
  labels of at most 63 characters.\<close>

theorem inception_names_valid:
  assumes "\<forall>b. length (sha b) = 32"
  shows "dns_label (inception_instance_base_name sha bg ip) \<and> dns_label (inception_service_name sha bg ip) \<and>
    dns_label (inception_config_map_name sha bg ip) \<and> dns_label (inception_auth_secret_name sha bg ip)"
proof -
  let ?s = "stable_name_suffix sha [bg, ip]" and ?l = "inception_label ip"
  note s = stable_name_suffix_props [OF assms, of "[bg, ip]"]
  have sl: "str_len ?s = 12" using s by (simp add: str_len_alnum)
  have "?s \<noteq> []" using s(2) by auto
  then have suffix: "list_all dns_char ?s" "?s \<noteq> []" "dns_alnum (last ?s)"
    using s(1) by (simp_all add: alnum_dns_char last_alnum)
  have body: "list_all dns_char (take n ?l)" for n by (intro list_all_take inception_label_dns)
  have "dns_label (inception_instance_base_name sha bg ip)"
    unfolding inception_instance_base_name_def Let_def
    by (rule dns_labelI) (use body suffix s(2) in \<open>simp_all add: sl length_utf8_char dns_eval\<close>)
  moreover have "dns_label (''fluidbg-'' @ take 38 ?l @ ''-'' @ (?s @ ''-svc''))"
    by (rule dns_labelI) (use body suffix s(2) in \<open>simp_all add: dns_eval\<close>)
  moreover have "dns_label (inception_config_map_name sha bg ip)"
    unfolding inception_config_map_name_def Let_def
    by (rule dns_labelI) (use body suffix s(2) in \<open>simp_all add: sl length_utf8_char dns_eval\<close>)
  moreover have "dns_label (inception_auth_secret_name sha bg ip)"
    unfolding inception_auth_secret_name_def Let_def
    by (rule dns_labelI) (use body suffix s(2) in \<open>simp_all add: sl length_utf8_char dns_eval\<close>)
  ultimately show ?thesis by (simp add: inception_service_name_def Let_def sl length_utf8_char)
qed

theorem inception_names_valid_witness:
  "dns_label (inception_service_name (\<lambda>_. replicate 32 171) ''orders'' ''In Coming!'')"
  using inception_names_valid [of "\<lambda>_. replicate 32 171" "''orders''" "''In Coming!''"] by simp

text \<open>The test deployment, the verifier secret and the two kinds of lease have valid names too, whatever
  names the user chose.\<close>

theorem test_and_lease_names_valid:
  assumes "\<forall>b. length (sha b) = 32"
  shows "dns_label (test_instance_name sha bgd logical) \<and> dns_label (verifier_auth_secret_name sha bgd) \<and>
    dns_label (lease_name sha ''bgd'' name uid) \<and> dns_label (lease_name sha ''orphan'' name uid)"
proof -
  let ?t = "\<lambda>b. map base36_char (take 12 (sha b))" and ?v = "\<lambda>b. hex_digest (take 6 (sha b))" and ?h = "short_hash sha uid"
  have t: "list_all dns_alnum (?t b)" "length (?t b) = 12" for b using assms by (simp_all add: list_all_iff)
  have v: "list_all dns_alnum (?v b)" "length (?v b) = 12" for b using assms by simp_all
  note h = short_hash_props [OF assms, of uid]
  have tl: "str_len (?t b) = 12" and vl: "str_len (?v b) = 12" for b using t v by (simp_all add: str_len_alnum)
  have hl: "str_len ?h = 10" using h by (simp add: str_len_alnum)
  have pre: "list_all dns_char x \<and> x \<noteq> [] \<and> dns_alnum (hd x)"
    if "x \<in> {''fluidbg-test-'', ''fluidbg-verifier-auth-'', ''bgd-'', ''orphan-''}" for x
    using that by (auto simp: dns_eval)
  have sane: "list_all dns_char (if sanitize_dns_label x = [] then d else sanitize_dns_label x)"
    if "list_all dns_char d" for x d using that sanitize_dns_label_dns by auto
  have "dns_label (''fluidbg-test-'' @ take 37 body @ ''-'' @ ?t b)" if "list_all dns_char body" for body b
    by (rule dns_label_digest [OF t(1) _ list_all_take [OF that] pre]) (simp_all only: t(2), simp_all)
  then have "dns_label (test_instance_name sha bgd logical)"
    unfolding test_instance_name_def Let_def tl using sane [of "''test''"] by (simp add: length_utf8_char dns_eval)
  moreover have "dns_label (''fluidbg-verifier-auth-'' @ take 28 body @ ''-'' @ ?v b)" if "list_all dns_char body" for body b
    by (rule dns_label_digest [OF v(1) _ list_all_take [OF that] pre]) (simp_all only: v(2), simp_all)
  then have "dns_label (verifier_auth_secret_name sha bgd)"
    unfolding verifier_auth_secret_name_def Let_def vl using sane [of "''bgd''"] by (simp add: length_utf8_char dns_eval)
  moreover have "dns_label (''bgd-'' @ dns_label_prefix name 48 @ ''-'' @ ?h)"
    by (rule dns_label_digest [OF h(1) _ dns_label_prefix_props(1) pre]) (use h(2) dns_label_prefix_props(2) [of 48 name] in simp_all)
  moreover have "dns_label (''orphan-'' @ dns_label_prefix name 45 @ ''-'' @ ?h)"
    by (rule dns_label_digest [OF h(1) _ dns_label_prefix_props(1) pre]) (use h(2) dns_label_prefix_props(2) [of 45 name] in simp_all)
  ultimately show ?thesis
    using hl by (simp add: lease_name_def Let_def length_utf8_char)
qed

theorem test_and_lease_names_valid_witness:
  "dns_label (lease_name (\<lambda>_. replicate 32 171) ''bgd'' ''My.BGD_name'' ''uid-1'')"
  using test_and_lease_names_valid [of "\<lambda>_. replicate 32 171" sample_bgd "''t''" "''My.BGD_name''" "''uid-1''"] by simp

section \<open>Framing of hashed parts\<close>

lemma digits_inj:
  "n < 256 ^ k \<Longrightarrow> m < 256 ^ k \<Longrightarrow> (\<forall>i < k. n div 256 ^ i mod 256 = m div 256 ^ i mod (256 :: nat)) \<Longrightarrow> n = m"
proof (induction k arbitrary: n m)
  case (Suc k)
  have "n div 256 = m div 256"
  proof (rule Suc.IH)
    show "n div 256 < 256 ^ k" "m div 256 < 256 ^ k" using Suc.prems by (simp_all add: less_mult_imp_div_less mult.commute)
    show "\<forall>i < k. n div 256 div 256 ^ i mod 256 = m div 256 div 256 ^ i mod 256"
    proof (intro allI impI)
      fix i
      assume "i < k"
      with Suc.prems(3) have "n div 256 ^ Suc i mod 256 = m div 256 ^ Suc i mod 256" by blast
      then show "n div 256 div 256 ^ i mod 256 = m div 256 div 256 ^ i mod 256" by (simp add: div_mult2_eq)
    qed
  qed
  moreover have "n mod 256 = m mod 256" using Suc.prems(3) by (metis div_by_1 power_0 zero_less_Suc)
  ultimately show ?case by (metis div_mult_mod_eq)
qed simp

lemma length_to_le_bytes [simp]: "length (to_le_bytes n) = 8"
  by (simp add: to_le_bytes_def)

lemma to_le_bytes_inj:
  assumes "n < 2 ^ 64" and "m < 2 ^ 64" and "to_le_bytes n = to_le_bytes m"
  shows "n = m"
proof (rule digits_inj [of _ 8])
  show "n < 256 ^ 8" "m < 256 ^ 8" using assms by simp_all
  show "\<forall>i < 8. n div 256 ^ i mod 256 = m div 256 ^ i mod 256"
  proof (intro allI impI)
    fix i :: nat
    assume i: "i < 8"
    have "to_le_bytes n ! i = to_le_bytes m ! i" using assms(3) by simp
    with i have "(word_of_nat (n div 256 ^ i) :: u8) = word_of_nat (m div 256 ^ i)" by (simp add: to_le_bytes_def)
    then show "n div 256 ^ i mod 256 = m div 256 ^ i mod 256" by (simp add: word_unat_eq_iff unat_of_nat)
  qed
qed

lemma frame_parts_inj:
  assumes "\<forall>p \<in> set ps. str_len p < 2 ^ 64" and "\<forall>p \<in> set qs. str_len p < 2 ^ 64"
    and "frame_parts ps = frame_parts qs"
  shows "ps = qs"
  using assms
proof (induction ps arbitrary: qs)
  case Nil
  then show ?case by (cases qs) (auto simp: frame_parts_def dest: arg_cong [of _ _ length])
next
  case (Cons p ps)
  then obtain q qs' where qs: "qs = q # qs'"
    by (cases qs) (auto simp: frame_parts_def dest: arg_cong [of _ _ length])
  have eq: "to_le_bytes (str_len p) @ as_bytes p @ frame_parts ps = to_le_bytes (str_len q) @ as_bytes q @ frame_parts qs'"
    using Cons.prems(3) by (simp add: frame_parts_def qs)
  then have "to_le_bytes (str_len p) = to_le_bytes (str_len q)" by simp
  then have "str_len p = str_len q"
    using Cons.prems(1,2) qs by (auto intro: to_le_bytes_inj)
  with eq have "as_bytes p = as_bytes q \<and> frame_parts ps = frame_parts qs'" by (simp add: str_len_def)
  with Cons.IH [of qs'] Cons.prems(1,2) qs show ?case by (simp add: as_bytes_inj)
qed

section \<open>Further bounds\<close>

lemma stable_suffix_len: "length (stable_suffix sha parts) \<le> 16"
  by (simp add: stable_suffix_def)

lemma stable_suffix_ascii: "is_ascii_str (take n (stable_suffix sha parts))"
proof -
  have "list_all dns_char (take n (stable_suffix sha parts))"
    unfolding stable_suffix_def by (intro list_all_take alnum_dns_char hex_digest_alnum)
  then show ?thesis by (auto simp: is_ascii_str_def list_all_iff dns_char_ascii)
qed

lemma identifier_token_len:
  "temporary_queue_identifier_token sha v = Some t \<Longrightarrow> length t \<le> 10"
  by (auto simp: temporary_queue_identifier_token_def Let_def str_len_ascii stable_suffix_ascii split: if_splits)

lemma temp_queue_kind_len: "length (temp_queue_kind logical) \<le> 9"
  by (simp add: temp_queue_kind_def)

lemma byte_prefix_ascii: "is_ascii_str s \<Longrightarrow> n \<le> length s \<Longrightarrow> byte_prefix n s = Some (take n s)"
proof (induction n s rule: byte_prefix.induct)
  case (2 n c cs)
  then show ?case by (cases n) (auto simp: length_utf8_char)
qed simp

text \<open>Different inputs are hashed differently. The length-prefixed encoding of the parts of a derived name
  is injective: two derived queue names share their hash only if the hash function itself collides on
  different inputs, never because parts run into each other.\<close>

theorem derived_names_hash_distinct_inputs:
  assumes "\<forall>p \<in> set ps. str_len p < 2 ^ 64" and "\<forall>p \<in> set qs. str_len p < 2 ^ 64" and "ps \<noteq> qs"
  shows "\<exists>b c. b \<noteq> c \<and> stable_suffix sha ps = take 16 (hex_digest (sha b)) \<and>
    stable_suffix sha qs = take 16 (hex_digest (sha c))"
  using frame_parts_inj [OF assms(1,2)] assms(3) by (auto simp: stable_suffix_def)

theorem derived_names_hash_distinct_inputs_witness:
  "\<exists>b c. b \<noteq> c \<and> stable_suffix (\<lambda>b. b) [''ab'', ''c''] = take 16 (hex_digest b) \<and>
    stable_suffix (\<lambda>b. b) [''a'', ''bc''] = take 16 (hex_digest c)"
  using derived_names_hash_distinct_inputs [of "[''ab'', ''c'']" "[''a'', ''bc'']" "\<lambda>b. b"]
  by (simp add: length_utf8_char)

text \<open>Derived queue names fit. A temporary queue name has at most 45 characters; a shadow queue name whose
  suffix has a letter or digit has at most 63, and when the two parts fit together it is the queue's name followed
  by the cleaned suffix.\<close>

theorem queue_names_bounded:
  "length (derived_temp_queue_name_with_uid_and_identifier sha ns bg uid ip role logical tqi) \<le> 45 \<and>
   (\<not> list_all (\<lambda>c. c \<in> set ''-_.'') (sanitize_shadow_suffix shadow) \<longrightarrow>
      length (derived_shadow_queue_name queue shadow) \<le> 63 \<and>
      (length queue + length (sanitize_shadow_suffix shadow) \<le> 63 \<longrightarrow>
         derived_shadow_queue_name queue shadow = queue @ sanitize_shadow_suffix shadow))"
proof -
  let ?id = "Option.bind tqi (temporary_queue_identifier_token sha)"
  let ?s = "stable_suffix sha [ns, bg, uid, ip, role, logical, unwrap_or ?id []]"
  have "length (derived_temp_queue_name_with_uid_and_identifier sha ns bg uid ip role logical tqi) \<le> 45"
  proof (cases ?id)
    case None
    with stable_suffix_len [of sha "[ns, bg, uid, ip, role, logical, unwrap_or ?id []]"] temp_queue_kind_len [of logical]
    show ?thesis by (simp add: derived_temp_queue_name_with_uid_and_identifier_def)
  next
    case (Some i)
    then have "length i \<le> 10" by (auto simp: bind_eq_Some_conv identifier_token_len)
    with Some stable_suffix_len [of sha "[ns, bg, uid, ip, role, logical, unwrap_or ?id []]"] temp_queue_kind_len [of logical]
    show ?thesis by (simp add: derived_temp_queue_name_with_uid_and_identifier_def)
  qed
  moreover have "str_len s = 16 \<and> length s \<le> 16" if "stable_suffix_from_name queue = Some (p, s)" for p s
    using that length_le_str_len [of s] by (auto simp: stable_suffix_from_name_def split: option.splits if_splits)
  moreover have "length (sanitize_shadow_suffix shadow) \<le> 24" by (simp add: sanitize_shadow_suffix_def)
  ultimately show ?thesis
    by (auto simp: derived_shadow_queue_name_def max_derived_queue_name_len_def Let_def split: option.splits)
qed

theorem queue_names_bounded_witness:
  "length (derived_shadow_queue_name ''orders'' ''_dlq'') \<le> 63"
  using queue_names_bounded [of undefined undefined undefined undefined undefined undefined undefined undefined "''_dlq''" "''orders''"]
  by (simp add: sanitize_shadow_suffix_def is_ascii_alphanumeric_def is_ascii_lowercase_def)


text \<open>Candidate deployment names are valid. For an ASCII base, as Kubernetes object names are, building the name
  does not panic, keeps the suffix, and yields at most 253 characters.\<close>

theorem candidate_name_bounded:
  assumes "is_ascii_str base" and "suffix \<in> set (deterministic_candidate_suffixes sha seed)"
  shows "\<exists>prefix. candidate_name_with_suffix base suffix = Some (prefix @ ''-'' @ suffix) \<and>
    length (prefix @ ''-'' @ suffix) \<le> 253 \<and> (length base \<le> 246 \<longrightarrow> prefix = base)"
proof -
  have "list_all dns_alnum suffix" and l: "length suffix \<le> 6"
    using assms(2) by (auto simp: deterministic_candidate_suffixes_def list_all_iff)
  then have sl: "str_len suffix = length suffix" by (simp add: str_len_alnum)
  show ?thesis
  proof (cases "length base > 253 - (length suffix + 1)")
    case True
    then show ?thesis
      using assms(1) byte_prefix_ascii [of base "253 - (length suffix + 1)"] l sl
      by (auto simp: candidate_name_with_suffix_def Let_def str_len_ascii)
  next
    case False
    then show ?thesis using assms(1) l sl by (auto simp: candidate_name_with_suffix_def Let_def str_len_ascii)
  qed
qed

theorem candidate_name_bounded_witness:
  "\<exists>prefix. candidate_name_with_suffix ''orders'' (hd (deterministic_candidate_suffixes (\<lambda>_. replicate 32 7) ''s''))
     = Some (prefix @ ''-'' @ hd (deterministic_candidate_suffixes (\<lambda>_. replicate 32 7) ''s''))"
proof -
  have "deterministic_candidate_suffixes (\<lambda>_. replicate 32 7) ''s'' \<noteq> []" by (simp add: deterministic_candidate_suffixes_def)
  then have "hd (deterministic_candidate_suffixes (\<lambda>_. replicate 32 7) ''s'') \<in> set (deterministic_candidate_suffixes (\<lambda>_. replicate 32 7) ''s'')"
    by (rule hd_in_set)
  then show ?thesis using candidate_name_bounded [of "''orders''"] by fastforce
qed

text \<open>State keys round-trip. Splitting the key of a rollout gives back its namespace and name, and the keys of
  two rollouts are equal only when both parts are.\<close>

theorem state_key_roundtrip:
  assumes "CHR ''/'' \<notin> set namespace"
  shows "split_blue_green_state_key (blue_green_state_key namespace name) = Inr (namespace, name) \<and>
    orphan_namespace (blue_green_state_key namespace name) = Some namespace"
  using assms by (simp add: split_blue_green_state_key_def blue_green_state_key_def orphan_namespace_def split_once_append)

theorem state_key_roundtrip_witness:
  "split_blue_green_state_key (blue_green_state_key ''shop'' ''orders'') = Inr (''shop'', ''orders'')"
  using state_key_roundtrip [of "''shop''" "''orders''"] by simp

end
