(* ===== verification/Validation.thy ===== *)
theory Validation
  imports Crd Sdk
begin

text \<open>
  Validation of plugin usage (\<open>src/operator/src/validation.rs\<close>), configuration schemas
  (\<open>src/operator/src/plugins/schema.rs\<close>) and configuration templates
  (\<open>src/operator/src/plugins/template.rs\<close>). The JSON-schema engine, the \<open>Debug\<close> form of a list of strings
  and the decimal form of a float are parameters.
\<close>

definition role_name :: "PluginRole \<Rightarrow> string" where
  "role_name role = (case role of
     Duplicator \<Rightarrow> ''duplicator'' | Splitter \<Rightarrow> ''splitter'' | Combiner \<Rightarrow> ''combiner'' | Observer \<Rightarrow> ''observer''
   | Mock \<Rightarrow> ''mock'' | Writer \<Rightarrow> ''writer'' | Consumer \<Rightarrow> ''consumer'')"

definition role_list :: "PluginRole list \<Rightarrow> string" where
  "role_list roles = join '', '' (map role_name roles)"

fun first_duplicate :: "PluginRole list \<Rightarrow> PluginRole option" where
  "first_duplicate [] = None"
| "first_duplicate (role # rest) = (if role \<in> set rest then Some role else first_duplicate rest)"

definition validate_roles :: "PluginRole list \<Rightarrow> PluginRole list \<Rightarrow> string + unit" where
  "validate_roles available selected =
     (if selected = [] then Inl ''inception point must select at least one role''
      else (case first_duplicate selected of
              Some role \<Rightarrow> Inl (''role '' @ quoted (role_name role) @ '' is selected more than once'')
            | None \<Rightarrow>
                (case List.find (\<lambda>role. role \<notin> set available) selected of
                   Some role \<Rightarrow> Inl (''role '' @ quoted (role_name role) @
                     '' is not supported by the selected plugin; supported roles: '' @ role_list available)
                 | None \<Rightarrow> Inr ())))"

definition active_of_group :: "PluginRole list \<Rightarrow> MutuallyExclusiveRoleGroup \<Rightarrow> PluginRole list" where
  "active_of_group selected g = filter (\<lambda>role. role \<in> set selected) (mx_roles g)"

definition validate_role_constraints :: "PluginRole list \<Rightarrow> PluginRoleConstraints option \<Rightarrow> string + unit" where
  "validate_role_constraints selected constraints =
     (case constraints of
        None \<Rightarrow> Inr ()
      | Some cs \<Rightarrow>
          (case List.find (\<lambda>g. length (active_of_group selected g) > 1) (rc_mutually_exclusive cs) of
             Some g \<Rightarrow> Inl (''unsupported role combination: roles '' @ role_list (active_of_group selected g) @
               '' are mutually exclusive for the selected plugin.'' @
               (case mx_reason g of None \<Rightarrow> [] | Some r \<Rightarrow> '' '' @ r))
           | None \<Rightarrow> Inr ()))"

definition validate_role_selection ::
  "PluginRole list \<Rightarrow> PluginRole list \<Rightarrow> PluginRoleConstraints option \<Rightarrow> string + unit" where
  "validate_role_selection available selected constraints =
     (case validate_roles available selected of
        Inl e \<Rightarrow> Inl e
      | Inr _ \<Rightarrow> validate_role_constraints selected constraints)"

definition validate_field_namespace :: "(string list \<Rightarrow> string) \<Rightarrow> string \<Rightarrow> string list \<Rightarrow> string + unit" where
  "validate_field_namespace show_debug field supported_namespaces =
     (let namespace = hd (split_on (CHR ''.'') field)
      in if namespace \<notin> set supported_namespaces
         then Inl (''field '' @ quoted field @ '' uses namespace '' @ quoted namespace @
                '' which is not in supported namespaces: '' @ show_debug supported_namespaces)
         else Inr ())"

text \<open>\<open>compile\<close> is the schema compiler: an error message, or a check that gives \<open>None\<close> for a valid value.\<close>

definition validate_config_against_schema ::
  "(json \<Rightarrow> string + (json \<Rightarrow> string option)) \<Rightarrow> json \<Rightarrow> json \<Rightarrow> string list + unit" where
  "validate_config_against_schema compile config schema =
     (case compile schema of
        Inl e \<Rightarrow> Inl [''invalid schema: '' @ e]
      | Inr validate \<Rightarrow> (case validate config of None \<Rightarrow> Inr () | Some msg \<Rightarrow> Inl [msg]))"

definition template_value :: "(rat \<Rightarrow> string) \<Rightarrow> json \<Rightarrow> string option" where
  "template_value show_f64 v = (case v of
     JStr s \<Rightarrow> Some s | JInt n \<Rightarrow> Some (show_int n) | JFloat r \<Rightarrow> Some (show_f64 r) | JBool b \<Rightarrow> Some (show_bool b)
   | _ \<Rightarrow> None)"

definition render_entry :: "(rat \<Rightarrow> string) \<Rightarrow> string \<times> json \<Rightarrow> string \<Rightarrow> string" where
  "render_entry show_f64 entry result = (case template_value show_f64 (snd entry) of
     None \<Rightarrow> result
   | Some replacement \<Rightarrow> str_replace (''{{'' @ fst entry @ ''}}'') replacement result)"

definition render_config_template :: "(rat \<Rightarrow> string) \<Rightarrow> string \<Rightarrow> json \<Rightarrow> string" where
  "render_config_template show_f64 template config =
     (case config of JObj m \<Rightarrow> fold (render_entry show_f64) m template | _ \<Rightarrow> template)"

section \<open>Properties\<close>

lemma first_duplicate_None: "first_duplicate roles = None \<longleftrightarrow> distinct roles"
  by (induction roles) auto

lemma find_None: "List.find P xs = None \<longleftrightarrow> (\<forall>x \<in> set xs. \<not> P x)"
  by (induction xs) auto

lemma find_SomeD: "List.find P xs = Some x \<Longrightarrow> x \<in> set xs \<and> P x"
  by (induction xs) (auto split: if_splits)

lemma validate_roles_ok:
  "validate_roles available selected = Inr () \<longleftrightarrow> selected \<noteq> [] \<and> distinct selected \<and> set selected \<subseteq> set available"
  by (auto simp: validate_roles_def first_duplicate_None [symmetric] find_None split: option.splits dest!: find_SomeD)

lemma validate_role_constraints_ok:
  "validate_role_constraints selected constraints = Inr () \<longleftrightarrow>
    (\<forall>cs. constraints = Some cs \<longrightarrow> (\<forall>g \<in> set (rc_mutually_exclusive cs). length (active_of_group selected g) \<le> 1))"
  by (cases constraints)
     (force simp: validate_role_constraints_def find_None not_less split: option.splits dest!: find_SomeD)+

text \<open>A role selection is accepted exactly when it is non-empty, free of repetitions and supported by the
  plugin, and takes at most one role out of every group the plugin declares mutually exclusive.\<close>

theorem role_selection_accepted_iff:
  "validate_role_selection available selected constraints = Inr () \<longleftrightarrow>
     selected \<noteq> [] \<and> distinct selected \<and> set selected \<subseteq> set available \<and>
     (\<forall>cs. constraints = Some cs \<longrightarrow> (\<forall>g \<in> set (rc_mutually_exclusive cs). length (active_of_group selected g) \<le> 1))"
proof -
  have "validate_role_selection available selected constraints = Inr () \<longleftrightarrow>
      validate_roles available selected = Inr () \<and> validate_role_constraints selected constraints = Inr ()"
    by (auto simp: validate_role_selection_def split: sum.splits)
  then show ?thesis by (simp add: validate_roles_ok validate_role_constraints_ok)
qed

text \<open>The condition is satisfiable.\<close>

theorem role_selection_accepted_iff_witness:
  "validate_role_selection [Splitter, Observer] [Splitter, Observer]
     (Some \<lparr>rc_mutually_exclusive = [\<lparr>mx_roles = [Splitter, Duplicator], mx_reason = None\<rparr>]\<rparr>) = Inr ()"
  using role_selection_accepted_iff [of "[Splitter, Observer]" "[Splitter, Observer]"
      "Some \<lparr>rc_mutually_exclusive = [\<lparr>mx_roles = [Splitter, Duplicator], mx_reason = None\<rparr>]\<rparr>"]
  by (simp add: active_of_group_def)

end
