(* ===== verification/Kube.thy ===== *)
theory Kube
  imports Crd AuthTokens StateStore
begin

text \<open>
  The effects of the operator. Its code talks to the Kubernetes API server, to plugins over HTTP, to the
  state store and to the clock. A run is a function of the environment \<open>'s env\<close>, which answers every
  request as an arbitrary function of all the requests made before it, and of the \<open>'s world\<close>: the log of
  the requests made so far, each with whether it succeeded, and the state of the store. Statements
  quantify over the environment, so they hold for whatever the servers, the plugins and concurrent
  clients do. An operation is a function from worlds to a result and a world, with \<open>bindE\<close> for the
  \<open>?\<close> of the sources.
\<close>

section \<open>Requests\<close>

record LeaseSpec =
  ls_acquire_time :: "int option"
  ls_holder_identity :: "string option"
  ls_lease_duration_seconds :: "int option"
  ls_lease_transitions :: "int option"
  ls_renew_time :: "int option"

record LeaseObj =
  lo_metadata :: ObjectMeta
  lo_spec :: "LeaseSpec option"

text \<open>The merge patches of the status subresource, one constructor per patch the sources build.\<close>

datatype status_patch =
  PatchRolloutGeneration int
| PatchReset int "BlueGreenDeploymentCondition list"
| PatchInvalid int "BlueGreenDeploymentCondition list"
| PatchDrainStartedAt string
| PatchDrains "InceptionPointDrainStatus list"
| PatchGeneratedName string
| PatchCounts Counts rat "string option"
| PatchProgress int int

datatype store_call =
  StoreCounts string
| StoreCountsForMode string VerificationMode
| StoreLatestFailure string
| StoreCleanup string
| StoreListRefs
| StoreGet string string
| StoreRegister TestCaseRecord
| StoreSetVerdict string string bool

datatype http_method = HttpGet | HttpPost

datatype request =
  RqGet kind string string
| RqList kind string string
| RqNamespaces
| RqEndpoints string string
| RqCreate string resource
| RqReplace string string resource
| RqApply string string resource
| RqDelete kind string string
| RqGetBgd string string
| RqListBgds
| RqGetStatus string string
| RqReplaceStatus string string BlueGreenDeployment
| RqPatchStatus string string status_patch
| RqPatchFinalizers string string "string list option"
| RqGetPlugin string
| RqListPlugins
| RqLeaseGet string string
| RqLeaseReplace string string LeaseObj
| RqLeaseCreate string LeaseObj
| RqHttp http_method string string json
| RqStore store_call

datatype event = Ev (ev_request: request) (ev_ok: bool)

record EndpointSubset =
  es_addresses :: nat
  es_ports :: nat

text \<open>An HTTP answer: a transport error, or a status and the body when it is JSON.\<close>

type_synonym http_answer = "string + nat \<times> json option"

record 's env =
  e_get_deployment :: "event list \<Rightarrow> string \<Rightarrow> string \<Rightarrow> kube_error + Deployment"
  e_list_deployments :: "event list \<Rightarrow> string \<Rightarrow> string \<Rightarrow> kube_error + Deployment list"
  e_get_meta :: "event list \<Rightarrow> kind \<Rightarrow> string \<Rightarrow> string \<Rightarrow> kube_error + ObjectMeta option"
  e_list_meta :: "event list \<Rightarrow> kind \<Rightarrow> string \<Rightarrow> string \<Rightarrow> kube_error + ObjectMeta list"
  e_get_config_map :: "event list \<Rightarrow> string \<Rightarrow> string \<Rightarrow> kube_error + (string \<times> string) list"
  e_get_secret :: "event list \<Rightarrow> string \<Rightarrow> string \<Rightarrow> kube_error + (string \<times> bytes) list"
  e_namespaces :: "event list \<Rightarrow> kube_error + ObjectMeta list"
  e_endpoints :: "event list \<Rightarrow> string \<Rightarrow> string \<Rightarrow> kube_error + EndpointSubset list"
  e_write :: "event list \<Rightarrow> request \<Rightarrow> kube_error + unit"
  e_get_bgd :: "event list \<Rightarrow> string \<Rightarrow> string \<Rightarrow> kube_error + BlueGreenDeployment"
  e_list_bgds :: "event list \<Rightarrow> kube_error + BlueGreenDeployment list"
  e_get_status :: "event list \<Rightarrow> string \<Rightarrow> string \<Rightarrow> kube_error + BlueGreenDeployment"
  e_get_plugin :: "event list \<Rightarrow> string \<Rightarrow> kube_error + InceptionPlugin"
  e_list_plugins :: "event list \<Rightarrow> kube_error + InceptionPlugin list"
  e_get_lease :: "event list \<Rightarrow> string \<Rightarrow> string \<Rightarrow> kube_error + LeaseObj"
  e_http :: "event list \<Rightarrow> request \<Rightarrow> http_answer"
  e_now :: "event list \<Rightarrow> int"
  e_show_time :: "int \<Rightarrow> string"
  e_parse_time :: "string \<Rightarrow> int option"
  e_vars :: env_vars
  e_jwt :: jwt_lib
  e_store :: "'s StateStore"
  e_show_kube_error :: "kube_error \<Rightarrow> string"
  e_show_store_error :: "StoreError \<Rightarrow> string"
  e_show_f64 :: "rat \<Rightarrow> string"
  e_show_strings :: "string list \<Rightarrow> string"
  e_compile_schema :: "json \<Rightarrow> string + (json \<Rightarrow> string option)"
  e_to_yaml :: "json \<Rightarrow> string"
  e_spec_to_yaml :: "BlueGreenDeploymentSpec \<Rightarrow> string"
  e_spec_from_yaml :: "string \<Rightarrow> string + BlueGreenDeploymentSpec"
  e_deployment_spec_to_json :: "DeploymentSpec \<Rightarrow> json"
  e_deployment_spec_from_json :: "json \<Rightarrow> string + DeploymentSpec"
  e_parse_lifecycle :: "json \<Rightarrow> PluginLifecycleResponse option"
  e_parse_drain_status :: "json \<Rightarrow> PluginDrainStatusResponse option"
  e_tokens_json :: "(string \<times> string) list \<Rightarrow> string"
  e_read_cert :: "string \<Rightarrow> string option"
  e_build_client :: "string option"
  e_show_http_status :: "nat \<Rightarrow> string"
  e_decode_error :: string

record 's world =
  w_log :: "event list"
  w_store :: 's

type_synonym ('s, 'e, 'a) op = "'s world \<Rightarrow> ('e + 'a) \<times> 's world"

text \<open>The messages of the reconciler's errors.\<close>

definition show_error :: "'s env \<Rightarrow> ReconcileError \<Rightarrow> string" where
  "show_error env e = (case e of
     InvalidSpec m \<Rightarrow> ''invalid spec: '' @ m
   | Store m \<Rightarrow> ''controller error: '' @ m
   | StateStoreError m \<Rightarrow> ''state store error: '' @ m
   | Lease m \<Rightarrow> ''lease error: '' @ m
   | PluginManagerError m \<Rightarrow> ''plugin manager error: '' @ m
   | PluginInceptorError m \<Rightarrow> ''plugin inceptor error: '' @ m
   | PluginDrainStatusError m \<Rightarrow> ''plugin drain status error: '' @ m
   | PluginTrafficShift m \<Rightarrow> ''plugin traffic shift error: '' @ m
   | Auth m \<Rightarrow> ''auth configuration error: '' @ m
   | Resource m \<Rightarrow> ''resource error: '' @ m
   | K8s k \<Rightarrow> ''k8s error: '' @ e_show_kube_error env k)"

section \<open>Sequencing\<close>

definition retE :: "'a \<Rightarrow> ('s, 'e, 'a) op" where
  "retE a w = (Inr a, w)"

definition failE :: "'e \<Rightarrow> ('s, 'e, 'a) op" where
  "failE e w = (Inl e, w)"

definition bindE :: "('s, 'e, 'a) op \<Rightarrow> ('a \<Rightarrow> ('s, 'e, 'b) op) \<Rightarrow> ('s, 'e, 'b) op" where
  "bindE m f w = (case m w of (Inl e, w') \<Rightarrow> (Inl e, w') | (Inr a, w') \<Rightarrow> f a w')"

definition thenE :: "('s, 'e, 'a) op \<Rightarrow> ('s, 'e, 'b) op \<Rightarrow> ('s, 'e, 'b) op" where
  "thenE m n = bindE m (\<lambda>_. n)"

text \<open>\<open>tryE m f\<close>: run \<open>m\<close> and match on its result.\<close>

definition tryE :: "('s, 'd, 'a) op \<Rightarrow> ('d + 'a \<Rightarrow> ('s, 'e, 'b) op) \<Rightarrow> ('s, 'e, 'b) op" where
  "tryE m f w = (case m w of (r, w') \<Rightarrow> f r w')"

definition liftE :: "'e + 'a \<Rightarrow> ('s, 'e, 'a) op" where
  "liftE r w = (r, w)"

definition mapErr :: "('d \<Rightarrow> 'e) \<Rightarrow> ('s, 'd, 'a) op \<Rightarrow> ('s, 'e, 'a) op" where
  "mapErr g m = tryE m (\<lambda>r. case r of Inl d \<Rightarrow> failE (g d) | Inr a \<Rightarrow> retE a)"

fun eachE :: "('a \<Rightarrow> ('s, 'e, unit) op) \<Rightarrow> 'a list \<Rightarrow> ('s, 'e, unit) op" where
  "eachE f [] = retE ()"
| "eachE f (x # xs) = thenE (f x) (eachE f xs)"

fun foldE :: "('b \<Rightarrow> 'a \<Rightarrow> ('s, 'e, 'b) op) \<Rightarrow> 'b \<Rightarrow> 'a list \<Rightarrow> ('s, 'e, 'b) op" where
  "foldE f acc [] = retE acc"
| "foldE f acc (x # xs) = bindE (f acc x) (\<lambda>acc'. foldE f acc' xs)"

section \<open>Requests as operations\<close>

definition is_ok :: "'e + 'a \<Rightarrow> bool" where
  "is_ok r = (case r of Inl _ \<Rightarrow> False | Inr _ \<Rightarrow> True)"

definition request_op :: "request \<Rightarrow> (event list \<Rightarrow> 'e + 'a) \<Rightarrow> ('s, 'e, 'a) op" where
  "request_op rq answer w = (let r = answer (w_log w) in (r, w\<lparr>w_log := w_log w @ [Ev rq (is_ok r)]\<rparr>))"

definition write_op :: "'s env \<Rightarrow> request \<Rightarrow> ('s, kube_error, unit) op" where
  "write_op env rq = request_op rq (\<lambda>h. e_write env h rq)"

definition http_op :: "'s env \<Rightarrow> http_method \<Rightarrow> string \<Rightarrow> string \<Rightarrow> json \<Rightarrow> ('s, string, nat \<times> json option) op" where
  "http_op env verb url auth body = (let rq = RqHttp verb url auth body in request_op rq (\<lambda>h. e_http env h rq))"

definition store_op :: "store_call \<Rightarrow> ('s \<Rightarrow> (StoreError + 'a) \<times> 's) \<Rightarrow> ('s, StoreError, 'a) op" where
  "store_op rq f w = (case f (w_store w) of
     (r, s') \<Rightarrow> (r, w\<lparr>w_log := w_log w @ [Ev (RqStore rq) (is_ok r)], w_store := s'\<rparr>))"

definition now_op :: "'s env \<Rightarrow> ('s, 'e, int) op" where
  "now_op env w = (Inr (e_now env (w_log w)), w)"

definition k8s :: "('s, kube_error, 'a) op \<Rightarrow> ('s, ReconcileError, 'a) op" where
  "k8s m = mapErr K8s m"

definition is_not_found :: "kube_error \<Rightarrow> bool" where
  "is_not_found e = (case e of ApiError code _ \<Rightarrow> code = 404 | TransportError _ \<Rightarrow> False)"

definition is_conflict :: "kube_error \<Rightarrow> bool" where
  "is_conflict e = (case e of ApiError code _ \<Rightarrow> code = 409 | TransportError _ \<Rightarrow> False)"

section \<open>What a run logs\<close>

text \<open>\<open>yields m R\<close>: every run of \<open>m\<close> appends to the log some events that are related by \<open>R\<close> to its result.\<close>

definition yields :: "('s, 'e, 'a) op \<Rightarrow> (event list \<Rightarrow> 'e + 'a \<Rightarrow> bool) \<Rightarrow> bool" where
  "yields m R \<longleftrightarrow> (\<forall>w. \<exists>new. w_log (snd (m w)) = w_log w @ new \<and> R new (fst (m w)))"

named_theorems yields_rules \<open>what an operation logs\<close>

lemma yieldsD: "yields m R \<Longrightarrow> m w = (r, w') \<Longrightarrow> \<exists>new. w_log w' = w_log w @ new \<and> R new r"
  unfolding yields_def by (metis fst_conv snd_conv)

lemma yields_mono: "yields m R \<Longrightarrow> (\<And>n r. R n r \<Longrightarrow> S n r) \<Longrightarrow> yields m S"
  unfolding yields_def by blast

lemma yields_ret: "R [] (Inr a) \<Longrightarrow> yields (retE a) R"
  by (simp add: yields_def retE_def)

lemma yields_fail: "R [] (Inl e) \<Longrightarrow> yields (failE e) R"
  by (simp add: yields_def failE_def)

lemma yields_lift: "R [] r \<Longrightarrow> yields (liftE r) R"
  by (simp add: yields_def liftE_def)

lemma yields_try:
  assumes "yields m R" and "\<And>r. yields (f r) (S r)" and "\<And>n r n' r'. R n r \<Longrightarrow> S r n' r' \<Longrightarrow> Q (n @ n') r'"
  shows "yields (tryE m f) Q"
  unfolding yields_def
proof
  fix w
  obtain r w1 where m: "m w = (r, w1)" by fastforce
  obtain r' w2 where f: "f r w1 = (r', w2)" by fastforce
  obtain n where n: "w_log w1 = w_log w @ n" "R n r" using yieldsD [OF assms(1) m] by blast
  obtain n' where n': "w_log w2 = w_log w1 @ n'" "S r n' r'" using yieldsD [OF assms(2) f] by blast
  show "\<exists>new. w_log (snd (tryE m f w)) = w_log w @ new \<and> Q new (fst (tryE m f w))"
    using assms(3) [OF n(2) n'(2)] n(1) n'(1) by (auto simp: tryE_def m f)
qed

lemma bindE_try: "bindE m f = tryE m (\<lambda>r. case r of Inl e \<Rightarrow> failE e | Inr a \<Rightarrow> f a)"
  by (rule ext) (auto simp: bindE_def tryE_def failE_def split: prod.splits sum.splits)

lemma yields_bind:
  assumes m: "yields m R" and f: "\<And>a. yields (f a) (S a)" and "\<And>n e. R n (Inl e) \<Longrightarrow> Q n (Inl e)"
    and "\<And>n a n' r'. R n (Inr a) \<Longrightarrow> S a n' r' \<Longrightarrow> Q (n @ n') r'"
  shows "yields (bindE m f) Q"
  unfolding bindE_try
proof (rule yields_try [OF m])
  show "yields (case r of Inl e \<Rightarrow> failE e | Inr a \<Rightarrow> f a)
      (\<lambda>n' r'. case r of Inl e \<Rightarrow> n' = [] \<and> r' = Inl e | Inr a \<Rightarrow> S a n' r')" for r
    using f by (cases r) (auto intro: yields_fail)
  show "Q (n @ n') r'" if "R n r" "case r of Inl e \<Rightarrow> n' = [] \<and> r' = Inl e | Inr a \<Rightarrow> S a n' r'" for n r n' r'
    using that assms(3,4) by (cases r) auto
qed

lemma yields_request: "(\<And>r. R [Ev rq (is_ok r)] r) \<Longrightarrow> yields (request_op rq answer) R"
  by (simp add: yields_def request_op_def Let_def)

lemma yields_store: "(\<And>r. R [Ev (RqStore rq) (is_ok r)] r) \<Longrightarrow> yields (store_op rq f) R"
  by (simp add: yields_def store_op_def split: prod.splits)

lemma yields_now: "(\<And>t. R [] (Inr t)) \<Longrightarrow> yields (now_op env) R"
  by (simp add: yields_def now_op_def)

lemma yields_then:
  assumes "yields m R" and "yields n S" and "\<And>x e. R x (Inl e) \<Longrightarrow> Q x (Inl e)"
    and "\<And>x a y r. R x (Inr a) \<Longrightarrow> S y r \<Longrightarrow> Q (x @ y) r"
  shows "yields (thenE m n) Q"
  unfolding thenE_def by (rule yields_bind [OF assms(1), where S = "\<lambda>_. S"]) (use assms in auto)

lemma yields_each:
  assumes "\<And>x. x \<in> set xs \<Longrightarrow> yields (f x) (\<lambda>new r. P new)" and "P []" and "\<And>m n. P m \<Longrightarrow> P n \<Longrightarrow> P (m @ n)"
  shows "yields (eachE f xs) (\<lambda>new r. P new)"
  using assms
  by (induction xs) (auto intro: yields_ret yields_then [where R = "\<lambda>new r. P new" and S = "\<lambda>new r. P new"])

section \<open>Which requests a run can make\<close>

definition makes_only :: "(request \<Rightarrow> bool) \<Rightarrow> ('s, 'e, 'a) op \<Rightarrow> bool" where
  "makes_only P m \<longleftrightarrow> yields m (\<lambda>new r. \<forall>ev \<in> set new. P (ev_request ev))"

named_theorems only_intros \<open>introduction rules for makes_only\<close>

lemma only_ret [only_intros]: "makes_only P (retE a)"
  unfolding makes_only_def by (rule yields_ret) simp

lemma only_fail [only_intros]: "makes_only P (failE e)"
  unfolding makes_only_def by (rule yields_fail) simp

lemma only_lift [only_intros]: "makes_only P (liftE r)"
  unfolding makes_only_def by (rule yields_lift) simp

lemma only_now [only_intros]: "makes_only P (now_op env)"
  unfolding makes_only_def by (rule yields_now) simp

lemma only_request [only_intros]: "P rq \<Longrightarrow> makes_only P (request_op rq answer)"
  unfolding makes_only_def by (rule yields_request) simp

lemma only_write [only_intros]: "P rq \<Longrightarrow> makes_only P (write_op env rq)"
  unfolding write_op_def by (rule only_request)

lemma only_http [only_intros]: "P (RqHttp verb url auth body) \<Longrightarrow> makes_only P (http_op env verb url auth body)"
  unfolding http_op_def Let_def by (rule only_request)

lemma only_store [only_intros]: "P (RqStore rq) \<Longrightarrow> makes_only P (store_op rq f)"
  unfolding makes_only_def by (rule yields_store) simp

lemma only_try [only_intros]: "makes_only P m \<Longrightarrow> (\<And>r. makes_only P (f r)) \<Longrightarrow> makes_only P (tryE m f)"
  unfolding makes_only_def
  by (erule yields_try [where S = "\<lambda>_ new _. \<forall>ev \<in> set new. P (ev_request ev)"]) auto

lemma only_bind [only_intros]: "makes_only P m \<Longrightarrow> (\<And>a. makes_only P (f a)) \<Longrightarrow> makes_only P (bindE m f)"
  unfolding makes_only_def
  by (erule yields_bind [where S = "\<lambda>_ new _. \<forall>ev \<in> set new. P (ev_request ev)"]) auto

lemma only_then [only_intros]: "makes_only P m \<Longrightarrow> makes_only P n \<Longrightarrow> makes_only P (thenE m n)"
  unfolding thenE_def by (rule only_bind)

lemma only_mapErr [only_intros]: "makes_only P m \<Longrightarrow> makes_only P (mapErr g m)"
  unfolding mapErr_def by (rule only_try) (auto split: sum.splits intro: only_intros)

lemma only_k8s [only_intros]: "makes_only P m \<Longrightarrow> makes_only P (k8s m)"
  unfolding k8s_def by (rule only_mapErr)

lemma only_if [only_intros]: "(b \<Longrightarrow> makes_only P m) \<Longrightarrow> (\<not> b \<Longrightarrow> makes_only P n) \<Longrightarrow> makes_only P (if b then m else n)"
  by simp

lemma only_case_option [only_intros]:
  "(x = None \<Longrightarrow> makes_only P m) \<Longrightarrow> (\<And>a. x = Some a \<Longrightarrow> makes_only P (f a)) \<Longrightarrow>
   makes_only P (case x of None \<Rightarrow> m | Some a \<Rightarrow> f a)"
  by (cases x) simp_all

lemma only_case_sum [only_intros]:
  "(\<And>e. makes_only P (f e)) \<Longrightarrow> (\<And>a. makes_only P (g a)) \<Longrightarrow>
   makes_only P (case x of Inl e \<Rightarrow> f e | Inr a \<Rightarrow> g a)"
  by (cases x) simp_all

lemma only_each [only_intros]: "(\<And>x. x \<in> set xs \<Longrightarrow> makes_only P (f x)) \<Longrightarrow> makes_only P (eachE f xs)"
  by (induction xs) (auto intro: only_intros)

lemma only_fold [only_intros]: "(\<And>acc x. x \<in> set xs \<Longrightarrow> makes_only P (f acc x)) \<Longrightarrow> makes_only P (foldE f acc xs)"
  by (induction xs arbitrary: acc) (auto intro!: only_ret only_bind)

lemma only_mono: "makes_only P m \<Longrightarrow> (\<And>rq. P rq \<Longrightarrow> Q rq) \<Longrightarrow> makes_only Q m"
  unfolding makes_only_def by (erule yields_mono) auto

lemma makes_onlyD:
  "makes_only P m \<Longrightarrow> m w = (r, w') \<Longrightarrow> \<exists>new. w_log w' = w_log w @ new \<and> (\<forall>ev \<in> set new. P (ev_request ev))"
  unfolding makes_only_def by (rule yieldsD)

section \<open>Unfolding a run\<close>

text \<open>The equations that run an operation step by step.\<close>

lemmas op_simps = bindE_def thenE_def tryE_def mapErr_def k8s_def retE_def failE_def liftE_def request_op_def write_op_def
  http_op_def store_op_def now_op_def is_ok_def Let_def

lemma bindE_InrE:
  assumes "bindE m f w = (Inr b, w')"
  obtains a w1 where "m w = (Inr a, w1)" "f a w1 = (Inr b, w')"
  using assms by (auto simp: bindE_def split: prod.splits sum.splits)

lemma thenE_InrE:
  assumes "thenE m n w = (Inr b, w')"
  obtains a w1 where "m w = (Inr a, w1)" "n w1 = (Inr b, w')"
  using assms by (auto simp: thenE_def elim: bindE_InrE)

lemma bindE_cases:
  assumes "bindE m f w = (r, w')"
  obtains (failed) e where "m w = (Inl e, w')" "r = Inl e" | (ok) a w1 where "m w = (Inr a, w1)" "f a w1 = (r, w')"
  using assms by (auto simp: bindE_def split: prod.splits sum.splits)

lemma thenE_cases:
  assumes "thenE m n w = (r, w')"
  obtains (failed) e where "m w = (Inl e, w')" "r = Inl e" | (ok) a w1 where "m w = (Inr a, w1)" "n w1 = (r, w')"
  using assms unfolding thenE_def by (rule bindE_cases)

section \<open>A concrete environment\<close>

text \<open>An environment in which every read fails and every write succeeds; examples override what they need.\<close>

definition quiet_env :: "'s StateStore \<Rightarrow> 's env" where
  "quiet_env store = \<lparr>
     e_get_deployment = (\<lambda>_ _ _. Inl (ApiError 404 [])), e_list_deployments = (\<lambda>_ _ _. Inr []),
     e_get_meta = (\<lambda>_ _ _ _. Inr None), e_list_meta = (\<lambda>_ _ _ _. Inr []),
     e_get_config_map = (\<lambda>_ _ _. Inl (ApiError 404 [])), e_get_secret = (\<lambda>_ _ _. Inl (ApiError 404 [])),
     e_namespaces = (\<lambda>_. Inr []), e_endpoints = (\<lambda>_ _ _. Inl (ApiError 404 [])), e_write = (\<lambda>_ _. Inr ()),
     e_get_bgd = (\<lambda>_ _ _. Inl (ApiError 404 [])), e_list_bgds = (\<lambda>_. Inr []),
     e_get_status = (\<lambda>_ _ _. Inl (ApiError 404 [])), e_get_plugin = (\<lambda>_ _. Inl (ApiError 404 [])),
     e_list_plugins = (\<lambda>_. Inr []), e_get_lease = (\<lambda>_ _ _. Inl (ApiError 404 [])),
     e_http = (\<lambda>_ _. Inl ''refused''), e_now = (\<lambda>_. 0), e_show_time = (\<lambda>_. ''now''), e_parse_time = (\<lambda>_. None),
     e_vars = (\<lambda>_. None), e_jwt = toy_jwt (claims_new [] [] [] []), e_store = store,
     e_show_kube_error = (\<lambda>_. []), e_show_store_error = (\<lambda>_. []), e_show_f64 = (\<lambda>_. []), e_show_strings = (\<lambda>_. []),
     e_compile_schema = (\<lambda>_. Inr (\<lambda>_. None)), e_to_yaml = (\<lambda>_. []), e_spec_to_yaml = (\<lambda>_. []),
     e_spec_from_yaml = (\<lambda>_. Inl []), e_deployment_spec_to_json = (\<lambda>_. JObj []),
     e_deployment_spec_from_json = (\<lambda>_. Inl []), e_parse_lifecycle = (\<lambda>_. None), e_parse_drain_status = (\<lambda>_. None),
     e_tokens_json = (\<lambda>_. []), e_read_cert = (\<lambda>_. None), e_build_client = None, e_show_http_status = (\<lambda>_. ''status''),
     e_decode_error = ''error decoding response body''\<rparr>"

definition start_world :: "'s \<Rightarrow> 's world" where
  "start_world s = \<lparr>w_log = [], w_store = s\<rparr>"

text \<open>A store that never finds anything, for examples that do not use it.\<close>

definition idle_store :: "unit StateStore" where
  "idle_store = \<lparr>
     op_register = (\<lambda>_ s. (Inr (), s)), op_get = (\<lambda>_ _ s. (Inr None, s)), op_set_verdict = (\<lambda>_ _ _ _ s. (Inr (), s)),
     op_mark_timed_out = (\<lambda>_ _ s. (Inr (), s)), op_decrement_retries = (\<lambda>_ _ s. (Inr None, s)),
     op_list_pending = (\<lambda>s. (Inr [], s)), op_list_blue_green_refs = (\<lambda>s. (Inr [], s)),
     op_counts = (\<lambda>_ s. (Inr default_counts, s)),
     op_counts_for_mode = (\<lambda>_ _ s. (Inr default_counts, s)),
     op_latest_failure_message = (\<lambda>_ s. (Inr None, s)), op_cleanup_blue_green = (\<lambda>_ s. (Inr 0, s)),
     op_cleanup_expired = (\<lambda>_ s. (Inr 0, s))\<rparr>"

definition idle_env :: "unit env" where
  "idle_env = quiet_env idle_store"

lemma start_world_simps [simp]: "w_log (start_world s) = []" "w_store (start_world s) = s"
  by (simp_all add: start_world_def)

end
