(* ===== verification/Status.thy ===== *)
theory Status
  imports Kube
begin

text \<open>
  Status updates of a BlueGreenDeployment (\<open>src/operator/src/controller/status.rs\<close>): which phase
  transitions are current, the conditions of each phase, and the functions that write the status
  subresource, either by replacing the object they read (optimistic concurrency) or by a merge patch.
  Failures of these writes are logged by the sources and otherwise ignored, so every function ends
  normally. The second half is the interleaving of such updates by any number of operators.
\<close>

section \<open>Phases\<close>

definition phase_rank :: "BGDPhase \<Rightarrow> nat" where
  "phase_rank phase = (case phase of PhPending \<Rightarrow> 0 | PhObserving \<Rightarrow> 1 | PhPromoting \<Rightarrow> 2 | PhDraining \<Rightarrow> 3
     | PhCompleted \<Rightarrow> 4 | PhRolledBack \<Rightarrow> 4 | PhInvalid \<Rightarrow> 4)"

definition phase_is_terminal :: "BGDPhase \<Rightarrow> bool" where
  "phase_is_terminal phase = (case phase of PhCompleted \<Rightarrow> True | PhRolledBack \<Rightarrow> True | PhInvalid \<Rightarrow> True | _ \<Rightarrow> False)"

definition phase_transition_is_current :: "BGDPhase option \<Rightarrow> int \<Rightarrow> BGDPhase \<Rightarrow> int \<Rightarrow> bool" where
  "phase_transition_is_current latest_phase latest_generation requested_phase requested_generation =
     (if latest_generation > requested_generation then False
      else if latest_generation < requested_generation then True
      else (case latest_phase of
              None \<Rightarrow> True
            | Some latest \<Rightarrow>
                if latest = requested_phase then True
                else if phase_is_terminal latest then False
                else phase_rank requested_phase \<ge> phase_rank latest))"

definition status_generation :: "BlueGreenDeployment \<Rightarrow> int" where
  "status_generation bgd = unwrap_or (Option.bind (bgd_status bgd) s_observed_generation) 0"

definition status_phase :: "BlueGreenDeployment \<Rightarrow> BGDPhase option" where
  "status_phase bgd = Option.bind (bgd_status bgd) s_phase"

definition phase_update_is_current :: "BlueGreenDeployment \<Rightarrow> BGDPhase \<Rightarrow> int \<Rightarrow> bool" where
  "phase_update_is_current latest requested_phase requested_generation =
     phase_transition_is_current (status_phase latest) (status_generation latest) requested_phase requested_generation"

definition current_rollout_generation :: "BlueGreenDeployment \<Rightarrow> int" where
  "current_rollout_generation bgd =
     unwrap_or (opt_or (Option.bind (bgd_status bgd) s_rollout_generation) (md_generation (bgd_metadata bgd))) 0"

section \<open>Conditions\<close>

definition condition ::
  "string \<Rightarrow> ConditionStatus \<Rightarrow> string \<Rightarrow> string \<Rightarrow> int \<Rightarrow> string \<Rightarrow> BlueGreenDeploymentCondition" where
  "condition ty st reason message observed_generation now = \<lparr>cond_type = ty, cond_status = st, cond_reason = reason,
     cond_message = message, cond_observed_generation = observed_generation, cond_last_transition_time = now\<rparr>"

definition phase_summary :: "BGDPhase \<Rightarrow> ConditionStatus \<times> ConditionStatus \<times> ConditionStatus \<times> string \<times> string" where
  "phase_summary phase = (case phase of
     PhPending \<Rightarrow> (CondFalse, CondTrue, CondFalse, ''Pending'', ''Rollout is queued or initializing.'')
   | PhObserving \<Rightarrow> (CondFalse, CondTrue, CondFalse, ''Observing'', ''Rollout is collecting test evidence.'')
   | PhPromoting \<Rightarrow> (CondFalse, CondTrue, CondFalse, ''Promoting'', ''Rollout met promotion criteria and is switching traffic.'')
   | PhDraining \<Rightarrow> (CondFalse, CondTrue, CondFalse, ''Draining'', ''Rollout is draining temporary resources before completion.'')
   | PhCompleted \<Rightarrow> (CondTrue, CondFalse, CondFalse, ''Completed'', ''Rollout completed successfully.'')
   | PhRolledBack \<Rightarrow> (CondFalse, CondFalse, CondTrue, ''RolledBack'', ''Rollout failed promotion criteria or timed out and was rolled back.'')
   | PhInvalid \<Rightarrow> (CondFalse, CondFalse, CondTrue, ''InvalidSpec'', ''Rollout specification is invalid.''))"

definition conditions_for_phase :: "BGDPhase \<Rightarrow> int \<Rightarrow> string \<Rightarrow> BlueGreenDeploymentCondition list" where
  "conditions_for_phase phase observed_generation now =
     (let (ready, progressing, degraded, reason, message) = phase_summary phase
      in [condition ''Ready'' ready reason message observed_generation now,
          condition ''Progressing'' progressing reason message observed_generation now,
          condition ''Degraded'' degraded reason message observed_generation now] @
         (if phase = PhCompleted
          then [condition ''ReconcileFailed'' CondFalse reason message observed_generation now] else []))"

definition invalid_conditions :: "string \<Rightarrow> string \<Rightarrow> int \<Rightarrow> string \<Rightarrow> BlueGreenDeploymentCondition list" where
  "invalid_conditions reason message g now =
     [condition ''Ready'' CondFalse reason message g now, condition ''Progressing'' CondFalse reason message g now,
      condition ''Degraded'' CondTrue reason message g now, condition ''ReconcileFailed'' CondTrue reason message g now]"

definition set_condition ::
  "BlueGreenDeploymentCondition \<Rightarrow> BlueGreenDeploymentCondition list \<Rightarrow> BlueGreenDeploymentCondition list" where
  "set_condition c cs = filter (\<lambda>x. cond_type x \<noteq> cond_type c) cs @ [c]"

section \<open>Updates by replacement\<close>

definition status_or_default :: "BlueGreenDeployment \<Rightarrow> BlueGreenDeploymentStatus" where
  "status_or_default bgd = unwrap_or (bgd_status bgd) default_status"

definition with_phase :: "BlueGreenDeployment \<Rightarrow> BGDPhase \<Rightarrow> int \<Rightarrow> string \<Rightarrow> BlueGreenDeployment" where
  "with_phase latest phase g now = latest\<lparr>bgd_status := Some ((status_or_default latest)\<lparr>
     s_phase := Some phase, s_observed_generation := Some g, s_conditions := conditions_for_phase phase g now\<rparr>)\<rparr>"

text \<open>The read half and the write half of an update by replacement, with what the sources do on errors.\<close>

definition replace_status ::
  "'s env \<Rightarrow> BlueGreenDeployment \<Rightarrow> string \<Rightarrow> (BlueGreenDeployment \<Rightarrow> string \<Rightarrow> BlueGreenDeployment option) \<Rightarrow> ('s, 'e, unit) op" where
  "replace_status env bgd namespace change = (case md_name (bgd_metadata bgd) of
     None \<Rightarrow> retE ()
   | Some name \<Rightarrow>
       tryE (request_op (RqGetStatus namespace name) (\<lambda>h. e_get_status env h namespace name)) (\<lambda>r. case r of
         Inl e \<Rightarrow> retE ()
       | Inr latest \<Rightarrow> bindE (now_op env) (\<lambda>now.
           case change latest (e_show_time env now) of
             None \<Rightarrow> retE ()
           | Some written \<Rightarrow>
               tryE (write_op env (RqReplaceStatus namespace name written)) (\<lambda>_. retE ()))))"

definition update_status_phase :: "'s env \<Rightarrow> BlueGreenDeployment \<Rightarrow> string \<Rightarrow> BGDPhase \<Rightarrow> ('s, 'e, unit) op" where
  "update_status_phase env bgd namespace phase =
     (let g = current_rollout_generation bgd
      in replace_status env bgd namespace (\<lambda>latest now.
           if phase_update_is_current latest phase g then Some (with_phase latest phase g now) else None))"

definition update_status_update_deferred :: "'s env \<Rightarrow> BlueGreenDeployment \<Rightarrow> string \<Rightarrow> ('s, 'e, unit) op" where
  "update_status_update_deferred env bgd namespace =
     (let generation = unwrap_or (md_generation (bgd_metadata bgd)) 0;
          rollout_generation = unwrap_or (Option.bind (bgd_status bgd) s_rollout_generation) 0
      in replace_status env bgd namespace (\<lambda>latest now. Some (latest\<lparr>bgd_status := Some ((status_or_default latest)\<lparr>
           s_conditions := set_condition (condition ''UpdateDeferred'' CondTrue ''ActiveRollout''
             (''Spec generation '' @ show_int generation @ '' is deferred until rollout generation '' @
              show_int rollout_generation @ '' reaches a terminal phase.'') generation now)
             (s_conditions (status_or_default latest))\<rparr>)\<rparr>)))"

definition update_status_reconcile_failure ::
  "'s env \<Rightarrow> BlueGreenDeployment \<Rightarrow> string \<Rightarrow> string \<Rightarrow> string \<Rightarrow> ('s, 'e, unit) op" where
  "update_status_reconcile_failure env bgd namespace reason message =
     (let g = current_rollout_generation bgd
      in replace_status env bgd namespace (\<lambda>latest now. Some (latest\<lparr>bgd_status := Some ((status_or_default latest)\<lparr>
           s_conditions := set_condition (condition ''Degraded'' CondTrue reason message g now)
             (set_condition (condition ''ReconcileFailed'' CondTrue reason message g now)
               (s_conditions (status_or_default latest)))\<rparr>)\<rparr>)))"

section \<open>Updates by merge patch\<close>

definition patch_status :: "'s env \<Rightarrow> BlueGreenDeployment \<Rightarrow> string \<Rightarrow> status_patch \<Rightarrow> ('s, 'e, unit) op" where
  "patch_status env bgd namespace patch = (case md_name (bgd_metadata bgd) of
     None \<Rightarrow> retE ()
   | Some name \<Rightarrow> tryE (write_op env (RqPatchStatus namespace name patch)) (\<lambda>_. retE ()))"

definition ensure_rollout_generation :: "'s env \<Rightarrow> BlueGreenDeployment \<Rightarrow> string \<Rightarrow> ('s, 'e, unit) op" where
  "ensure_rollout_generation env bgd namespace =
     (if Option.bind (bgd_status bgd) s_rollout_generation \<noteq> None then retE ()
      else patch_status env bgd namespace (PatchRolloutGeneration (unwrap_or (md_generation (bgd_metadata bgd)) 0)))"

definition reset_status_for_new_rollout :: "'s env \<Rightarrow> BlueGreenDeployment \<Rightarrow> string \<Rightarrow> ('s, 'e, unit) op" where
  "reset_status_for_new_rollout env bgd namespace =
     (let g = unwrap_or (md_generation (bgd_metadata bgd)) 0
      in bindE (now_op env) (\<lambda>now.
           patch_status env bgd namespace (PatchReset g (conditions_for_phase PhPending g (e_show_time env now)))))"

definition update_status_invalid :: "'s env \<Rightarrow> BlueGreenDeployment \<Rightarrow> string \<Rightarrow> string \<Rightarrow> string \<Rightarrow> ('s, 'e, unit) op" where
  "update_status_invalid env bgd namespace reason message =
     (let g = current_rollout_generation bgd
      in bindE (now_op env) (\<lambda>now.
           patch_status env bgd namespace (PatchInvalid g (invalid_conditions reason message g (e_show_time env now)))))"

definition update_drain_started_at :: "'s env \<Rightarrow> BlueGreenDeployment \<Rightarrow> string \<Rightarrow> ('s, 'e, unit) op" where
  "update_drain_started_at env bgd namespace =
     bindE (now_op env) (\<lambda>now. patch_status env bgd namespace (PatchDrainStartedAt (e_show_time env now)))"

definition update_inception_point_drain_statuses ::
  "'s env \<Rightarrow> BlueGreenDeployment \<Rightarrow> string \<Rightarrow> InceptionPointDrainStatus list \<Rightarrow> ('s, 'e, unit) op" where
  "update_inception_point_drain_statuses env bgd namespace statuses = patch_status env bgd namespace (PatchDrains statuses)"

definition update_status_generated_deployment_name ::
  "'s env \<Rightarrow> BlueGreenDeployment \<Rightarrow> string \<Rightarrow> string \<Rightarrow> ('s, 'e, unit) op" where
  "update_status_generated_deployment_name env bgd namespace name = patch_status env bgd namespace (PatchGeneratedName name)"

definition update_status_counts ::
  "'s env \<Rightarrow> BlueGreenDeployment \<Rightarrow> string \<Rightarrow> Counts \<Rightarrow> rat \<Rightarrow> string option \<Rightarrow> ('s, 'e, unit) op" where
  "update_status_counts env bgd namespace counts success_rate last_failure_message =
     patch_status env bgd namespace (PatchCounts counts success_rate last_failure_message)"

definition update_status_progress :: "'s env \<Rightarrow> BlueGreenDeployment \<Rightarrow> string \<Rightarrow> int \<Rightarrow> int \<Rightarrow> ('s, 'e, unit) op" where
  "update_status_progress env bgd namespace step traffic_percent =
     patch_status env bgd namespace (PatchProgress step traffic_percent)"

text \<open>The effect of a merge patch on the stored status: the fields it names are set, a null removes.\<close>

definition apply_status_patch :: "status_patch \<Rightarrow> BlueGreenDeploymentStatus \<Rightarrow> BlueGreenDeploymentStatus" where
  "apply_status_patch p s = (case p of
     PatchRolloutGeneration g \<Rightarrow> s\<lparr>s_rollout_generation := Some g\<rparr>
   | PatchReset g cs \<Rightarrow> s\<lparr>s_phase := Some PhPending, s_generated_deployment_name := None, s_current_step := None,
       s_current_traffic_percent := None, s_drain_started_at := None, s_inception_point_drains := [],
       s_rollout_generation := Some g, s_observed_generation := Some g, s_conditions := cs\<rparr>
   | PatchInvalid g cs \<Rightarrow> s\<lparr>s_phase := Some PhInvalid, s_observed_generation := Some g, s_conditions := cs\<rparr>
   | PatchDrainStartedAt t \<Rightarrow> s\<lparr>s_drain_started_at := Some t\<rparr>
   | PatchDrains ds \<Rightarrow> s\<lparr>s_inception_point_drains := ds\<rparr>
   | PatchGeneratedName n \<Rightarrow> s\<lparr>s_generated_deployment_name := Some n\<rparr>
   | PatchCounts c rate msg \<Rightarrow> s\<lparr>s_test_cases_passed := Some (counts_passed c),
       s_test_cases_failed := Some (counts_failed c), s_test_cases_timed_out := Some (counts_timed_out c),
       s_test_cases_pending := Some (counts_pending c),
       s_test_cases_observed := Some (counts_passed c + counts_failed c + counts_timed_out c),
       s_current_success_rate := Some rate, s_last_failure_message := msg\<rparr>
   | PatchProgress step traffic \<Rightarrow> s\<lparr>s_current_step := Some step, s_current_traffic_percent := Some traffic\<rparr>)"

section \<open>What status updates log\<close>

definition is_status_request :: "request \<Rightarrow> bool" where
  "is_status_request rq = (case rq of RqGetStatus _ _ \<Rightarrow> True | RqReplaceStatus _ _ _ \<Rightarrow> True | RqPatchStatus _ _ _ \<Rightarrow> True
     | _ \<Rightarrow> False)"

lemma only_replace_status: "makes_only is_status_request (replace_status env bgd namespace change)"
  unfolding replace_status_def by (intro only_intros) (simp_all add: is_status_request_def)

lemma only_patch_status: "makes_only is_status_request (patch_status env bgd namespace patch)"
  unfolding patch_status_def by (intro only_intros) (simp_all add: is_status_request_def)

lemma only_status_updates [only_intros]:
  "makes_only is_status_request (update_status_phase env bgd namespace phase)"
  "makes_only is_status_request (update_status_update_deferred env bgd namespace)"
  "makes_only is_status_request (update_status_reconcile_failure env bgd namespace reason message)"
  "makes_only is_status_request (ensure_rollout_generation env bgd namespace)"
  "makes_only is_status_request (reset_status_for_new_rollout env bgd namespace)"
  "makes_only is_status_request (update_status_invalid env bgd namespace reason message)"
  "makes_only is_status_request (update_drain_started_at env bgd namespace)"
  "makes_only is_status_request (update_inception_point_drain_statuses env bgd namespace drains)"
  "makes_only is_status_request (update_status_generated_deployment_name env bgd namespace n)"
  "makes_only is_status_request (update_status_counts env bgd namespace c rate msg)"
  "makes_only is_status_request (update_status_progress env bgd namespace step traffic)"
  by (simp_all add: update_status_phase_def update_status_update_deferred_def update_status_reconcile_failure_def
      ensure_rollout_generation_def reset_status_for_new_rollout_def update_status_invalid_def
      update_drain_started_at_def update_inception_point_drain_statuses_def update_status_counts_def
      update_status_generated_deployment_name_def update_status_progress_def only_replace_status only_patch_status
      only_intros Let_def)

lemma replace_status_total: "fst (replace_status env bgd namespace change w) = Inr ()"
  by (simp add: replace_status_def retE_def tryE_def bindE_def now_op_def split: option.splits sum.splits prod.splits)

lemma patch_status_total: "fst (patch_status env bgd namespace patch w) = Inr ()"
  by (simp add: patch_status_def retE_def tryE_def split: option.splits prod.splits)

section \<open>Interleaved updates\<close>

text \<open>\<open>status_le o o'\<close>: the status moved on, to a later rollout generation or, within one generation, to a phase of
  no smaller rank, and a terminal phase was kept.\<close>

definition status_le :: "BlueGreenDeployment \<Rightarrow> BlueGreenDeployment \<Rightarrow> bool" where
  "status_le x y \<longleftrightarrow> status_generation x \<le> status_generation y \<and>
     (status_generation x = status_generation y \<longrightarrow>
        (\<forall>p. status_phase x = Some p \<longrightarrow> (\<exists>q. status_phase y = Some q \<and> phase_rank p \<le> phase_rank q \<and>
           (phase_is_terminal p \<longrightarrow> q = p))))"

lemma status_le_refl [simp]: "status_le x x"
  by (simp add: status_le_def)

lemma status_le_trans: "status_le x y \<Longrightarrow> status_le y z \<Longrightarrow> status_le x z"
  unfolding status_le_def by (smt (verit) dual_order.trans order_antisym)

lemma with_phase_simps [simp]:
  "status_generation (with_phase latest phase g now) = g"
  "status_phase (with_phase latest phase g now) = Some phase"
  by (simp_all add: status_generation_def status_phase_def with_phase_def)

lemma current_update_le: "phase_update_is_current latest phase g \<Longrightarrow> status_le latest (with_phase latest phase g now)"
  by (auto simp: phase_update_is_current_def phase_transition_is_current_def status_le_def split: if_splits option.splits)

text \<open>The API server holds one object and its resource version. An operator reads the object, prepares a replacement of
  it, and writes it later; the server accepts the write only if the object still has the version that was read. A
  replacement changes the phase, when the update is current, or only conditions. A merge patch carries no version: it
  is applied to whatever the object is when it arrives. Anyone may edit the object's spec and metadata.\<close>

record cluster =
  cl_version :: nat
  cl_object :: BlueGreenDeployment
  cl_pending :: "(nat \<times> BlueGreenDeployment) list"

fun keeps_phase :: "status_patch \<Rightarrow> bool" where
  "keeps_phase (PatchReset g cs) = False"
| "keeps_phase (PatchInvalid g cs) = False"
| "keeps_phase p = True"

datatype status_write = WritePrepare | WriteReplace | WritePatch status_patch | WriteEdit

definition patched :: "BlueGreenDeployment \<Rightarrow> status_patch \<Rightarrow> BlueGreenDeployment" where
  "patched x p = x\<lparr>bgd_status := Some (apply_status_patch p (status_or_default x))\<rparr>"

text \<open>The replacements that the sources prepare for the object they read: \<open>update_status_phase\<close>, and the two functions
  that only set conditions.\<close>

definition prepared_for :: "BlueGreenDeployment \<Rightarrow> BlueGreenDeployment \<Rightarrow> bool" where
  "prepared_for x y \<longleftrightarrow> (\<exists>phase g now. phase_update_is_current x phase g \<and> y = with_phase x phase g now) \<or>
     (\<exists>cs. y = x\<lparr>bgd_status := Some ((status_or_default x)\<lparr>s_conditions := cs\<rparr>)\<rparr>)"

inductive status_step :: "cluster \<Rightarrow> status_write \<Rightarrow> cluster \<Rightarrow> bool" where
  cas_prepare: "prepared_for (cl_object c) y \<Longrightarrow>
    status_step c WritePrepare (c\<lparr>cl_pending := (cl_version c, y) # cl_pending c\<rparr>)"
| cas_write: "(cl_version c, written) \<in> set (cl_pending c) \<Longrightarrow>
    status_step c WriteReplace (c\<lparr>cl_version := cl_version c + 1, cl_object := written\<rparr>)"
| cas_patch: "status_step c (WritePatch p) (c\<lparr>cl_version := cl_version c + 1, cl_object := patched (cl_object c) p\<rparr>)"
| cas_edit: "bgd_status y = bgd_status (cl_object c) \<Longrightarrow>
    status_step c WriteEdit (c\<lparr>cl_version := cl_version c + 1, cl_object := y\<rparr>)"

inductive_cases status_stepE: "status_step c l c'"

text \<open>A run, with the state each write met.\<close>

inductive status_run :: "cluster \<Rightarrow> (cluster \<times> status_write) list \<Rightarrow> cluster \<Rightarrow> bool" where
  status_run_Nil: "status_run c [] c"
| status_run_snoc: "status_run c tr d \<Longrightarrow> status_step d l e \<Longrightarrow> status_run c (tr @ [(d, l)]) e"

text \<open>The writes that can set the phase back: the reset for a new rollout, and the marking as invalid, when they arrive at
  an object that has meanwhile left the generation they were made for or has ended its rollout.\<close>

definition overtaken :: "BlueGreenDeployment \<Rightarrow> status_write \<Rightarrow> bool" where
  "overtaken x l = (case l of
     WritePatch (PatchReset g _) \<Rightarrow> g \<le> status_generation x
   | WritePatch (PatchInvalid g _) \<Rightarrow>
       g < status_generation x \<or> g = status_generation x \<and> status_phase x \<in> {Some PhCompleted, Some PhRolledBack}
   | _ \<Rightarrow> False)"

definition cluster_ok :: "cluster \<Rightarrow> bool" where
  "cluster_ok c \<longleftrightarrow> (\<forall>(v, y) \<in> set (cl_pending c). v \<le> cl_version c \<and> (v = cl_version c \<longrightarrow> status_le (cl_object c) y))"

lemma status_of_patch:
  assumes "keeps_phase p"
  shows "status_generation (patched x p) = status_generation x" and "status_phase (patched x p) = status_phase x"
  using assms
  by (cases p; cases "bgd_status x";
      simp add: patched_def status_generation_def status_phase_def apply_status_patch_def status_or_default_def default_status_def)+

lemma status_of_reset: "status_generation (patched x (PatchReset g cs)) = g" "status_phase (patched x (PatchReset g cs)) = Some PhPending"
  by (simp_all add: patched_def status_generation_def status_phase_def apply_status_patch_def)

lemma status_of_invalid:
  "status_generation (patched x (PatchInvalid g cs)) = g" "status_phase (patched x (PatchInvalid g cs)) = Some PhInvalid"
  by (simp_all add: patched_def status_generation_def status_phase_def apply_status_patch_def)

lemma patched_le:
  assumes "\<not> overtaken x (WritePatch p)"
  shows "status_le x (patched x p)"
proof (cases "keeps_phase p")
  case True
  then show ?thesis by (simp add: status_le_def status_of_patch)
next
  case False
  then show ?thesis
  proof (cases p)
    case (PatchReset g cs)
    then show ?thesis using assms by (simp add: status_le_def status_of_reset overtaken_def)
  next
    case (PatchInvalid g cs)
    then have "status_generation x = g \<Longrightarrow> status_phase x = Some q \<Longrightarrow> phase_rank q \<le> 4 \<and> (phase_is_terminal q \<longrightarrow> q = PhInvalid)" for q
      using assms by (cases q) (auto simp: overtaken_def phase_rank_def phase_is_terminal_def)
    then show ?thesis using assms by (auto simp: status_le_def status_of_invalid overtaken_def PatchInvalid phase_rank_def)
  qed auto
qed

lemma conditions_le: "status_le x (x\<lparr>bgd_status := Some ((status_or_default x)\<lparr>s_conditions := cs\<rparr>)\<rparr>)"
  by (cases "bgd_status x") (auto simp: status_le_def status_generation_def status_phase_def status_or_default_def default_status_def)

lemma prepared_le: "prepared_for x y \<Longrightarrow> status_le x y"
  using current_update_le conditions_le by (auto simp: prepared_for_def)

lemma status_step_ok:
  assumes "status_step c l c'" and "cluster_ok c"
  shows "cluster_ok c' \<and> (overtaken (cl_object c) l \<or> status_le (cl_object c) (cl_object c'))"
  using assms
proof (cases rule: status_step.cases)
  case (cas_prepare y)
  then show ?thesis using assms(2) prepared_le by (auto simp: cluster_ok_def)
next
  case (cas_write written)
  then show ?thesis using assms(2) by (fastforce simp: cluster_ok_def)
next
  case (cas_patch p)
  then show ?thesis using assms(2) patched_le by (fastforce simp: cluster_ok_def)
next
  case (cas_edit y)
  have "status_le (cl_object c) (cl_object c')"
    using cas_edit by (auto simp: status_le_def status_generation_def status_phase_def)
  then show ?thesis using assms(2) cas_edit by (fastforce simp: cluster_ok_def)
qed

lemma status_run_ok:
  assumes "status_run c tr c'" and "cluster_ok c"
  shows "cluster_ok c' \<and> ((\<exists>(d, l) \<in> set tr. overtaken (cl_object d) l) \<or> status_le (cl_object c) (cl_object c'))"
  using assms
proof (induction rule: status_run.induct)
  case (status_run_Nil c)
  then show ?case by simp
next
  case (status_run_snoc c tr d l e)
  then have d: "cluster_ok d" "(\<exists>(d, l) \<in> set tr. overtaken (cl_object d) l) \<or> status_le (cl_object c) (cl_object d)" by blast+
  from status_step_ok [OF status_run_snoc.hyps(2) d(1)]
  have e: "cluster_ok e" "overtaken (cl_object d) l \<or> status_le (cl_object d) (cl_object e)" by blast+
  then show ?case using d(2) status_le_trans by auto
qed

section \<open>Properties\<close>


definition sample_cluster :: cluster where
  "sample_cluster = \<lparr>cl_version = 1, cl_object = with_phase sample_bgd PhCompleted 1 ''t'', cl_pending = []\<rparr>"

text \<open>A completed rollout of generation 1, which a stale operator marks as invalid, by a patch for generation 1.\<close>

definition overwritten_cluster :: cluster where
  "overwritten_cluster = sample_cluster\<lparr>cl_version := 2, cl_object := patched (cl_object sample_cluster) (PatchInvalid 1 [])\<rparr>"

lemma sample_run: "status_run sample_cluster [(sample_cluster, WritePatch (PatchInvalid 1 []))] overwritten_cluster"
proof -
  have "status_step sample_cluster (WritePatch (PatchInvalid 1 [])) overwritten_cluster"
    using status_step.cas_patch [of sample_cluster "PatchInvalid 1 []"]
    by (simp add: overwritten_cluster_def sample_cluster_def numeral_2_eq_2)
  then show ?thesis using status_run_snoc [OF status_run_Nil] by force
qed


text \<open>Phase updates are compare-and-set. A run of \<open>update_status_phase\<close> writes at most once, after reading the
  status; what it writes is the object it read, resource version included, with only the status changed to a
  phase whose transition from the phase read is current.\<close>

theorem phase_update_is_compare_and_set:
  "yields (update_status_phase env bgd namespace phase :: ('s, 'e, unit) op) (\<lambda>new r. r = Inr () \<and>
     (\<forall>ns n written ok. Ev (RqReplaceStatus ns n written) ok \<in> set new \<longrightarrow>
        new = [Ev (RqGetStatus ns n) True, Ev (RqReplaceStatus ns n written) ok] \<and> ns = namespace \<and>
        md_name (bgd_metadata bgd) = Some n \<and>
        (\<exists>latest now. phase_update_is_current latest phase (current_rollout_generation bgd) \<and>
           written = with_phase latest phase (current_rollout_generation bgd) now \<and>
           bgd_metadata written = bgd_metadata latest \<and> bgd_spec written = bgd_spec latest)))"
proof (cases "md_name (bgd_metadata bgd)")
  case None
  then show ?thesis by (simp add: update_status_phase_def replace_status_def yields_def retE_def)
next
  case (Some name)
  show ?thesis
    unfolding yields_def
  proof
    fix w :: "'s world"
    show "\<exists>new. w_log (snd (update_status_phase env bgd namespace phase w :: ('e + unit) \<times> 's world)) = w_log w @ new \<and>
        fst (update_status_phase env bgd namespace phase w :: ('e + unit) \<times> 's world) = Inr () \<and>
        (\<forall>ns n written ok. Ev (RqReplaceStatus ns n written) ok \<in> set new \<longrightarrow>
          new = [Ev (RqGetStatus ns n) True, Ev (RqReplaceStatus ns n written) ok] \<and> ns = namespace \<and>
          md_name (bgd_metadata bgd) = Some n \<and>
          (\<exists>latest now. phase_update_is_current latest phase (current_rollout_generation bgd) \<and>
            written = with_phase latest phase (current_rollout_generation bgd) now \<and>
            bgd_metadata written = bgd_metadata latest \<and> bgd_spec written = bgd_spec latest))"
      using Some
      by (cases "e_get_status env (w_log w) namespace name")
         (auto simp: update_status_phase_def replace_status_def tryE_def bindE_def now_op_def retE_def request_op_def
           write_op_def is_ok_def Let_def with_phase_def split: option.splits)
  qed
qed

theorem phase_update_is_compare_and_set_witness:
  "w_log (snd (update_status_phase (idle_env\<lparr>e_get_status := \<lambda>_ _ _. Inr sample_bgd\<rparr>) sample_bgd ''shop'' PhObserving
       (start_world ()) :: (unit + unit) \<times> unit world))
   = [Ev (RqGetStatus ''shop'' ''orders'') True,
      Ev (RqReplaceStatus ''shop'' ''orders'' (with_phase sample_bgd PhObserving 1 ''now'')) True]"
proof -
  let ?env = "idle_env\<lparr>e_get_status := \<lambda>_ _ _. Inr sample_bgd\<rparr> :: unit env"
  let ?w = "snd (update_status_phase ?env sample_bgd ''shop'' PhObserving (start_world ()) :: (unit + unit) \<times> unit world)"
  have "Ev (RqReplaceStatus ''shop'' ''orders'' (with_phase sample_bgd PhObserving 1 ''now'')) True \<in> set (w_log ?w)"
    by (simp add: update_status_phase_def replace_status_def tryE_def bindE_def now_op_def retE_def request_op_def
        write_op_def is_ok_def Let_def idle_env_def quiet_env_def sample_bgd_def default_meta_def phase_update_is_current_def
        current_rollout_generation_def phase_transition_is_current_def status_generation_def)
  moreover obtain new where new: "w_log ?w = w_log (start_world ()) @ new"
    and "Ev (RqReplaceStatus ''shop'' ''orders'' (with_phase sample_bgd PhObserving 1 ''now'')) True \<in> set new \<longrightarrow>
      new = [Ev (RqGetStatus ''shop'' ''orders'') True,
        Ev (RqReplaceStatus ''shop'' ''orders'' (with_phase sample_bgd PhObserving 1 ''now'')) True]"
    using phase_update_is_compare_and_set [of ?env sample_bgd "''shop''" PhObserving, unfolded yields_def,
        THEN spec [of _ "start_world ()"]]
    by (elim exE conjE) blast
  ultimately show ?thesis by simp
qed

text \<open>Only two patches touch the phase. Every merge patch other than the reset for a new rollout and the marking
  of an invalid specification leaves the phase, the observed generation and the conditions as they were.\<close>

theorem patches_keep_phase:
  assumes "keeps_phase p"
  shows "s_phase (apply_status_patch p s) = s_phase s \<and> s_conditions (apply_status_patch p s) = s_conditions s \<and>
    s_observed_generation (apply_status_patch p s) = s_observed_generation s"
  using assms by (cases p) (simp_all add: apply_status_patch_def)

theorem patches_keep_phase_witness:
  "s_phase (apply_status_patch (PatchDrainStartedAt ''t'') default_status) = None"
  using patches_keep_phase [of "PatchDrainStartedAt ''t''" default_status] by (simp add: default_status_def)

end
