(* ===== verification/Lease.thy ===== *)
theory Lease
  imports Kube Naming
begin

text \<open>
  The reconcile lease (\<open>src/operator/src/controller/lease.rs\<close>, and the lease configuration of
  \<open>src/operator/src/controller.rs\<close>): acquiring, renewing and taking over a \<open>Lease\<close> object under the API
  server's optimistic concurrency, and the interleaving of any number of operators. Instants are
  microseconds. The comparison \<open>as_secs_f64() >= f64::from(seconds)\<close> is the comparison of the exact
  durations. The renewal task runs beside the guarded future; the future that is aborted when the
  renewal fails is not represented, \<open>run_with_lease\<close> is the run in which the lease is kept.
\<close>

record LeaseConfig =
  lc_holder_identity :: string
  lc_duration :: nat
  lc_renew_interval :: nat

definition env_u64 :: "env_vars \<Rightarrow> string \<Rightarrow> nat \<Rightarrow> nat" where
  "env_u64 env name dflt =
     (case Option.bind (env name) (parse_unsigned 64) of None \<Rightarrow> dflt | Some v \<Rightarrow> if v > 0 then v else dflt)"

definition operator_identity :: "env_vars \<Rightarrow> nat \<Rightarrow> string" where
  "operator_identity env pid =
     unwrap_or (opt_or (env ''FLUIDBG_OPERATOR_ID'') (env ''HOSTNAME'')) (''fluidbg-operator-'' @ show_nat pid)"

definition lease_config_from_env :: "env_vars \<Rightarrow> nat \<Rightarrow> LeaseConfig" where
  "lease_config_from_env env pid =
     (let duration_seconds = env_u64 env ''FLUIDBG_RECONCILE_LEASE_DURATION_SECONDS'' 30;
          renew = env_u64 env ''FLUIDBG_RECONCILE_LEASE_RENEW_INTERVAL_SECONDS'' 10;
          renew_seconds = (if renew \<ge> duration_seconds then max (duration_seconds div 3) 1 else renew)
      in \<lparr>lc_holder_identity = operator_identity env pid, lc_duration = duration_seconds,
          lc_renew_interval = renew_seconds\<rparr>)"

definition lease_duration_seconds :: "nat \<Rightarrow> int" where
  "lease_duration_seconds d = max (if int d < 2 ^ 31 then int d else 2 ^ 31 - 1) 1"

definition lease_spec :: "LeaseConfig \<Rightarrow> int \<Rightarrow> bool \<Rightarrow> int \<Rightarrow> LeaseSpec" where
  "lease_spec config transitions acquired now = \<lparr>
     ls_acquire_time = (if acquired then Some now else None),
     ls_holder_identity = Some (lc_holder_identity config),
     ls_lease_duration_seconds = Some (lease_duration_seconds (lc_duration config)),
     ls_lease_transitions = Some transitions,
     ls_renew_time = Some now\<rparr>"

definition lease_expired :: "LeaseSpec \<Rightarrow> int \<Rightarrow> bool" where
  "lease_expired spec now =
     (case opt_or (ls_renew_time spec) (ls_acquire_time spec) of
        None \<Rightarrow> True
      | Some renew_time \<Rightarrow>
          (let d = unwrap_or (ls_lease_duration_seconds spec) 0
           in d \<le> 0 \<or> now - renew_time \<ge> d * 1000000))"

definition holder_of :: "LeaseObj \<Rightarrow> string option" where
  "holder_of l = Option.bind (lo_spec l) ls_holder_identity"

definition lease_can_be_acquired :: "LeaseObj \<Rightarrow> LeaseConfig \<Rightarrow> int \<Rightarrow> bool" where
  "lease_can_be_acquired l config now =
     (case lo_spec l of
        None \<Rightarrow> True
      | Some spec \<Rightarrow>
          if ls_holder_identity spec = Some (lc_holder_identity config) then True else lease_expired spec now)"

definition transition_increment :: "LeaseObj \<Rightarrow> LeaseConfig \<Rightarrow> int" where
  "transition_increment l config = (if holder_of l = Some (lc_holder_identity config) then 0 else 1)"

definition transitions_of :: "LeaseObj \<Rightarrow> int" where
  "transitions_of l = unwrap_or (Option.bind (lo_spec l) ls_lease_transitions) 0"

text \<open>The object an acquiring operator writes back, and the one it creates.\<close>

definition acquired_lease :: "LeaseObj \<Rightarrow> LeaseConfig \<Rightarrow> int \<Rightarrow> LeaseObj" where
  "acquired_lease l config now =
     l\<lparr>lo_spec := Some (lease_spec config (transitions_of l + transition_increment l config) True now)\<rparr>"

definition created_lease :: "string \<Rightarrow> LeaseConfig \<Rightarrow> int \<Rightarrow> LeaseObj" where
  "created_lease name config now = \<lparr>lo_metadata = default_meta\<lparr>md_name := Some name\<rparr>,
     lo_spec = Some (lease_spec config 0 True now)\<rparr>"

definition conflict_means_not_acquired :: "kube_error + unit \<Rightarrow> ReconcileError + bool" where
  "conflict_means_not_acquired r = (case r of
     Inr _ \<Rightarrow> Inr True
   | Inl e \<Rightarrow> if is_conflict e then Inr False else Inl (K8s e))"

definition try_acquire_lease :: "'s env \<Rightarrow> string \<Rightarrow> string \<Rightarrow> LeaseConfig \<Rightarrow> ('s, ReconcileError, bool) op" where
  "try_acquire_lease env ns name config =
     tryE (request_op (RqLeaseGet ns name) (\<lambda>h. e_get_lease env h ns name)) (\<lambda>r.
       bindE (now_op env) (\<lambda>now. case r of
         Inr l \<Rightarrow>
           if \<not> lease_can_be_acquired l config now then retE False
           else tryE (write_op env (RqLeaseReplace ns name (acquired_lease l config now)))
                  (\<lambda>r. liftE (conflict_means_not_acquired r))
       | Inl e \<Rightarrow>
           if is_not_found e
           then tryE (write_op env (RqLeaseCreate ns (created_lease name config now)))
                  (\<lambda>r. liftE (conflict_means_not_acquired r))
           else failE (K8s e)))"

definition renewed_lease :: "LeaseObj \<Rightarrow> LeaseConfig \<Rightarrow> int \<Rightarrow> LeaseObj" where
  "renewed_lease l config now = l\<lparr>lo_spec := Some (lease_spec config (transitions_of l) False now)\<rparr>"

definition renew_lease :: "'s env \<Rightarrow> string \<Rightarrow> string \<Rightarrow> LeaseConfig \<Rightarrow> ('s, ReconcileError, unit) op" where
  "renew_lease env ns name config =
     bindE (k8s (request_op (RqLeaseGet ns name) (\<lambda>h. e_get_lease env h ns name))) (\<lambda>l.
       if holder_of l \<noteq> Some (lc_holder_identity config)
       then failE (Lease (''lease '' @ quoted name @ '' is no longer held by this operator''))
       else bindE (now_op env) (\<lambda>now. k8s (write_op env (RqLeaseReplace ns name (renewed_lease l config now)))))"

definition run_with_lease ::
  "'s env \<Rightarrow> string \<Rightarrow> string \<Rightarrow> LeaseConfig \<Rightarrow> ('s, ReconcileError, 'a) op \<Rightarrow> ('s, ReconcileError, 'a option) op" where
  "run_with_lease env ns name config future =
     bindE (try_acquire_lease env ns name config) (\<lambda>acquired.
       if \<not> acquired then retE None else bindE future (\<lambda>a. retE (Some a)))"

definition run_with_bgd_lease ::
  "'s env \<Rightarrow> BlueGreenDeployment \<Rightarrow> string \<Rightarrow> LeaseConfig \<Rightarrow> ('s, ReconcileError, 'a) op \<Rightarrow> ('s, ReconcileError, 'a option) op" where
  "run_with_bgd_lease env bgd ns config future =
     (case md_uid (bgd_metadata bgd) of
        None \<Rightarrow> retE None
      | Some uid \<Rightarrow>
          (case md_name (bgd_metadata bgd) of
             None \<Rightarrow> retE None
           | Some name \<Rightarrow> run_with_lease env ns (lease_name (jl_sha256 (e_jwt env)) ''bgd'' name uid) config future))"

definition run_with_orphan_lease ::
  "'s env \<Rightarrow> string \<Rightarrow> string \<Rightarrow> LeaseConfig \<Rightarrow> ('s, ReconcileError, 'a) op \<Rightarrow> ('s, ReconcileError, 'a option) op" where
  "run_with_orphan_lease env bg ns config future =
     run_with_lease env ns (lease_name (jl_sha256 (e_jwt env)) ''orphan'' bg bg) config future"

section \<open>Interleaved operators\<close>

text \<open>Operators are known by their identity; \<open>cfg\<close> gives each its configuration. An operator reads the lease
  (\<open>read\<close>), later decides on what it read (\<open>acquire\<close>, \<open>renew\<close>, \<open>create\<close>), later still its write arrives: the
  server accepts a replacement only of the version that was read, and a creation only when there is no lease.
  Time passes in between. Nobody else writes the lease.\<close>

record lease_sys =
  sys_now :: int
  sys_version :: nat
  sys_lease :: "LeaseObj option"
  sys_reads :: "(nat \<times> LeaseObj) set"
  sys_writes :: "(nat option \<times> LeaseObj \<times> int) set"

inductive lease_step :: "(string \<Rightarrow> LeaseConfig) \<Rightarrow> lease_sys \<Rightarrow> lease_sys \<Rightarrow> bool" for cfg where
  time: "0 \<le> d \<Longrightarrow> lease_step cfg s (s\<lparr>sys_now := sys_now s + d\<rparr>)"
| read: "sys_lease s = Some l \<Longrightarrow>
    lease_step cfg s (s\<lparr>sys_reads := insert (sys_version s, l) (sys_reads s)\<rparr>)"
| acquire: "(v, l) \<in> sys_reads s \<Longrightarrow> lease_can_be_acquired l (cfg me) (sys_now s) \<Longrightarrow>
    lease_step cfg s (s\<lparr>sys_writes := insert (Some v, acquired_lease l (cfg me) (sys_now s), sys_now s) (sys_writes s)\<rparr>)"
| renew: "(v, l) \<in> sys_reads s \<Longrightarrow> holder_of l = Some (lc_holder_identity (cfg me)) \<Longrightarrow>
    lease_step cfg s (s\<lparr>sys_writes := insert (Some v, renewed_lease l (cfg me) (sys_now s), sys_now s) (sys_writes s)\<rparr>)"
| create: "lease_step cfg s
    (s\<lparr>sys_writes := insert (None, created_lease name (cfg me) (sys_now s), sys_now s) (sys_writes s)\<rparr>)"
| replaced: "(Some (sys_version s), l, t) \<in> sys_writes s \<Longrightarrow> sys_lease s \<noteq> None \<Longrightarrow>
    lease_step cfg s (s\<lparr>sys_version := sys_version s + 1, sys_lease := Some l\<rparr>)"
| created: "(None, l, t) \<in> sys_writes s \<Longrightarrow> sys_lease s = None \<Longrightarrow>
    lease_step cfg s (s\<lparr>sys_version := sys_version s + 1, sys_lease := Some l\<rparr>)"

text \<open>A lease as the operators write it: held by \<open>h\<close>, renewed at \<open>t\<close>, for \<open>h\<close>'s configured duration.\<close>

definition written_by :: "(string \<Rightarrow> LeaseConfig) \<Rightarrow> LeaseObj \<Rightarrow> string \<Rightarrow> int \<Rightarrow> bool" where
  "written_by cfg l h t \<longleftrightarrow> (\<exists>spec. lo_spec l = Some spec \<and> ls_holder_identity spec = Some h \<and> ls_renew_time spec = Some t \<and>
     ls_lease_duration_seconds spec = Some (lease_duration_seconds (lc_duration (cfg h))))"

definition lease_until :: "(string \<Rightarrow> LeaseConfig) \<Rightarrow> string \<Rightarrow> int \<Rightarrow> int" where
  "lease_until cfg h t = t + lease_duration_seconds (lc_duration (cfg h)) * 1000000"

section \<open>The invariant of the interleaving\<close>

lemma lease_duration_positive: "1 \<le> lease_duration_seconds d"
  by (simp add: lease_duration_seconds_def)

lemma written_by_unique: "written_by cfg l h t \<Longrightarrow> written_by cfg l h' t' \<Longrightarrow> h' = h \<and> t' = t"
  by (auto simp: written_by_def)

lemma written_acquired: "lc_holder_identity (cfg me) = me \<Longrightarrow> written_by cfg (acquired_lease l (cfg me) now) me now"
  by (simp add: written_by_def acquired_lease_def lease_spec_def)

lemma written_renewed: "lc_holder_identity (cfg me) = me \<Longrightarrow> written_by cfg (renewed_lease l (cfg me) now) me now"
  by (simp add: written_by_def renewed_lease_def lease_spec_def)

lemma written_created: "lc_holder_identity (cfg me) = me \<Longrightarrow> written_by cfg (created_lease name (cfg me) now) me now"
  by (simp add: written_by_def created_lease_def lease_spec_def)

lemma can_be_acquired_written:
  assumes "written_by cfg l h u" and "lease_can_be_acquired l (cfg me) now" and "lc_holder_identity (cfg me) = me"
  shows "me = h \<or> lease_until cfg h u \<le> now"
  using assms lease_duration_positive [of "lc_duration (cfg h)"]
  by (auto simp: written_by_def lease_can_be_acquired_def lease_expired_def lease_until_def Let_def split: if_splits)

lemma renewable_written:
  "written_by cfg l h u \<Longrightarrow> holder_of l = Some (lc_holder_identity (cfg me)) \<Longrightarrow> lc_holder_identity (cfg me) = me \<Longrightarrow> me = h"
  by (auto simp: written_by_def holder_of_def)

text \<open>A pending write is sound when it cannot displace a live holder should it be accepted.\<close>

definition write_ok :: "(string \<Rightarrow> LeaseConfig) \<Rightarrow> lease_sys \<Rightarrow> nat option \<times> LeaseObj \<times> int \<Rightarrow> bool" where
  "write_ok cfg s w = (case w of (vo, l, t) \<Rightarrow> t \<le> sys_now s \<and> (\<exists>h. written_by cfg l h t) \<and>
     (\<forall>v. vo = Some v \<longrightarrow> v \<le> sys_version s \<and>
       (v = sys_version s \<longrightarrow> (\<forall>cur h u h'. sys_lease s = Some cur \<and> written_by cfg cur h u \<and> written_by cfg l h' t \<longrightarrow>
          u \<le> t \<and> (h' = h \<or> lease_until cfg h u \<le> t)))))"

definition read_ok :: "lease_sys \<Rightarrow> nat \<times> LeaseObj \<Rightarrow> bool" where
  "read_ok s r = (case r of (v, l) \<Rightarrow> v \<le> sys_version s \<and> (v = sys_version s \<longrightarrow> sys_lease s = Some l))"

definition current_ok :: "(string \<Rightarrow> LeaseConfig) \<Rightarrow> lease_sys \<Rightarrow> bool" where
  "current_ok cfg s \<longleftrightarrow> (\<forall>l. sys_lease s = Some l \<longrightarrow> (\<exists>h t. written_by cfg l h t \<and> t \<le> sys_now s))"

definition sys_ok :: "(string \<Rightarrow> LeaseConfig) \<Rightarrow> lease_sys \<Rightarrow> bool" where
  "sys_ok cfg s \<longleftrightarrow> current_ok cfg s \<and> (\<forall>r \<in> sys_reads s. read_ok s r) \<and> (\<forall>w \<in> sys_writes s. write_ok cfg s w)"

lemma add_write_ok: "sys_ok cfg s \<Longrightarrow> write_ok cfg s w \<Longrightarrow> sys_ok cfg (s\<lparr>sys_writes := insert w (sys_writes s)\<rparr>)"
  by (auto simp: sys_ok_def current_ok_def read_ok_def write_ok_def)

lemma accept_write_ok:
  assumes ok: "sys_ok cfg s" and w: "(vo, l, t) \<in> sys_writes s"
  shows "sys_ok cfg (s\<lparr>sys_version := sys_version s + 1, sys_lease := Some l\<rparr>)"
proof -
  have "write_ok cfg s (vo, l, t)" using ok w by (simp add: sys_ok_def)
  then have 1: "\<exists>h t. written_by cfg l h t \<and> t \<le> sys_now s" by (auto simp: write_ok_def)
  have 2: "read_ok (s\<lparr>sys_version := sys_version s + 1, sys_lease := Some l\<rparr>) r" if "r \<in> sys_reads s" for r
    using that ok by (fastforce simp: sys_ok_def read_ok_def)
  have 3: "write_ok cfg (s\<lparr>sys_version := sys_version s + 1, sys_lease := Some l\<rparr>) x" if "x \<in> sys_writes s" for x
    using that ok by (fastforce simp: sys_ok_def write_ok_def)
  show ?thesis using 1 2 3 by (simp add: sys_ok_def current_ok_def)
qed

lemma acquire_write_ok:
  assumes id: "lc_holder_identity (cfg me) = me" and ok: "sys_ok cfg s" and r: "(v, l) \<in> sys_reads s"
    and can: "lease_can_be_acquired l (cfg me) (sys_now s)"
  shows "write_ok cfg s (Some v, acquired_lease l (cfg me) (sys_now s), sys_now s)"
proof -
  have rd: "v \<le> sys_version s" "v = sys_version s \<Longrightarrow> sys_lease s = Some l"
    using ok r by (auto simp: sys_ok_def read_ok_def)
  have w: "written_by cfg (acquired_lease l (cfg me) (sys_now s)) me (sys_now s)" by (rule written_acquired [of cfg, OF id])
  have "u \<le> sys_now s \<and> (h' = h \<or> lease_until cfg h u \<le> sys_now s)"
    if "sys_lease s = Some cur" "written_by cfg cur h u" "v = sys_version s"
      "written_by cfg (acquired_lease l (cfg me) (sys_now s)) h' (sys_now s)" for cur h u h'
  proof -
    have "cur = l" "h' = me" using that rd written_by_unique [OF w] by auto
    moreover have "u \<le> sys_now s" using ok that written_by_unique by (fastforce simp: sys_ok_def current_ok_def)
    ultimately show ?thesis using can_be_acquired_written [of cfg l h u me] that can id by auto
  qed
  then show ?thesis using rd w by (auto simp: write_ok_def)
qed

lemma renew_write_ok:
  assumes id: "lc_holder_identity (cfg me) = me" and ok: "sys_ok cfg s" and r: "(v, l) \<in> sys_reads s"
    and held: "holder_of l = Some (lc_holder_identity (cfg me))"
  shows "write_ok cfg s (Some v, renewed_lease l (cfg me) (sys_now s), sys_now s)"
proof -
  have rd: "v \<le> sys_version s" "v = sys_version s \<Longrightarrow> sys_lease s = Some l"
    using ok r by (auto simp: sys_ok_def read_ok_def)
  have w: "written_by cfg (renewed_lease l (cfg me) (sys_now s)) me (sys_now s)" by (rule written_renewed [of cfg, OF id])
  have "u \<le> sys_now s \<and> h' = h"
    if "sys_lease s = Some cur" "written_by cfg cur h u" "v = sys_version s"
      "written_by cfg (renewed_lease l (cfg me) (sys_now s)) h' (sys_now s)" for cur h u h'
  proof -
    have "cur = l" "h' = me" using that rd written_by_unique [OF w] by auto
    moreover have "u \<le> sys_now s" using ok that written_by_unique by (fastforce simp: sys_ok_def current_ok_def)
    ultimately show ?thesis using renewable_written [of cfg l h u me] that held id by auto
  qed
  then show ?thesis using rd w by (auto simp: write_ok_def)
qed

lemma lease_step_ok:
  assumes id: "\<forall>h. lc_holder_identity (cfg h) = h"
  shows "lease_step cfg s s' \<Longrightarrow> sys_ok cfg s \<Longrightarrow> sys_ok cfg s'"
proof (induction rule: lease_step.induct)
  case (time d s)
  then show ?case by (fastforce simp: sys_ok_def current_ok_def read_ok_def write_ok_def)
next
  case (read s l)
  then show ?case by (auto simp: sys_ok_def current_ok_def read_ok_def write_ok_def)
next
  case (acquire v l s me)
  then show ?case using acquire_write_ok id by (intro add_write_ok) auto
next
  case (renew v l s me)
  then show ?case using renew_write_ok id by (intro add_write_ok) auto
next
  case (create s name me)
  then show ?case using written_created [of cfg me name "sys_now s"] id
    by (intro add_write_ok) (auto simp: write_ok_def)
next
  case (replaced s l t)
  then show ?case using accept_write_ok by blast
next
  case (created l t s)
  then show ?case using accept_write_ok by blast
qed

text \<open>Before any operator has run: no lease, nothing read, nothing in flight.\<close>

definition sys_start :: "int \<Rightarrow> lease_sys" where
  "sys_start now = \<lparr>sys_now = now, sys_version = 0, sys_lease = None, sys_reads = {}, sys_writes = {}\<rparr>"

lemma reachable_ok:
  assumes "\<forall>h. lc_holder_identity (cfg h) = h" and "(lease_step cfg)\<^sup>*\<^sup>* (sys_start now) s"
  shows "sys_ok cfg s"
  using assms(2)
  by induction (auto simp: sys_start_def sys_ok_def current_ok_def dest: lease_step_ok [OF assms(1)])

lemma lease_step_now: "lease_step cfg s s' \<Longrightarrow> sys_now s \<le> sys_now s'"
  by (induction rule: lease_step.induct) auto

lemma lease_steps_now: "(lease_step cfg)\<^sup>*\<^sup>* s s' \<Longrightarrow> sys_now s \<le> sys_now s'"
  by (induction rule: rtranclp_induct) (auto dest: lease_step_now)

definition held_since :: "(string \<Rightarrow> LeaseConfig) \<Rightarrow> lease_sys \<Rightarrow> string \<Rightarrow> int \<Rightarrow> bool" where
  "held_since cfg s h t \<longleftrightarrow> (\<exists>l u. sys_lease s = Some l \<and> written_by cfg l h u \<and> t \<le> u)"

lemma lease_step_keeps:
  assumes ok: "sys_ok cfg s" and "held_since cfg s h t" and step: "lease_step cfg s s'" and live: "sys_now s < lease_until cfg h t"
  shows "held_since cfg s' h t"
proof -
  obtain l u where l: "sys_lease s = Some l" "written_by cfg l h u" "t \<le> u"
    using assms(2) by (auto simp: held_since_def)
  have until: "lease_until cfg h t \<le> lease_until cfg h u" using l(3) by (simp add: lease_until_def)
  show ?thesis
    using step
  proof (cases rule: lease_step.cases)
    case (replaced l' t')
    then have "write_ok cfg s (Some (sys_version s), l', t')" using ok by (simp add: sys_ok_def)
    then obtain h' where "t' \<le> sys_now s" "written_by cfg l' h' t'" "u \<le> t'" "h' = h \<or> lease_until cfg h u \<le> t'"
      using l by (auto simp: write_ok_def)
    then have "h' = h" using until live by auto
    then show ?thesis using replaced \<open>written_by cfg l' h' t'\<close> \<open>u \<le> t'\<close> l(3) by (fastforce simp: held_since_def)
  qed (use assms(2) l in \<open>auto simp: held_since_def\<close>)
qed

lemma lease_steps_keep:
  assumes id: "\<forall>h. lc_holder_identity (cfg h) = h" and ok: "sys_ok cfg s" and held: "held_since cfg s h t"
    and steps: "(lease_step cfg)\<^sup>*\<^sup>* s s'" and live: "sys_now s' < lease_until cfg h t"
  shows "held_since cfg s' h t \<and> sys_ok cfg s'"
  using steps live
proof induction
  case base
  then show ?case using held ok by simp
next
  case (step y z)
  then have "sys_now y < lease_until cfg h t" using lease_step_now by fastforce
  then show ?case using step lease_step_keeps lease_step_ok [OF id] by blast
qed

section \<open>Properties\<close>

text \<open>C18: Mutual exclusion of reconcilers. Any number of operators read the lease, decide on what they read and write
  back, in any interleaving and with writes delayed arbitrarily; the API server accepts a write only of the version
  that was read. If in a reachable state the lease is held by \<open>h\<close>, renewed at \<open>t\<close>, then until \<open>h\<close>'s
  duration has passed since \<open>t\<close> it is still held by \<open>h\<close>, whatever steps the others take.\<close>

theorem lease_taken_over_only_after_expiry:
  assumes "\<forall>h. lc_holder_identity (cfg h) = h" and "(lease_step cfg)\<^sup>*\<^sup>* (sys_start now) s"
    and "sys_lease s = Some l" and "written_by cfg l h t"
    and "(lease_step cfg)\<^sup>*\<^sup>* s s'" and "sys_now s' < lease_until cfg h t"
  shows "\<exists>l' u. sys_lease s' = Some l' \<and> holder_of l' = Some h \<and> written_by cfg l' h u \<and> t \<le> u"
proof -
  have "held_since cfg s h t" using assms(3,4) by (auto simp: held_since_def)
  then have "held_since cfg s' h t"
    using lease_steps_keep [OF assms(1) reachable_ok [OF assms(1,2)] _ assms(5,6)] by blast
  then show ?thesis by (fastforce simp: held_since_def written_by_def holder_of_def)
qed

definition demo_cfg :: "string \<Rightarrow> LeaseConfig" where
  "demo_cfg h = \<lparr>lc_holder_identity = h, lc_duration = 30, lc_renew_interval = 10\<rparr>"

text \<open>Operator \<open>a\<close> creates the lease at instant 0; one second later \<open>b\<close> reads it.\<close>

definition demo_lease :: LeaseObj where
  "demo_lease = created_lease ''x'' (demo_cfg ''a'') 0"

definition demo_held :: lease_sys where
  "demo_held = \<lparr>sys_now = 0, sys_version = 1, sys_lease = Some demo_lease, sys_reads = {}, sys_writes = {(None, demo_lease, 0)}\<rparr>"

lemma demo_reaches_held: "(lease_step demo_cfg)\<^sup>*\<^sup>* (sys_start 0) demo_held"
proof -
  let ?s = "(sys_start 0)\<lparr>sys_writes := {(None, demo_lease, 0)}\<rparr>"
  have "lease_step demo_cfg (sys_start 0) ?s"
    using lease_step.create [of demo_cfg "sys_start 0" "''x''" "''a''"] by (simp add: sys_start_def demo_lease_def)
  moreover have "lease_step demo_cfg ?s demo_held"
    using lease_step.created [of demo_lease 0 ?s demo_cfg] by (simp add: sys_start_def demo_held_def)
  ultimately show ?thesis by auto
qed

lemma lease_taken_over_only_after_expiry_witness:
  "\<exists>l' u. sys_lease (demo_held\<lparr>sys_now := 1000000\<rparr>) = Some l' \<and> holder_of l' = Some ''a'' \<and> written_by demo_cfg l' ''a'' u \<and> 0 \<le> u"
proof (rule lease_taken_over_only_after_expiry)
  show "\<forall>h. lc_holder_identity (demo_cfg h) = h" by (simp add: demo_cfg_def)
  show "(lease_step demo_cfg)\<^sup>*\<^sup>* (sys_start 0) demo_held" by (rule demo_reaches_held)
  show "sys_lease demo_held = Some demo_lease" by (simp add: demo_held_def)
  show "written_by demo_cfg demo_lease ''a'' 0"
    unfolding demo_lease_def by (rule written_created) (simp add: demo_cfg_def)
  show "(lease_step demo_cfg)\<^sup>*\<^sup>* demo_held (demo_held\<lparr>sys_now := 1000000\<rparr>)"
    using lease_step.time [of 1000000 demo_cfg demo_held] by (simp add: demo_held_def)
  show "sys_now (demo_held\<lparr>sys_now := 1000000\<rparr>) < lease_until demo_cfg ''a'' 0"
    by (simp add: lease_until_def demo_cfg_def lease_duration_seconds_def)
qed

lemma try_acquire_true:
  assumes "try_acquire_lease env ns name config w = (Inr True, w1)"
  shows "\<exists>got rq now. w_log w1 = w_log w @ [Ev (RqLeaseGet ns name) got, Ev rq True] \<and>
    ((\<exists>l. e_get_lease env (w_log w) ns name = Inr l \<and> lease_can_be_acquired l config now \<and>
        rq = RqLeaseReplace ns name (acquired_lease l config now)) \<or>
     (\<exists>e. e_get_lease env (w_log w) ns name = Inl e \<and> is_not_found e \<and>
        rq = RqLeaseCreate ns (created_lease name config now)))"
proof (cases "e_get_lease env (w_log w) ns name")
  case (Inl e)
  then show ?thesis
    using assms unfolding try_acquire_lease_def
    by (auto simp: bindE_def tryE_def retE_def failE_def liftE_def write_op_def request_op_def now_op_def Let_def is_ok_def
        conflict_means_not_acquired_def split: if_splits sum.splits)
next
  case (Inr l)
  then show ?thesis
    using assms unfolding try_acquire_lease_def
    by (auto simp: bindE_def tryE_def retE_def failE_def liftE_def write_op_def request_op_def now_op_def Let_def is_ok_def
        conflict_means_not_acquired_def split: if_splits sum.splits)
qed

definition is_lease_write :: "request \<Rightarrow> bool" where
  "is_lease_write rq = (case rq of RqLeaseReplace _ _ _ \<Rightarrow> True | RqLeaseCreate _ _ \<Rightarrow> True | _ \<Rightarrow> False)"

text \<open>An attempt that does not succeed reads the lease and has at most one write refused.\<close>

lemma try_acquire_not_true:
  assumes "try_acquire_lease env ns name config w = (r, w1)" and "r \<noteq> Inr True"
  shows "w_store w1 = w_store w \<and> (\<exists>got new. w_log w1 = w_log w @ Ev (RqLeaseGet ns name) got # new \<and>
    (new = [] \<or> (\<exists>rq. new = [Ev rq False] \<and> is_lease_write rq)))"
  using assms unfolding try_acquire_lease_def
  by (cases "e_get_lease env (w_log w) ns name")
    (auto simp: bindE_def tryE_def retE_def failE_def liftE_def write_op_def request_op_def now_op_def Let_def is_ok_def
      conflict_means_not_acquired_def is_lease_write_def split: if_splits sum.splits)

lemma try_acquire_store: "w_store (snd (try_acquire_lease env ns name config w)) = w_store w"
  unfolding try_acquire_lease_def
  by (auto simp: bindE_def tryE_def retE_def failE_def liftE_def write_op_def request_op_def now_op_def Let_def split: sum.splits)

lemma run_with_lease_split:
  assumes "run_with_lease env ns name config future w = (r, w')"
  shows "(\<exists>got rq now w1 r1. w_log w1 = w_log w @ [Ev (RqLeaseGet ns name) got, Ev rq True] \<and> w_store w1 = w_store w \<and>
      future w1 = (r1, w') \<and> r = map_sum id Some r1 \<and>
      ((\<exists>l. e_get_lease env (w_log w) ns name = Inr l \<and> lease_can_be_acquired l config now \<and>
          rq = RqLeaseReplace ns name (acquired_lease l config now)) \<or>
       (\<exists>e. e_get_lease env (w_log w) ns name = Inl e \<and> is_not_found e \<and>
          rq = RqLeaseCreate ns (created_lease name config now)))) \<or>
    ((r = Inr None \<or> (\<exists>e. r = Inl e)) \<and> w_store w' = w_store w \<and>
     (\<exists>got new. w_log w' = w_log w @ Ev (RqLeaseGet ns name) got # new \<and>
       (new = [] \<or> (\<exists>rq. new = [Ev rq False] \<and> is_lease_write rq))))"
proof -
  obtain r0 w1 where acq: "try_acquire_lease env ns name config w = (r0, w1)" by fastforce
  show ?thesis
  proof (cases "r0 = Inr True")
    case True
    obtain r1 w2 where fut: "future w1 = (r1, w2)" by fastforce
    have res: "r = map_sum id Some r1" "w' = w2"
      using assms fut by (auto simp: run_with_lease_def bindE_def acq True retE_def split: sum.splits)
    show ?thesis
      using try_acquire_true [OF acq [unfolded True]] try_acquire_store [of env ns name config w] fut res acq by fastforce
  next
    case False
    then have "(r = Inr None \<or> (\<exists>e. r = Inl e)) \<and> w' = w1"
      using assms by (cases r0) (auto simp: run_with_lease_def bindE_def acq retE_def split: if_splits)
    then show ?thesis using try_acquire_not_true [OF acq False] by blast
  qed
qed

text \<open>C25: what an operator sends is a step of the protocol, and the guarded work runs only behind it. Every run of the
  guard either has exactly one lease write accepted, the replacement of the lease it has just read, which was free,
  expired or its own at that moment, or the creation of a lease that did not exist, and then it is the work, from there
  on and with its result; or it reads the lease, has at most one write refused, does nothing else and reports no work.\<close>

theorem acquisition_follows_the_protocol:
  assumes "run_with_lease env ns name config future w = (r, w')"
  shows "(\<exists>got rq now w1 r1. w_log w1 = w_log w @ [Ev (RqLeaseGet ns name) got, Ev rq True] \<and> w_store w1 = w_store w \<and>
      future w1 = (r1, w') \<and> r = map_sum id Some r1 \<and>
      ((\<exists>l. e_get_lease env (w_log w) ns name = Inr l \<and> lease_can_be_acquired l config now \<and>
          rq = RqLeaseReplace ns name (acquired_lease l config now)) \<or>
       (\<exists>e. e_get_lease env (w_log w) ns name = Inl e \<and> is_not_found e \<and>
          rq = RqLeaseCreate ns (created_lease name config now)))) \<or>
    ((r = Inr None \<or> (\<exists>e. r = Inl e)) \<and> w_store w' = w_store w \<and>
     (\<exists>got new. w_log w' = w_log w @ Ev (RqLeaseGet ns name) got # new \<and>
       (new = [] \<or> (\<exists>rq. new = [Ev rq False] \<and> is_lease_write rq))))"
  by (rule run_with_lease_split [OF assms])

text \<open>An operator that finds no lease creates it; one that finds the lease of another, unexpired, does nothing.\<close>

lemma acquisition_follows_the_protocol_witness:
  "\<exists>rq w1. w_log w1 = [Ev (RqLeaseGet ''ns'' ''x'') False, Ev rq True] \<and> rq = RqLeaseCreate ''ns'' demo_lease \<and>
     (retE () :: (unit, ReconcileError, unit) op) w1 = (Inr (), snd (run_with_lease idle_env ''ns'' ''x'' (demo_cfg ''a'') (retE ()) (start_world ())))"
proof -
  let ?run = "run_with_lease idle_env ''ns'' ''x'' (demo_cfg ''a'') (retE ()) (start_world ())"
  have run: "?run = (Inr (Some ()), \<lparr>w_log = [Ev (RqLeaseGet ''ns'' ''x'') False, Ev (RqLeaseCreate ''ns'' demo_lease) True], w_store = ()\<rparr>)"
    by (simp add: run_with_lease_def try_acquire_lease_def idle_env_def quiet_env_def start_world_def bindE_def tryE_def retE_def liftE_def
      write_op_def request_op_def now_op_def Let_def is_ok_def is_not_found_def conflict_means_not_acquired_def demo_lease_def)
  from acquisition_follows_the_protocol [OF run] show ?thesis
    unfolding run by (auto simp: retE_def start_world_def)
qed

text \<open>The configuration keeps a lease alive. Whatever the environment variables hold, the renewal interval is positive
  and shorter than the duration, unless the duration is the one-second minimum.\<close>

theorem lease_renewed_within_its_duration:
  "0 < lc_renew_interval (lease_config_from_env env pid) \<and>
   (lc_renew_interval (lease_config_from_env env pid) < lc_duration (lease_config_from_env env pid) \<or>
    lc_duration (lease_config_from_env env pid) = 1)"
proof -
  have pos: "0 < env_u64 env name d" if "0 < d" for name d
    using that by (auto simp: env_u64_def split: option.splits)
  show ?thesis
    using pos [of 30 "''FLUIDBG_RECONCILE_LEASE_DURATION_SECONDS''"] pos [of 10 "''FLUIDBG_RECONCILE_LEASE_RENEW_INTERVAL_SECONDS''"]
    by (auto simp: lease_config_from_env_def Let_def)
qed

end
