(* ===== verification/Deployments.thy ===== *)
theory Deployments
  imports Kube Status Naming Sdk
begin

text \<open>
  The deployments of a rollout (\<open>src/operator/src/controller/deployments.rs\<close>): finding and adopting the
  current green deployment, naming the candidate, labels, environment assignments and waiting until
  deployments are ready. A panic of the string slicing in \<open>candidate_name_with_suffix\<close> (impossible for
  the ASCII names of Kubernetes objects) ends the operation with an error here. Sleeping between two
  attempts is not represented; the environment may answer every attempt differently.
\<close>

record DeploymentRef =
  dr_name :: string
  dr_namespace :: "string option"

text \<open>The keys of the two ordered maps of \<open>apply_assignments\<close>, with the derived lexicographic order.\<close>

datatype DeploymentIdentity = DeploymentIdentity (di_namespace: string) (di_name: string)

datatype DeploymentPatchKey = DeploymentPatchKey (pk_namespace: string) (pk_name: string) (pk_container_name: "string option")

definition option_list :: "'a option \<Rightarrow> 'a list" where
  "option_list x = (case x of None \<Rightarrow> [] | Some v \<Rightarrow> [v])"

definition identity_key :: "DeploymentIdentity \<Rightarrow> string list" where
  "identity_key i = [di_namespace i, di_name i]"

definition patch_key_key :: "DeploymentPatchKey \<Rightarrow> string list" where
  "patch_key_key k = [pk_namespace k, pk_name k] @ option_list (pk_container_name k)"

lemma identity_key_inj: "identity_key i = identity_key j \<longleftrightarrow> i = j"
  by (cases i; cases j) (simp add: identity_key_def)

lemma patch_key_key_inj: "patch_key_key i = patch_key_key j \<longleftrightarrow> i = j"
  by (cases i; cases j) (auto simp: patch_key_key_def option_list_def split: option.splits)

instantiation DeploymentIdentity :: linorder
begin

definition less_eq_DeploymentIdentity :: "DeploymentIdentity \<Rightarrow> DeploymentIdentity \<Rightarrow> bool" where
  "i \<le> j \<longleftrightarrow> identity_key i \<le> identity_key j"

definition less_DeploymentIdentity :: "DeploymentIdentity \<Rightarrow> DeploymentIdentity \<Rightarrow> bool" where
  "i < j \<longleftrightarrow> identity_key i < identity_key j"

instance
  by standard (auto simp: less_eq_DeploymentIdentity_def less_DeploymentIdentity_def identity_key_inj intro: order.not_eq_order_implies_strict)

end

instantiation DeploymentPatchKey :: linorder
begin

definition less_eq_DeploymentPatchKey :: "DeploymentPatchKey \<Rightarrow> DeploymentPatchKey \<Rightarrow> bool" where
  "i \<le> j \<longleftrightarrow> patch_key_key i \<le> patch_key_key j"

definition less_DeploymentPatchKey :: "DeploymentPatchKey \<Rightarrow> DeploymentPatchKey \<Rightarrow> bool" where
  "i < j \<longleftrightarrow> patch_key_key i < patch_key_key j"

instance
  by standard (auto simp: less_eq_DeploymentPatchKey_def less_DeploymentPatchKey_def patch_key_key_inj intro: order.not_eq_order_implies_strict)

end

section \<open>Names and labels\<close>

definition deployment_namespace :: "DeploymentRef \<Rightarrow> string \<Rightarrow> string" where
  "deployment_namespace r dflt = unwrap_or (dr_namespace r) dflt"

definition deployment_namespace_spec :: "ManagedDeploymentSpec \<Rightarrow> string \<Rightarrow> string" where
  "deployment_namespace_spec spec dflt = unwrap_or (dep_namespace spec) dflt"

definition label_selector :: "labels \<Rightarrow> string" where
  "label_selector ls = join '','' (map (\<lambda>(k, v). k @ ''='' @ v) ls)"

definition candidate_ref :: "BlueGreenDeployment \<Rightarrow> DeploymentRef" where
  "candidate_ref bgd = \<lparr>
     dr_name = (case Option.bind (bgd_status bgd) s_generated_deployment_name of
        Some n \<Rightarrow> n
      | None \<Rightarrow> bgd_name_or ''bgd'' bgd @ ''-pending''),
     dr_namespace = dep_namespace (spec_deployment (bgd_spec bgd))\<rparr>"

definition generated_candidate_name_seed :: "BlueGreenDeployment \<Rightarrow> string" where
  "generated_candidate_name_seed bgd =
     bgd_name_or ''bgd'' bgd @ '':'' @ bgd_uid_or [] bgd @ '':'' @ show_int (current_rollout_generation bgd)"

definition insert_labels :: "(string \<times> string) list \<Rightarrow> labels \<Rightarrow> labels" where
  "insert_labels new ls = fold (\<lambda>(k, v) acc. bt_insert k v acc) new ls"

definition remove_labels :: "string list \<Rightarrow> labels \<Rightarrow> labels" where
  "remove_labels ks ls = fold bt_remove ks ls"

text \<open>Changing the labels of a deployment and of its pod template, which must have metadata.\<close>

definition relabel :: "(labels \<Rightarrow> labels) \<Rightarrow> Deployment \<Rightarrow> ReconcileError + Deployment" where
  "relabel f d = (case Option.bind (d_spec d) (\<lambda>s. map_option (Pair s) (tpl_metadata (ds_template s))) of
     None \<Rightarrow> Inl (Store ''deployment template metadata missing'')
   | Some (s, m) \<Rightarrow> Inr (d\<lparr>d_metadata := (d_metadata d)\<lparr>md_labels := f (md_labels (d_metadata d))\<rparr>,
       d_spec := Some (s\<lparr>ds_template := (ds_template s)\<lparr>tpl_metadata := Some (m\<lparr>md_labels := f (md_labels m)\<rparr>)\<rparr>\<rparr>)\<rparr>))"

definition apply_family_labels_to_deployment :: "Deployment \<Rightarrow> labels \<Rightarrow> ReconcileError + Deployment" where
  "apply_family_labels_to_deployment d labels_to_apply =
     (if labels_to_apply = [] then Inl (Store ''selector.matchLabels must contain at least one label'')
      else relabel (insert_labels labels_to_apply) d)"

definition rollout_labels :: "BlueGreenDeployment \<Rightarrow> (string \<times> string) list" where
  "rollout_labels bgd = [(''fluidbg.io/blue-green-ref'', bgd_name_or [] bgd), (''fluidbg.io/blue-green-uid'', bgd_uid_or [] bgd)]"

definition apply_rollout_candidate_labels :: "Deployment \<Rightarrow> BlueGreenDeployment \<Rightarrow> ReconcileError + Deployment" where
  "apply_rollout_candidate_labels d bgd = relabel (insert_labels (rollout_labels bgd)) d"

definition clear_rollout_candidate_labels :: "Deployment \<Rightarrow> ReconcileError + Deployment" where
  "clear_rollout_candidate_labels d = relabel (remove_labels [''fluidbg.io/blue-green-ref'', ''fluidbg.io/blue-green-uid'']) d"

definition set_green_label :: "Deployment \<Rightarrow> bool \<Rightarrow> ReconcileError + Deployment" where
  "set_green_label d is_green = relabel (insert_labels [(''fluidbg.io/green'', if is_green then ''true'' else ''false'')]) d"

section \<open>Readiness\<close>

definition deployment_is_ready :: "Deployment \<Rightarrow> bool" where
  "deployment_is_ready d = (case (d_spec d, d_status d) of
     (Some spec, Some status) \<Rightarrow>
       (let desired = max (unwrap_or (ds_replicas spec) 1) 0
        in unwrap_or (dst_observed_generation status) 0 \<ge> unwrap_or (md_generation (d_metadata d)) 0 \<and>
           unwrap_or (dst_updated_replicas status) 0 \<ge> desired \<and>
           unwrap_or (dst_available_replicas status) 0 \<ge> desired)
   | _ \<Rightarrow> False)"

definition get_deployment :: "'s env \<Rightarrow> string \<Rightarrow> string \<Rightarrow> ('s, kube_error, Deployment) op" where
  "get_deployment env ns name = request_op (RqGet KDeployment ns name) (\<lambda>h. e_get_deployment env h ns name)"

definition list_deployments :: "'s env \<Rightarrow> string \<Rightarrow> labels \<Rightarrow> ('s, kube_error, Deployment list) op" where
  "list_deployments env ns ls = (let sel = label_selector ls
     in request_op (RqList KDeployment ns sel) (\<lambda>h. e_list_deployments env h ns sel))"

fun wait_deployment_attempts :: "'s env \<Rightarrow> DeploymentIdentity \<Rightarrow> nat \<Rightarrow> ('s, ReconcileError, unit) op" where
  "wait_deployment_attempts env i 0 = failE (Store (''deployment '' @ quoted (di_namespace i @ ''/'' @ di_name i)
     @ '' did not become ready after rollout''))"
| "wait_deployment_attempts env i (Suc attempts) =
     bindE (k8s (get_deployment env (di_namespace i) (di_name i))) (\<lambda>current.
       if deployment_is_ready current then retE () else wait_deployment_attempts env i attempts)"

definition wait_for_deployment_ready :: "'s env \<Rightarrow> DeploymentIdentity \<Rightarrow> ('s, ReconcileError, unit) op" where
  "wait_for_deployment_ready env i = wait_deployment_attempts env i 60"

definition wait_for_deployments_ready :: "'s env \<Rightarrow> DeploymentIdentity list \<Rightarrow> ('s, ReconcileError, unit) op" where
  "wait_for_deployments_ready env deployments = eachE (wait_for_deployment_ready env) deployments"

section \<open>The current green deployment\<close>

definition resolve_current_green :: "'s env \<Rightarrow> string \<Rightarrow> DeploymentSelector \<Rightarrow> ('s, ReconcileError, DeploymentRef) op" where
  "resolve_current_green env namespace selector =
     (if sel_match_labels selector = [] then failE (Store ''selector.matchLabels must contain at least one label'')
      else
        let green_namespace = unwrap_or (sel_namespace selector) namespace
        in bindE (k8s (list_deployments env green_namespace
                   (bt_insert ''fluidbg.io/green'' ''true'' (sel_match_labels selector)))) (\<lambda>greens.
           case greens of
             [deployment] \<Rightarrow>
               (case md_name (d_metadata deployment) of
                  None \<Rightarrow> failE (Store ''selected green deployment has no name'')
                | Some name \<Rightarrow> retE \<lparr>dr_name = name, dr_namespace = Some green_namespace\<rparr>)
           | [] \<Rightarrow>
               bindE (k8s (list_deployments env green_namespace (sel_match_labels selector))) (\<lambda>family.
                 case family of
                   [deployment] \<Rightarrow>
                     (case md_name (d_metadata deployment) of
                        None \<Rightarrow> failE (Store ''selected deployment for green adoption has no name'')
                      | Some name \<Rightarrow>
                          bindE (liftE (set_green_label deployment True)) (\<lambda>adopted.
                          thenE (k8s (write_op env (RqReplace green_namespace name (RDeployment adopted))))
                            (retE \<lparr>dr_name = name, dr_namespace = Some green_namespace\<rparr>)))
                 | [] \<Rightarrow> failE (Store (''selector matched no deployments in namespace '' @ quoted green_namespace))
                 | matches \<Rightarrow> failE (Store (''selector matched '' @ show_nat (length matches) @ '' deployments in namespace ''
                     @ quoted green_namespace
                     @ '' but none is marked fluidbg.io/green=true; refusing ambiguous adoption'')))
           | matches \<Rightarrow> failE (Store (''selector matched '' @ show_nat (length matches) @ '' green deployments in namespace ''
               @ quoted green_namespace @ ''; expected exactly one''))))"

text \<open>A deletion: an object that is already gone counts as deleted.\<close>

definition delete_object :: "'s env \<Rightarrow> kind \<Rightarrow> string \<Rightarrow> string \<Rightarrow> ('s, ReconcileError, unit) op" where
  "delete_object env k ns name = tryE (write_op env (RqDelete k ns name)) (\<lambda>r. case r of
     Inr _ \<Rightarrow> retE ()
   | Inl e \<Rightarrow> if is_not_found e then retE () else failE (K8s e))"

definition delete_current_green ::
  "'s env \<Rightarrow> string \<Rightarrow> DeploymentRef \<Rightarrow> DeploymentRef \<Rightarrow> ('s, ReconcileError, unit) op" where
  "delete_current_green env namespace candidate current_green =
     (let candidate_namespace = deployment_namespace candidate namespace;
          green_namespace = deployment_namespace current_green namespace
      in if dr_name candidate = dr_name current_green \<and> candidate_namespace = green_namespace then retE ()
         else delete_object env KDeployment green_namespace (dr_name current_green))"

section \<open>Candidate names\<close>

fun first_free_name ::
  "'s env \<Rightarrow> BlueGreenDeployment \<Rightarrow> string \<Rightarrow> string \<Rightarrow> string list \<Rightarrow> ('s, ReconcileError, string option) op" where
  "first_free_name env bgd namespace deploy_namespace [] =
     failE (Store ''failed to generate a non-colliding deployment name after 32 attempts'')"
| "first_free_name env bgd namespace deploy_namespace (suffix # suffixes) =
     (case candidate_name_with_suffix (bgd_name_or ''bgd'' bgd) suffix of
        None \<Rightarrow> failE (Store ''byte index is not a char boundary'')
      | Some candidate_name \<Rightarrow>
          tryE (get_deployment env deploy_namespace candidate_name) (\<lambda>r. case r of
            Inr _ \<Rightarrow> first_free_name env bgd namespace deploy_namespace suffixes
          | Inl e \<Rightarrow>
              if is_not_found e
              then thenE (update_status_generated_deployment_name env bgd namespace candidate_name) (retE None)
              else failE (K8s e)))"

definition ensure_generated_candidate_name ::
  "'s env \<Rightarrow> BlueGreenDeployment \<Rightarrow> string \<Rightarrow> ('s, ReconcileError, string option) op" where
  "ensure_generated_candidate_name env bgd namespace =
     (case Option.bind (bgd_status bgd) s_generated_deployment_name of
        Some existing \<Rightarrow> retE (Some existing)
      | None \<Rightarrow>
          first_free_name env bgd namespace (deployment_namespace_spec (spec_deployment (bgd_spec bgd)) namespace)
            (deterministic_candidate_suffixes (jl_sha256 (e_jwt env)) (generated_candidate_name_seed bgd)))"

section \<open>Environment assignments\<close>

fun upsert_env :: "string \<Rightarrow> string \<Rightarrow> EnvVar list \<Rightarrow> EnvVar list" where
  "upsert_env name val [] = [plain_env name val]"
| "upsert_env name val (e # es) =
     (if env_name e = name then e\<lparr>env_value := Some val\<rparr> # es else e # upsert_env name val es)"

definition upsert_all :: "(string \<times> string) list \<Rightarrow> EnvVar list \<Rightarrow> EnvVar list" where
  "upsert_all overrides es = fold (\<lambda>(n, v) acc. upsert_env n v acc) overrides es"

definition override_container :: "string option \<Rightarrow> (string \<times> string) list \<Rightarrow> Container \<Rightarrow> Container" where
  "override_container target overrides c =
     (if target \<noteq> None \<and> target \<noteq> Some (ct_name c) then c else c\<lparr>ct_env := upsert_all overrides (ct_env c)\<rparr>)"

definition override_pod :: "string option \<Rightarrow> (string \<times> string) list \<Rightarrow> PodSpec \<Rightarrow> PodSpec" where
  "override_pod target overrides pod = pod\<lparr>pod_containers := map (override_container target overrides) (pod_containers pod)\<rparr>"

definition override_deployment ::
  "string \<Rightarrow> string option \<Rightarrow> (string \<times> string) list \<Rightarrow> Deployment \<Rightarrow> ReconcileError + Deployment" where
  "override_deployment name target overrides d = (case d_spec d of
     None \<Rightarrow> Inl (Store (''deployment '' @ quoted name @ '' has no spec''))
   | Some spec \<Rightarrow> (case tpl_spec (ds_template spec) of
       None \<Rightarrow> Inl (Store (''deployment '' @ quoted name @ '' has no pod template spec''))
     | Some pod \<Rightarrow> Inr (d\<lparr>d_spec := Some (spec\<lparr>ds_template :=
         (ds_template spec)\<lparr>tpl_spec := Some (override_pod target overrides pod)\<rparr>\<rparr>)\<rparr>)))"

definition patch_targeted_deployment_env ::
  "'s env \<Rightarrow> string \<Rightarrow> string \<Rightarrow> string option \<Rightarrow> (string \<times> string) list \<Rightarrow> bool \<Rightarrow> ('s, ReconcileError, unit) op" where
  "patch_targeted_deployment_env env ns name container env_overrides ignore_missing =
     tryE (get_deployment env ns name) (\<lambda>r. case r of
       Inl e \<Rightarrow> if is_not_found e \<and> ignore_missing then retE () else failE (K8s e)
     | Inr d \<Rightarrow> bindE (liftE (override_deployment name container env_overrides d)) (\<lambda>d'.
         k8s (write_op env (RqReplace ns name (RDeployment d')))))"

type_synonym env_groups = "(DeploymentPatchKey \<times> (string \<times> string) list) list"

definition assignment_identity ::
  "sha256 \<Rightarrow> BlueGreenDeployment \<Rightarrow> string \<Rightarrow> DeploymentRef option \<Rightarrow> PropertyAssignment \<Rightarrow> DeploymentIdentity option" where
  "assignment_identity sha bgd namespace green_ref a = (case pa_target a of
     TargetGreen \<Rightarrow> map_option (\<lambda>g. DeploymentIdentity (deployment_namespace g namespace) (dr_name g)) green_ref
   | TargetBlue \<Rightarrow> Some (DeploymentIdentity (deployment_namespace (candidate_ref bgd) namespace) (dr_name (candidate_ref bgd)))
   | TargetTest \<Rightarrow> map_option (\<lambda>t. DeploymentIdentity namespace (test_instance_name sha bgd (test_name t))) (spec_test (bgd_spec bgd)))"

definition group_assignment ::
  "DeploymentIdentity option \<Rightarrow> PropertyAssignment \<Rightarrow> env_groups \<times> (DeploymentIdentity \<times> unit) list \<Rightarrow>
   env_groups \<times> (DeploymentIdentity \<times> unit) list" where
  "group_assignment target a acc = (if pa_kind a \<noteq> KindEnv then acc else (case (target, acc) of
     (None, _) \<Rightarrow> acc
   | (Some i, grouped, touched) \<Rightarrow>
       (let key = DeploymentPatchKey (di_namespace i) (di_name i) (pa_container_name a)
        in (bt_insert key (bt_insert (pa_name a) (pa_value a) (unwrap_or (map_of grouped key) [])) grouped,
            bt_insert i () touched))))"

definition group_assignments ::
  "sha256 \<Rightarrow> BlueGreenDeployment \<Rightarrow> string \<Rightarrow> DeploymentRef option \<Rightarrow> PropertyAssignment list \<Rightarrow>
   env_groups \<times> (DeploymentIdentity \<times> unit) list" where
  "group_assignments sha bgd namespace green_ref assignments =
     fold (\<lambda>a. group_assignment (assignment_identity sha bgd namespace green_ref a) a) assignments ([], [])"

definition apply_assignments ::
  "'s env \<Rightarrow> BlueGreenDeployment \<Rightarrow> string \<Rightarrow> PropertyAssignment list \<Rightarrow> bool \<Rightarrow>
   ('s, ReconcileError, DeploymentIdentity list) op" where
  "apply_assignments env bgd namespace assignments ignore_missing =
     bindE (if \<exists>a \<in> set assignments. pa_target a = TargetGreen
            then bindE (resolve_current_green env namespace (spec_selector (bgd_spec bgd))) (\<lambda>g. retE (Some g))
            else retE None) (\<lambda>green_ref.
       case group_assignments (jl_sha256 (e_jwt env)) bgd namespace green_ref assignments of
         (grouped, touched) \<Rightarrow>
           thenE (eachE (\<lambda>(key, env_map).
                    patch_targeted_deployment_env env (pk_namespace key) (pk_name key) (pk_container_name key) env_map
                      ignore_missing) grouped)
             (retE (map fst touched)))"

section \<open>What an assignment does to a deployment\<close>

definition env_lookup :: "string \<Rightarrow> EnvVar list \<Rightarrow> string option option" where
  "env_lookup name es = map_option env_value (find (\<lambda>e. env_name e = name) es)"

lemma env_lookup_simps [simp]:
  "env_lookup n [] = None"
  "env_lookup n (e # es) = (if env_name e = n then Some (env_value e) else env_lookup n es)"
  by (simp_all add: env_lookup_def)

lemma env_lookup_upsert: "env_lookup n (upsert_env m v es) = (if n = m then Some (Some v) else env_lookup n es)"
  by (induction m v es rule: upsert_env.induct) (auto simp: plain_env_def)

lemma env_lookup_upsert_all:
  "distinct (map fst ov) \<Longrightarrow>
   env_lookup n (upsert_all ov es) = (case map_of ov n of Some v \<Rightarrow> Some (Some v) | None \<Rightarrow> env_lookup n es)"
proof (induction ov arbitrary: es)
  case Nil
  then show ?case by (simp add: upsert_all_def)
next
  case (Cons p ov)
  obtain m v where p: "p = (m, v)" by fastforce
  have "upsert_all (p # ov) es = upsert_all ov (upsert_env m v es)" by (simp add: upsert_all_def p)
  moreover have "m \<notin> fst ` set ov" using Cons.prems by (simp add: p)
  ultimately show ?case
    using Cons by (auto simp: p env_lookup_upsert split: option.splits dest: map_of_SomeD intro: rev_image_eqI)
qed

lemma distinct_bt_insert: "sorted_wrt (<) (map fst m) \<Longrightarrow> distinct (map fst (bt_insert k v m))"
  using sorted_bt_insert [of m k v] by (simp add: strict_sorted_iff)

section \<open>Grouping\<close>

definition groups_ok :: "env_groups \<times> (DeploymentIdentity \<times> unit) list \<Rightarrow> bool" where
  "groups_ok acc \<longleftrightarrow>
     (\<forall>(key, env_map) \<in> set (fst acc). sorted_wrt (<) (map fst env_map) \<and>
        DeploymentIdentity (pk_namespace key) (pk_name key) \<in> fst ` set (snd acc))"

lemma group_assignment_ok:
  assumes "groups_ok acc"
  shows "groups_ok (group_assignment target a acc) \<and> fst ` set (snd acc) \<subseteq> fst ` set (snd (group_assignment target a acc))"
proof (cases "pa_kind a = KindEnv \<and> target \<noteq> None")
  case True
  then obtain i where i: "target = Some i" "pa_kind a = KindEnv" by blast
  obtain grouped touched where acc: "acc = (grouped, touched)" by fastforce
  let ?key = "DeploymentPatchKey (di_namespace i) (di_name i) (pa_container_name a)"
  let ?m = "unwrap_or (map_of grouped ?key) []"
  have m: "sorted_wrt (<) (map fst ?m)"
    using assms by (cases "map_of grouped ?key") (auto simp: acc groups_ok_def dest!: map_of_SomeD)
  have "sorted_wrt (<) (map fst em) \<and> DeploymentIdentity (pk_namespace key) (pk_name key) \<in> insert i (fst ` set touched)"
    if "(key, em) \<in> set (bt_insert ?key (bt_insert (pa_name a) (pa_value a) ?m) grouped)" for key em
  proof -
    from that set_bt_insert(2) [of ?key "bt_insert (pa_name a) (pa_value a) ?m" grouped]
    consider "key = ?key" "em = bt_insert (pa_name a) (pa_value a) ?m" | "(key, em) \<in> set grouped" by auto
    then show ?thesis
    proof cases
      case 1
      then show ?thesis using sorted_bt_insert [OF m] by simp
    next
      case 2
      then show ?thesis using assms by (auto simp: acc groups_ok_def)
    qed
  qed
  then show ?thesis
    by (auto simp: acc i group_assignment_def Let_def groups_ok_def dom_bt_insert)
next
  case False
  then show ?thesis using assms by (auto simp: group_assignment_def split: prod.splits option.splits)
qed

lemma fold_group_ok:
  "groups_ok acc \<Longrightarrow>
   groups_ok (fold (\<lambda>a. group_assignment (f a) a) as acc) \<and>
   fst ` set (snd acc) \<subseteq> fst ` set (snd (fold (\<lambda>a. group_assignment (f a) a) as acc))"
proof (induction as arbitrary: acc)
  case (Cons a as)
  then show ?case using group_assignment_ok [of acc "f a" a] Cons.IH [of "group_assignment (f a) a acc"]
    by (simp only: fold_simps) blast
qed simp

lemma assigned_is_touched:
  assumes "a \<in> set as" and "f a = Some i" and "pa_kind a = KindEnv" and "groups_ok acc"
  shows "i \<in> fst ` set (snd (fold (\<lambda>a. group_assignment (f a) a) as acc))"
  using assms
proof (induction as arbitrary: acc)
  case (Cons b as)
  have ok: "groups_ok (group_assignment (f b) b acc)" using group_assignment_ok Cons.prems(4) by blast
  show ?case
  proof (cases "a \<in> set as")
    case True
    then show ?thesis using Cons ok by simp
  next
    case False
    then have "b = a" using Cons.prems(1) by simp
    then have "i \<in> fst ` set (snd (group_assignment (f b) b acc))"
      using Cons.prems by (auto simp: group_assignment_def Let_def dom_bt_insert split: prod.splits)
    then show ?thesis using fold_group_ok [OF ok, of f as] by (simp only: fold_simps) blast
  qed
qed simp

section \<open>Which deployments are written\<close>

definition replaced_in :: "event list \<Rightarrow> (string \<times> string) set" where
  "replaced_in new = {(ns, n). \<exists>res ok. Ev (RqReplace ns n res) ok \<in> set new}"

lemma replaced_in_simps [simp]:
  "replaced_in [] = {}" "replaced_in (xs @ ys) = replaced_in xs \<union> replaced_in ys"
  "replaced_in (Ev (RqReplace ns n res) ok # xs) = insert (ns, n) (replaced_in xs)"
  "replaced_in (Ev (RqGet k ns n) ok # xs) = replaced_in xs"
  "replaced_in (Ev (RqList k ns n) ok # xs) = replaced_in xs"
  by (auto simp: replaced_in_def)

lemma resolve_replaces_green:
  "yields (resolve_current_green env namespace selector)
     (\<lambda>new r. \<forall>g. r = Inr g \<longrightarrow> replaced_in new \<subseteq> {(deployment_namespace g namespace, dr_name g)})"
  unfolding yields_def resolve_current_green_def list_deployments_def deployment_namespace_def
  by (auto simp: op_simps split: sum.splits list.splits option.splits)

lemma patch_env_replaces:
  "yields (patch_targeted_deployment_env env ns name container ov ignore_missing) (\<lambda>new r. replaced_in new \<subseteq> {(ns, name)})"
  unfolding yields_def patch_targeted_deployment_env_def get_deployment_def
  by (auto simp: op_simps split: sum.splits)

lemma apply_assignments_replaces:
  "yields (apply_assignments env bgd namespace assignments ignore_missing)
     (\<lambda>new r. \<forall>ids. r = Inr ids \<longrightarrow> replaced_in new \<subseteq> (\<lambda>i. (di_namespace i, di_name i)) ` set ids)"
proof -
  let ?ident = "\<lambda>i. (di_namespace i, di_name i)"
  let ?green = "\<exists>a \<in> set assignments. pa_target a = TargetGreen"
  let ?touched = "\<lambda>g. fst ` set (snd (group_assignments (jl_sha256 (e_jwt env)) bgd namespace g assignments))"
  have ok: "groups_ok (group_assignments (jl_sha256 (e_jwt env)) bgd namespace g assignments)" for g
    unfolding group_assignments_def by (rule fold_group_ok [THEN conjunct1]) (simp add: groups_ok_def)
  have green: "DeploymentIdentity (deployment_namespace g namespace) (dr_name g) \<in> ?touched (Some g)" if green: ?green for g
  proof -
    obtain a where a: "a \<in> set assignments" "pa_target a = TargetGreen" using green by blast
    have "pa_kind a = KindEnv" by (cases "pa_kind a")
    then show ?thesis unfolding group_assignments_def
      by (intro assigned_is_touched [OF a(1)]) (auto simp: assignment_identity_def a(2) groups_ok_def)
  qed
  have greens: "{(deployment_namespace g namespace, dr_name g)} \<subseteq> ?ident ` ?touched (Some g)" if ?green for g
    using imageI [OF green [OF that], of ?ident] by simp
  have first: "yields (if ?green then bindE (resolve_current_green env namespace (spec_selector (bgd_spec bgd))) (\<lambda>g. retE (Some g))
      else retE None) (\<lambda>new r. \<forall>g. r = Inr g \<longrightarrow> replaced_in new \<subseteq> ?ident ` ?touched g)"
  proof (cases ?green)
    case True
    have "yields (bindE (resolve_current_green env namespace (spec_selector (bgd_spec bgd))) (\<lambda>g. retE (Some g)))
      (\<lambda>new r. \<forall>g. r = Inr g \<longrightarrow> replaced_in new \<subseteq> ?ident ` ?touched g)"
    proof (rule yields_bind [OF resolve_replaces_green, where S = "\<lambda>a n r. n = [] \<and> r = Inr (Some a)"])
      fix n n' :: "event list" and a r'
      assume "\<forall>g. Inr a = Inr g \<longrightarrow> replaced_in n \<subseteq> {(deployment_namespace g namespace, dr_name g)}"
        and r: "n' = [] \<and> r' = Inr (Some a)"
      then have "replaced_in n \<subseteq> {(deployment_namespace a namespace, dr_name a)}" by simp
      then have "replaced_in n \<subseteq> ?ident ` ?touched (Some a)" by (rule subset_trans) (rule greens [OF True])
      then show "\<forall>g. r' = Inr g \<longrightarrow> replaced_in (n @ n') \<subseteq> ?ident ` ?touched g" using r by simp
    qed (simp_all add: yields_ret)
    then show ?thesis using True by simp
  qed (auto intro: yields_ret)
  have patches: "yields (eachE (\<lambda>(key, env_map). patch_targeted_deployment_env env (pk_namespace key) (pk_name key)
      (pk_container_name key) env_map ignore_missing) grouped) (\<lambda>new r. replaced_in new \<subseteq> ?ident ` fst ` set touched)"
    if "groups_ok (grouped, touched)" for grouped touched
  proof (rule yields_each [where P = "\<lambda>new. replaced_in new \<subseteq> ?ident ` fst ` set touched"])
    fix x
    assume x: "x \<in> set grouped"
    obtain key em where [simp]: "x = (key, em)" by fastforce
    have "DeploymentIdentity (pk_namespace key) (pk_name key) \<in> fst ` set touched" using that x by (auto simp: groups_ok_def)
    then have sub: "{(pk_namespace key, pk_name key)} \<subseteq> ?ident ` fst ` set touched" by force
    then show "yields (case x of (key, env_map) \<Rightarrow> patch_targeted_deployment_env env (pk_namespace key) (pk_name key)
        (pk_container_name key) env_map ignore_missing) (\<lambda>new r. replaced_in new \<subseteq> ?ident ` fst ` set touched)"
      by simp (rule yields_mono [OF patch_env_replaces], erule subset_trans [OF _ sub])
  qed auto
  show ?thesis
    unfolding apply_assignments_def
  proof (rule yields_bind [OF first])
    fix g
    obtain grouped touched where gt: "group_assignments (jl_sha256 (e_jwt env)) bgd namespace g assignments = (grouped, touched)"
      by fastforce
    have "groups_ok (grouped, touched)" using ok [of g] gt by simp
    from patches [OF this]
    show "yields (case group_assignments (jl_sha256 (e_jwt env)) bgd namespace g assignments of (grouped, touched) \<Rightarrow>
        thenE (eachE (\<lambda>(key, env_map). patch_targeted_deployment_env env (pk_namespace key) (pk_name key)
          (pk_container_name key) env_map ignore_missing) grouped) (retE (map fst touched)))
        (\<lambda>new r. replaced_in new \<subseteq> ?ident ` ?touched g \<and> (\<forall>ids. r = Inr ids \<longrightarrow> set ids = ?touched g))"
      unfolding gt prod.case thenE_def
      by (rule yields_bind [where S = "\<lambda>a n r. n = [] \<and> r = Inr (map fst touched)"]) (auto intro: yields_ret)
  qed auto
qed

section \<open>Properties\<close>

text \<open>Applying assignments writes only the deployments it reports. Every deployment replaced during a successful run,
  the adoption of a green deployment included, is in the list that is returned, which the callers wait for.\<close>

theorem assignments_report_what_they_write:
  assumes "apply_assignments env bgd namespace assignments ignore_missing w = (Inr ids, w')"
  shows "\<exists>new. w_log w' = w_log w @ new \<and> replaced_in new \<subseteq> (\<lambda>i. (di_namespace i, di_name i)) ` set ids"
  using yieldsD [OF apply_assignments_replaces assms] by simp

definition blue_assignment :: PropertyAssignment where
  "blue_assignment = \<lparr>pa_target = TargetBlue, pa_kind = KindEnv, pa_name = ''QUEUE'', pa_value = ''tmp'', pa_container_name = None\<rparr>"

definition orders_deployment :: Deployment where
  "orders_deployment = \<lparr>d_metadata = default_meta\<lparr>md_name := Some ''orders''\<rparr>, d_spec = Some sample_deployment_spec, d_status = None\<rparr>"

definition deployment_env :: "unit env" where
  "deployment_env = idle_env\<lparr>e_get_deployment := \<lambda>_ _ _. Inr orders_deployment\<rparr>"

lemma assignments_report_what_they_write_witness:
  "replaced_in (w_log (snd (apply_assignments deployment_env sample_bgd ''shop'' [blue_assignment] False (start_world ()))))
     = {(''shop'', ''orders-pending'')}"
proof -
  let ?r = "apply_assignments deployment_env sample_bgd ''shop'' [blue_assignment] False (start_world ())"
  have ev: "fst ?r = Inr [DeploymentIdentity ''shop'' ''orders-pending'']" "(''shop'', ''orders-pending'') \<in> replaced_in (w_log (snd ?r))"
    by (simp_all add: apply_assignments_def group_assignments_def group_assignment_def assignment_identity_def blue_assignment_def
        candidate_ref_def deployment_namespace_def sample_bgd_def default_spec_def default_meta_def bgd_name_or_def
        patch_targeted_deployment_env_def get_deployment_def override_deployment_def orders_deployment_def
        deployment_env_def idle_env_def quiet_env_def sample_deployment_spec_def op_simps start_world_def)
  then have "?r = (Inr [DeploymentIdentity ''shop'' ''orders-pending''], snd ?r)" by (metis prod.collapse)
  from assignments_report_what_they_write [OF this] ev show ?thesis by auto
qed

text \<open>An assignment sets exactly its variables. The containers of the patched deployment are those of the original, in
  order; in the targeted ones every assigned variable has its assigned value and every other variable the value it had,
  and the other containers are untouched.\<close>

theorem override_sets_exactly_the_assigned:
  assumes "override_deployment name target ov d = Inr d'" and "distinct (map fst ov)"
  shows "\<exists>spec pod pod' spec'. d_spec d = Some spec \<and> tpl_spec (ds_template spec) = Some pod \<and> d_spec d' = Some spec' \<and>
    tpl_spec (ds_template spec') = Some pod' \<and> length (pod_containers pod') = length (pod_containers pod) \<and>
    (\<forall>i < length (pod_containers pod). let c = pod_containers pod ! i; c' = pod_containers pod' ! i in
       ct_name c' = ct_name c \<and> ct_image c' = ct_image c \<and>
       (\<forall>n. env_lookup n (ct_env c') =
          (if target = None \<or> target = Some (ct_name c)
           then (case map_of ov n of Some v \<Rightarrow> Some (Some v) | None \<Rightarrow> env_lookup n (ct_env c))
           else env_lookup n (ct_env c))))"
  using assms
  by (auto simp: override_deployment_def override_pod_def override_container_def env_lookup_upsert_all Let_def
      split: option.splits)

lemma override_sets_exactly_the_assigned_witness:
  "\<exists>d' spec' pod'. override_deployment ''orders'' None [(''QUEUE'', ''tmp'')] orders_deployment = Inr d' \<and>
     d_spec d' = Some spec' \<and> tpl_spec (ds_template spec') = Some pod' \<and>
     env_lookup ''QUEUE'' (ct_env (pod_containers pod' ! 0)) = Some (Some ''tmp'')"
proof -
  obtain d' where d': "override_deployment ''orders'' None [(''QUEUE'', ''tmp'')] orders_deployment = Inr d'"
    by (simp add: override_deployment_def orders_deployment_def sample_deployment_spec_def)
  then show ?thesis
    using override_sets_exactly_the_assigned [OF d']
    by (fastforce simp: orders_deployment_def sample_deployment_spec_def Let_def)
qed

text \<open>C27: the current green deployment is unambiguous. When it is resolved, either exactly one deployment carries the green
  label and nothing is written, or none does, exactly one deployment matches the selector, and that one was labelled
  green by an accepted write.\<close>

theorem green_is_unambiguous:
  assumes "resolve_current_green env namespace selector w = (Inr g, w')"
  shows "\<exists>ns labelled. ns = unwrap_or (sel_namespace selector) namespace \<and> dr_namespace g = Some ns \<and>
    labelled = label_selector (bt_insert ''fluidbg.io/green'' ''true'' (sel_match_labels selector)) \<and>
    ((\<exists>d. e_list_deployments env (w_log w) ns labelled = Inr [d] \<and> md_name (d_metadata d) = Some (dr_name g) \<and>
        w_log w' = w_log w @ [Ev (RqList KDeployment ns labelled) True]) \<or>
     (\<exists>d d' family. e_list_deployments env (w_log w) ns labelled = Inr [] \<and>
        family = label_selector (sel_match_labels selector) \<and> md_name (d_metadata d) = Some (dr_name g) \<and>
        e_list_deployments env (w_log w @ [Ev (RqList KDeployment ns labelled) True]) ns family = Inr [d] \<and>
        set_green_label d True = Inr d' \<and>
        w_log w' = w_log w @ [Ev (RqList KDeployment ns labelled) True, Ev (RqList KDeployment ns family) True,
          Ev (RqReplace ns (dr_name g) (RDeployment d')) True]))"
  using assms
  by (auto simp: resolve_current_green_def list_deployments_def op_simps split: sum.splits list.splits option.splits if_splits)

lemma green_is_unambiguous_witness:
  "dr_name (\<lparr>dr_name = ''orders'', dr_namespace = Some ''shop''\<rparr>) = ''orders'' \<and>
   (\<exists>w'. resolve_current_green (idle_env\<lparr>e_list_deployments := \<lambda>_ _ _. Inr [orders_deployment]\<rparr>) ''shop''
      (spec_selector default_spec) (start_world ()) = (Inr \<lparr>dr_name = ''orders'', dr_namespace = Some ''shop''\<rparr>, w') \<and>
      w_log w' = [Ev (RqList KDeployment ''shop'' ''app=orders,fluidbg.io/green=true'') True])"
proof -
  let ?env = "idle_env\<lparr>e_list_deployments := \<lambda>_ _ _. Inr [orders_deployment]\<rparr>"
  obtain w' where w': "resolve_current_green ?env ''shop'' (spec_selector default_spec) (start_world ())
      = (Inr \<lparr>dr_name = ''orders'', dr_namespace = Some ''shop''\<rparr>, w')"
    by (simp add: resolve_current_green_def list_deployments_def op_simps orders_deployment_def default_spec_def default_meta_def)
  have "label_selector (bt_insert ''fluidbg.io/green'' ''true'' [(''app'', ''orders'')]) = ''app=orders,fluidbg.io/green=true''"
    by code_simp
  then show ?thesis
    using green_is_unambiguous [OF w'] w' by (simp add: default_spec_def)
qed

section \<open>Waiting\<close>

text \<open>What the server answers to the attempt after \<open>m\<close> earlier ones.\<close>

definition nth_attempt :: "'s env \<Rightarrow> DeploymentIdentity \<Rightarrow> event list \<Rightarrow> nat \<Rightarrow> kube_error + Deployment" where
  "nth_attempt env i h m = e_get_deployment env
     (h @ replicate m (Ev (RqGet KDeployment (di_namespace i) (di_name i)) True)) (di_namespace i) (di_name i)"

lemma wait_attempts_iff:
  "fst (wait_deployment_attempts env i k w) = Inr () \<longleftrightarrow>
   (\<exists>n < k. (\<forall>m < n. \<exists>d. nth_attempt env i (w_log w) m = Inr d) \<and>
      (\<exists>d. nth_attempt env i (w_log w) n = Inr d \<and> deployment_is_ready d))"
proof (induction k arbitrary: w)
  case 0
  then show ?case by (simp add: failE_def)
next
  case (Suc k)
  let ?ev = "Ev (RqGet KDeployment (di_namespace i) (di_name i)) True"
  have shift: "nth_attempt env i (w_log w @ [?ev]) m = nth_attempt env i (w_log w) (Suc m)" for m
    by (simp add: nth_attempt_def)
  show ?case
  proof (cases "nth_attempt env i (w_log w) 0")
    case (Inl e)
    then have "\<not> (\<exists>n < Suc k. (\<forall>m < n. \<exists>d. nth_attempt env i (w_log w) m = Inr d) \<and>
        (\<exists>d. nth_attempt env i (w_log w) n = Inr d \<and> deployment_is_ready d))"
      by (metis Inl_Inr_False gr0I)
    then show ?thesis using Inl by (simp add: nth_attempt_def get_deployment_def op_simps)
  next
    case (Inr d)
    then have get: "get_deployment env (di_namespace i) (di_name i) w = (Inr d, w\<lparr>w_log := w_log w @ [?ev]\<rparr>)"
      by (simp add: nth_attempt_def get_deployment_def op_simps)
    show ?thesis
    proof (cases "deployment_is_ready d")
      case True
      then show ?thesis using Inr get by (auto simp: bindE_def k8s_def mapErr_def tryE_def retE_def)
    next
      case False
      have "fst (wait_deployment_attempts env i (Suc k) w) = fst (wait_deployment_attempts env i k (w\<lparr>w_log := w_log w @ [?ev]\<rparr>))"
        using False get by (simp add: bindE_def k8s_def mapErr_def tryE_def retE_def)
      then show ?thesis
        using Inr False Suc.IH [of "w\<lparr>w_log := w_log w @ [?ev]\<rparr>"]
        by (simp add: shift Ex_less_Suc2 All_less_Suc2)
    qed
  qed
qed

text \<open>Waiting for a rollout ends, and ends well exactly when the deployment gets ready in time. At most 60 attempts are
  made; the wait succeeds if and only if one of them finds the deployment ready and none before it failed.\<close>

theorem wait_succeeds_iff_ready_in_time:
  "fst (wait_for_deployment_ready env i w) = Inr () \<longleftrightarrow>
   (\<exists>n < 60. (\<forall>m < n. \<exists>d. nth_attempt env i (w_log w) m = Inr d) \<and>
      (\<exists>d. nth_attempt env i (w_log w) n = Inr d \<and> deployment_is_ready d))"
  unfolding wait_for_deployment_ready_def by (rule wait_attempts_iff)

definition ready_orders :: Deployment where
  "ready_orders = orders_deployment\<lparr>d_status := Some \<lparr>dst_observed_generation = Some 1, dst_updated_replicas = Some 1,
     dst_available_replicas = Some 1\<rparr>\<rparr>"

text \<open>A deployment that is ready at the third look.\<close>

lemma wait_succeeds_iff_ready_in_time_witness:
  "fst (wait_for_deployment_ready
     (idle_env\<lparr>e_get_deployment := \<lambda>h _ _. Inr (if length h < 2 then orders_deployment else ready_orders)\<rparr>)
     (DeploymentIdentity ''shop'' ''orders'') (start_world ())) = Inr ()"
  unfolding wait_succeeds_iff_ready_in_time
  by (intro exI [of _ 2]) (simp add: nth_attempt_def deployment_is_ready_def ready_orders_def orders_deployment_def
      sample_deployment_spec_def default_meta_def numeral_2_eq_2)

end
