(* ===== verification/Resources.thy ===== *)
theory Resources
  imports Deployments
begin

text \<open>
  The objects the operator builds (first part of \<open>src/operator/src/controller/resources.rs\<close>): the test
  deployment and service, the verifier secret, the candidate and green deployments with the candidate
  patch, server-side apply with its ownership check, and the plugin authentication tokens. Encoding a
  \<open>DeploymentSpec\<close> as JSON and decoding it are parameters of the environment (\<open>k8s_openapi\<close>); the
  encoding cannot fail.
\<close>

record AuthConfig =
  auth_namespace :: string
  auth_secret_name :: string
  auth_secret_key :: string

definition btree :: "(string \<times> string) list \<Rightarrow> labels" where
  "btree entries = insert_labels entries []"

definition get_meta_opt :: "'s env \<Rightarrow> kind \<Rightarrow> string \<Rightarrow> string \<Rightarrow> ('s, ReconcileError, ObjectMeta option) op" where
  "get_meta_opt env k ns name = k8s (request_op (RqGet k ns name) (\<lambda>h. e_get_meta env h k ns name))"

section \<open>Server-side apply\<close>

text \<open>Whether an existing object may be overwritten by a generated one.\<close>

definition may_overwrite :: "labels \<Rightarrow> ObjectMeta option \<Rightarrow> bool" where
  "may_overwrite expected existing = (case existing of
     None \<Rightarrow> True
   | Some m \<Rightarrow>
       map_of (md_labels m) ''fluidbg.io/blue-green-ref'' = map_of expected ''fluidbg.io/blue-green-ref'' \<and>
       (map_of expected ''fluidbg.io/blue-green-uid'' = None \<or>
        map_of (md_labels m) ''fluidbg.io/blue-green-uid'' = map_of expected ''fluidbg.io/blue-green-uid''))"

definition ensure_apply_target_available :: "'s env \<Rightarrow> string \<Rightarrow> string \<Rightarrow> resource \<Rightarrow> ('s, ReconcileError, unit) op" where
  "ensure_apply_target_available env ns name res =
     (let expected = md_labels (resource_meta res)
      in if map_of expected ''fluidbg.io/blue-green-ref'' = None then retE ()
         else bindE (get_meta_opt env (resource_kind res) ns name) (\<lambda>existing.
           if may_overwrite expected existing then retE ()
           else failE (Resource (''refusing to apply generated resource '' @ quoted name
             @ '' because an existing resource with that name is not owned by this BlueGreenDeployment''))))"

definition apply_resource :: "'s env \<Rightarrow> string \<Rightarrow> string \<Rightarrow> resource \<Rightarrow> ('s, ReconcileError, unit) op" where
  "apply_resource env ns name res =
     thenE (ensure_apply_target_available env ns name res) (k8s (write_op env (RqApply ns name res)))"

section \<open>The test deployment and its service\<close>

definition test_labels :: "BlueGreenDeployment \<Rightarrow> string \<Rightarrow> string \<Rightarrow> labels" where
  "test_labels bgd logical_name runtime_name = btree [(''app'', runtime_name), (''fluidbg.io/test'', logical_name),
     (''fluidbg.io/blue-green-ref'', bgd_name_or [] bgd), (''fluidbg.io/blue-green-uid'', bgd_uid_or [] bgd)]"

definition test_resource_matches :: "labels \<Rightarrow> labels \<Rightarrow> bool" where
  "test_resource_matches ls expected = (\<forall>(k, v) \<in> set expected. map_of ls k = Some v)"

definition test_name_collision_error :: "BlueGreenDeployment \<Rightarrow> string \<Rightarrow> string \<Rightarrow> string \<Rightarrow> string \<Rightarrow> ReconcileError" where
  "test_name_collision_error bgd knd ns logical_name runtime_name =
     Store (''generated test '' @ knd @ '' name '' @ quoted (ns @ ''/'' @ runtime_name) @ '' for BGD '' @ quoted (bgd_name_or [] bgd)
       @ '' logical test '' @ quoted logical_name @ '' collides with an existing resource owned by another rollout'')"

definition check_test_name :: "'s env \<Rightarrow> BlueGreenDeployment \<Rightarrow> kind \<Rightarrow> string \<Rightarrow> string \<Rightarrow> string \<Rightarrow> string \<Rightarrow> labels \<Rightarrow>
  ('s, ReconcileError, unit) op" where
  "check_test_name env bgd k knd ns logical_name runtime_name expected =
     bindE (get_meta_opt env k ns runtime_name) (\<lambda>existing. case existing of
       None \<Rightarrow> retE ()
     | Some m \<Rightarrow> if test_resource_matches (md_labels m) expected then retE ()
                 else failE (test_name_collision_error bgd knd ns logical_name runtime_name))"

definition ensure_test_name_available :: "'s env \<Rightarrow> BlueGreenDeployment \<Rightarrow> string \<Rightarrow> string \<Rightarrow> string \<Rightarrow> labels \<Rightarrow>
  ('s, ReconcileError, unit) op" where
  "ensure_test_name_available env bgd ns logical_name runtime_name expected =
     thenE (check_test_name env bgd KDeployment ''deployment'' ns logical_name runtime_name expected)
       (check_test_name env bgd KService ''service'' ns logical_name runtime_name expected)"

definition merge_labels :: "labels \<Rightarrow> labels \<Rightarrow> labels" where
  "merge_labels target ls = insert_labels ls target"

definition deployment_spec_for_test :: "TestSpec \<Rightarrow> labels \<Rightarrow> DeploymentSpec" where
  "deployment_spec_for_test test ls =
     (let d = test_deployment test;
          m = unwrap_or (tpl_metadata (ds_template d)) default_meta
      in d\<lparr>ds_match_labels := merge_labels (ds_match_labels d) ls,
           ds_template := (ds_template d)\<lparr>tpl_metadata := Some (m\<lparr>md_labels := merge_labels (md_labels m) ls\<rparr>)\<rparr>\<rparr>)"

definition no_port_error :: "TestSpec \<Rightarrow> ReconcileError" where
  "no_port_error test = Store (''test '' @ quoted (test_name test) @ '' service spec must define at least one port'')"

definition service_spec_for_test :: "TestSpec \<Rightarrow> labels \<Rightarrow> ReconcileError + ServiceSpec" where
  "service_spec_for_test test ls =
     (let s = (test_service test)\<lparr>svc_selector := merge_labels (svc_selector (test_service test)) ls\<rparr>
      in if svc_ports s = [] then Inl (no_port_error test) else Inr s)"

definition test_service_port :: "TestSpec \<Rightarrow> ReconcileError + int" where
  "test_service_port test = (case svc_ports (test_service test) of
     [] \<Rightarrow> Inl (no_port_error test) | p # _ \<Rightarrow> Inr (port_number p))"

definition on_containers :: "(Container \<Rightarrow> Container) \<Rightarrow> DeploymentSpec \<Rightarrow> ReconcileError + DeploymentSpec" where
  "on_containers f spec = (case tpl_spec (ds_template spec) of
     None \<Rightarrow> Inl (Store ''deployment has no pod template spec'')
   | Some pod \<Rightarrow> Inr (spec\<lparr>ds_template := (ds_template spec)\<lparr>tpl_spec := Some (pod\<lparr>pod_containers := map f (pod_containers pod)\<rparr>)\<rparr>\<rparr>))"

definition apply_assignments_to_deployment_spec ::
  "DeploymentSpec \<Rightarrow> PropertyAssignment list \<Rightarrow> AssignmentTarget \<Rightarrow> ReconcileError + DeploymentSpec" where
  "apply_assignments_to_deployment_spec spec assignments target =
     on_containers (\<lambda>c. fold (\<lambda>a c.
       if pa_target a \<noteq> target \<or> pa_kind a \<noteq> KindEnv then c
       else override_container (pa_container_name a) [(pa_name a, pa_value a)] c) assignments c) spec"

fun set_env_var :: "EnvVar \<Rightarrow> EnvVar list \<Rightarrow> EnvVar list" where
  "set_env_var extra [] = [extra]"
| "set_env_var extra (e # es) = (if env_name e = env_name extra then extra # es else e # set_env_var extra es)"

definition apply_extra_env_to_deployment_spec :: "DeploymentSpec \<Rightarrow> EnvVar list \<Rightarrow> ReconcileError + DeploymentSpec" where
  "apply_extra_env_to_deployment_spec spec extra_env =
     (if extra_env = [] then Inr spec
      else on_containers (\<lambda>c. c\<lparr>ct_env := fold set_env_var extra_env (ct_env c)\<rparr>) spec)"

definition verifier_auth_env :: "string \<Rightarrow> EnvVar" where
  "verifier_auth_env secret_name = \<lparr>env_name = ''FLUIDBG_VERIFIER_AUTH_TOKENS_JSON'', env_value = None,
     env_secret = Some \<lparr>sk_name = secret_name, sk_key = ''tokens.json'', sk_optional = Some False\<rparr>\<rparr>"

definition ensure_test_resources :: "'s env \<Rightarrow> BlueGreenDeployment \<Rightarrow> string \<Rightarrow> PropertyAssignment list \<Rightarrow> EnvVar list \<Rightarrow>
  ('s, ReconcileError, DeploymentIdentity list) op" where
  "ensure_test_resources env bgd ns assignments extra_env = (case spec_test (bgd_spec bgd) of
     None \<Rightarrow> retE []
   | Some test \<Rightarrow>
       (let name = test_instance_name (jl_sha256 (e_jwt env)) bgd (test_name test);
            ls = test_labels bgd (test_name test) name
        in thenE (ensure_test_name_available env bgd ns (test_name test) name ls)
          (bindE (liftE (apply_assignments_to_deployment_spec (deployment_spec_for_test test ls) assignments TargetTest)) (\<lambda>assigned.
           bindE (liftE (apply_extra_env_to_deployment_spec assigned extra_env)) (\<lambda>spec.
           thenE (apply_resource env ns name
                   (RDeployment \<lparr>d_metadata = named_meta ns name ls, d_spec = Some spec, d_status = None\<rparr>))
          (bindE (liftE (service_spec_for_test test ls)) (\<lambda>service.
           thenE (apply_resource env ns name (RService (named_meta ns name ls) service))
            (retE [DeploymentIdentity ns name]))))))))"

definition ensure_verifier_auth_secret :: "'s env \<Rightarrow> BlueGreenDeployment \<Rightarrow> string \<Rightarrow> string \<Rightarrow> ('s, ReconcileError, string) op" where
  "ensure_verifier_auth_secret env bgd ns auth_tokens_json = (case md_name (bgd_metadata bgd) of
     None \<Rightarrow> failE (Resource ''BlueGreenDeployment is missing metadata.name'')
   | Some name \<Rightarrow>
       (let secret_name = verifier_auth_secret_name (jl_sha256 (e_jwt env)) bgd;
            ls = btree [(''fluidbg.io/blue-green-ref'', name), (''fluidbg.io/blue-green-uid'', bgd_uid_or [] bgd),
                  (''fluidbg.io/verifier-auth'', ''true'')]
        in thenE (apply_resource env ns secret_name
                   (RSecret (named_meta ns secret_name ls) [(''tokens.json'', as_bytes auth_tokens_json)]))
             (retE secret_name)))"

definition endpoint_subset_has_ready_target :: "EndpointSubset \<Rightarrow> bool" where
  "endpoint_subset_has_ready_target s \<longleftrightarrow> es_addresses s \<noteq> 0 \<and> es_ports s \<noteq> 0"

fun wait_endpoint_attempts :: "'s env \<Rightarrow> string \<Rightarrow> string \<Rightarrow> nat \<Rightarrow> ('s, ReconcileError, unit) op" where
  "wait_endpoint_attempts env ns service 0 =
     failE (Store (''service '' @ quoted (ns @ ''/'' @ service) @ '' did not publish a ready endpoint''))"
| "wait_endpoint_attempts env ns service (Suc attempts) =
     tryE (request_op (RqEndpoints ns service) (\<lambda>h. e_endpoints env h ns service)) (\<lambda>r. case r of
       Inr subsets \<Rightarrow> if list_ex endpoint_subset_has_ready_target subsets then retE () else wait_endpoint_attempts env ns service attempts
     | Inl _ \<Rightarrow> wait_endpoint_attempts env ns service attempts)"

definition wait_for_service_ready_endpoint :: "'s env \<Rightarrow> string \<Rightarrow> string \<Rightarrow> ('s, ReconcileError, unit) op" where
  "wait_for_service_ready_endpoint env ns service = wait_endpoint_attempts env ns service 60"

definition wait_for_test_services_ready :: "'s env \<Rightarrow> BlueGreenDeployment \<Rightarrow> string \<Rightarrow> ('s, ReconcileError, unit) op" where
  "wait_for_test_services_ready env bgd ns = (case spec_test (bgd_spec bgd) of
     None \<Rightarrow> retE ()
   | Some test \<Rightarrow> wait_for_service_ready_endpoint env ns (test_instance_name (jl_sha256 (e_jwt env)) bgd (test_name test)))"

section \<open>Authentication tokens\<close>

definition read_operator_signing_key :: "'s env \<Rightarrow> string \<Rightarrow> string \<Rightarrow> string \<Rightarrow> ('s, ReconcileError, bytes) op" where
  "read_operator_signing_key env ns secret_name secret_key =
     bindE (k8s (request_op (RqGet KSecret ns secret_name) (\<lambda>h. e_get_secret env h ns secret_name))) (\<lambda>data.
       case map_of data secret_key of
         Some key \<Rightarrow> if key \<noteq> [] then retE key else failE (Store (''operator auth Secret '' @ quoted (ns @ ''/'' @ secret_name)
           @ '' is missing non-empty key '' @ quoted secret_key))
       | None \<Rightarrow> failE (Store (''operator auth Secret '' @ quoted (ns @ ''/'' @ secret_name)
           @ '' is missing non-empty key '' @ quoted secret_key)))"

definition operator_key :: "'s env \<Rightarrow> AuthConfig \<Rightarrow> ('s, ReconcileError, bytes) op" where
  "operator_key env auth = read_operator_signing_key env (auth_namespace auth) (auth_secret_name auth) (auth_secret_key auth)"

definition get_bgd :: "'s env \<Rightarrow> string \<Rightarrow> string \<Rightarrow> ('s, kube_error, BlueGreenDeployment) op" where
  "get_bgd env ns name = request_op (RqGetBgd ns name) (\<lambda>h. e_get_bgd env h ns name)"

definition plugin_name :: "InceptionPlugin \<Rightarrow> string" where
  "plugin_name plugin = unwrap_or (md_name (plugin_metadata plugin)) []"

definition sign_with :: "'s env \<Rightarrow> string \<Rightarrow> PluginAuthClaims \<Rightarrow> bytes \<Rightarrow> ('s, ReconcileError, string) op" where
  "sign_with env what claims key =
     mapErr (\<lambda>e. Auth (''failed to sign '' @ what @ '' token: '' @ e)) (liftE (sign_plugin_auth_token (e_jwt env) claims key))"

definition sign_inception_auth_token ::
  "'s env \<Rightarrow> string \<Rightarrow> AuthConfig \<Rightarrow> string \<Rightarrow> string \<Rightarrow> InceptionPlugin \<Rightarrow> ('s, ReconcileError, string) op" where
  "sign_inception_auth_token env ns auth blue_green_ref inception_point plugin =
     bindE (operator_key env auth) (\<lambda>signing_key.
     bindE (k8s (get_bgd env ns blue_green_ref)) (\<lambda>bgd.
     case md_uid (bgd_metadata bgd) of
       None \<Rightarrow> failE (Store (''BlueGreenDeployment '' @ quoted (ns @ ''/'' @ blue_green_ref) @ '' has no uid''))
     | Some uid \<Rightarrow>
         sign_with env ''plugin auth'' (claims_new_with_uid ns blue_green_ref uid inception_point (plugin_name plugin)) signing_key))"

definition sign_manager_sync_auth_token :: "'s env \<Rightarrow> AuthConfig \<Rightarrow> InceptionPlugin \<Rightarrow> ('s, ReconcileError, string) op" where
  "sign_manager_sync_auth_token env auth plugin =
     bindE (operator_key env auth) (\<lambda>signing_key.
       sign_with env ''manager sync''
         (claims_new ''fluidbg-system'' ''__manager_sync__'' ''__manager_sync__'' (plugin_name plugin)) signing_key)"

definition validate_inception_auth_token ::
  "'s env \<Rightarrow> AuthConfig \<Rightarrow> string option \<Rightarrow> ('s, ReconcileError, PluginAuthClaims option) op" where
  "validate_inception_auth_token env auth header_value = (case Option.bind header_value bearer_token of
     None \<Rightarrow> retE None
   | Some token \<Rightarrow> bindE (operator_key env auth) (\<lambda>signing_key.
       case verify_plugin_auth_token (e_jwt env) token signing_key of
         Inr claims \<Rightarrow> retE (Some claims)
       | Inl _ \<Rightarrow> retE None))"

section \<open>The candidate patch\<close>

fun merge_json :: "json \<Rightarrow> json \<Rightarrow> json" and merge_entries :: "(string \<times> json) list \<Rightarrow> (string \<times> json) list \<Rightarrow> (string \<times> json) list" where
  "merge_json (JObj base) (JObj patch) = JObj (merge_entries base patch)"
| "merge_json base patch = patch"
| "merge_entries base [] = base"
| "merge_entries base ((k, v) # patch) =
     merge_entries
       (if is_null v then bt_remove k base else bt_insert k (merge_json (unwrap_or (map_of base k) JNull) v) base) patch"

definition json_field :: "string \<Rightarrow> ('a \<Rightarrow> json) \<Rightarrow> 'a option \<Rightarrow> (string \<times> json) list \<Rightarrow> (string \<times> json) list" where
  "json_field k f x entries = (case x of None \<Rightarrow> entries | Some v \<Rightarrow> bt_insert k (f v) entries)"

definition candidate_patch_json :: "CandidateDeploymentPatch \<Rightarrow> json" where
  "candidate_patch_json p = JObj (
     (json_field ''replicas'' JInt (patch_replicas p)
     (json_field ''strategy'' id (patch_strategy p)
     (json_field ''minReadySeconds'' JInt (patch_min_ready_seconds p)
     (json_field ''revisionHistoryLimit'' JInt (patch_revision_history_limit p)
     (json_field ''paused'' JBool (patch_paused p)
     (json_field ''progressDeadlineSeconds'' JInt (patch_progress_deadline_seconds p)
     (json_field ''template'' id (patch_template p) []))))))))"

definition deployment_spec_with_test_patch :: "'s env \<Rightarrow> BlueGreenDeployment \<Rightarrow> DeploymentSpec \<Rightarrow> ReconcileError + DeploymentSpec" where
  "deployment_spec_with_test_patch env bgd base = (case spec_candidate_patch (bgd_spec bgd) of
     None \<Rightarrow> Inr base
   | Some patch \<Rightarrow>
       (case e_deployment_spec_from_json env (merge_json (e_deployment_spec_to_json env base) (candidate_patch_json patch)) of
          Inl err \<Rightarrow> Inl (Store (''spec.candidatePatch does not produce a valid apps/v1 DeploymentSpec: '' @ err))
        | Inr spec \<Rightarrow> Inr spec))"

section \<open>The declared deployments\<close>

definition apply_runtime_identity_selector :: "Deployment \<Rightarrow> string \<Rightarrow> ReconcileError + Deployment" where
  "apply_runtime_identity_selector d name = (case d_spec d of
     None \<Rightarrow> Inl (Store ''deployment spec missing'')
   | Some spec \<Rightarrow> (case tpl_metadata (ds_template spec) of
       None \<Rightarrow> Inl (Store ''deployment template metadata missing'')
     | Some m \<Rightarrow> Inr (d\<lparr>d_spec := Some (spec\<lparr>
         ds_match_labels := bt_insert ''fluidbg.io/deployment'' name (ds_match_labels spec),
         ds_template := (ds_template spec)\<lparr>tpl_metadata :=
           Some (m\<lparr>md_labels := bt_insert ''fluidbg.io/deployment'' name (md_labels m)\<rparr>)\<rparr>\<rparr>)\<rparr>)))"

definition declared_deployment ::
  "'s env \<Rightarrow> string \<Rightarrow> string \<Rightarrow> BlueGreenDeployment \<Rightarrow> DeploymentSpec \<Rightarrow> labels \<Rightarrow> bool \<Rightarrow> PropertyAssignment list \<Rightarrow>
   ReconcileError + Deployment" where
  "declared_deployment env ns name bgd base family_labels is_green initial_assignments =
     Let (if is_green then Inr base
          else (case deployment_spec_with_test_patch env bgd base of
                  Inl e \<Rightarrow> Inl e
                | Inr spec \<Rightarrow> apply_assignments_to_deployment_spec spec initial_assignments TargetBlue)) (\<lambda>r.
     case r of
       Inl e \<Rightarrow> Inl e
     | Inr spec \<Rightarrow>
         (case apply_family_labels_to_deployment
                 \<lparr>d_metadata = named_meta ns name [], d_spec = Some spec, d_status = None\<rparr> family_labels of
            Inl e \<Rightarrow> Inl e
          | Inr d1 \<Rightarrow>
              (case set_green_label d1 is_green of
                 Inl e \<Rightarrow> Inl e
               | Inr d2 \<Rightarrow>
                   (case (if is_green then clear_rollout_candidate_labels d2 else apply_rollout_candidate_labels d2 bgd) of
                      Inl e \<Rightarrow> Inl e
                    | Inr d3 \<Rightarrow> apply_runtime_identity_selector d3 name))))"

definition apply_deployment_manifest ::
  "'s env \<Rightarrow> BlueGreenDeployment \<Rightarrow> string \<Rightarrow> ManagedDeploymentSpec \<Rightarrow> labels \<Rightarrow> bool \<Rightarrow> PropertyAssignment list \<Rightarrow>
   ('s, ReconcileError, DeploymentIdentity) op" where
  "apply_deployment_manifest env bgd default_namespace deployment_spec family_labels is_green initial_assignments =
     (let name = dr_name (candidate_ref bgd);
          ns = deployment_namespace_spec deployment_spec default_namespace
      in bindE (liftE (declared_deployment env ns name bgd (dep_spec deployment_spec) family_labels is_green initial_assignments)) (\<lambda>d.
         tryE (get_deployment env ns name) (\<lambda>r. case r of
           Inr existing \<Rightarrow>
             thenE (k8s (write_op env (RqReplace ns name (RDeployment
                     (d\<lparr>d_metadata := (d_metadata d)\<lparr>md_resource_version := md_resource_version (d_metadata existing)\<rparr>\<rparr>)))))
               (retE (DeploymentIdentity ns name))
         | Inl e \<Rightarrow>
             if is_not_found e
             then thenE (k8s (write_op env (RqCreate ns (RDeployment d)))) (retE (DeploymentIdentity ns name))
             else failE (K8s e))))"

section \<open>Labels\<close>

lemma map_of_insert_labels:
  "distinct (map fst new) \<Longrightarrow> map_of (insert_labels new ls) = map_of ls ++ map_of new"
proof (induction new arbitrary: ls)
  case Nil
  then show ?case by (simp add: insert_labels_def)
next
  case (Cons p new)
  obtain k v where p: "p = (k, v)" by fastforce
  have "insert_labels (p # new) ls = insert_labels new (bt_insert k v ls)" by (simp add: insert_labels_def p)
  moreover have "map_of new k = None" using Cons.prems by (simp add: p map_of_eq_None_iff)
  ultimately show ?case using Cons by (auto simp: p fun_eq_iff map_add_def split: option.splits)
qed

lemma map_of_remove_labels: "map_of (remove_labels ks ls) k = (if k \<in> set ks then None else map_of ls k)"
  by (induction ks arbitrary: ls) (auto simp: remove_labels_def)

lemma map_of_btree: "distinct (map fst entries) \<Longrightarrow> map_of (btree entries) = map_of entries"
  by (simp add: btree_def map_of_insert_labels)

text \<open>The labels of a deployment and of its pod template.\<close>

definition template_labels :: "Deployment \<Rightarrow> labels option" where
  "template_labels d = Option.bind (d_spec d) (\<lambda>s. map_option md_labels (tpl_metadata (ds_template s)))"

lemma relabel_Inr:
  assumes "relabel f d = Inr d'"
  shows "md_labels (d_metadata d') = f (md_labels (d_metadata d)) \<and>
    (\<exists>ls. template_labels d = Some ls \<and> template_labels d' = Some (f ls)) \<and>
    map_option ds_match_labels (d_spec d') = map_option ds_match_labels (d_spec d) \<and>
    md_name (d_metadata d') = md_name (d_metadata d) \<and> md_namespace (d_metadata d') = md_namespace (d_metadata d)"
  using assms by (cases "d_spec d") (auto simp: relabel_def template_labels_def split: option.splits)

section \<open>The merge patch\<close>

lemma map_of_merge_entries:
  "distinct (map fst patch) \<Longrightarrow>
   map_of (merge_entries base patch) k = (case map_of patch k of
     None \<Rightarrow> map_of base k
   | Some v \<Rightarrow> if is_null v then None else Some (merge_json (unwrap_or (map_of base k) JNull) v))"
proof (induction patch arbitrary: base)
  case (Cons p patch)
  obtain k' v where p: "p = (k', v)" by fastforce
  let ?base = "if is_null v then bt_remove k' base else bt_insert k' (merge_json (unwrap_or (map_of base k') JNull) v) base"
  have step: "merge_entries base (p # patch) = merge_entries ?base patch" by (simp only: p merge_entries.simps)
  have new: "map_of patch k' = None" using Cons.prems by (simp add: p map_of_eq_None_iff)
  have IH: "map_of (merge_entries ?base patch) k = (case map_of patch k of
      None \<Rightarrow> map_of ?base k
    | Some v \<Rightarrow> if is_null v then None else Some (merge_json (unwrap_or (map_of ?base k) JNull) v))"
    using Cons by (simp add: p)
  show ?case
    unfolding step IH using new by (cases "k = k'") (simp_all add: p split: option.splits)
qed simp

lemma jget_merge_json:
  assumes "distinct (map fst patch)"
  shows "jget k (merge_json (JObj base) (JObj patch)) = (case map_of patch k of
     None \<Rightarrow> map_of base k
   | Some v \<Rightarrow> if is_null v then None else Some (merge_json (unwrap_or (map_of base k) JNull) v))"
  by (simp add: jget_def map_of_merge_entries [OF assms])

section \<open>Ownership of applied objects\<close>

definition applied_in :: "event list \<Rightarrow> (string \<times> string \<times> resource) set" where
  "applied_in new = {(ns, n, res). \<exists>ok. Ev (RqApply ns n res) ok \<in> set new}"

lemma apply_resource_yields:
  "yields (apply_resource env ns name res) (\<lambda>new r. \<forall>ns' n' res'. (ns', n', res') \<in> applied_in new \<longrightarrow>
     ns' = ns \<and> n' = name \<and> res' = res)"
  unfolding yields_def apply_resource_def ensure_apply_target_available_def get_meta_opt_def applied_in_def
  by (auto simp: op_simps split: sum.splits)

lemma ensure_apply_target_Inr:
  assumes "ensure_apply_target_available env ns name res w = (Inr (), w')"
  shows "map_of (md_labels (resource_meta res)) ''fluidbg.io/blue-green-ref'' = None \<and> w' = w \<or>
    (\<exists>existing. e_get_meta env (w_log w) (resource_kind res) ns name = Inr existing \<and>
       may_overwrite (md_labels (resource_meta res)) existing \<and>
       w' = w\<lparr>w_log := w_log w @ [Ev (RqGet (resource_kind res) ns name) True]\<rparr>)"
  using assms
  by (auto simp: ensure_apply_target_available_def get_meta_opt_def op_simps split: sum.splits if_splits)

section \<open>Properties\<close>

text \<open>C26: generated objects never overwrite those of another rollout. When an object that carries a rollout's label is
  sent to the server, the object that was read under its name just before did not exist or carried the same rollout
  name, and the same rollout UID where the new object has one.\<close>

theorem apply_respects_ownership:
  assumes "apply_resource env ns name res w = (r, w')"
    and "Ev (RqApply ns name res) ok \<in> set (w_log w') - set (w_log w)"
    and "map_of (md_labels (resource_meta res)) ''fluidbg.io/blue-green-ref'' = Some bg"
  shows "w_log w' = w_log w @ [Ev (RqGet (resource_kind res) ns name) True, Ev (RqApply ns name res) ok] \<and>
    (\<exists>existing. e_get_meta env (w_log w) (resource_kind res) ns name = Inr existing \<and>
      (\<forall>m. existing = Some m \<longrightarrow> map_of (md_labels m) ''fluidbg.io/blue-green-ref'' = Some bg \<and>
        (\<forall>uid. map_of (md_labels (resource_meta res)) ''fluidbg.io/blue-green-uid'' = Some uid \<longrightarrow>
           map_of (md_labels m) ''fluidbg.io/blue-green-uid'' = Some uid)))"
  using assms
  by (auto simp: apply_resource_def ensure_apply_target_available_def get_meta_opt_def may_overwrite_def op_simps
      split: sum.splits if_splits option.splits)

definition owned_secret :: resource where
  "owned_secret = RSecret (named_meta ''shop'' ''auth'' [(''fluidbg.io/blue-green-ref'', ''orders'')]) []"

lemma apply_respects_ownership_witness:
  "w_log (snd (apply_resource idle_env ''shop'' ''auth'' owned_secret (start_world ())))
     = [Ev (RqGet KSecret ''shop'' ''auth'') True, Ev (RqApply ''shop'' ''auth'' owned_secret) True]"
proof -
  let ?r = "apply_resource idle_env ''shop'' ''auth'' owned_secret (start_world ())"
  have "Ev (RqApply ''shop'' ''auth'' owned_secret) True \<in> set (w_log (snd ?r)) - set (w_log (start_world ()))"
    by (simp add: apply_resource_def ensure_apply_target_available_def get_meta_opt_def may_overwrite_def op_simps
        owned_secret_def idle_env_def quiet_env_def resource_meta_def resource_kind_def named_meta_def start_world_def)
  moreover have "map_of (md_labels (resource_meta owned_secret)) ''fluidbg.io/blue-green-ref'' = Some ''orders''"
    by (simp add: owned_secret_def resource_meta_def named_meta_def)
  ultimately show ?thesis
    using apply_respects_ownership [of idle_env "''shop''" "''auth''" owned_secret "start_world ()" "fst ?r" "snd ?r" True "''orders''"]
    by (simp add: resource_kind_def owned_secret_def)
qed

text \<open>Signing and validating under a key secret and a rollout that do not change.\<close>

definition stable_key :: "'s env \<Rightarrow> AuthConfig \<Rightarrow> bytes \<Rightarrow> bool" where
  "stable_key env auth k \<longleftrightarrow> k \<noteq> [] \<and>
     (\<exists>data. map_of data (auth_secret_key auth) = Some k \<and>
        (\<forall>h. e_get_secret env h (auth_namespace auth) (auth_secret_name auth) = Inr data))"

definition stable_uid :: "'s env \<Rightarrow> string \<Rightarrow> string \<Rightarrow> string \<Rightarrow> bool" where
  "stable_uid env ns bg uid \<longleftrightarrow> (\<forall>h. \<exists>bgd. e_get_bgd env h ns bg = Inr bgd \<and> md_uid (bgd_metadata bgd) = Some uid)"

lemma operator_key_stable:
  "stable_key env auth k \<Longrightarrow> operator_key env auth w =
     (Inr k, w\<lparr>w_log := w_log w @ [Ev (RqGet KSecret (auth_namespace auth) (auth_secret_name auth)) True]\<rparr>)"
  by (auto simp: stable_key_def operator_key_def read_operator_signing_key_def op_simps)

lemma sign_inception_Inr:
  assumes "stable_key env auth k" and "stable_uid env ns bg uid"
    and "sign_inception_auth_token env ns auth bg ip plugin w = (Inr token, w1)"
  shows "sign_plugin_auth_token (e_jwt env) (claims_new_with_uid ns bg uid ip (plugin_name plugin)) k = Inr token"
proof -
  obtain bgd where bgd: "e_get_bgd env (w_log w @ [Ev (RqGet KSecret (auth_namespace auth) (auth_secret_name auth)) True]) ns bg = Inr bgd"
      "md_uid (bgd_metadata bgd) = Some uid"
    using assms(2) unfolding stable_uid_def by blast
  show ?thesis
    using assms(3) bgd
    by (auto simp: sign_inception_auth_token_def operator_key_stable [OF assms(1)] sign_with_def get_bgd_def op_simps
        split: option.splits sum.splits)
qed

lemma sign_succeeds:
  assumes "stable_key env auth k" and "stable_uid env ns bg uid"
    and "jwt_roundtrips (e_jwt env) (claims_new_with_uid ns bg uid ip (plugin_name plugin))"
  shows "\<exists>token w1. sign_inception_auth_token env ns auth bg ip plugin w = (Inr token, w1)"
proof -
  have k: "k \<noteq> []" using assms(1) by (simp add: stable_key_def)
  have iss: "cl_iss (claims_new_with_uid ns bg uid ip (plugin_name plugin)) = plugin_auth_issuer"
      "cl_aud (claims_new_with_uid ns bg uid ip (plugin_name plugin)) = plugin_auth_audience"
    by (simp_all add: claims_new_with_uid_def claims_new_def)
  obtain bgd where bgd: "e_get_bgd env (w_log w @ [Ev (RqGet KSecret (auth_namespace auth) (auth_secret_name auth)) True]) ns bg = Inr bgd"
      "md_uid (bgd_metadata bgd) = Some uid"
    using assms(2) unfolding stable_uid_def by blast
  show ?thesis
    using sign_verify [OF assms(3) k iss] bgd
    by (auto simp: sign_inception_auth_token_def operator_key_stable [OF assms(1)] sign_with_def get_bgd_def op_simps)
qed

lemma validate_signed:
  assumes "stable_key env auth k" and "jwt_roundtrips (e_jwt env) (claims_new_with_uid ns bg uid ip plugin)"
    and "sign_plugin_auth_token (e_jwt env) (claims_new_with_uid ns bg uid ip plugin) k = Inr token"
  shows "verify_plugin_auth_token (e_jwt env) token k = Inr (claims_new_with_uid ns bg uid ip plugin)"
    and "fst (validate_inception_auth_token env auth (Some (bearer_value token)) w) = Inr (Some (claims_new_with_uid ns bg uid ip plugin))"
proof -
  have "k \<noteq> []" using assms(1) by (simp add: stable_key_def)
  then show v: "verify_plugin_auth_token (e_jwt env) token k = Inr (claims_new_with_uid ns bg uid ip plugin)"
  proof -
    have "cl_iss (claims_new_with_uid ns bg uid ip plugin) = plugin_auth_issuer"
        "cl_aud (claims_new_with_uid ns bg uid ip plugin) = plugin_auth_audience"
      by (simp_all add: claims_new_with_uid_def claims_new_def)
    from sign_verify [OF assms(2) \<open>k \<noteq> []\<close> this] assms(3) show ?thesis by auto
  qed
  show "fst (validate_inception_auth_token env auth (Some (bearer_value token)) w) = Inr (Some (claims_new_with_uid ns bg uid ip plugin))"
    using v by (simp add: validate_inception_auth_token_def bearer_token_def bearer_value_def bindE_def operator_key_stable [OF assms(1)]
        retE_def)
qed

text \<open>C34: the operator accepts exactly the tokens it issues. A token signed for an inception point, under a key secret that
  does not change in between, is validated to the namespace, rollout, UID, inception point and plugin it was issued for.\<close>

theorem issued_token_validates:
  assumes "sign_inception_auth_token env ns auth bg ip plugin w = (Inr token, w1)"
    and "stable_key env auth k" and "stable_uid env ns bg uid"
    and "jwt_roundtrips (e_jwt env) (claims_new_with_uid ns bg uid ip (plugin_name plugin))"
  shows "fst (validate_inception_auth_token env auth (Some (bearer_value token)) w2)
    = Inr (Some (claims_new_with_uid ns bg uid ip (plugin_name plugin)))"
  by (rule validate_signed(2) [OF assms(2,4) sign_inception_Inr [OF assms(2,3,1)]])

definition sample_plugin :: InceptionPlugin where
  "sample_plugin = \<lparr>plugin_metadata = default_meta\<lparr>md_name := Some ''http''\<rparr>, plugin_spec = \<lparr>ip_description = [], ip_image = ''http:1'',
     ip_supported_roles = [Observer], ip_role_constraints = None, ip_topology = Standalone, ip_field_namespaces = [],
     ip_config_schema = JObj [], ip_config_template = None,
     ip_inceptor = \<lparr>pi_env = [], pi_volumes = [], pi_ports = [], pi_volume_mounts = [], pi_pod_labels = [], pi_pod_annotations = [],
       pi_service_account_name = None, pi_control_plane_tls = None\<rparr>,
     ip_lifecycle = None, ip_manager = None, ip_injects = None, ip_features = None\<rparr>\<rparr>"

definition signing_auth :: AuthConfig where
  "signing_auth = \<lparr>auth_namespace = ''sys'', auth_secret_name = ''key'', auth_secret_key = ''k''\<rparr>"

definition signing_env :: "unit env" where
  "signing_env = idle_env\<lparr>e_jwt := toy_jwt (claims_new_with_uid ''shop'' ''orders'' ''uid-1'' ''ip'' ''http''),
     e_get_secret := \<lambda>_ _ _. Inr [(''k'', [1, 2, 3])], e_get_bgd := \<lambda>_ _ _. Inr sample_bgd\<rparr>"

lemma signing_env_stable:
  "stable_key signing_env signing_auth [1, 2, 3]" "stable_uid signing_env ''shop'' ''orders'' ''uid-1''"
  "jwt_roundtrips (e_jwt signing_env) (claims_new_with_uid ''shop'' ''orders'' ''uid-1'' ''ip'' (plugin_name sample_plugin))"
  by (auto simp: stable_key_def stable_uid_def signing_env_def signing_auth_def sample_bgd_def default_meta_def plugin_name_def
      sample_plugin_def toy_jwt_roundtrips)

lemma issued_token_validates_witness:
  "\<exists>token. fst (sign_inception_auth_token signing_env ''shop'' signing_auth ''orders'' ''ip'' sample_plugin (start_world ())) = Inr token \<and>
     fst (validate_inception_auth_token signing_env signing_auth (Some (bearer_value token)) (start_world ()))
       = Inr (Some (claims_new_with_uid ''shop'' ''orders'' ''uid-1'' ''ip'' (plugin_name sample_plugin)))"
proof -
  obtain token w1 where "sign_inception_auth_token signing_env ''shop'' signing_auth ''orders'' ''ip'' sample_plugin (start_world ())
      = (Inr token, w1)"
    using sign_succeeds [OF signing_env_stable] by blast
  from issued_token_validates [OF this signing_env_stable] this show ?thesis by auto
qed

lemma declared_deployment_Inr:
  assumes "declared_deployment env ns name bgd base family is_green as = Inr d"
  obtains d1 d2 d3 where "relabel (insert_labels family) d1 = Inr d2"
    "relabel (insert_labels [(''fluidbg.io/green'', if is_green then ''true'' else ''false'')]) d2 = Inr d3"
    "\<exists>d4. relabel (if is_green then remove_labels [''fluidbg.io/blue-green-ref'', ''fluidbg.io/blue-green-uid'']
       else insert_labels (rollout_labels bgd)) d3 = Inr d4 \<and> apply_runtime_identity_selector d4 name = Inr d"
  using assms
  by (auto simp: declared_deployment_def apply_family_labels_to_deployment_def set_green_label_def clear_rollout_candidate_labels_def
      apply_rollout_candidate_labels_def split: sum.splits if_splits)

lemma runtime_identity_Inr:
  assumes "apply_runtime_identity_selector d name = Inr d'"
  shows "d_metadata d' = d_metadata d \<and>
    (\<exists>ls. template_labels d = Some ls \<and> template_labels d' = Some (bt_insert ''fluidbg.io/deployment'' name ls)) \<and>
    (\<exists>spec. d_spec d' = Some spec \<and> map_of (ds_match_labels spec) ''fluidbg.io/deployment'' = Some name)"
  using assms by (auto simp: apply_runtime_identity_selector_def template_labels_def split: option.splits)

definition rollout_marked :: "BlueGreenDeployment \<Rightarrow> bool \<Rightarrow> labels \<Rightarrow> bool" where
  "rollout_marked bgd is_green l \<longleftrightarrow>
     map_of l ''fluidbg.io/green'' = Some (if is_green then ''true'' else ''false'') \<and>
     map_of l ''fluidbg.io/blue-green-ref'' = (if is_green then None else Some (bgd_name_or [] bgd)) \<and>
     map_of l ''fluidbg.io/blue-green-uid'' = (if is_green then None else Some (bgd_uid_or [] bgd))"

lemma rollout_marked_steps:
  "rollout_marked bgd is_green
     ((if is_green then remove_labels [''fluidbg.io/blue-green-ref'', ''fluidbg.io/blue-green-uid'']
       else insert_labels (rollout_labels bgd)) (insert_labels [(''fluidbg.io/green'', if is_green then ''true'' else ''false'')] l))"
  by (cases is_green) (simp_all add: rollout_marked_def map_of_remove_labels map_of_insert_labels rollout_labels_def)

lemma rollout_marked_deployment: "rollout_marked bgd g (bt_insert ''fluidbg.io/deployment'' name l) = rollout_marked bgd g l"
  by (simp add: rollout_marked_def)

text \<open>The manifest of a candidate is labelled as one. Whatever the specification, its patch and the assignments are, a
  declared deployment carries the green marker and, exactly when it is a candidate, the rollout's name and UID, on the
  object and on its pods; its selector and its pods agree on the deployment's own name, so it never selects the pods of
  another deployment of the family.\<close>

theorem declared_deployment_is_labelled:
  assumes "declared_deployment env ns name bgd base family is_green as = Inr d"
  shows "\<exists>ls spec. template_labels d = Some ls \<and> d_spec d = Some spec \<and>
    map_of (ds_match_labels spec) ''fluidbg.io/deployment'' = Some name \<and> map_of ls ''fluidbg.io/deployment'' = Some name \<and>
    rollout_marked bgd is_green (md_labels (d_metadata d)) \<and> rollout_marked bgd is_green ls"
proof -
  let ?green = "insert_labels [(''fluidbg.io/green'', if is_green then ''true'' else ''false'')]"
  let ?mark = "if is_green then remove_labels [''fluidbg.io/blue-green-ref'', ''fluidbg.io/blue-green-uid'']
       else insert_labels (rollout_labels bgd)"
  obtain d1 d2 d3 d4 where steps: "relabel ?green d2 = Inr d3" "relabel ?mark d3 = Inr d4" "apply_runtime_identity_selector d4 name = Inr d"
    using declared_deployment_Inr [OF assms] by blast
  obtain l where l: "template_labels d3 = Some (?green l)" "md_labels (d_metadata d3) = ?green (md_labels (d_metadata d2))"
    using relabel_Inr [OF steps(1)] by auto
  then have l4: "template_labels d4 = Some (?mark (?green l))" "md_labels (d_metadata d4) = ?mark (?green (md_labels (d_metadata d2)))"
    using relabel_Inr [OF steps(2)] by auto
  obtain spec where r: "d_metadata d = d_metadata d4" "template_labels d = Some (bt_insert ''fluidbg.io/deployment'' name (?mark (?green l)))"
      "d_spec d = Some spec" "map_of (ds_match_labels spec) ''fluidbg.io/deployment'' = Some name"
    using runtime_identity_Inr [OF steps(3)] l4(1) by auto
  have "rollout_marked bgd is_green (md_labels (d_metadata d))"
    unfolding r(1) l4(2) by (rule rollout_marked_steps)
  moreover have "rollout_marked bgd is_green (bt_insert ''fluidbg.io/deployment'' name (?mark (?green l)))"
    unfolding rollout_marked_deployment by (rule rollout_marked_steps)
  ultimately show ?thesis using r(2-4) by (intro exI conjI) (assumption | simp)+
qed

lemma declared_deployment_is_labelled_witness:
  "\<exists>d. declared_deployment idle_env ''shop'' ''orders-x'' sample_bgd sample_deployment_spec [(''app'', ''orders'')] False [blue_assignment] = Inr d \<and>
     rollout_marked sample_bgd False (md_labels (d_metadata d))"
proof -
  obtain d where d: "declared_deployment idle_env ''shop'' ''orders-x'' sample_bgd sample_deployment_spec [(''app'', ''orders'')] False [blue_assignment] = Inr d"
    by (simp add: declared_deployment_def deployment_spec_with_test_patch_def sample_bgd_def default_spec_def sample_deployment_spec_def
        apply_assignments_to_deployment_spec_def on_containers_def apply_family_labels_to_deployment_def set_green_label_def relabel_def
        apply_rollout_candidate_labels_def apply_runtime_identity_selector_def)
  with declared_deployment_is_labelled [OF d] show ?thesis by blast
qed

text \<open>The field a patch sets, by its JSON name.\<close>

definition patch_field :: "CandidateDeploymentPatch \<Rightarrow> string \<Rightarrow> json option" where
  "patch_field p k =
     (if k = ''replicas'' then map_option JInt (patch_replicas p)
      else if k = ''strategy'' then patch_strategy p
      else if k = ''minReadySeconds'' then map_option JInt (patch_min_ready_seconds p)
      else if k = ''revisionHistoryLimit'' then map_option JInt (patch_revision_history_limit p)
      else if k = ''paused'' then map_option JBool (patch_paused p)
      else if k = ''progressDeadlineSeconds'' then map_option JInt (patch_progress_deadline_seconds p)
      else if k = ''template'' then patch_template p else None)"

lemma map_of_json_field: "map_of (json_field k f x m) k' = (if k' = k \<and> x \<noteq> None then map_option f x else map_of m k')"
  by (cases x) (auto simp: json_field_def)

lemma sorted_json_field: "sorted_wrt (<) (map fst m) \<Longrightarrow> sorted_wrt (<) (map fst (json_field k f x m))"
  by (cases x) (simp_all add: json_field_def sorted_bt_insert)

lemma candidate_patch_entries:
  obtains entries where "candidate_patch_json p = JObj entries" "distinct (map fst entries)" "map_of entries = patch_field p"
proof
  let ?e = "json_field ''replicas'' JInt (patch_replicas p) (json_field ''strategy'' id (patch_strategy p)
     (json_field ''minReadySeconds'' JInt (patch_min_ready_seconds p)
     (json_field ''revisionHistoryLimit'' JInt (patch_revision_history_limit p) (json_field ''paused'' JBool (patch_paused p)
     (json_field ''progressDeadlineSeconds'' JInt (patch_progress_deadline_seconds p)
     (json_field ''template'' id (patch_template p) []))))))"
  show "candidate_patch_json p = JObj ?e" by (simp add: candidate_patch_json_def)
  have "sorted_wrt (<) (map fst ?e)" by (auto intro!: sorted_json_field)
  then show "distinct (map fst ?e)" by (simp add: strict_sorted_iff)
  have "map_of ?e k = patch_field p k" for k
  proof (cases "k \<in> {''replicas'', ''strategy'', ''minReadySeconds'', ''revisionHistoryLimit'', ''paused'', ''progressDeadlineSeconds'', ''template''}")
    case True
    then show ?thesis by (elim insertE emptyE) (simp_all add: map_of_json_field patch_field_def option.map_id0)
  next
    case False
    then show ?thesis by (simp add: map_of_json_field patch_field_def)
  qed
  then show "map_of ?e = patch_field p" by blast
qed

text \<open>The candidate patch overlays the specification. A field the patch sets replaces, or for an object is merged into,
  the field of the candidate's specification; every other field of the specification stays as it is.\<close>

theorem candidate_patch_overlays:
  "jget k (merge_json (JObj base) (candidate_patch_json p)) = (case patch_field p k of
     None \<Rightarrow> map_of base k
   | Some v \<Rightarrow> if is_null v then None else Some (merge_json (unwrap_or (map_of base k) JNull) v))"
proof -
  obtain entries where "candidate_patch_json p = JObj entries" "distinct (map fst entries)" "map_of entries = patch_field p"
    by (rule candidate_patch_entries)
  then show ?thesis by (simp only: jget_merge_json)
qed

end
