(* ===== verification/Cleanup.thy ===== *)
theory Cleanup
  imports Resources
begin

text \<open>
  Deleting the objects of a rollout (second part of \<open>src/operator/src/controller/resources.rs\<close>): deletion
  by name and by label, waiting until nothing is left, and finding the rollouts that own objects. A wait
  gives up after 60 attempts.
\<close>

section \<open>Deletion\<close>

definition delete_deployment :: "'s env \<Rightarrow> string \<Rightarrow> string \<Rightarrow> ('s, ReconcileError, unit) op" where
  "delete_deployment env ns name = delete_object env KDeployment ns name"

definition delete_service :: "'s env \<Rightarrow> string \<Rightarrow> string \<Rightarrow> ('s, ReconcileError, unit) op" where
  "delete_service env ns name = delete_object env KService ns name"

definition delete_config_map :: "'s env \<Rightarrow> string \<Rightarrow> string \<Rightarrow> ('s, ReconcileError, unit) op" where
  "delete_config_map env ns name = delete_object env KConfigMap ns name"

definition delete_secret :: "'s env \<Rightarrow> string \<Rightarrow> string \<Rightarrow> ('s, ReconcileError, unit) op" where
  "delete_secret env ns name = delete_object env KSecret ns name"

definition list_meta :: "'s env \<Rightarrow> kind \<Rightarrow> string \<Rightarrow> string \<Rightarrow> ('s, ReconcileError, ObjectMeta list) op" where
  "list_meta env k ns selector = k8s (request_op (RqList k ns selector) (\<lambda>h. e_list_meta env h k ns selector))"

definition blue_green_ref_selector :: "string \<Rightarrow> string" where
  "blue_green_ref_selector bg = ''fluidbg.io/blue-green-ref='' @ bg"

definition inception_selector :: "string \<Rightarrow> string" where
  "inception_selector bg = ''fluidbg.io/blue-green-ref='' @ bg @ '',fluidbg.io/inception-point''"

definition delete_labeled_resources :: "'s env \<Rightarrow> string \<Rightarrow> string \<Rightarrow> kind \<Rightarrow> ('s, ReconcileError, unit) op" where
  "delete_labeled_resources env ns selector k =
     bindE (list_meta env k ns selector) (\<lambda>items.
       eachE (\<lambda>item. delete_object env k ns (unwrap_or (md_name item) [])) items)"

section \<open>Waiting until nothing is left\<close>

definition owned_kinds :: "kind list" where
  "owned_kinds = [KDeployment, KService, KConfigMap, KSecret, KPod]"

definition count_owned :: "'s env \<Rightarrow> string \<Rightarrow> string \<Rightarrow> ('s, ReconcileError, nat list) op" where
  "count_owned env ns selector =
     foldE (\<lambda>counts k. bindE (list_meta env k ns selector) (\<lambda>items. retE (counts @ [length items]))) [] owned_kinds"

fun wait_gone_attempts :: "'s env \<Rightarrow> string \<Rightarrow> string \<Rightarrow> string \<Rightarrow> nat \<Rightarrow> ('s, ReconcileError, unit) op" where
  "wait_gone_attempts env ns selector message 0 = failE (Store message)"
| "wait_gone_attempts env ns selector message (Suc attempts) =
     bindE (count_owned env ns selector) (\<lambda>counts.
       if \<forall>n \<in> set counts. n = 0 then retE () else wait_gone_attempts env ns selector message attempts)"

definition wait_for_inception_resources_deleted :: "'s env \<Rightarrow> string \<Rightarrow> string \<Rightarrow> ('s, ReconcileError, unit) op" where
  "wait_for_inception_resources_deleted env ns bg =
     wait_gone_attempts env ns (inception_selector bg)
       (''inception resources for BGD '' @ quoted bg @ '' were not deleted in namespace '' @ ns) 60"

definition wait_for_blue_green_resources_deleted :: "'s env \<Rightarrow> string \<Rightarrow> string \<Rightarrow> ('s, ReconcileError, unit) op" where
  "wait_for_blue_green_resources_deleted env ns bg =
     wait_gone_attempts env ns (blue_green_ref_selector bg)
       (''orphaned resources for BGD '' @ quoted bg @ '' were not deleted in namespace '' @ ns) 60"

fun wait_test_gone_attempts :: "'s env \<Rightarrow> string \<Rightarrow> string \<Rightarrow> nat \<Rightarrow> ('s, ReconcileError, unit) op" where
  "wait_test_gone_attempts env ns name 0 = retE ()"
| "wait_test_gone_attempts env ns name (Suc attempts) =
     bindE (get_meta_opt env KDeployment ns name) (\<lambda>deployment.
     bindE (get_meta_opt env KService ns name) (\<lambda>service.
       if deployment = None \<and> service = None then retE () else wait_test_gone_attempts env ns name attempts))"

text \<open>The final check short-circuits: the service is only looked up when the deployment is gone.\<close>

definition wait_for_test_resources_deleted :: "'s env \<Rightarrow> BlueGreenDeployment \<Rightarrow> string \<Rightarrow> ('s, ReconcileError, unit) op" where
  "wait_for_test_resources_deleted env bgd ns = (case spec_test (bgd_spec bgd) of
     None \<Rightarrow> retE ()
   | Some test \<Rightarrow>
       (let name = test_instance_name (jl_sha256 (e_jwt env)) bgd (test_name test);
            failure = failE (Store (''test resources for BGD '' @ quoted (bgd_name_or [] bgd) @ '' logical test ''
              @ quoted (test_name test) @ '' were not deleted in namespace '' @ ns))
        in thenE (wait_test_gone_attempts env ns name 60)
          (bindE (get_meta_opt env KDeployment ns name) (\<lambda>deployment.
             if deployment \<noteq> None then failure
             else bindE (get_meta_opt env KService ns name) (\<lambda>service. if service \<noteq> None then failure else retE ())))))"

section \<open>Cleaning up\<close>

definition cleanup_test_resources :: "'s env \<Rightarrow> BlueGreenDeployment \<Rightarrow> string \<Rightarrow> ('s, ReconcileError, unit) op" where
  "cleanup_test_resources env bgd ns =
     thenE (case spec_test (bgd_spec bgd) of
         None \<Rightarrow> retE ()
       | Some test \<Rightarrow>
           (let name = test_instance_name (jl_sha256 (e_jwt env)) bgd (test_name test)
            in thenE (delete_deployment env ns name)
              (thenE (delete_service env ns name)
                (delete_secret env ns (verifier_auth_secret_name (jl_sha256 (e_jwt env)) bgd)))))
       (wait_for_test_resources_deleted env bgd ns)"

definition delete_inception :: "'s env \<Rightarrow> string \<Rightarrow> string \<Rightarrow> string \<Rightarrow> ('s, ReconcileError, unit) op" where
  "delete_inception env ns bg ip =
     (let sha = jl_sha256 (e_jwt env)
      in thenE (delete_deployment env ns (inception_instance_base_name sha bg ip))
        (thenE (delete_service env ns (inception_service_name sha bg ip))
        (thenE (delete_config_map env ns (inception_config_map_name sha bg ip))
          (delete_secret env ns (inception_auth_secret_name sha bg ip)))))"

definition cleanup_inception_resources :: "'s env \<Rightarrow> BlueGreenDeployment \<Rightarrow> string \<Rightarrow> ('s, ReconcileError, unit) op" where
  "cleanup_inception_resources env bgd ns =
     (let bg = bgd_name_or [] bgd
      in thenE (eachE (\<lambda>ip. delete_inception env ns bg (pt_name ip)) (spec_inception_points (bgd_spec bgd)))
           (wait_for_inception_resources_deleted env ns bg))"

definition cleanup_orphaned_blue_green_resources :: "'s env \<Rightarrow> string \<Rightarrow> string \<Rightarrow> ('s, ReconcileError, unit) op" where
  "cleanup_orphaned_blue_green_resources env ns bg =
     thenE (eachE (delete_labeled_resources env ns (blue_green_ref_selector bg)) owned_kinds)
       (wait_for_blue_green_resources_deleted env ns bg)"

section \<open>Which rollouts own objects\<close>

definition collect_blue_green_refs :: "'s env \<Rightarrow> string \<Rightarrow> string list \<Rightarrow> kind \<Rightarrow> ('s, ReconcileError, string list) op" where
  "collect_blue_green_refs env ns refs k =
     bindE (list_meta env k ns ''fluidbg.io/blue-green-ref'') (\<lambda>items.
       retE (fold (\<lambda>item acc. case map_of (md_labels item) ''fluidbg.io/blue-green-ref'' of
          Some v \<Rightarrow> insort_insert v acc | None \<Rightarrow> acc) items refs))"

definition blue_green_refs_from_owned_resources :: "'s env \<Rightarrow> string \<Rightarrow> ('s, ReconcileError, string list) op" where
  "blue_green_refs_from_owned_resources env ns = foldE (collect_blue_green_refs env ns) [] owned_kinds"

definition blue_green_refs_from_owned_resources_all :: "'s env \<Rightarrow> ('s, ReconcileError, string list) op" where
  "blue_green_refs_from_owned_resources_all env =
     bindE (k8s (request_op RqNamespaces (e_namespaces env))) (\<lambda>namespaces.
       foldE (\<lambda>refs m. case md_name m of
           None \<Rightarrow> retE refs
         | Some ns \<Rightarrow> bindE (blue_green_refs_from_owned_resources env ns) (\<lambda>names.
             retE (fold (\<lambda>name. insort_insert (blue_green_state_key ns name)) names refs))) [] namespaces)"

section \<open>What a completed cleanup has seen\<close>

definition listing :: "string \<Rightarrow> string \<Rightarrow> event list" where
  "listing ns selector = map (\<lambda>k. Ev (RqList k ns selector) True) owned_kinds"

text \<open>Every kind of object was listed, in order, after the events \<open>h\<close>, and there was none of any kind.\<close>

definition all_gone :: "'s env \<Rightarrow> event list \<Rightarrow> string \<Rightarrow> string \<Rightarrow> bool" where
  "all_gone env h ns selector = (\<forall>i < length owned_kinds.
     e_list_meta env (h @ take i (listing ns selector)) (owned_kinds ! i) ns selector = Inr [])"

lemma count_owned_zero:
  assumes "count_owned env ns selector w = (Inr counts, w')" and "\<forall>n \<in> set counts. n = 0"
  shows "w_log w' = w_log w @ listing ns selector \<and> all_gone env (w_log w) ns selector"
proof -
  have five: "(\<forall>i < length owned_kinds. P i) \<longleftrightarrow> P 0 \<and> P 1 \<and> P 2 \<and> P 3 \<and> P 4" for P :: "nat \<Rightarrow> bool"
    by (auto simp: owned_kinds_def All_less_Suc numeral_eq_Suc)
  show ?thesis
    using assms unfolding all_gone_def five
    by (auto simp: count_owned_def owned_kinds_def listing_def list_meta_def op_simps split: sum.splits)
qed

lemma wait_gone_Inr:
  "wait_gone_attempts env ns selector message n w = (Inr (), w') \<Longrightarrow>
   \<exists>h. w_log w' = h @ listing ns selector \<and> all_gone env h ns selector \<and> (\<exists>rest. h = w_log w @ rest)"
proof (induction n arbitrary: w)
  case 0
  then show ?case by (simp add: failE_def)
next
  case (Suc n)
  then obtain counts w1 where c: "count_owned env ns selector w = (Inr counts, w1)"
      "(if \<forall>n \<in> set counts. n = 0 then retE () else wait_gone_attempts env ns selector message n) w1 = (Inr (), w')"
    by (auto elim: bindE_InrE)
  show ?case
  proof (cases "\<forall>n \<in> set counts. n = 0")
    case True
    then show ?thesis using c count_owned_zero [OF c(1) True] by (auto simp: retE_def)
  next
    case False
    have "makes_only (\<lambda>_. True) (count_owned env ns selector)"
      by (simp add: count_owned_def list_meta_def only_intros)
    then obtain new where "w_log w1 = w_log w @ new" using makes_onlyD c(1) by blast
    then show ?thesis using c(2) False Suc.IH [of w1] by auto
  qed
qed

text \<open>The test instance: its credentials were deleted, and then neither its deployment nor its service was found.\<close>

definition test_gone :: "'s env \<Rightarrow> BlueGreenDeployment \<Rightarrow> string \<Rightarrow> event list \<Rightarrow> bool" where
  "test_gone env bgd ns evs = (case spec_test (bgd_spec bgd) of
     None \<Rightarrow> True
   | Some test \<Rightarrow>
       (let name = test_instance_name (jl_sha256 (e_jwt env)) bgd (test_name test)
        in \<exists>h rest. evs = h @ [Ev (RqGet KDeployment ns name) True, Ev (RqGet KService ns name) True] @ rest \<and>
           RqDelete KSecret ns (verifier_auth_secret_name (jl_sha256 (e_jwt env)) bgd) \<in> ev_request ` set h \<and>
           e_get_meta env h KDeployment ns name = Inr None \<and>
           e_get_meta env (h @ [Ev (RqGet KDeployment ns name) True]) KService ns name = Inr None))"

lemma test_gone_append: "test_gone env bgd ns evs \<Longrightarrow> test_gone env bgd ns (evs @ evs')"
proof (cases "spec_test (bgd_spec bgd)")
  case (Some test)
  have "\<exists>h rest. evs @ evs' = h @ [a, b] @ rest \<and> P h" if ex: "\<exists>h rest. evs = h @ [a, b] @ rest \<and> P h" for a b P
  proof -
    obtain h rest where "evs = h @ [a, b] @ rest" "P h" using ex by blast
    then have "evs @ evs' = h @ [a, b] @ (rest @ evs')" by simp
    then show ?thesis using \<open>P h\<close> by blast
  qed
  then show "test_gone env bgd ns evs \<Longrightarrow> ?thesis"
    unfolding test_gone_def Some option.case Let_def by (rule meta_mp) assumption
qed (simp add: test_gone_def)

lemma get_meta_opt_Inr:
  "get_meta_opt env k ns name w = (Inr x, w') \<Longrightarrow> w_log w' = w_log w @ [Ev (RqGet k ns name) True] \<and> e_get_meta env (w_log w) k ns name = Inr x"
  by (auto simp: get_meta_opt_def op_simps split: sum.splits)

lemma delete_object_Inr: "delete_object env k ns name w = (r, w') \<Longrightarrow> \<exists>ok. w_log w' = w_log w @ [Ev (RqDelete k ns name) ok]"
  by (auto simp: delete_object_def op_simps split: sum.splits if_splits)

lemma wait_for_test_Inr:
  assumes "wait_for_test_resources_deleted env bgd ns w = (Inr (), w')" and "spec_test (bgd_spec bgd) = Some test"
    and name: "name = test_instance_name (jl_sha256 (e_jwt env)) bgd (test_name test)"
  shows "\<exists>mid. w_log w' = (w_log w @ mid) @ [Ev (RqGet KDeployment ns name) True, Ev (RqGet KService ns name) True] \<and>
    e_get_meta env (w_log w @ mid) KDeployment ns name = Inr None \<and>
    e_get_meta env ((w_log w @ mid) @ [Ev (RqGet KDeployment ns name) True]) KService ns name = Inr None"
proof -
  obtain w1 w2 where wait: "wait_test_gone_attempts env ns name 60 w = (Inr (), w1)"
    and d: "get_meta_opt env KDeployment ns name w1 = (Inr None, w2)" and s: "get_meta_opt env KService ns name w2 = (Inr None, w')"
    using assms(1) unfolding wait_for_test_resources_deleted_def assms(2) option.case Let_def name [symmetric]
    by (auto simp: retE_def failE_def elim!: thenE_InrE bindE_InrE split: if_splits)
  have "makes_only (\<lambda>_. True) (wait_test_gone_attempts env ns name n)" for n
    by (induction n) (simp_all add: only_intros get_meta_opt_def)
  then obtain mid where "w_log w1 = w_log w @ mid" using makes_onlyD wait by blast
  then show ?thesis using get_meta_opt_Inr [OF d] get_meta_opt_Inr [OF s] by auto
qed

lemma cleanup_test_Inr:
  assumes "cleanup_test_resources env bgd ns w = (Inr (), w')"
  shows "test_gone env bgd ns (w_log w')"
proof (cases "spec_test (bgd_spec bgd)")
  case None
  then show ?thesis by (simp add: test_gone_def)
next
  case (Some test)
  let ?name = "test_instance_name (jl_sha256 (e_jwt env)) bgd (test_name test)"
  let ?secret = "verifier_auth_secret_name (jl_sha256 (e_jwt env)) bgd"
  obtain w1 w2 w3 where dels: "delete_deployment env ns ?name w = (Inr (), w1)" "delete_service env ns ?name w1 = (Inr (), w2)"
      "delete_secret env ns ?secret w2 = (Inr (), w3)" and wait: "wait_for_test_resources_deleted env bgd ns w3 = (Inr (), w')"
    using assms unfolding cleanup_test_resources_def Some option.case Let_def by (auto elim!: thenE_InrE)
  obtain ok where secret: "w_log w3 = w_log w2 @ [Ev (RqDelete KSecret ns ?secret) ok]"
    using delete_object_Inr [OF dels(3) [unfolded delete_secret_def]] by blast
  from wait_for_test_Inr [OF wait Some refl] obtain mid where
    "w_log w' = (w_log w3 @ mid) @ [Ev (RqGet KDeployment ns ?name) True, Ev (RqGet KService ns ?name) True] @ []"
    "e_get_meta env (w_log w3 @ mid) KDeployment ns ?name = Inr None"
    "e_get_meta env ((w_log w3 @ mid) @ [Ev (RqGet KDeployment ns ?name) True]) KService ns ?name = Inr None" by auto
  moreover have "RqDelete KSecret ns ?secret \<in> ev_request ` set (w_log w3 @ mid)" by (simp add: secret)
  ultimately show ?thesis unfolding test_gone_def Some option.case Let_def by blast
qed

section \<open>Which requests a cleanup makes\<close>

definition is_cleanup_request :: "string \<Rightarrow> request \<Rightarrow> bool" where
  "is_cleanup_request ns rq = (case rq of
     RqList k n _ \<Rightarrow> n = ns | RqGet k n _ \<Rightarrow> n = ns | RqDelete k n _ \<Rightarrow> n = ns \<and> k \<in> set owned_kinds | _ \<Rightarrow> False)"

lemma only_delete_object: "P (RqDelete k ns name) \<Longrightarrow> makes_only P (delete_object env k ns name)"
  unfolding delete_object_def by (auto intro!: only_intros)

lemma only_wait_gone:
  "(\<And>k. P (RqList k ns selector)) \<Longrightarrow> makes_only P (wait_gone_attempts env ns selector message n)"
  by (induction n) (simp_all add: only_intros count_owned_def list_meta_def)

lemma only_wait_test_gone:
  "(\<And>k. P (RqGet k ns name)) \<Longrightarrow> makes_only P (wait_test_gone_attempts env ns name n)"
  by (induction n) (simp_all add: only_intros get_meta_opt_def)

lemma cleanup_makes_only:
  "makes_only (is_cleanup_request ns) (cleanup_orphaned_blue_green_resources env ns bg)"
  "makes_only (is_cleanup_request ns) (cleanup_inception_resources env bgd ns)"
  "makes_only (is_cleanup_request ns) (cleanup_test_resources env bgd ns)"
  by (auto simp: cleanup_orphaned_blue_green_resources_def cleanup_inception_resources_def cleanup_test_resources_def
      delete_labeled_resources_def delete_inception_def delete_deployment_def delete_service_def delete_config_map_def
      delete_secret_def wait_for_inception_resources_deleted_def wait_for_blue_green_resources_deleted_def
      wait_for_test_resources_deleted_def list_meta_def get_meta_opt_def Let_def is_cleanup_request_def owned_kinds_def
      intro!: only_intros only_delete_object only_wait_gone only_wait_test_gone)

section \<open>Properties\<close>

text \<open>C35: a cleanup that reports success has seen everything gone. The orphan cleanup ends with a listing of deployments,
  services, config maps, secrets and pods under the rollout's label, each of them empty, and nothing is requested after it.\<close>

theorem orphan_cleanup_is_complete:
  assumes "cleanup_orphaned_blue_green_resources env ns bg w = (Inr (), w')"
  shows "\<exists>h. w_log w' = h @ listing ns (blue_green_ref_selector bg) \<and> all_gone env h ns (blue_green_ref_selector bg)"
proof -
  obtain w1 where "wait_for_blue_green_resources_deleted env ns bg w1 = (Inr (), w')"
    using assms unfolding cleanup_orphaned_blue_green_resources_def by (auto elim: thenE_InrE)
  then show ?thesis
    using wait_gone_Inr unfolding wait_for_blue_green_resources_deleted_def by blast
qed

lemma orphan_cleanup_is_complete_witness:
  "\<exists>h. w_log (snd (cleanup_orphaned_blue_green_resources idle_env ''shop'' ''orders'' (start_world ())))
     = h @ listing ''shop'' (blue_green_ref_selector ''orders'')"
proof -
  have "fst (cleanup_orphaned_blue_green_resources idle_env ''shop'' ''orders'' (start_world ())) = Inr ()"
    unfolding cleanup_orphaned_blue_green_resources_def wait_for_blue_green_resources_deleted_def
    by (simp add: owned_kinds_def delete_labeled_resources_def list_meta_def idle_env_def quiet_env_def count_owned_def
        numeral_eq_Suc op_simps)
  then have "cleanup_orphaned_blue_green_resources idle_env ''shop'' ''orders'' (start_world ())
      = (Inr (), snd (cleanup_orphaned_blue_green_resources idle_env ''shop'' ''orders'' (start_world ())))"
    by (metis prod.collapse)
  from orphan_cleanup_is_complete [OF this] show ?thesis by blast
qed

end
