(* ===== verification/Reconciler.thy ===== *)
theory Reconciler
  imports Resources Validation
begin

text \<open>
  The objects of an inception point (\<open>src/operator/src/plugins/reconciler.rs\<close>): its configuration, its secret,
  its deployment and its service, and the environment injections of a plugin. A service port and its target
  port are the same number. YAML serialisation and the JSON-schema engine are parameters of the environment.
\<close>

record ReconciledResources =
  rr_config_maps :: "resource list"
  rr_secrets :: "resource list"
  rr_deployments :: "Deployment list"
  rr_services :: "resource list"
  rr_green_env_injections :: "EnvVar list"
  rr_blue_env_injections :: "EnvVar list"
  rr_test_env_injections :: "EnvVar list"

record ContainerEnvInjections =
  cei_green :: "EnvVar list"
  cei_blue :: "EnvVar list"
  cei_test :: "EnvVar list"

record ReconcileInceptionContext =
  cx_namespace :: string
  cx_operator_url :: string
  cx_test_container_url :: string
  cx_test_data_verify_path :: "string option"
  cx_blue_deployment_name :: string
  cx_blue_green_ref :: string
  cx_blue_green_uid :: string
  cx_auth_token :: string
  cx_manager_inceptor_env :: "EnvVar list"
  cx_manager_config :: "json option"

section \<open>Template context and injections\<close>

definition plugin_role_name :: "PluginRole \<Rightarrow> string" where
  "plugin_role_name role = (case role of
     Duplicator \<Rightarrow> ''duplicator'' | Splitter \<Rightarrow> ''splitter'' | Combiner \<Rightarrow> ''combiner'' | Observer \<Rightarrow> ''observer''
   | Mock \<Rightarrow> ''mock'' | Writer \<Rightarrow> ''writer'' | Consumer \<Rightarrow> ''consumer'')"

definition as_int :: "json \<Rightarrow> int option" where
  "as_int v = (case v of JInt n \<Rightarrow> if - (2 ^ 63) \<le> n \<and> n < 2 ^ 63 then Some n else None | _ \<Rightarrow> None)"

definition as_bool :: "json \<Rightarrow> bool option" where
  "as_bool v = (case v of JBool b \<Rightarrow> Some b | _ \<Rightarrow> None)"

definition tls_inbound :: "(string \<times> json) list \<Rightarrow> string \<Rightarrow> json option" where
  "tls_inbound m key = Option.bind (map_of m ''tls'') (\<lambda>tls. Option.bind (jget ''inbound'' tls) (jget key))"

definition insert_http_plugin_urls :: "sha256 \<Rightarrow> string \<Rightarrow> string \<Rightarrow> (string \<times> json) list \<Rightarrow> (string \<times> json) list" where
  "insert_http_plugin_urls sha bg ip m =
     (let service_name = inception_service_name sha bg ip;
          http_port = unwrap_or (Option.bind (map_of m ''port'') as_int) 9090;
          https_port = unwrap_or (Option.bind (tls_inbound m ''port'') as_int) 9443;
          inbound_tls_enabled = unwrap_or (Option.bind (tls_inbound m ''enabled'') as_bool) False;
          default_protocol = (if inbound_tls_enabled then ''https'' else ''http'');
          proxy_protocol = unwrap_or (Option.bind (map_of m ''proxyProtocol'') as_str) default_protocol;
          write_protocol = unwrap_or (Option.bind (map_of m ''writeProtocol'') as_str) proxy_protocol;
          port_of = (\<lambda>protocol. if protocol = ''https'' then https_port else http_port);
          url = (\<lambda>protocol. JStr (protocol @ ''://'' @ service_name @ '':'' @ show_int (port_of protocol)))
      in bt_insert ''writeUrl'' (url write_protocol) (bt_insert ''proxyUrl'' (url proxy_protocol) m))"

definition context_entries :: "sha256 \<Rightarrow> InceptionPoint \<Rightarrow> string \<Rightarrow> string \<Rightarrow> (string \<times> json) list" where
  "context_entries sha ip ns bg = [(''inceptionPoint'', JStr (pt_name ip)), (''blueGreenRef'', JStr bg), (''namespace'', JStr ns),
     (''pluginDeploymentName'', JStr (inception_instance_base_name sha bg (pt_name ip))),
     (''pluginServiceName'', JStr (inception_service_name sha bg (pt_name ip)))]"

definition insert_entries :: "(string \<times> json) list \<Rightarrow> (string \<times> json) list \<Rightarrow> (string \<times> json) list" where
  "insert_entries new m = fold (\<lambda>(k, v) acc. bt_insert k v acc) new m"

definition plugin_template_context :: "sha256 \<Rightarrow> InceptionPoint \<Rightarrow> string \<Rightarrow> string \<Rightarrow> json" where
  "plugin_template_context sha ip ns bg = (case pt_config ip of
     JObj m \<Rightarrow> JObj (insert_http_plugin_urls sha bg (pt_name ip) (insert_entries (context_entries sha ip ns bg) m))
   | _ \<Rightarrow> JObj (insert_entries (context_entries sha ip ns bg) []))"

definition render_env_injection :: "(rat \<Rightarrow> string) \<Rightarrow> json \<Rightarrow> bool \<Rightarrow> EnvInjection \<Rightarrow> EnvVar" where
  "render_env_injection show_f64 config restore_values i =
     plain_env (unwrap_or (Option.bind (jget (ei_name_from_config i) config) as_str) (ei_name_from_config i))
       (render_config_template show_f64
         (if restore_values then unwrap_or (ei_restore_value_template i) (ei_value_template i) else ei_value_template i)
         config)"

definition render_env_injection_set :: "(rat \<Rightarrow> string) \<Rightarrow> ContainerInjection option \<Rightarrow> json \<Rightarrow> bool \<Rightarrow> EnvVar list" where
  "render_env_injection_set show_f64 injection config restore_values = (case injection of
     None \<Rightarrow> [] | Some i \<Rightarrow> map (render_env_injection show_f64 config restore_values) (ci_env i))"

definition render_container_env_injections :: "(rat \<Rightarrow> string) \<Rightarrow> InceptionPlugin \<Rightarrow> json \<Rightarrow> bool \<Rightarrow> ContainerEnvInjections" where
  "render_container_env_injections show_f64 plugin template_context restore_values = (case ip_injects (plugin_spec plugin) of
     None \<Rightarrow> \<lparr>cei_green = [], cei_blue = [], cei_test = []\<rparr>
   | Some injects \<Rightarrow> \<lparr>
       cei_green = render_env_injection_set show_f64 (inj_green_container injects) template_context restore_values,
       cei_blue = render_env_injection_set show_f64 (inj_blue_container injects) template_context restore_values,
       cei_test = render_env_injection_set show_f64 (inj_test_container injects) template_context restore_values\<rparr>)"

section \<open>The objects of an inception point\<close>

definition secured_inception_config :: "InceptionPlugin \<Rightarrow> InceptionPoint \<Rightarrow> ReconcileInceptionContext \<Rightarrow> json" where
  "secured_inception_config plugin ip context = unwrap_or (cx_manager_config context) (pt_config ip)"

definition validate_inception_point :: "'s env \<Rightarrow> InceptionPlugin \<Rightarrow> InceptionPoint \<Rightarrow> string + unit" where
  "validate_inception_point env plugin ip =
     (case validate_role_selection (ip_supported_roles (plugin_spec plugin)) (pt_roles ip) (ip_role_constraints (plugin_spec plugin)) of
        Inl e \<Rightarrow> Inl e
      | Inr _ \<Rightarrow>
          (case validate_config_against_schema (e_compile_schema env) (pt_config ip) (ip_config_schema (plugin_spec plugin)) of
             Inl errs \<Rightarrow> Inl (''config validation failed: '' @ e_show_strings env errs)
           | Inr _ \<Rightarrow> Inr ()))"

definition secret_env_source :: "string \<Rightarrow> string \<Rightarrow> SecretKeySelector" where
  "secret_env_source secret_name key = \<lparr>sk_name = secret_name, sk_key = key, sk_optional = Some False\<rparr>"

definition secret_env :: "string \<Rightarrow> string \<Rightarrow> string \<Rightarrow> EnvVar" where
  "secret_env name secret_name key = \<lparr>env_name = name, env_value = None, env_secret = Some (secret_env_source secret_name key)\<rparr>"

definition upsert_config_volume :: "string \<Rightarrow> Volume list \<Rightarrow> Volume list" where
  "upsert_config_volume config_name volumes =
     (if \<exists>v \<in> set volumes. vol_name v = ''plugin-config'' then volumes
      else volumes @ [\<lparr>vol_name = ''plugin-config'', vol_config_map = Some config_name, vol_rest = JObj []\<rparr>])"

definition ensure_config_mount :: "Container \<Rightarrow> Container" where
  "ensure_config_mount c =
     (if \<exists>m \<in> set (ct_volume_mounts c). mnt_path m = ''/etc/fluidbg'' then c
      else c\<lparr>ct_volume_mounts := ct_volume_mounts c @
        [\<lparr>mnt_name = ''plugin-config'', mnt_path = ''/etc/fluidbg'', mnt_read_only = Some True\<rparr>]\<rparr>)"

definition inception_labels :: "InceptionPoint \<Rightarrow> ReconcileInceptionContext \<Rightarrow> (string \<times> string) list" where
  "inception_labels ip context = [(''fluidbg.io/inception-point'', pt_name ip),
     (''fluidbg.io/blue-green-ref'', cx_blue_green_ref context), (''fluidbg.io/blue-green-uid'', cx_blue_green_uid context)]"

definition inception_secret_data :: "ReconcileInceptionContext \<Rightarrow> (string \<times> bytes) list" where
  "inception_secret_data context =
     fold (\<lambda>e data. case env_value e of None \<Rightarrow> data | Some v \<Rightarrow> bt_insert (env_name e) (as_bytes v) data)
       (cx_manager_inceptor_env context) [(''plugin-auth-token'', as_bytes (cx_auth_token context))]"

definition inception_env :: "InceptionPlugin \<Rightarrow> InceptionPoint \<Rightarrow> ReconcileInceptionContext \<Rightarrow> string \<Rightarrow> EnvVar list" where
  "inception_env plugin ip context auth_secret =
     [plain_env ''FLUIDBG_OPERATOR_URL'' (cx_operator_url context),
      plain_env ''FLUIDBG_TESTCASE_REGISTRATION_URL'' (trim_end_slash (cx_operator_url context) @ ''/testcases''),
      plain_env ''FLUIDBG_TEST_CONTAINER_URL'' (cx_test_container_url context),
      \<lparr>env_name = ''FLUIDBG_TESTCASE_VERIFY_PATH_TEMPLATE'', env_value = cx_test_data_verify_path context, env_secret = None\<rparr>,
      plain_env ''FLUIDBG_INCEPTION_POINT'' (pt_name ip),
      plain_env ''FLUIDBG_BLUE_GREEN_REF'' (cx_blue_green_ref context),
      plain_env ''FLUIDBG_ACTIVE_ROLES'' (join '','' (map plugin_role_name (pt_roles ip))),
      plain_env ''FLUIDBG_CONFIG_PATH'' ''/etc/fluidbg/config.yaml'',
      secret_env ''FLUIDBG_PLUGIN_AUTH_TOKEN'' auth_secret ''plugin-auth-token'',
      plain_env ''FLUIDBG_INCEPTOR_INFRA_DISABLED'' (show_bool (ip_manager (plugin_spec plugin) \<noteq> None))]
     @ pi_env (ip_inceptor (plugin_spec plugin))
     @ map (\<lambda>e. secret_env (env_name e) auth_secret (env_name e)) (cx_manager_inceptor_env context)"

definition config_yaml :: "'s env \<Rightarrow> InceptionPlugin \<Rightarrow> json \<Rightarrow> string" where
  "config_yaml env plugin config = (case ip_config_template (plugin_spec plugin) of
     Some template \<Rightarrow> if template \<noteq> [] then render_config_template (e_show_f64 env) template config else e_to_yaml env config
   | None \<Rightarrow> e_to_yaml env config)"

definition reconcile_inception_point ::
  "'s env \<Rightarrow> InceptionPlugin \<Rightarrow> InceptionPoint \<Rightarrow> ReconcileInceptionContext \<Rightarrow> string + ReconciledResources" where
  "reconcile_inception_point env plugin ip context = (case validate_inception_point env plugin ip of
     Inl e \<Rightarrow> Inl e
   | Inr _ \<Rightarrow>
     (let sha = jl_sha256 (e_jwt env);
          spec = plugin_spec plugin;
          inceptor = ip_inceptor spec;
          ns = cx_namespace context;
          bg = cx_blue_green_ref context;
          config_name = inception_config_map_name sha bg (pt_name ip);
          auth_secret = inception_auth_secret_name sha bg (pt_name ip);
          base_labels = btree (inception_labels ip context);
          deployment_name = inception_instance_base_name sha bg (pt_name ip);
          ls = btree ((''app'', deployment_name) # inception_labels ip context);
          container = ensure_config_mount \<lparr>ct_name = deployment_name, ct_image = Some (ip_image spec),
            ct_env = inception_env plugin ip context auth_secret,
            ct_ports = map (\<lambda>p. \<lparr>port_name = Some (cp_name p), port_number = cp_container_port p\<rparr>) (pi_ports inceptor),
            ct_volume_mounts = map (\<lambda>m. \<lparr>mnt_name = vm_name m, mnt_path = vm_mount_path m, mnt_read_only = vm_read_only m\<rparr>)
              (pi_volume_mounts inceptor),
            ct_rest = JObj []\<rparr>;
          pod = \<lparr>pod_containers = [container], pod_volumes = upsert_config_volume config_name (pi_volumes inceptor),
            pod_termination_grace_period_seconds = Some 1, pod_service_account_name = pi_service_account_name inceptor,
            pod_rest = JObj []\<rparr>;
          template = \<lparr>tpl_metadata = Some (default_meta\<lparr>md_labels := insert_labels (pi_pod_labels inceptor) ls,
              md_annotations := pi_pod_annotations inceptor\<rparr>), tpl_spec = Some pod\<rparr>;
          injections = render_container_env_injections (e_show_f64 env) plugin (plugin_template_context sha ip ns bg) False
      in Inr \<lparr>
        rr_config_maps = [RConfigMap (named_meta ns config_name base_labels)
          [(''config.yaml'', config_yaml env plugin (secured_inception_config plugin ip context))]],
        rr_secrets = [RSecret (named_meta ns auth_secret base_labels) (inception_secret_data context)],
        rr_deployments = [\<lparr>d_metadata = named_meta ns deployment_name ls,
          d_spec = Some \<lparr>ds_replicas = None, ds_match_labels = ls, ds_template = template, ds_rest = JObj []\<rparr>, d_status = None\<rparr>],
        rr_services = [RService (named_meta ns (inception_service_name sha bg (pt_name ip)) ls)
          \<lparr>svc_selector = [(''app'', deployment_name)],
           svc_ports = map (\<lambda>p. \<lparr>port_name = Some (cp_name p), port_number = cp_container_port p\<rparr>) (pi_ports inceptor),
           svc_rest = JObj []\<rparr>],
        rr_green_env_injections = cei_green injections,
        rr_blue_env_injections = cei_blue injections,
        rr_test_env_injections = cei_test injections\<rparr>))"

section \<open>Properties\<close>

lemma reconcile_inception_Inr:
  assumes "reconcile_inception_point env plugin ip context = Inr rr"
  obtains d spec pod c where "rr_deployments rr = [d]" "d_spec d = Some spec" "tpl_spec (ds_template spec) = Some pod"
    "pod_containers pod = [ensure_config_mount c]"
    "ct_env c = inception_env plugin ip context (inception_auth_secret_name (jl_sha256 (e_jwt env)) (cx_blue_green_ref context) (pt_name ip))"
    "ds_match_labels spec = btree ((''app'', inception_instance_base_name (jl_sha256 (e_jwt env)) (cx_blue_green_ref context) (pt_name ip))
       # inception_labels ip context)"
    "template_labels d = Some (insert_labels (pi_pod_labels (ip_inceptor (plugin_spec plugin))) (ds_match_labels spec))"
    "rr_secrets rr = [RSecret (named_meta (cx_namespace context) (inception_auth_secret_name (jl_sha256 (e_jwt env)) (cx_blue_green_ref context)
       (pt_name ip)) (btree (inception_labels ip context))) (inception_secret_data context)]"
    "\<exists>m s. rr_services rr = [RService m s] \<and>
       svc_selector s = [(''app'', inception_instance_base_name (jl_sha256 (e_jwt env)) (cx_blue_green_ref context) (pt_name ip))]"
  using assms
  by (auto simp: reconcile_inception_point_def Let_def template_labels_def split: sum.splits)

lemma secret_data_lookup:
  "e \<in> set es \<Longrightarrow> env_value e = Some v \<Longrightarrow>
   \<exists>e' \<in> set es. env_name e' = env_name e \<and> (\<exists>v'. env_value e' = Some v' \<and>
     map_of (fold (\<lambda>e data. case env_value e of None \<Rightarrow> data | Some v \<Rightarrow> bt_insert (env_name e) (as_bytes v) data) es data)
       (env_name e) = Some (as_bytes v'))"
proof (induction es arbitrary: data rule: rev_induct)
  case (snoc x es)
  show ?case
  proof (cases "env_name x = env_name e \<and> env_value x \<noteq> None")
    case True
    then show ?thesis by (intro bexI [of _ x]) auto
  next
    case False
    then have "e \<in> set es" using snoc.prems by auto
    then show ?thesis using snoc.IH [of data] snoc.prems(2) False by (force split: option.splits)
  qed
qed simp

text \<open>The variables a plugin manager hands out stay secret. In the deployment of an inception point the last variable of
  the name, the one Kubernetes uses, is a reference into the inception point's own secret under that name and carries
  no value itself; and a variable that has a value is in that secret, with the value of a variable of that name.\<close>

theorem manager_env_only_in_secret:
  assumes "reconcile_inception_point env plugin ip context = Inr rr"
    and "e \<in> set (cx_manager_inceptor_env context)"
  shows "\<exists>d spec pod c m data secret. rr_deployments rr = [d] \<and> d_spec d = Some spec \<and> tpl_spec (ds_template spec) = Some pod \<and>
    pod_containers pod = [c] \<and> rr_secrets rr = [RSecret m data] \<and> md_name m = Some secret \<and>
    find (\<lambda>x. env_name x = env_name e) (rev (ct_env c)) = Some (secret_env (env_name e) secret (env_name e)) \<and>
    (\<forall>v. env_value e = Some v \<longrightarrow> (\<exists>e' \<in> set (cx_manager_inceptor_env context). env_name e' = env_name e \<and>
       (\<exists>v'. env_value e' = Some v' \<and> map_of data (env_name e) = Some (as_bytes v'))))"
proof -
  let ?secret = "inception_auth_secret_name (jl_sha256 (e_jwt env)) (cx_blue_green_ref context) (pt_name ip)"
  let ?m = "named_meta (cx_namespace context) ?secret (btree (inception_labels ip context))"
  obtain d spec pod c where r: "rr_deployments rr = [d]" "d_spec d = Some spec" "tpl_spec (ds_template spec) = Some pod"
    "pod_containers pod = [ensure_config_mount c]" "ct_env c = inception_env plugin ip context ?secret"
    "rr_secrets rr = [RSecret ?m (inception_secret_data context)]"
    by (rule reconcile_inception_Inr [OF assms(1)])
  have last: "find (\<lambda>x. env_name x = env_name e) (rev (xs @ map (\<lambda>e. secret_env (env_name e) ?secret (env_name e)) es))
      = Some (secret_env (env_name e) ?secret (env_name e))" if "e \<in> set es" for xs es
    using that by (induction es rule: rev_induct) (auto simp: secret_env_def)
  have env: "find (\<lambda>x. env_name x = env_name e) (rev (ct_env (ensure_config_mount c)))
      = Some (secret_env (env_name e) ?secret (env_name e))"
  proof -
    have "\<exists>xs. inception_env plugin ip context ?secret =
        xs @ map (\<lambda>e. secret_env (env_name e) ?secret (env_name e)) (cx_manager_inceptor_env context)"
      unfolding inception_env_def append_assoc [symmetric] by blast
    then show ?thesis using last [OF assms(2)] by (auto simp: ensure_config_mount_def r(5))
  qed
  have data: "\<forall>v. env_value e = Some v \<longrightarrow> (\<exists>e' \<in> set (cx_manager_inceptor_env context). env_name e' = env_name e \<and>
       (\<exists>v'. env_value e' = Some v' \<and> map_of (inception_secret_data context) (env_name e) = Some (as_bytes v')))"
    unfolding inception_secret_data_def using secret_data_lookup [OF assms(2)] by blast
  have "md_name ?m = Some ?secret" by (simp add: named_meta_def)
  then show ?thesis using r(1-4) r(6) env data by blast
qed

definition sample_point :: InceptionPoint where
  "sample_point = \<lparr>pt_name = ''incoming'', pt_plugin_ref = \<lparr>ref_name = ''http''\<rparr>, pt_roles = [Observer], pt_config = JObj [], pt_drain = None\<rparr>"

definition sample_context :: ReconcileInceptionContext where
  "sample_context = \<lparr>cx_namespace = ''shop'', cx_operator_url = ''http://op/'', cx_test_container_url = [], cx_test_data_verify_path = None,
     cx_blue_deployment_name = [], cx_blue_green_ref = ''orders'', cx_blue_green_uid = ''uid-1'', cx_auth_token = ''t'',
     cx_manager_inceptor_env = [plain_env ''AMQP_URL'' ''amqp://user:pw@q''], cx_manager_config = None\<rparr>"

lemma sample_point_reconciles: "\<exists>rr. reconcile_inception_point idle_env sample_plugin sample_point sample_context = Inr rr"
  by (simp add: reconcile_inception_point_def validate_inception_point_def validate_role_selection_def validate_roles_def
      validate_role_constraints_def validate_config_against_schema_def sample_plugin_def sample_point_def idle_env_def quiet_env_def Let_def)

lemma manager_env_only_in_secret_witness:
  "\<exists>rr d spec pod c secret. reconcile_inception_point idle_env sample_plugin sample_point sample_context = Inr rr \<and>
     rr_deployments rr = [d] \<and> d_spec d = Some spec \<and> tpl_spec (ds_template spec) = Some pod \<and> pod_containers pod = [c] \<and>
     find (\<lambda>x. env_name x = ''AMQP_URL'') (rev (ct_env c)) = Some (secret_env ''AMQP_URL'' secret ''AMQP_URL'')"
proof -
  obtain rr where rr: "reconcile_inception_point idle_env sample_plugin sample_point sample_context = Inr rr"
    using sample_point_reconciles by blast
  have "plain_env ''AMQP_URL'' ''amqp://user:pw@q'' \<in> set (cx_manager_inceptor_env sample_context)" by (simp add: sample_context_def)
  from manager_env_only_in_secret [OF rr this] rr show ?thesis by (auto simp: plain_env_def)
qed

lemma map_le_override_iff: "m \<subseteq>\<^sub>m m ++ n \<longleftrightarrow> (\<forall>k v w. m k = Some v \<longrightarrow> n k = Some w \<longrightarrow> w = v)"
proof
  assume le: "m \<subseteq>\<^sub>m m ++ n"
  show "\<forall>k v w. m k = Some v \<longrightarrow> n k = Some w \<longrightarrow> w = v"
  proof (intro allI impI)
    fix k v w
    assume "m k = Some v" "n k = Some w"
    then have "Some v = (m ++ n) k" "(m ++ n) k = Some w" using le by (auto simp: map_le_def dom_def)
    then show "w = v" by simp
  qed
next
  assume eq: "\<forall>k v w. m k = Some v \<longrightarrow> n k = Some w \<longrightarrow> w = v"
  show "m \<subseteq>\<^sub>m m ++ n"
    unfolding map_le_def map_add_def
  proof
    fix k
    assume "k \<in> dom m"
    then show "m k = (case n k of None \<Rightarrow> m k | Some x \<Rightarrow> Some x)" using eq by (cases "n k") auto
  qed
qed

text \<open>The deployment of an inception point is valid and reachable exactly when the plugin leaves the operator's labels
  alone: its pods carry every label its selector asks for, and are selected by its service, if and only if no pod label of
  the plugin overrides one of these labels with another value.\<close>

theorem inceptor_selector_matches_iff:
  assumes "reconcile_inception_point env plugin ip context = Inr rr"
    and "distinct (map fst (pi_pod_labels (ip_inceptor (plugin_spec plugin))))"
  shows "\<exists>d spec ls. rr_deployments rr = [d] \<and> d_spec d = Some spec \<and> template_labels d = Some ls \<and>
    (map_of (ds_match_labels spec) \<subseteq>\<^sub>m map_of ls \<longleftrightarrow>
      (\<forall>k v w. map_of (ds_match_labels spec) k = Some v \<longrightarrow>
         map_of (pi_pod_labels (ip_inceptor (plugin_spec plugin))) k = Some w \<longrightarrow> w = v)) \<and>
    (map_of (ds_match_labels spec) \<subseteq>\<^sub>m map_of ls \<longrightarrow>
      (\<forall>m s. RService m s \<in> set (rr_services rr) \<longrightarrow> map_of (svc_selector s) \<subseteq>\<^sub>m map_of ls))"
proof -
  let ?sha = "jl_sha256 (e_jwt env)" and ?pl = "pi_pod_labels (ip_inceptor (plugin_spec plugin))"
  let ?name = "inception_instance_base_name ?sha (cx_blue_green_ref context) (pt_name ip)"
  obtain d spec m s where r: "rr_deployments rr = [d]" "d_spec d = Some spec"
    "ds_match_labels spec = btree ((''app'', ?name) # inception_labels ip context)"
    "template_labels d = Some (insert_labels ?pl (ds_match_labels spec))"
    "rr_services rr = [RService m s]" "svc_selector s = [(''app'', ?name)]"
    by (rule reconcile_inception_Inr [OF assms(1)]) blast
  have ls: "map_of (insert_labels ?pl (ds_match_labels spec)) = map_of (ds_match_labels spec) ++ map_of ?pl"
    by (rule map_of_insert_labels [OF assms(2)])
  have "map_of (ds_match_labels spec) ''app'' = Some ?name"
    by (simp add: r(3) map_of_btree inception_labels_def)
  then have svc: "map_of [(''app'', ?name)] \<subseteq>\<^sub>m map_of (ds_match_labels spec)"
    by (simp add: map_le_def)
  have svc_le: "\<forall>m' s'. RService m' s' \<in> set (rr_services rr) \<longrightarrow> map_of (svc_selector s') \<subseteq>\<^sub>m M"
    if "map_of (ds_match_labels spec) \<subseteq>\<^sub>m M" for M
    using svc that r(5,6) map_le_trans by fastforce
  show ?thesis
  proof (intro exI conjI)
    show "rr_deployments rr = [d]" "d_spec d = Some spec" "template_labels d = Some (insert_labels ?pl (ds_match_labels spec))"
      using r by auto
    show "map_of (ds_match_labels spec) \<subseteq>\<^sub>m map_of (insert_labels ?pl (ds_match_labels spec)) \<longleftrightarrow>
      (\<forall>k v w. map_of (ds_match_labels spec) k = Some v \<longrightarrow> map_of ?pl k = Some w \<longrightarrow> w = v)"
      unfolding ls by (rule map_le_override_iff)
    show "map_of (ds_match_labels spec) \<subseteq>\<^sub>m map_of (insert_labels ?pl (ds_match_labels spec)) \<longrightarrow>
      (\<forall>m s. RService m s \<in> set (rr_services rr) \<longrightarrow> map_of (svc_selector s) \<subseteq>\<^sub>m map_of (insert_labels ?pl (ds_match_labels spec)))"
      using svc_le by blast
  qed
qed

lemma inceptor_selector_matches_iff_witness:
  "\<exists>rr d spec ls. reconcile_inception_point idle_env sample_plugin sample_point sample_context = Inr rr \<and> rr_deployments rr = [d] \<and>
     d_spec d = Some spec \<and> template_labels d = Some ls \<and> map_of (ds_match_labels spec) \<subseteq>\<^sub>m map_of ls"
proof -
  obtain rr where rr: "reconcile_inception_point idle_env sample_plugin sample_point sample_context = Inr rr"
    using sample_point_reconciles by blast
  have "distinct (map fst (pi_pod_labels (ip_inceptor (plugin_spec sample_plugin))))" by (simp add: sample_plugin_def)
  from inceptor_selector_matches_iff [OF rr this] rr show ?thesis by (auto simp: sample_plugin_def)
qed

end
