(* ===== verification/PluginLifecycle.thy ===== *)
theory PluginLifecycle
  imports Reconciler Lease
begin

text \<open>
  The calls the operator makes to plugins (\<open>src/operator/src/controller/plugin_lifecycle.rs\<close>): the lifecycle
  of an inceptor, the plugin manager, the drain status, traffic shifting, and starting to drain. Reading a
  certificate, building the HTTP client and decoding answers are parameters; timeouts are part of the transport
  errors. Every call is authenticated with a token of the operator.
\<close>

datatype PluginLifecycleStage = Prepare | Activate | Drain | CleanupStage

section \<open>HTTP\<close>

definition control_plane_url :: "string \<Rightarrow> string \<Rightarrow> int \<Rightarrow> string \<Rightarrow> ControlPlaneTls option \<Rightarrow> string" where
  "control_plane_url service_name ns port path tls =
     (let scheme = (case tls of Some t \<Rightarrow> if tls_enabled t then ''https'' else ''http'' | None \<Rightarrow> ''http'')
      in scheme @ ''://'' @ service_name @ ''.'' @ ns @ ''.svc:'' @ show_int port @ path)"

text \<open>The checks made while the client is built; \<open>e_read_cert\<close> gives the error of reading or parsing a certificate.\<close>

definition control_plane_client :: "'s env \<Rightarrow> ControlPlaneTls option \<Rightarrow> ReconcileError + unit" where
  "control_plane_client env tls =
     (case Option.bind (Option.bind tls tls_ca_cert_path) (\<lambda>path. if path = [] then None else e_read_cert env path) of
        Some err \<Rightarrow> Inl (PluginInceptorError err)
      | None \<Rightarrow> (case e_build_client env of
            Some err \<Rightarrow> Inl (PluginInceptorError (''failed to build plugin control-plane client: '' @ err))
          | None \<Rightarrow> Inr ()))"

definition env_positive_u64 :: "env_vars \<Rightarrow> string \<Rightarrow> nat \<Rightarrow> nat" where
  "env_positive_u64 vars name default_value =
     (case Option.bind (vars name) (parse_unsigned 64) of
        Some v \<Rightarrow> if v > 0 then v else default_value | None \<Rightarrow> default_value)"

definition error_status :: "nat \<Rightarrow> bool" where
  "error_status st \<longleftrightarrow> 400 \<le> st \<and> st < 600"

text \<open>At most \<open>attempts\<close> requests are sent; a transport error is retried, any answer ends the loop. The error of the last
  attempt is returned.\<close>

fun http_attempts :: "'s env \<Rightarrow> string \<Rightarrow> string \<Rightarrow> json \<Rightarrow> nat \<Rightarrow> ('s, string, nat \<times> json option) op" where
  "http_attempts env url auth body 0 = failE []"
| "http_attempts env url auth body (Suc attempts) =
     tryE (http_op env HttpPost url auth body) (\<lambda>r. case r of
       Inr answer \<Rightarrow> retE answer
     | Inl err \<Rightarrow> if attempts > 0 then http_attempts env url auth body attempts else failE err)"

definition checked_post ::
  "'s env \<Rightarrow> (string \<Rightarrow> ReconcileError) \<Rightarrow> string \<Rightarrow> string \<Rightarrow> string \<Rightarrow> json \<Rightarrow> nat \<Rightarrow> ('s, ReconcileError, json option) op" where
  "checked_post env mk what url token body attempts =
     bindE (mapErr (\<lambda>err. mk (what @ '' for '' @ url @ '': '' @ err)) (http_attempts env url (bearer_value token) body attempts))
       (\<lambda>(status, answer).
          if error_status status then failE (mk (what @ '' for '' @ url @ '': '' @ e_show_http_status env status))
          else retE answer)"

definition inceptor_port :: "InceptionPlugin \<Rightarrow> int" where
  "inceptor_port plugin =
     (let inceptor = ip_inceptor (plugin_spec plugin)
      in unwrap_or (opt_or (Option.bind (pi_control_plane_tls inceptor) tls_port)
           (case pi_ports inceptor of [] \<Rightarrow> None | p # _ \<Rightarrow> Some (cp_container_port p))) 9090)"

definition inceptor_url :: "'s env \<Rightarrow> string \<Rightarrow> string \<Rightarrow> string \<Rightarrow> InceptionPlugin \<Rightarrow> string \<Rightarrow> string" where
  "inceptor_url env bg ns ip plugin path =
     control_plane_url (inception_service_name (jl_sha256 (e_jwt env)) bg ip) ns (inceptor_port plugin) path
       (pi_control_plane_tls (ip_inceptor (plugin_spec plugin)))"

section \<open>Inceptors\<close>

definition lifecycle_path :: "PluginLifecycle \<Rightarrow> PluginLifecycleStage \<Rightarrow> string option" where
  "lifecycle_path lifecycle stage = (case stage of
     Prepare \<Rightarrow> lc_prepare_path lifecycle
   | Activate \<Rightarrow> lc_activate_path lifecycle
   | Drain \<Rightarrow> lc_drain_path lifecycle
   | CleanupStage \<Rightarrow> lc_cleanup_path lifecycle)"

definition decode_lifecycle :: "'s env \<Rightarrow> string \<Rightarrow> json option \<Rightarrow> ('s, ReconcileError, PluginLifecycleResponse) op" where
  "decode_lifecycle env url answer = (case Option.bind answer (e_parse_lifecycle env) of
     Some payload \<Rightarrow> retE payload
   | None \<Rightarrow> failE (PluginInceptorError (''plugin inceptor lifecycle response deserialization failed for '' @ url @ '': ''
       @ e_decode_error env)))"

definition invoke_inceptor_lifecycle ::
  "'s env \<Rightarrow> string \<Rightarrow> string \<Rightarrow> string \<Rightarrow> InceptionPlugin \<Rightarrow> AuthConfig \<Rightarrow> PluginLifecycleStage \<Rightarrow>
   ('s, ReconcileError, PluginLifecycleResponse option) op" where
  "invoke_inceptor_lifecycle env bg ns ip plugin auth stage =
     (case Option.bind (ip_lifecycle (plugin_spec plugin)) (\<lambda>l. lifecycle_path l stage) of
        None \<Rightarrow> retE None
      | Some path \<Rightarrow>
          (let url = inceptor_url env bg ns ip plugin path
           in thenE (liftE (control_plane_client env (pi_control_plane_tls (ip_inceptor (plugin_spec plugin)))))
             (bindE (sign_inception_auth_token env ns auth bg ip plugin) (\<lambda>token.
              bindE (checked_post env PluginInceptorError ''plugin inceptor lifecycle call failed'' url token JNull 10) (\<lambda>answer.
              bindE (decode_lifecycle env url answer) (\<lambda>payload. retE (Some payload)))))))"

definition invoke_inceptor_drain_status ::
  "'s env \<Rightarrow> string \<Rightarrow> string \<Rightarrow> string \<Rightarrow> InceptionPlugin \<Rightarrow> AuthConfig \<Rightarrow>
   ('s, ReconcileError, PluginDrainStatusResponse option) op" where
  "invoke_inceptor_drain_status env bg ns ip plugin auth =
     (case Option.bind (ip_lifecycle (plugin_spec plugin)) lc_drain_status_path of
        None \<Rightarrow> retE None
      | Some path \<Rightarrow>
          (let url = inceptor_url env bg ns ip plugin path;
               failed = (\<lambda>err. PluginDrainStatusError (''plugin inceptor drain status call failed for '' @ url @ '': '' @ err))
           in bindE (sign_inception_auth_token env ns auth bg ip plugin) (\<lambda>token.
              thenE (liftE (control_plane_client env (pi_control_plane_tls (ip_inceptor (plugin_spec plugin)))))
             (bindE (mapErr failed (http_op env HttpGet url (bearer_value token) JNull)) (\<lambda>(status, answer).
              if error_status status then failE (failed (e_show_http_status env status))
              else (case Option.bind answer (e_parse_drain_status env) of
                 Some payload \<Rightarrow> retE (Some payload)
               | None \<Rightarrow> failE (PluginDrainStatusError (''plugin inceptor drain status response deserialization failed for ''
                   @ url @ '': '' @ e_decode_error env))))))))"

definition traffic_shift_json :: "int \<Rightarrow> json" where
  "traffic_shift_json traffic_percent = JObj [(''trafficPercent'', JInt traffic_percent)]"

definition invoke_inceptor_traffic_shift ::
  "'s env \<Rightarrow> string \<Rightarrow> string \<Rightarrow> string \<Rightarrow> InceptionPlugin \<Rightarrow> AuthConfig \<Rightarrow> int \<Rightarrow> ('s, ReconcileError, unit) op" where
  "invoke_inceptor_traffic_shift env bg ns ip plugin auth traffic_percent =
     (let path = unwrap_or (Option.bind (ip_lifecycle (plugin_spec plugin)) lc_traffic_shift_path) ''/traffic'';
          url = inceptor_url env bg ns ip plugin path
      in thenE (liftE (control_plane_client env (pi_control_plane_tls (ip_inceptor (plugin_spec plugin)))))
        (bindE (sign_inception_auth_token env ns auth bg ip plugin) (\<lambda>token.
         bindE (checked_post env PluginTrafficShift ''plugin inceptor traffic shift call failed'' url token
           (traffic_shift_json traffic_percent) 10) (\<lambda>_. retE ()))))"

section \<open>Plugin managers\<close>

definition opt_field :: "string \<Rightarrow> ('a \<Rightarrow> json) \<Rightarrow> 'a option \<Rightarrow> (string \<times> json) list" where
  "opt_field k f x = (case x of None \<Rightarrow> [] | Some v \<Rightarrow> [(k, f v)])"

definition list_field :: "string \<Rightarrow> ('a \<Rightarrow> json) \<Rightarrow> 'a list \<Rightarrow> (string \<times> json) list" where
  "list_field k f xs = (if xs = [] then [] else [(k, JArr (map f xs))])"

definition active_inception_json :: "ActiveInception \<Rightarrow> json" where
  "active_inception_json a = JObj ([(''namespace'', JStr (ai_namespace a)), (''blueGreenRef'', JStr (ai_blue_green_ref a))]
     @ opt_field ''blueGreenUid'' JStr (ai_blue_green_uid a)
     @ [(''inceptionPoint'', JStr (ai_inception_point a)), (''plugin'', JStr (ai_plugin a)),
        (''roles'', JArr (map JStr (ai_roles a))), (''config'', ai_config a)])"

definition lifecycle_request_json :: "PluginManagerLifecycleRequest \<Rightarrow> json" where
  "lifecycle_request_json r = JObj ([(''namespace'', JStr (mr_namespace r)), (''blueGreenRef'', JStr (mr_blue_green_ref r))]
     @ opt_field ''blueGreenUid'' JStr (mr_blue_green_uid r)
     @ [(''inceptionPoint'', JStr (mr_inception_point r)), (''plugin'', JStr (mr_plugin r)),
        (''roles'', JArr (map JStr (mr_roles r))), (''config'', mr_config r)]
     @ list_field ''activeInceptions'' active_inception_json (mr_active_inceptions r))"

definition sync_request_json :: "PluginManagerSyncRequest \<Rightarrow> json" where
  "sync_request_json r = JObj ((''plugin'', JStr (sr_plugin r))
     # list_field ''activeInceptions'' active_inception_json (sr_active_inceptions r))"

definition bgd_inceptions :: "string \<Rightarrow> BlueGreenDeployment \<Rightarrow> ActiveInception list" where
  "bgd_inceptions plugin bgd =
     (if Option.bind (bgd_status bgd) s_phase \<in> {Some PhCompleted, Some PhRolledBack} then []
      else (case (md_namespace (bgd_metadata bgd), md_name (bgd_metadata bgd)) of
        (Some ns, Some bg) \<Rightarrow>
          map (\<lambda>ip. \<lparr>ai_namespace = ns, ai_blue_green_ref = bg, ai_blue_green_uid = md_uid (bgd_metadata bgd),
              ai_inception_point = pt_name ip, ai_plugin = plugin, ai_roles = map plugin_role_name (pt_roles ip),
              ai_config = pt_config ip\<rparr>)
            (filter (\<lambda>ip. ref_name (pt_plugin_ref ip) = plugin) (spec_inception_points (bgd_spec bgd)))
      | _ \<Rightarrow> []))"

definition active_inceptions_for_plugin :: "'s env \<Rightarrow> string \<Rightarrow> ('s, ReconcileError, ActiveInception list) op" where
  "active_inceptions_for_plugin env plugin =
     bindE (k8s (request_op RqListBgds (e_list_bgds env))) (\<lambda>bgds. retE (concat (map (bgd_inceptions plugin) bgds)))"

definition manager_url :: "PluginManager \<Rightarrow> string \<Rightarrow> string" where
  "manager_url manager path =
     control_plane_url (pm_service_name manager) (unwrap_or (pm_namespace manager) ''fluidbg-system'')
       (unwrap_or (opt_or (Option.bind (pm_control_plane_tls manager) tls_port) (pm_port manager)) 9090) path
       (pm_control_plane_tls manager)"

definition invoke_plugin_manager_sync :: "'s env \<Rightarrow> InceptionPlugin \<Rightarrow> AuthConfig \<Rightarrow> ('s, ReconcileError, unit) op" where
  "invoke_plugin_manager_sync env plugin auth = (case ip_manager (plugin_spec plugin) of
     None \<Rightarrow> retE ()
   | Some manager \<Rightarrow>
       bindE (active_inceptions_for_plugin env (plugin_name plugin)) (\<lambda>active.
       bindE (sign_manager_sync_auth_token env auth plugin) (\<lambda>token.
       thenE (liftE (control_plane_client env (pm_control_plane_tls manager)))
      (bindE (checked_post env PluginManagerError ''plugin manager sync failed''
          (manager_url manager (unwrap_or (pm_sync_path manager) ''/manager/sync'')) token
          (sync_request_json \<lparr>sr_plugin = plugin_name plugin, sr_active_inceptions = active\<rparr>) 3) (\<lambda>_. retE ())))))"

definition validate_plugin_auth :: "'s env \<Rightarrow> AuthConfig \<Rightarrow> string option \<Rightarrow> ('s, string, PluginAuthClaims option) op" where
  "validate_plugin_auth env auth header_value = mapErr (show_error env) (validate_inception_auth_token env auth header_value)"

definition manager_stage_path :: "PluginManager \<Rightarrow> PluginLifecycleStage \<Rightarrow> string option" where
  "manager_stage_path manager stage = (case stage of
     Prepare \<Rightarrow> Some (unwrap_or (pm_prepare_path manager) ''/manager/prepare'')
   | Activate \<Rightarrow> None
   | CleanupStage \<Rightarrow> Some (unwrap_or (pm_cleanup_path manager) ''/manager/cleanup'')
   | Drain \<Rightarrow> None)"

text \<open>The configuration sent is the inception point's: the context of this call has none from a manager.\<close>

definition manager_request ::
  "string \<Rightarrow> string \<Rightarrow> PluginAuthClaims \<Rightarrow> InceptionPoint \<Rightarrow> InceptionPlugin \<Rightarrow> ActiveInception list \<Rightarrow>
   PluginManagerLifecycleRequest" where
  "manager_request ns bg claims ip plugin active = \<lparr>mr_namespace = ns, mr_blue_green_ref = bg,
     mr_blue_green_uid = cl_blue_green_uid claims, mr_inception_point = pt_name ip, mr_plugin = plugin_name plugin,
     mr_roles = map plugin_role_name (pt_roles ip), mr_config = pt_config ip, mr_active_inceptions = active\<rparr>"

definition invoke_plugin_manager_lifecycle ::
  "'s env \<Rightarrow> string \<Rightarrow> string \<Rightarrow> InceptionPoint \<Rightarrow> InceptionPlugin \<Rightarrow> AuthConfig \<Rightarrow> PluginLifecycleStage \<Rightarrow>
   ('s, ReconcileError, PluginLifecycleResponse option) op" where
  "invoke_plugin_manager_lifecycle env bg ns ip plugin auth stage =
     (case Option.bind (ip_manager (plugin_spec plugin)) (\<lambda>m. map_option (Pair m) (manager_stage_path m stage)) of
        None \<Rightarrow> retE None
      | Some (manager, path) \<Rightarrow>
          (let url = manager_url manager path
           in bindE (sign_inception_auth_token env ns auth bg (pt_name ip) plugin) (\<lambda>token.
              bindE (mapErr Auth (validate_plugin_auth env auth (Some (bearer_value token)))) (\<lambda>validated.
              case validated of
                None \<Rightarrow> failE (PluginManagerError ''manager auth token did not produce claims'')
              | Some claims \<Rightarrow>
                  bindE (active_inceptions_for_plugin env (plugin_name plugin)) (\<lambda>active.
                  thenE (liftE (control_plane_client env (pm_control_plane_tls manager)))
                 (bindE (checked_post env PluginManagerError ''plugin manager call failed'' url token
                     (lifecycle_request_json (manager_request ns bg claims ip plugin active)) 10) (\<lambda>answer.
                  case answer of
                    None \<Rightarrow> failE (PluginManagerError (''plugin manager response deserialization failed for '' @ url @ '': ''
                      @ e_decode_error env))
                  | Some v \<Rightarrow> retE (Some (unwrap_or (e_parse_lifecycle env v) default_lifecycle_response)))))))))"

section \<open>Draining\<close>

definition filter_assignments :: "PropertyAssignment list \<Rightarrow> AssignmentTarget list \<Rightarrow> PropertyAssignment list" where
  "filter_assignments assignments targets = filter (\<lambda>a. pa_target a \<in> set targets) assignments"

definition env_assignment :: "AssignmentTarget \<Rightarrow> EnvVar \<Rightarrow> PropertyAssignment" where
  "env_assignment target e = \<lparr>pa_target = target, pa_kind = KindEnv, pa_name = env_name e, pa_value = unwrap_or (env_value e) [],
     pa_container_name = None\<rparr>"

definition restore_assignments :: "'s env \<Rightarrow> InceptionPlugin \<Rightarrow> InceptionPoint \<Rightarrow> string \<Rightarrow> string \<Rightarrow> PropertyAssignment list" where
  "restore_assignments env plugin ip ns bg =
     (let i = render_container_env_injections (e_show_f64 env) plugin (plugin_template_context (jl_sha256 (e_jwt env)) ip ns bg) True
      in map (env_assignment TargetGreen) (cei_green i) @ map (env_assignment TargetBlue) (cei_blue i)
         @ map (env_assignment TargetTest) (cei_test i))"

definition get_plugin :: "'s env \<Rightarrow> string \<Rightarrow> ('s, ReconcileError, InceptionPlugin) op" where
  "get_plugin env name = k8s (request_op (RqGetPlugin name) (\<lambda>h. e_get_plugin env h name))"

definition drain_inception ::
  "'s env \<Rightarrow> BlueGreenDeployment \<Rightarrow> string \<Rightarrow> AuthConfig \<Rightarrow> AssignmentTarget list \<Rightarrow> InceptionPoint \<Rightarrow> ('s, ReconcileError, unit) op" where
  "drain_inception env bgd ns auth restore_targets ip =
     bindE (get_plugin env (ref_name (pt_plugin_ref ip))) (\<lambda>plugin.
     bindE (invoke_inceptor_lifecycle env (bgd_name_or [] bgd) ns (pt_name ip) plugin auth Drain) (\<lambda>response.
       let assignments = restore_assignments env plugin ip ns (bgd_name_or [] bgd)
             @ (case response of None \<Rightarrow> [] | Some r \<Rightarrow> plr_assignments r);
           filtered = filter_assignments assignments restore_targets
       in if filtered = [] then retE ()
          else bindE (apply_assignments env bgd ns filtered False) (\<lambda>touched. wait_for_deployments_ready env touched)))"

definition start_plugin_draining ::
  "'s env \<Rightarrow> BlueGreenDeployment \<Rightarrow> string \<Rightarrow> AuthConfig \<Rightarrow> AssignmentTarget list \<Rightarrow> ('s, ReconcileError, unit) op" where
  "start_plugin_draining env bgd ns auth restore_targets =
     eachE (drain_inception env bgd ns auth restore_targets) (spec_inception_points (bgd_spec bgd))"

section \<open>Retries\<close>

lemma http_attempts_yields:
  "yields (http_attempts env url auth body (Suc n)) (\<lambda>new r. let rq = RqHttp HttpPost url auth body in
     (\<exists>k \<le> n. \<exists>a. new = replicate k (Ev rq False) @ [Ev rq True] \<and> r = Inr a) \<or>
     (\<exists>e. new = replicate (Suc n) (Ev rq False) \<and> r = Inl e))"
proof (induction n)
  case 0
  show ?case
    by (auto simp: yields_def http_op_def op_simps split: sum.splits)
next
  case (Suc n)
  let ?rq = "RqHttp HttpPost url auth body"
  show ?case
    unfolding http_attempts.simps(2) [of env url auth body "Suc n"]
  proof (rule yields_try [where R = "\<lambda>new r. new = [Ev ?rq (is_ok r)]" and
        S = "\<lambda>r new r'. case r of Inr a \<Rightarrow> new = [] \<and> r' = Inr a
          | Inl _ \<Rightarrow> (\<exists>k \<le> n. \<exists>a. new = replicate k (Ev ?rq False) @ [Ev ?rq True] \<and> r' = Inr a) \<or>
               (\<exists>e. new = replicate (Suc n) (Ev ?rq False) \<and> r' = Inl e)"])
    show "yields (http_op env HttpPost url auth body) (\<lambda>new r. new = [Ev ?rq (is_ok r)])"
      unfolding http_op_def Let_def by (rule yields_request) simp
    show "yields (case r of Inl err \<Rightarrow> if 0 < Suc n then http_attempts env url auth body (Suc n) else failE err | Inr answer \<Rightarrow> retE answer)
        (\<lambda>new r'. case r of Inr a \<Rightarrow> new = [] \<and> r' = Inr a
          | Inl _ \<Rightarrow> (\<exists>k \<le> n. \<exists>a. new = replicate k (Ev ?rq False) @ [Ev ?rq True] \<and> r' = Inr a) \<or>
               (\<exists>e. new = replicate (Suc n) (Ev ?rq False) \<and> r' = Inl e))" for r
      using Suc by (cases r) (auto simp: Let_def intro: yields_ret)
  next
    fix m n' :: "event list" and r r'
    assume m: "m = [Ev ?rq (is_ok r)]" and n': "case r of Inr a \<Rightarrow> n' = [] \<and> r' = Inr a
          | Inl _ \<Rightarrow> (\<exists>k \<le> n. \<exists>a. n' = replicate k (Ev ?rq False) @ [Ev ?rq True] \<and> r' = Inr a) \<or>
               (\<exists>e. n' = replicate (Suc n) (Ev ?rq False) \<and> r' = Inl e)"
    show "let rq = ?rq in (\<exists>k \<le> Suc n. \<exists>a. m @ n' = replicate k (Ev rq False) @ [Ev rq True] \<and> r' = Inr a) \<or>
     (\<exists>e. m @ n' = replicate (Suc (Suc n)) (Ev rq False) \<and> r' = Inl e)"
    proof (cases r)
      case (Inr a)
      then show ?thesis using m n' by (auto simp: is_ok_def intro!: exI [of _ 0])
    next
      case (Inl e)
      from n' [unfolded Inl sum.case] show ?thesis
      proof (elim disjE exE conjE)
        fix k a
        assume "k \<le> n" "n' = replicate k (Ev ?rq False) @ [Ev ?rq True]" "r' = Inr a"
        then show ?thesis using m Inl by (auto simp: is_ok_def Let_def intro!: exI [of _ "Suc k"])
      next
        fix e'
        assume "n' = replicate (Suc n) (Ev ?rq False)" "r' = Inl e'"
        then show ?thesis using m Inl by (simp add: is_ok_def Let_def)
      qed
    qed
  qed
qed

section \<open>Properties\<close>

text \<open>Calls to plugins are retried a bounded number of times, and only when no answer came. Of at most ten requests
  every one but the last ended in a transport error; the first answer, whatever its status, ends the loop; after ten
  transport errors the call fails.\<close>

theorem plugin_calls_are_retried:
  "\<exists>new. w_log (snd (http_attempts env url auth body (Suc n) w)) = w_log w @ new \<and> length new \<le> Suc n \<and>
     (\<forall>ev \<in> set new. ev_request ev = RqHttp HttpPost url auth body) \<and>
     (\<forall>i < length new. ev_ok (new ! i) \<longrightarrow> i = length new - 1) \<and>
     (case fst (http_attempts env url auth body (Suc n) w) of
        Inr _ \<Rightarrow> new \<noteq> [] \<and> ev_ok (last new) | Inl _ \<Rightarrow> length new = Suc n \<and> (\<forall>ev \<in> set new. \<not> ev_ok ev))"
proof -
  let ?rq = "RqHttp HttpPost url auth body"
  obtain r w' where run: "http_attempts env url auth body (Suc n) w = (r, w')" by (metis surj_pair)
  from yieldsD [OF http_attempts_yields run] obtain new where new: "w_log w' = w_log w @ new"
    "(\<exists>k \<le> n. \<exists>a. new = replicate k (Ev ?rq False) @ [Ev ?rq True] \<and> r = Inr a) \<or>
     (\<exists>e. new = replicate (Suc n) (Ev ?rq False) \<and> r = Inl e)"
    unfolding Let_def by blast
  from new(2) show ?thesis
  proof (elim disjE exE conjE)
    fix k a
    assume "k \<le> n" and n: "new = replicate k (Ev ?rq False) @ [Ev ?rq True]" and "r = Inr a"
    moreover have "\<forall>i < length new. ev_ok (new ! i) \<longrightarrow> i = length new - 1"
      unfolding n by (auto simp: nth_append split: if_splits)
    ultimately show ?thesis using new(1) run by (intro exI [of _ new]) (simp del: http_attempts.simps)
  next
    fix e
    assume n: "new = replicate (Suc n) (Ev ?rq False)" and "r = Inl e"
    moreover have "\<forall>i < length new. ev_ok (new ! i) \<longrightarrow> i = length new - 1"
      unfolding n by (simp del: replicate_Suc)
    ultimately show ?thesis using new(1) run by (intro exI [of _ new]) (simp del: http_attempts.simps)
  qed
qed

lemma checked_post_Inr:
  assumes "checked_post env mk what url token body (Suc n) w = (Inr answer, w')"
  shows "\<exists>pre. w_log w' = w_log w @ pre @ [Ev (RqHttp HttpPost url (bearer_value token) body) True]"
proof -
  obtain a w1 where a: "http_attempts env url (bearer_value token) body (Suc n) w = (Inr a, w1)" "w' = w1"
    using assms by (auto simp: checked_post_def mapErr_def tryE_def retE_def failE_def split: prod.splits sum.splits if_splits
        elim!: bindE_InrE)
  show ?thesis
    using yieldsD [OF http_attempts_yields a(1)] a(2) by (auto simp: Let_def)
qed

text \<open>C24: plugin managers accept what the operator sends them. A completed lifecycle call ends with a request whose
  token, under the operator's key, verifies to claims that match the namespace, rollout, UID, inception point and plugin in
  the request's body.\<close>

theorem managers_accept_lifecycle_calls:
  assumes "invoke_plugin_manager_lifecycle env bg ns ip plugin auth stage w = (Inr (Some response), w')"
    and "stable_key env auth k" and "stable_uid env ns bg uid"
    and "jwt_roundtrips (e_jwt env) (claims_new_with_uid ns bg uid (pt_name ip) (plugin_name plugin))"
  shows "\<exists>h url header req claims. w_log w' = h @ [Ev (RqHttp HttpPost url header (lifecycle_request_json req)) True] \<and>
    verify_manager_bearer_token (e_jwt env) (Some header) k = Inr claims \<and>
    require_manager_request_matches_claims req claims = Inr () \<and>
    mr_namespace req = ns \<and> mr_blue_green_ref req = bg \<and> mr_blue_green_uid req = Some uid \<and>
    mr_inception_point req = pt_name ip \<and> mr_plugin req = plugin_name plugin"
proof -
  let ?claims = "claims_new_with_uid ns bg uid (pt_name ip) (plugin_name plugin)"
  obtain manager path where m: "Option.bind (ip_manager (plugin_spec plugin)) (\<lambda>m. map_option (Pair m) (manager_stage_path m stage))
      = Some (manager, path)"
    using assms(1) by (auto simp: invoke_plugin_manager_lifecycle_def retE_def split: option.splits)
  let ?url = "manager_url manager path"
  obtain token w1 claims w2 active w3 where run: "sign_inception_auth_token env ns auth bg (pt_name ip) plugin w = (Inr token, w1)"
    "mapErr Auth (validate_plugin_auth env auth (Some (bearer_value token))) w1 = (Inr (Some claims), w2)"
    "\<exists>answer. checked_post env PluginManagerError ''plugin manager call failed'' ?url token
       (lifecycle_request_json (manager_request ns bg claims ip plugin active)) 10 w3 = (Inr (Some answer), w')"
    using assms(1) unfolding invoke_plugin_manager_lifecycle_def m
    by (auto simp: Let_def retE_def failE_def split: option.splits elim!: bindE_InrE thenE_InrE) blast
  have signed: "sign_plugin_auth_token (e_jwt env) ?claims k = Inr token"
    by (rule sign_inception_Inr [OF assms(2,3) run(1)])
  note valid = validate_signed [OF assms(2,4) signed]
  have claims: "claims = ?claims"
    using run(2) valid(2) [of w1]
    by (auto simp: validate_plugin_auth_def mapErr_def tryE_def retE_def failE_def split: prod.splits sum.splits)
  have v: "verify_manager_bearer_token (e_jwt env) (Some (bearer_value token)) k = Inr ?claims"
    using valid(1) by (simp add: verify_manager_bearer_token_def bearer_token_def bearer_value_def)
  let ?req = "manager_request ns bg ?claims ip plugin active"
  have r: "require_manager_request_matches_claims ?req ?claims = Inr ()" "mr_namespace ?req = ns" "mr_blue_green_ref ?req = bg"
      "mr_blue_green_uid ?req = Some uid" "mr_inception_point ?req = pt_name ip" "mr_plugin ?req = plugin_name plugin"
    by (simp_all add: require_manager_request_matches_claims_def manager_request_matches_claims_def manager_request_def
        claims_new_with_uid_def claims_new_def)
  obtain answer where "checked_post env PluginManagerError ''plugin manager call failed'' ?url token (lifecycle_request_json ?req)
      (Suc 9) w3 = (Inr (Some answer), w')"
    using run(3) claims by auto
  from checked_post_Inr [OF this] obtain pre where
    "w_log w' = w_log w3 @ pre @ [Ev (RqHttp HttpPost ?url (bearer_value token) (lifecycle_request_json ?req)) True]" by blast
  then have "w_log w' = (w_log w3 @ pre) @ [Ev (RqHttp HttpPost ?url (bearer_value token) (lifecycle_request_json ?req)) True]"
    by simp
  then show ?thesis using v r by blast
qed

definition managed_plugin :: InceptionPlugin where
  "managed_plugin = sample_plugin\<lparr>plugin_spec := (plugin_spec sample_plugin)\<lparr>ip_manager := Some \<lparr>pm_service_name = ''mgr'',
     pm_namespace = None, pm_port = None, pm_prepare_path = None, pm_cleanup_path = None, pm_sync_path = None,
     pm_control_plane_tls = None\<rparr>\<rparr>\<rparr>"

definition manager_env :: "unit env" where
  "manager_env = signing_env\<lparr>e_http := \<lambda>_ _. Inr (200, Some (JObj []))\<rparr>"

definition ip_point :: InceptionPoint where
  "ip_point = sample_point\<lparr>pt_name := ''ip''\<rparr>"

lemma managers_accept_lifecycle_calls_witness:
  "\<exists>response w' h url header req claims.
     invoke_plugin_manager_lifecycle manager_env ''orders'' ''shop'' ip_point managed_plugin signing_auth Prepare (start_world ())
       = (Inr (Some response), w') \<and>
     w_log w' = h @ [Ev (RqHttp HttpPost url header (lifecycle_request_json req)) True] \<and>
     verify_manager_bearer_token (e_jwt manager_env) (Some header) [1, 2, 3] = Inr claims \<and>
     require_manager_request_matches_claims req claims = Inr ()"
proof -
  have st: "stable_key manager_env signing_auth [1, 2, 3]" "stable_uid manager_env ''shop'' ''orders'' ''uid-1''"
    "jwt_roundtrips (e_jwt manager_env) (claims_new_with_uid ''shop'' ''orders'' ''uid-1'' (pt_name ip_point) (plugin_name managed_plugin))"
    using signing_env_stable
    by (simp_all add: manager_env_def stable_key_def stable_uid_def ip_point_def plugin_name_def managed_plugin_def)
  obtain token w1 where sign: "sign_inception_auth_token manager_env ''shop'' signing_auth ''orders'' (pt_name ip_point) managed_plugin
      (start_world ()) = (Inr token, w1)"
    using sign_succeeds [OF st] by blast
  obtain w2 where valid: "validate_inception_auth_token manager_env signing_auth (Some (bearer_value token)) w1 =
      (Inr (Some (claims_new_with_uid ''shop'' ''orders'' ''uid-1'' (pt_name ip_point) (plugin_name managed_plugin))), w2)"
    using validate_signed(2) [OF st(1,3) sign_inception_Inr [OF st(1,2) sign], of w1] by (metis prod.collapse)
  have e: "e_list_bgds manager_env = (\<lambda>_. Inr [])" "e_read_cert manager_env = (\<lambda>_. None)" "e_build_client manager_env = None"
      "e_http manager_env = (\<lambda>_ _. Inr (200, Some (JObj [])))" "e_parse_lifecycle manager_env = (\<lambda>_. None)"
    by (simp_all add: manager_env_def signing_env_def idle_env_def quiet_env_def)
  have "\<exists>response w'. invoke_plugin_manager_lifecycle manager_env ''orders'' ''shop'' ip_point managed_plugin signing_auth Prepare
      (start_world ()) = (Inr (Some response), w')"
    unfolding invoke_plugin_manager_lifecycle_def
    by (simp add: managed_plugin_def [THEN arg_cong, of plugin_spec] manager_stage_path_def bindE_def sign [unfolded managed_plugin_def]
        valid [unfolded managed_plugin_def] validate_plugin_auth_def mapErr_def tryE_def retE_def liftE_def thenE_def Let_def
        active_inceptions_for_plugin_def k8s_def request_op_def e control_plane_client_def checked_post_def http_op_def error_status_def
        numeral_eq_Suc managed_plugin_def)
  then obtain response w' where run: "invoke_plugin_manager_lifecycle manager_env ''orders'' ''shop'' ip_point managed_plugin signing_auth
      Prepare (start_world ()) = (Inr (Some response), w')" by blast
  from managers_accept_lifecycle_calls [OF run st] run show ?thesis by blast
qed

end
