(* ===== verification/Rollout.thy ===== *)
theory Rollout
  imports PluginLifecycle Cleanup Promotion
begin

text \<open>
  Promotion, bootstrap, the start of draining and traffic shifting
  (\<open>src/operator/src/controller/phases/rollout.rs\<close>, \<open>src/operator/src/controller/phases/traffic.rs\<close>).
\<close>

section \<open>Promotion\<close>

text \<open>The loop over the green deployments: whether the candidate is among them, and the others.\<close>

fun sort_greens :: "string \<Rightarrow> DeploymentRef \<Rightarrow> string \<Rightarrow> Deployment list \<Rightarrow> ReconcileError + bool \<times> DeploymentRef list" where
  "sort_greens green_namespace candidate candidate_namespace [] = Inr (False, [])"
| "sort_greens green_namespace candidate candidate_namespace (d # ds) = (case md_name (d_metadata d) of
     None \<Rightarrow> Inl (Store ''selected green deployment has no name'')
   | Some name \<Rightarrow> (case sort_greens green_namespace candidate candidate_namespace ds of
       Inl e \<Rightarrow> Inl e
     | Inr (seen, previous) \<Rightarrow>
         if name = dr_name candidate \<and> green_namespace = candidate_namespace then Inr (True, previous)
         else Inr (seen, \<lparr>dr_name = name, dr_namespace = Some green_namespace\<rparr> # previous)))"

definition select_previous_green_for_promotion ::
  "string \<Rightarrow> Deployment list \<Rightarrow> DeploymentRef \<Rightarrow> string \<Rightarrow> ReconcileError + DeploymentRef" where
  "select_previous_green_for_promotion green_namespace greens candidate default_namespace =
     (case sort_greens green_namespace candidate (deployment_namespace candidate default_namespace) greens of
        Inl e \<Rightarrow> Inl e
      | Inr (True, [d]) \<Rightarrow> Inr d
      | Inr (True, []) \<Rightarrow> Inr candidate
      | Inr (True, ds) \<Rightarrow> Inl (Store (''promotion found candidate plus '' @ show_nat (length ds)
          @ '' previous green deployments in namespace '' @ quoted green_namespace @ ''; expected at most one previous green''))
      | Inr (False, [d]) \<Rightarrow> Inr d
      | Inr (False, []) \<Rightarrow> Inl (Store (''selector matched no green deployments in namespace '' @ quoted green_namespace))
      | Inr (False, ds) \<Rightarrow> Inl (Store (''selector matched '' @ show_nat (length ds) @ '' green deployments in namespace ''
          @ quoted green_namespace
          @ ''; expected exactly one or an in-progress promotion candidate plus previous green'')))"

definition resolve_previous_green_for_promotion ::
  "'s env \<Rightarrow> string \<Rightarrow> DeploymentSelector \<Rightarrow> DeploymentRef \<Rightarrow> ('s, ReconcileError, DeploymentRef) op" where
  "resolve_previous_green_for_promotion env namespace selector candidate =
     (if sel_match_labels selector = [] then failE (Store ''selector.matchLabels must contain at least one label'')
      else
        let green_namespace = unwrap_or (sel_namespace selector) namespace
        in bindE (k8s (list_deployments env green_namespace
                   (bt_insert ''fluidbg.io/green'' ''true'' (sel_match_labels selector)))) (\<lambda>greens.
           liftE (select_previous_green_for_promotion green_namespace greens candidate namespace)))"

definition promote :: "'s env \<Rightarrow> BlueGreenDeployment \<Rightarrow> string \<Rightarrow> ('s, ReconcileError, DeploymentRef) op" where
  "promote env bgd namespace =
     (let candidate = candidate_ref bgd; spec = bgd_spec bgd
      in bindE (resolve_previous_green_for_promotion env namespace (spec_selector spec) candidate) (\<lambda>current_green.
         bindE (apply_deployment_manifest env bgd namespace (spec_deployment spec) (sel_match_labels (spec_selector spec)) True [])
           (\<lambda>identity.
         thenE (wait_for_deployments_ready env [identity]) (retE current_green))))"

definition ensure_declared_deployments ::
  "'s env \<Rightarrow> BlueGreenDeployment \<Rightarrow> string \<Rightarrow> PropertyAssignment list \<Rightarrow> ('s, ReconcileError, unit) op" where
  "ensure_declared_deployments env bgd namespace initial_assignments =
     bindE (apply_deployment_manifest env bgd namespace (spec_deployment (bgd_spec bgd))
       (sel_match_labels (spec_selector (bgd_spec bgd))) False initial_assignments) (\<lambda>_. retE ())"

definition bootstrap_initial_green_if_empty :: "'s env \<Rightarrow> BlueGreenDeployment \<Rightarrow> string \<Rightarrow> ('s, ReconcileError, bool) op" where
  "bootstrap_initial_green_if_empty env bgd namespace =
     (let spec = bgd_spec bgd; selector = spec_selector spec
      in if sel_match_labels selector = [] then failE (Store ''selector.matchLabels must contain at least one label'')
         else bindE (k8s (list_deployments env (unwrap_or (sel_namespace selector) namespace) (sel_match_labels selector))) (\<lambda>family.
           if family \<noteq> [] then retE False
           else bindE (apply_deployment_manifest env bgd namespace (spec_deployment spec) (sel_match_labels selector) True [])
             (\<lambda>_. retE True)))"

definition begin_draining_after_promotion ::
  "'s env \<Rightarrow> BlueGreenDeployment \<Rightarrow> string \<Rightarrow> AuthConfig \<Rightarrow> DeploymentRef \<Rightarrow> ('s, ReconcileError, unit) op" where
  "begin_draining_after_promotion env bgd namespace auth previous_green =
     thenE (start_plugin_draining env bgd namespace auth [TargetBlue])
       (delete_current_green env namespace (candidate_ref bgd) previous_green)"

definition begin_draining_after_rollback ::
  "'s env \<Rightarrow> BlueGreenDeployment \<Rightarrow> string \<Rightarrow> AuthConfig \<Rightarrow> ('s, ReconcileError, unit) op" where
  "begin_draining_after_rollback env bgd namespace auth =
     thenE (start_plugin_draining env bgd namespace auth [TargetGreen])
       (delete_deployment env (deployment_namespace (candidate_ref bgd) namespace) (dr_name (candidate_ref bgd)))"

section \<open>Traffic\<close>

definition validate_progressive_splitter_plugin :: "string \<Rightarrow> string \<Rightarrow> InceptionPlugin \<Rightarrow> ReconcileError + unit" where
  "validate_progressive_splitter_plugin ip_name plugin_ref plugin =
     (if case ip_features (plugin_spec plugin) of Some f \<Rightarrow> pf_supports_progressive_shifting f | None \<Rightarrow> False then Inr ()
      else Inl (InvalidSpec (''progressive strategy requires inception point '' @ quoted ip_name @ '' plugin '' @ quoted plugin_ref
        @ '' to set features.supportsProgressiveShifting=true'')))"

definition splitter_points :: "BlueGreenDeployment \<Rightarrow> InceptionPoint list" where
  "splitter_points bgd = filter (\<lambda>ip. Splitter \<in> set (pt_roles ip)) (spec_inception_points (bgd_spec bgd))"

definition validate_progressive_shifting_support :: "'s env \<Rightarrow> BlueGreenDeployment \<Rightarrow> ('s, ReconcileError, unit) op" where
  "validate_progressive_shifting_support env bgd = (case spec_promotion (bgd_spec bgd) of
     None \<Rightarrow> retE ()
   | Some promotion \<Rightarrow>
       if strat_type (prom_strategy promotion) \<noteq> Progressive then retE ()
       else thenE (eachE (\<lambda>ip. bindE (get_plugin env (ref_name (pt_plugin_ref ip))) (\<lambda>plugin.
                liftE (validate_progressive_splitter_plugin (pt_name ip) (ref_name (pt_plugin_ref ip)) plugin))) (splitter_points bgd))
              (if splitter_points bgd = []
               then failE (InvalidSpec ''progressive strategy requires at least one splitter inception point'')
               else retE ()))"

definition apply_splitter_traffic_percent ::
  "'s env \<Rightarrow> BlueGreenDeployment \<Rightarrow> string \<Rightarrow> AuthConfig \<Rightarrow> int \<Rightarrow> ('s, ReconcileError, unit) op" where
  "apply_splitter_traffic_percent env bgd namespace auth traffic_percent =
     eachE (\<lambda>ip. bindE (get_plugin env (ref_name (pt_plugin_ref ip))) (\<lambda>plugin.
       invoke_inceptor_traffic_shift env (bgd_name_or [] bgd) namespace (pt_name ip) plugin auth (as_u8 traffic_percent)))
       (splitter_points bgd)"

definition initialize_splitter_traffic :: "'s env \<Rightarrow> BlueGreenDeployment \<Rightarrow> string \<Rightarrow> AuthConfig \<Rightarrow> ('s, ReconcileError, unit) op" where
  "initialize_splitter_traffic env bgd namespace auth = (case initial_splitter_traffic_percent bgd of
     None \<Rightarrow> retE ()
   | Some traffic_percent \<Rightarrow>
       thenE (apply_splitter_traffic_percent env bgd namespace auth traffic_percent)
         (update_status_progress env bgd namespace 0 traffic_percent))"

section \<open>Requests of the workload\<close>

text \<open>Reads, writes of deployments, services, config maps and secrets, and calls to plugins: no deletion, no status or
  finalizer write, no lease and no test case.\<close>

definition workload_request :: "request \<Rightarrow> bool" where
  "workload_request rq = (case rq of
     RqDelete _ _ _ \<Rightarrow> False | RqReplaceStatus _ _ _ \<Rightarrow> False | RqPatchStatus _ _ _ \<Rightarrow> False | RqPatchFinalizers _ _ _ \<Rightarrow> False
   | RqLeaseGet _ _ \<Rightarrow> False | RqLeaseReplace _ _ _ \<Rightarrow> False | RqLeaseCreate _ _ \<Rightarrow> False | RqStore _ \<Rightarrow> False | _ \<Rightarrow> True)"

named_theorems workload_intros \<open>operations that only make workload requests\<close>

lemma workload_simps [simp]:
  "workload_request (RqGet k ns n)" "workload_request (RqList k ns l)" "workload_request (RqReplace ns n res)"
  "workload_request (RqCreate ns res)" "workload_request (RqApply ns n res)" "workload_request (RqHttp verb url auth body)"
  "workload_request (RqGetBgd ns n)" "workload_request RqListBgds" "workload_request (RqGetPlugin n)" "workload_request RqListPlugins"
  "workload_request (RqEndpoints ns n)" "workload_request RqNamespaces"
  "\<not> workload_request (RqDelete k ns n)" "\<not> workload_request (RqReplaceStatus ns n b)" "\<not> workload_request (RqPatchStatus ns n p)"
  "\<not> workload_request (RqPatchFinalizers ns n f)" "\<not> workload_request (RqStore c)"
  by (simp_all add: workload_request_def)

lemma only_prod [only_intros]: "(\<And>a b. p = (a, b) \<Longrightarrow> makes_only P (f a b)) \<Longrightarrow> makes_only P (case p of (a, b) \<Rightarrow> f a b)"
  by (cases p) simp

lemma workload_wait_deployment [workload_intros]: "makes_only workload_request (wait_for_deployments_ready env ids)"
proof -
  have "makes_only workload_request (wait_deployment_attempts env i n)" for i n
    by (induction n) (auto simp: get_deployment_def intro!: only_intros)
  then show ?thesis unfolding wait_for_deployments_ready_def wait_for_deployment_ready_def by (auto intro!: only_intros)
qed

lemma workload_resolve_green [workload_intros]: "makes_only workload_request (resolve_current_green env ns sel)"
  unfolding resolve_current_green_def list_deployments_def Let_def
  by (auto intro!: only_intros split: list.splits)

lemma workload_apply_assignments [workload_intros]: "makes_only workload_request (apply_assignments env bgd ns as ignore)"
  unfolding apply_assignments_def patch_targeted_deployment_env_def get_deployment_def
  by (auto intro!: only_intros workload_intros)

lemma workload_apply_resource [workload_intros]: "makes_only workload_request (apply_resource env ns name res)"
  unfolding apply_resource_def ensure_apply_target_available_def get_meta_opt_def Let_def
  by (auto intro!: only_intros)

lemma workload_apply_manifest [workload_intros]:
  "makes_only workload_request (apply_deployment_manifest env bgd ns spec family is_green as)"
  unfolding apply_deployment_manifest_def get_deployment_def Let_def
  by (auto intro!: only_intros)

lemma workload_sign [workload_intros]:
  "makes_only workload_request (sign_inception_auth_token env ns auth bg ip plugin)"
  "makes_only workload_request (sign_manager_sync_auth_token env auth plugin)"
  "makes_only workload_request (validate_plugin_auth env auth header)"
  unfolding sign_inception_auth_token_def sign_manager_sync_auth_token_def validate_plugin_auth_def validate_inception_auth_token_def
    operator_key_def read_operator_signing_key_def sign_with_def get_bgd_def
  by (auto intro!: only_intros)

lemma workload_post [workload_intros]: "makes_only workload_request (checked_post env mk what url token body n)"
proof -
  have "makes_only workload_request (http_attempts env url auth body n)" for auth
    by (induction n) (auto intro!: only_intros)
  then show ?thesis unfolding checked_post_def by (auto intro!: only_intros)
qed

lemma workload_plugin_calls [workload_intros]:
  "makes_only workload_request (invoke_inceptor_lifecycle env bg ns ip plugin auth stage)"
  "makes_only workload_request (invoke_inceptor_drain_status env bg ns ip plugin auth)"
  "makes_only workload_request (invoke_inceptor_traffic_shift env bg ns ip plugin auth traffic)"
  "makes_only workload_request (invoke_plugin_manager_lifecycle env bg ns point plugin auth stage)"
  "makes_only workload_request (invoke_plugin_manager_sync env plugin auth)"
  unfolding invoke_inceptor_lifecycle_def invoke_inceptor_drain_status_def invoke_inceptor_traffic_shift_def
    invoke_plugin_manager_lifecycle_def invoke_plugin_manager_sync_def decode_lifecycle_def active_inceptions_for_plugin_def Let_def
  by (auto intro!: only_intros workload_intros)

lemma workload_get_plugin [workload_intros]: "makes_only workload_request (get_plugin env name)"
  unfolding get_plugin_def by (auto intro!: only_intros)

lemma workload_start_draining [workload_intros]: "makes_only workload_request (start_plugin_draining env bgd ns auth targets)"
  unfolding start_plugin_draining_def drain_inception_def Let_def
  by (auto intro!: only_intros workload_intros)

lemma workload_promote [workload_intros]: "makes_only workload_request (promote env bgd ns)"
  unfolding promote_def resolve_previous_green_for_promotion_def list_deployments_def Let_def
  by (auto intro!: only_intros workload_intros)

lemma workload_bootstrap [workload_intros]: "makes_only workload_request (bootstrap_initial_green_if_empty env bgd ns)"
  unfolding bootstrap_initial_green_if_empty_def list_deployments_def Let_def
  by (auto intro!: only_intros workload_intros)

lemma workload_validate_progressive [workload_intros]: "makes_only workload_request (validate_progressive_shifting_support env bgd)"
  unfolding validate_progressive_shifting_support_def
  by (auto intro!: only_intros workload_intros)

lemma workload_traffic [workload_intros]: "makes_only workload_request (apply_splitter_traffic_percent env bgd ns auth traffic)"
  unfolding apply_splitter_traffic_percent_def
  by (auto intro!: only_intros workload_intros)

section \<open>Which objects are deleted\<close>

definition deleted_in :: "event list \<Rightarrow> (kind \<times> string \<times> string) set" where
  "deleted_in new = {(k, ns, n). \<exists>ok. Ev (RqDelete k ns n) ok \<in> set new}"

lemma deleted_in_append [simp]: "deleted_in [] = {}" "deleted_in (xs @ ys) = deleted_in xs \<union> deleted_in ys"
  by (auto simp: deleted_in_def)

lemma workload_deletes_nothing: "(\<forall>ev \<in> set new. workload_request (ev_request ev)) \<Longrightarrow> deleted_in new = {}"
  by (fastforce simp: deleted_in_def)

lemma delete_object_deletes: "yields (delete_object env k ns name) (\<lambda>new r. deleted_in new = {(k, ns, name)})"
  unfolding yields_def delete_object_def
  by (auto simp: op_simps deleted_in_def split: sum.splits)

definition identity_of :: "DeploymentRef \<Rightarrow> string \<Rightarrow> string \<times> string" where
  "identity_of r dflt = (deployment_namespace r dflt, dr_name r)"

lemma delete_current_green_deletes:
  "yields (delete_current_green env namespace candidate previous)
     (\<lambda>new r. deleted_in new \<subseteq> Pair KDeployment ` ({identity_of previous namespace} - {identity_of candidate namespace}))"
proof (cases "identity_of candidate namespace = identity_of previous namespace")
  case True
  then have "delete_current_green env namespace candidate previous = retE ()"
    by (simp add: delete_current_green_def identity_of_def)
  then show ?thesis by (simp add: yields_ret)
next
  case False
  then have "delete_current_green env namespace candidate previous =
      delete_object env KDeployment (deployment_namespace previous namespace) (dr_name previous)"
    by (auto simp: delete_current_green_def identity_of_def Let_def)
  then show ?thesis
    by simp (rule yields_mono [OF delete_object_deletes], use False in \<open>auto simp: identity_of_def\<close>)
qed

lemma begin_draining_deletes:
  "yields (begin_draining_after_promotion env bgd namespace auth previous)
     (\<lambda>new r. deleted_in new \<subseteq> Pair KDeployment ` ({identity_of previous namespace} - {identity_of (candidate_ref bgd) namespace}))"
  unfolding begin_draining_after_promotion_def
  by (rule yields_then [OF workload_start_draining [unfolded makes_only_def] delete_current_green_deletes])
    (simp_all add: workload_deletes_nothing)

section \<open>The previous green deployment\<close>

lemma sort_greens_Inr:
  "sort_greens gns candidate cns ds = Inr (seen, previous) \<Longrightarrow>
   (\<forall>d \<in> set ds. \<exists>n. md_name (d_metadata d) = Some n \<and>
      (n = dr_name candidate \<and> gns = cns \<or> \<lparr>dr_name = n, dr_namespace = Some gns\<rparr> \<in> set previous)) \<and>
   (\<forall>r \<in> set previous. dr_namespace r = Some gns \<and> \<not> (dr_name r = dr_name candidate \<and> gns = cns) \<and>
      (\<exists>d \<in> set ds. md_name (d_metadata d) = Some (dr_name r)))"
  by (induction ds arbitrary: seen previous) (fastforce split: option.splits sum.splits prod.splits if_splits)+

section \<open>Properties\<close>

text \<open>Promotion knows the one deployment it replaces. When the previous green deployment is selected, every deployment
  that carries the green label is either the candidate itself or the one selected, so once that one is deleted only
  the candidate can be green; the one selected is one of those listed or the candidate.\<close>

theorem previous_green_is_the_only_other:
  assumes "select_previous_green_for_promotion gns greens candidate dflt = Inr g"
  shows "(\<forall>d \<in> set greens. \<exists>n. md_name (d_metadata d) = Some n \<and>
      (gns, n) \<in> {identity_of candidate dflt, identity_of g dflt}) \<and>
    (g = candidate \<or> dr_namespace g = Some gns \<and> (\<exists>d \<in> set greens. md_name (d_metadata d) = Some (dr_name g)))"
proof -
  obtain seen previous where r: "sort_greens gns candidate (deployment_namespace candidate dflt) greens = Inr (seen, previous)"
    and sel: "previous = [g] \<or> previous = [] \<and> g = candidate"
    using assms by (auto simp: select_previous_green_for_promotion_def split: sum.splits bool.splits list.splits)
  note sg = sort_greens_Inr [OF r]
  have "\<exists>n. md_name (d_metadata d) = Some n \<and> (gns, n) \<in> {identity_of candidate dflt, identity_of g dflt}"
    if d: "d \<in> set greens" for d
  proof -
    obtain n where n: "md_name (d_metadata d) = Some n"
        "n = dr_name candidate \<and> gns = deployment_namespace candidate dflt \<or> \<lparr>dr_name = n, dr_namespace = Some gns\<rparr> \<in> set previous"
      using sg d by blast
    then show ?thesis using sel by (auto simp: identity_of_def deployment_namespace_def)
  qed
  then show ?thesis using sel sg by auto
qed

definition green_orders :: Deployment where
  "green_orders = orders_deployment\<lparr>d_metadata := default_meta\<lparr>md_name := Some ''orders-old''\<rparr>\<rparr>"

lemma previous_green_is_the_only_other_witness:
  "\<exists>n n'. md_name (d_metadata green_orders) = Some n \<and> n \<in> {''orders'', ''orders-old''} \<and>
     md_name (d_metadata orders_deployment) = Some n' \<and> n' \<in> {''orders'', ''orders-old''}"
proof -
  have g: "select_previous_green_for_promotion ''shop'' [green_orders, orders_deployment]
      \<lparr>dr_name = ''orders'', dr_namespace = None\<rparr> ''shop'' = Inr \<lparr>dr_name = ''orders-old'', dr_namespace = Some ''shop''\<rparr>"
    by (simp add: select_previous_green_for_promotion_def green_orders_def orders_deployment_def deployment_namespace_def default_meta_def)
  from previous_green_is_the_only_other [OF g] show ?thesis by (auto simp: identity_of_def)
qed

text \<open>C28: the candidate survives its own promotion. Starting to drain after a promotion, whatever the plugins and the API
  server answer, deletes at most the previous green deployment, and nothing at all when that is the candidate.\<close>

theorem promotion_keeps_the_candidate:
  assumes "begin_draining_after_promotion env bgd namespace auth previous w = (r, w')"
  shows "\<exists>new. w_log w' = w_log w @ new \<and> deleted_in new \<subseteq> {(KDeployment, identity_of previous namespace)} \<and>
    (KDeployment, identity_of (candidate_ref bgd) namespace) \<notin> deleted_in new"
  using yieldsD [OF begin_draining_deletes assms] by blast

lemma promotion_keeps_the_candidate_witness:
  "deleted_in (w_log (snd (begin_draining_after_promotion idle_env sample_bgd ''shop'' signing_auth
     \<lparr>dr_name = ''orders-old'', dr_namespace = None\<rparr> (start_world ())))) = {(KDeployment, ''shop'', ''orders-old'')}"
proof -
  let ?run = "begin_draining_after_promotion idle_env sample_bgd ''shop'' signing_auth \<lparr>dr_name = ''orders-old'', dr_namespace = None\<rparr>
     (start_world ())"
  have "(KDeployment, ''shop'', ''orders-old'') \<in> deleted_in (w_log (snd ?run))"
    by (simp add: begin_draining_after_promotion_def start_plugin_draining_def sample_bgd_def default_spec_def delete_current_green_def
        delete_object_def candidate_ref_def deployment_namespace_def bgd_name_or_def default_meta_def op_simps deleted_in_def
        idle_env_def quiet_env_def start_world_def) blast
  moreover have "?run = (fst ?run, snd ?run)" by simp
  ultimately show ?thesis
    using promotion_keeps_the_candidate [of idle_env sample_bgd "''shop''" signing_auth "\<lparr>dr_name = ''orders-old'', dr_namespace = None\<rparr>"
        "start_world ()" "fst ?run" "snd ?run"]
    by (auto simp: identity_of_def deployment_namespace_def)
qed

end
