(* ===== verification/InceptionPhase.thy ===== *)
theory InceptionPhase
  imports Rollout
begin

text \<open>
  Setting up the inception points of a rollout (\<open>src/operator/src/controller/phases/inception.rs\<close>): the plugin
  managers prepare, the inceptors' objects are applied and awaited, the inceptors prepare, the declared and
  the test deployments are applied and awaited, the collected assignments are written, and only then the
  inceptors are activated.
\<close>

section \<open>Assignments\<close>

definition manager_inceptor_env_vars :: "InceptorEnvVar list \<Rightarrow> EnvVar list" where
  "manager_inceptor_env_vars vars = map (\<lambda>v. plain_env (ev_name v) (ev_value v)) vars"

definition split_test_assignments :: "PropertyAssignment list \<Rightarrow> PropertyAssignment list \<times> PropertyAssignment list" where
  "split_test_assignments assignments = partition (\<lambda>a. pa_target a = TargetTest) assignments"

definition reject_manager_test_assignments :: "string \<Rightarrow> PropertyAssignment list \<Rightarrow> ReconcileError + unit" where
  "reject_manager_test_assignments ip assignments =
     (if \<exists>a \<in> set assignments. pa_target a = TargetTest
      then Inl (PluginManagerError (''inception point '' @ quoted ip @ '' returned test deployment assignments from prepare; ''
        @ ''test assignments must be declared in InceptionPlugin injects so the operator can apply them before inceptor activation''))
      else Inr ())"

definition reject_activation_assignments :: "string \<Rightarrow> PropertyAssignment list \<Rightarrow> ReconcileError + unit" where
  "reject_activation_assignments ip assignments =
     (if assignments = [] then Inr ()
      else Inl (PluginInceptorError (''inception point '' @ quoted ip @ '' returned deployment assignments from activate; ''
        @ ''app/test assignments must be provided before activation'')))"

definition reject_inceptor_env_response :: "string \<Rightarrow> InceptorEnvVar list \<Rightarrow> ReconcileError + unit" where
  "reject_inceptor_env_response ip vars =
     (if vars = [] then Inr ()
      else Inl (PluginInceptorError (''inception point '' @ quoted ip @ '' returned inceptorEnv outside manager prepare; ''
        @ ''inceptor runtime env must be provided by the manager before pod creation'')))"

definition template_assignments :: "EnvVar list \<Rightarrow> EnvVar list \<Rightarrow> EnvVar list \<Rightarrow> PropertyAssignment list" where
  "template_assignments green blue test =
     map (env_assignment TargetGreen) green @ map (env_assignment TargetBlue) blue @ map (env_assignment TargetTest) test"

section \<open>Preparing an inception point\<close>

record PreparedInceptionPoint =
  pp_inception_point :: InceptionPoint
  pp_plugin :: InceptionPlugin
  pp_plugin_deployments :: "DeploymentIdentity list"

text \<open>What the loop over the inception points collects.\<close>

record Preparation =
  pr_plans :: "PreparedInceptionPoint list"
  pr_test_assignments :: "PropertyAssignment list"
  pr_pre_activation_assignments :: "PropertyAssignment list"
  pr_verifier_auth_tokens :: "(string \<times> string) list"

definition no_preparation :: Preparation where
  "no_preparation = \<lparr>pr_plans = [], pr_test_assignments = [], pr_pre_activation_assignments = [], pr_verifier_auth_tokens = []\<rparr>"

definition manager_prepare ::
  "'s env \<Rightarrow> BlueGreenDeployment \<Rightarrow> string \<Rightarrow> AuthConfig \<Rightarrow> InceptionPoint \<Rightarrow> InceptionPlugin \<Rightarrow>
   ('s, ReconcileError, PluginLifecycleResponse) op" where
  "manager_prepare env bgd ns auth ip plugin =
     bindE (invoke_plugin_manager_lifecycle env (bgd_name_or [] bgd) ns ip plugin auth Prepare) (\<lambda>response. case response of
       None \<Rightarrow> retE default_lifecycle_response
     | Some r \<Rightarrow> thenE (liftE (reject_manager_test_assignments (pt_name ip) (plr_assignments r))) (retE r))"

definition apply_generated :: "'s env \<Rightarrow> string \<Rightarrow> string \<Rightarrow> resource \<Rightarrow> ('s, ReconcileError, unit) op" where
  "apply_generated env ns knd res = (case md_name (resource_meta res) of
     None \<Rightarrow> failE (Resource (''generated '' @ knd @ '' has no name''))
   | Some name \<Rightarrow> apply_resource env ns name res)"

definition apply_plugin_deployment :: "'s env \<Rightarrow> string \<Rightarrow> Deployment \<Rightarrow> ('s, ReconcileError, DeploymentIdentity) op" where
  "apply_plugin_deployment env ns d = (case md_name (d_metadata d) of
     None \<Rightarrow> failE (Resource ''generated Deployment has no name'')
   | Some name \<Rightarrow>
       (let deployment_ns = unwrap_or (md_namespace (d_metadata d)) ns
        in thenE (apply_resource env deployment_ns name (RDeployment d)) (retE (DeploymentIdentity deployment_ns name))))"

definition apply_inception_resources :: "'s env \<Rightarrow> string \<Rightarrow> ReconciledResources \<Rightarrow> ('s, ReconcileError, DeploymentIdentity list) op" where
  "apply_inception_resources env ns resources =
     thenE (eachE (apply_generated env ns ''ConfigMap'') (rr_config_maps resources))
    (thenE (eachE (apply_generated env ns ''Secret'') (rr_secrets resources))
    (bindE (foldE (\<lambda>ids d. bindE (apply_plugin_deployment env ns d) (\<lambda>i. retE (ids @ [i]))) [] (rr_deployments resources)) (\<lambda>ids.
     thenE (eachE (apply_generated env ns ''Service'') (rr_services resources))
      (retE ids))))"

definition inception_context ::
  "BlueGreenDeployment \<Rightarrow> string \<Rightarrow> string \<Rightarrow> string \<Rightarrow> string \<Rightarrow> PluginLifecycleResponse \<Rightarrow> ReconcileInceptionContext" where
  "inception_context bgd ns operator_url test_url token response = \<lparr>cx_namespace = ns, cx_operator_url = operator_url,
     cx_test_container_url = test_url,
     cx_test_data_verify_path = map_option dv_verify_path (Option.bind (spec_test (bgd_spec bgd)) test_data_verification),
     cx_blue_deployment_name = dr_name (candidate_ref bgd), cx_blue_green_ref = bgd_name_or [] bgd,
     cx_blue_green_uid = bgd_uid_or [] bgd, cx_auth_token = token,
     cx_manager_inceptor_env = manager_inceptor_env_vars (plr_inceptor_env response), cx_manager_config = plr_config response\<rparr>"

definition prepare_inception_point ::
  "'s env \<Rightarrow> BlueGreenDeployment \<Rightarrow> string \<Rightarrow> AuthConfig \<Rightarrow> string \<Rightarrow> string \<Rightarrow> Preparation \<Rightarrow> InceptionPoint \<Rightarrow>
   ('s, ReconcileError, Preparation) op" where
  "prepare_inception_point env bgd ns auth operator_url test_url p ip =
     bindE (get_plugin env (ref_name (pt_plugin_ref ip))) (\<lambda>plugin.
     thenE (mapErr InvalidSpec (liftE (validate_inception_point env plugin ip)))
    (bindE (manager_prepare env bgd ns auth ip plugin) (\<lambda>response.
     bindE (sign_inception_auth_token env ns auth (bgd_name_or [] bgd) (pt_name ip) plugin) (\<lambda>token.
     bindE (mapErr Resource (liftE (reconcile_inception_point env plugin ip
              (inception_context bgd ns operator_url test_url token response)))) (\<lambda>resources.
       let (tests, others) = split_test_assignments (template_assignments (rr_green_env_injections resources)
             (rr_blue_env_injections resources) (rr_test_env_injections resources))
       in bindE (apply_inception_resources env ns resources) (\<lambda>ids.
          retE \<lparr>pr_plans = pr_plans p @ [\<lparr>pp_inception_point = ip, pp_plugin = plugin, pp_plugin_deployments = ids\<rparr>],
            pr_test_assignments = pr_test_assignments p @ tests,
            pr_pre_activation_assignments = pr_pre_activation_assignments p @ plr_assignments response @ others,
            pr_verifier_auth_tokens = bt_insert (pt_name ip) token (pr_verifier_auth_tokens p)\<rparr>))))))"

section \<open>The phase\<close>

definition prepare_inceptor ::
  "'s env \<Rightarrow> BlueGreenDeployment \<Rightarrow> string \<Rightarrow> AuthConfig \<Rightarrow> PropertyAssignment list \<Rightarrow> PreparedInceptionPoint \<Rightarrow>
   ('s, ReconcileError, PropertyAssignment list) op" where
  "prepare_inceptor env bgd ns auth assignments plan =
     (let ip = pt_name (pp_inception_point plan)
      in thenE (if pp_plugin_deployments plan = [] then retE () else wait_for_deployments_ready env (pp_plugin_deployments plan))
        (bindE (invoke_inceptor_lifecycle env (bgd_name_or [] bgd) ns ip (pp_plugin plan) auth Prepare) (\<lambda>response. case response of
           None \<Rightarrow> retE assignments
         | Some r \<Rightarrow> thenE (liftE (reject_inceptor_env_response ip (plr_inceptor_env r)))
             (thenE (liftE (reject_manager_test_assignments ip (plr_assignments r)))
               (retE (assignments @ plr_assignments r))))))"

definition activate_inceptor ::
  "'s env \<Rightarrow> BlueGreenDeployment \<Rightarrow> string \<Rightarrow> AuthConfig \<Rightarrow> PreparedInceptionPoint \<Rightarrow> ('s, ReconcileError, unit) op" where
  "activate_inceptor env bgd ns auth plan =
     (let ip = pt_name (pp_inception_point plan)
      in bindE (invoke_inceptor_lifecycle env (bgd_name_or [] bgd) ns ip (pp_plugin plan) auth Activate) (\<lambda>response. case response of
           None \<Rightarrow> retE ()
         | Some r \<Rightarrow> thenE (liftE (reject_inceptor_env_response ip (plr_inceptor_env r)))
             (liftE (reject_activation_assignments ip (plr_assignments r)))))"

definition test_container_url :: "'s env \<Rightarrow> BlueGreenDeployment \<Rightarrow> string \<Rightarrow> ReconcileError + string" where
  "test_container_url env bgd ns = (case spec_test (bgd_spec bgd) of
     None \<Rightarrow> Inr ''http://localhost:8080''
   | Some test \<Rightarrow> (case test_service_port test of
       Inl e \<Rightarrow> Inl e
     | Inr port \<Rightarrow> Inr (''http://'' @ test_instance_name (jl_sha256 (e_jwt env)) bgd (test_name test) @ ''.'' @ ns @ '':'' @ show_int port)))"

definition verifier_secret :: "'s env \<Rightarrow> BlueGreenDeployment \<Rightarrow> string \<Rightarrow> (string \<times> string) list \<Rightarrow> ('s, ReconcileError, EnvVar list) op" where
  "verifier_secret env bgd ns tokens =
     (if spec_test (bgd_spec bgd) = None then retE []
      else bindE (ensure_verifier_auth_secret env bgd ns (e_tokens_json env tokens)) (\<lambda>secret. retE [verifier_auth_env secret]))"

definition apply_pre_activation :: "'s env \<Rightarrow> BlueGreenDeployment \<Rightarrow> string \<Rightarrow> PropertyAssignment list \<Rightarrow> ('s, ReconcileError, unit) op" where
  "apply_pre_activation env bgd ns assignments =
     (if assignments = [] then retE ()
      else bindE (apply_assignments env bgd ns assignments False) (wait_for_deployments_ready env))"

definition start_tests ::
  "'s env \<Rightarrow> BlueGreenDeployment \<Rightarrow> string \<Rightarrow> PropertyAssignment list \<Rightarrow> EnvVar list \<Rightarrow> ('s, ReconcileError, unit) op" where
  "start_tests env bgd ns assignments extra_env =
     bindE (ensure_test_resources env bgd ns assignments extra_env) (\<lambda>tests.
     thenE (wait_for_deployments_ready env tests) (wait_for_test_services_ready env bgd ns))"

definition ensure_inception_resources :: "'s env \<Rightarrow> BlueGreenDeployment \<Rightarrow> string \<Rightarrow> AuthConfig \<Rightarrow> ('s, ReconcileError, unit) op" where
  "ensure_inception_resources env bgd ns auth =
     (let operator_url = unwrap_or (e_vars env ''FLUIDBG_OPERATOR_URL'') ''http://fluidbg-operator.fluidbg-system:8090''
      in bindE (liftE (test_container_url env bgd ns)) (\<lambda>test_url.
         bindE (foldE (prepare_inception_point env bgd ns auth operator_url test_url) no_preparation
                  (spec_inception_points (bgd_spec bgd))) (\<lambda>p.
         bindE (foldE (prepare_inceptor env bgd ns auth) (pr_pre_activation_assignments p) (pr_plans p)) (\<lambda>assignments.
         bindE (verifier_secret env bgd ns (pr_verifier_auth_tokens p)) (\<lambda>extra_env.
         thenE (ensure_declared_deployments env bgd ns assignments)
        (thenE (start_tests env bgd ns (pr_test_assignments p) extra_env)
        (thenE (apply_pre_activation env bgd ns assignments)
           (eachE (activate_inceptor env bgd ns auth) (pr_plans p)))))))))"

section \<open>What the phase requests\<close>

lemma workload_wait_endpoint [workload_intros]: "makes_only workload_request (wait_endpoint_attempts env ns s n)"
  by (induction n) (auto intro!: only_intros)

lemma workload_start_tests [workload_intros]: "makes_only workload_request (start_tests env bgd ns as extra)"
  unfolding start_tests_def ensure_test_resources_def ensure_test_name_available_def check_test_name_def
    wait_for_test_services_ready_def wait_for_service_ready_endpoint_def get_meta_opt_def Let_def
  by (auto intro!: only_intros workload_intros)

lemma workload_prepare_point [workload_intros]:
  "makes_only workload_request (prepare_inception_point env bgd ns auth op_url test_url p ip)"
  unfolding prepare_inception_point_def manager_prepare_def apply_inception_resources_def apply_generated_def apply_plugin_deployment_def Let_def
  by (auto intro!: only_intros workload_intros)

lemma workload_prepare_inceptor [workload_intros]: "makes_only workload_request (prepare_inceptor env bgd ns auth as plan)"
  unfolding prepare_inceptor_def Let_def by (auto intro!: only_intros workload_intros)

lemma workload_activate [workload_intros]: "makes_only workload_request (activate_inceptor env bgd ns auth plan)"
  unfolding activate_inceptor_def Let_def by (auto intro!: only_intros workload_intros)

lemma workload_verifier_secret [workload_intros]: "makes_only workload_request (verifier_secret env bgd ns tokens)"
  unfolding verifier_secret_def ensure_verifier_auth_secret_def Let_def by (auto intro!: only_intros workload_intros)

lemma workload_declared [workload_intros]: "makes_only workload_request (ensure_declared_deployments env bgd ns as)"
  unfolding ensure_declared_deployments_def by (auto intro!: only_intros workload_intros)

lemma workload_pre_activation [workload_intros]: "makes_only workload_request (apply_pre_activation env bgd ns as)"
  unfolding apply_pre_activation_def by (auto intro!: only_intros workload_intros)

lemma workload_inception [workload_intros]: "makes_only workload_request (ensure_inception_resources env bgd ns auth)"
  unfolding ensure_inception_resources_def Let_def by (auto intro!: only_intros workload_intros)

section \<open>What was seen ready\<close>

definition deployment_seen_ready :: "'s env \<Rightarrow> event list \<Rightarrow> DeploymentIdentity \<Rightarrow> bool" where
  "deployment_seen_ready env l i \<longleftrightarrow> (\<exists>h rest d. l = h @ [Ev (RqGet KDeployment (di_namespace i) (di_name i)) True] @ rest \<and>
     e_get_deployment env h (di_namespace i) (di_name i) = Inr d \<and> deployment_is_ready d)"

definition endpoint_seen_ready :: "'s env \<Rightarrow> event list \<Rightarrow> string \<Rightarrow> string \<Rightarrow> bool" where
  "endpoint_seen_ready env l ns service \<longleftrightarrow> (\<exists>h rest subsets. l = h @ [Ev (RqEndpoints ns service) True] @ rest \<and>
     e_endpoints env h ns service = Inr subsets \<and> list_ex endpoint_subset_has_ready_target subsets)"

lemma seen_ready_mono:
  "deployment_seen_ready env l i \<Longrightarrow> deployment_seen_ready env (l @ new) i"
  "endpoint_seen_ready env l ns service \<Longrightarrow> endpoint_seen_ready env (l @ new) ns service"
  unfolding deployment_seen_ready_def endpoint_seen_ready_def by (metis append.assoc)+

text \<open>The log only grows.\<close>

definition log_grows :: "'s world \<Rightarrow> 's world \<Rightarrow> bool" where
  "log_grows w w' \<longleftrightarrow> (\<exists>new. w_log w' = w_log w @ new)"

lemma log_grows_trans: "log_grows w w1 \<Longrightarrow> log_grows w1 w2 \<Longrightarrow> log_grows w w2"
  by (auto simp: log_grows_def)

lemma makes_only_grows: "makes_only P m \<Longrightarrow> m w = (r, w') \<Longrightarrow> log_grows w w'"
  unfolding log_grows_def using makes_onlyD by blast

lemma grows_seen:
  "log_grows w w' \<Longrightarrow> deployment_seen_ready env (w_log w) i \<Longrightarrow> deployment_seen_ready env (w_log w') i"
  "log_grows w w' \<Longrightarrow> endpoint_seen_ready env (w_log w) ns service \<Longrightarrow> endpoint_seen_ready env (w_log w') ns service"
  by (auto simp: log_grows_def seen_ready_mono)

lemma wait_attempts_seen:
  "wait_deployment_attempts env i k w = (Inr (), w') \<Longrightarrow> deployment_seen_ready env (w_log w') i"
proof (induction k arbitrary: w)
  case 0
  then show ?case by (simp add: failE_def)
next
  case (Suc k)
  from Suc.prems [unfolded wait_deployment_attempts.simps] obtain d w1 where
    get: "k8s (get_deployment env (di_namespace i) (di_name i)) w = (Inr d, w1)"
    and rest: "(if deployment_is_ready d then retE () else wait_deployment_attempts env i k) w1 = (Inr (), w')"
    by (rule bindE_InrE)
  have d: "e_get_deployment env (w_log w) (di_namespace i) (di_name i) = Inr d"
    "w_log w1 = w_log w @ [Ev (RqGet KDeployment (di_namespace i) (di_name i)) True]"
    using get by (auto simp: get_deployment_def op_simps split: sum.splits)
  show ?case
  proof (cases "deployment_is_ready d")
    case True
    then have "w' = w1" using rest by (simp add: retE_def)
    then show ?thesis unfolding deployment_seen_ready_def using d True by (intro exI [of _ "w_log w"] exI [of _ "[]"] exI [of _ d]) simp
  next
    case False
    then show ?thesis using rest Suc.IH by simp
  qed
qed

lemma wait_deployments_seen:
  "wait_for_deployments_ready env ids w = (Inr (), w') \<Longrightarrow> i \<in> set ids \<Longrightarrow> deployment_seen_ready env (w_log w') i"
proof (induction ids arbitrary: w)
  case (Cons x ids)
  from Cons.prems(1) [unfolded wait_for_deployments_ready_def eachE.simps] obtain u w1 where
    x: "wait_for_deployment_ready env x w = (Inr u, w1)" and rest: "eachE (wait_for_deployment_ready env) ids w1 = (Inr (), w')"
    by (rule thenE_InrE)
  have grow: "log_grows w1 w'" using makes_only_grows [OF workload_wait_deployment] rest [folded wait_for_deployments_ready_def] .
  have "deployment_seen_ready env (w_log w1) x" using x unfolding wait_for_deployment_ready_def by (simp add: wait_attempts_seen)
  then show ?case
    using Cons.prems(2) Cons.IH [of w1] rest [folded wait_for_deployments_ready_def] grows_seen(1) [OF grow] by auto
qed simp

lemma wait_endpoint_seen:
  "wait_endpoint_attempts env ns service k w = (Inr (), w') \<Longrightarrow> endpoint_seen_ready env (w_log w') ns service"
proof (induction k arbitrary: w)
  case 0
  then show ?case by (simp add: failE_def)
next
  case (Suc k)
  show ?case
  proof (cases "e_endpoints env (w_log w) ns service")
    case (Inl e)
    then show ?thesis using Suc by (auto simp: op_simps)
  next
    case (Inr subsets)
    show ?thesis
    proof (cases "list_ex endpoint_subset_has_ready_target subsets")
      case True
      then have "w_log w' = w_log w @ [Ev (RqEndpoints ns service) True]"
        using Suc.prems Inr by (auto simp: op_simps)
      then show ?thesis unfolding endpoint_seen_ready_def using Inr True
        by (intro exI [of _ "w_log w"] exI [of _ "[]"] exI [of _ subsets]) simp
    next
      case False
      then show ?thesis using Suc Inr by (auto simp: op_simps)
    qed
  qed
qed

lemma foldE_Cons_InrE:
  assumes "foldE f acc (x # xs) w = (Inr b, w')"
  obtains acc' w1 where "f acc x w = (Inr acc', w1)" "foldE f acc' xs w1 = (Inr b, w')"
  using assms by (auto elim: bindE_InrE)

lemma prepare_point_plans:
  assumes "prepare_inception_point env bgd ns auth op_url test_url p ip w = (Inr p', w')"
  shows "map pp_inception_point (pr_plans p') = map pp_inception_point (pr_plans p) @ [ip]"
  using assms unfolding prepare_inception_point_def
  by (auto simp: Let_def retE_def split: prod.splits elim!: bindE_InrE thenE_InrE)

lemma prepare_points_plans:
  "foldE (prepare_inception_point env bgd ns auth op_url test_url) p ips w = (Inr p', w') \<Longrightarrow>
   map pp_inception_point (pr_plans p') = map pp_inception_point (pr_plans p) @ ips"
proof (induction ips arbitrary: p w)
  case Nil
  then show ?case by (simp add: retE_def)
next
  case (Cons ip ips)
  from Cons.prems obtain p1 w1 where "prepare_inception_point env bgd ns auth op_url test_url p ip w = (Inr p1, w1)"
    and "foldE (prepare_inception_point env bgd ns auth op_url test_url) p1 ips w1 = (Inr p', w')" by (rule foldE_Cons_InrE)
  then show ?case using prepare_point_plans Cons.IH by fastforce
qed

lemma prepare_inceptors_seen:
  "foldE (prepare_inceptor env bgd ns auth) as plans w = (Inr as', w') \<Longrightarrow> plan \<in> set plans \<Longrightarrow> i \<in> set (pp_plugin_deployments plan) \<Longrightarrow>
   deployment_seen_ready env (w_log w') i"
proof (induction plans arbitrary: as w)
  case (Cons x plans)
  from Cons.prems(1) obtain as1 w1 where x: "prepare_inceptor env bgd ns auth as x w = (Inr as1, w1)"
    and rest: "foldE (prepare_inceptor env bgd ns auth) as1 plans w1 = (Inr as', w')" by (rule foldE_Cons_InrE)
  have grow: "log_grows w1 w'" by (rule makes_only_grows [OF only_fold [OF workload_prepare_inceptor] rest])
  show ?case
  proof (cases "plan = x \<and> i \<in> set (pp_plugin_deployments x)")
    case True
    then have ne: "pp_plugin_deployments x \<noteq> []" by auto
    from x [unfolded prepare_inceptor_def Let_def] obtain u w2 where
      wait: "(if pp_plugin_deployments x = [] then retE () else wait_for_deployments_ready env (pp_plugin_deployments x)) w = (Inr u, w2)"
      and inv: "bindE (invoke_inceptor_lifecycle env (bgd_name_or [] bgd) ns (pt_name (pp_inception_point x)) (pp_plugin x) auth Prepare)
        (\<lambda>response. case response of None \<Rightarrow> retE as
         | Some r \<Rightarrow> thenE (liftE (reject_inceptor_env_response (pt_name (pp_inception_point x)) (plr_inceptor_env r)))
             (thenE (liftE (reject_manager_test_assignments (pt_name (pp_inception_point x)) (plr_assignments r)))
               (retE (as @ plr_assignments r)))) w2 = (Inr as1, w1)"
      by (rule thenE_InrE)
    have "deployment_seen_ready env (w_log w2) i" using wait ne True by (simp add: wait_deployments_seen)
    moreover have "makes_only workload_request (bindE (invoke_inceptor_lifecycle env (bgd_name_or [] bgd) ns (pt_name (pp_inception_point x))
        (pp_plugin x) auth Prepare) (\<lambda>response. case response of None \<Rightarrow> retE as
         | Some r \<Rightarrow> thenE (liftE (reject_inceptor_env_response (pt_name (pp_inception_point x)) (plr_inceptor_env r)))
             (thenE (liftE (reject_manager_test_assignments (pt_name (pp_inception_point x)) (plr_assignments r)))
               (retE (as @ plr_assignments r)))))"
      by (auto intro!: only_intros workload_intros)
    then have "log_grows w2 w1" unfolding log_grows_def using makes_onlyD inv by blast
    ultimately show ?thesis using grows_seen(1) grow by blast
  next
    case False
    then show ?thesis using Cons.IH [OF rest] Cons.prems(2,3) by auto
  qed
qed simp

lemma start_tests_seen:
  assumes "start_tests env bgd ns as extra w = (Inr (), w')" and "spec_test (bgd_spec bgd) = Some test"
  shows "deployment_seen_ready env (w_log w') (DeploymentIdentity ns (test_instance_name (jl_sha256 (e_jwt env)) bgd (test_name test))) \<and>
    endpoint_seen_ready env (w_log w') ns (test_instance_name (jl_sha256 (e_jwt env)) bgd (test_name test))"
proof -
  let ?name = "test_instance_name (jl_sha256 (e_jwt env)) bgd (test_name test)"
  from assms(1) [unfolded start_tests_def] obtain tests w1 where t: "ensure_test_resources env bgd ns as extra w = (Inr tests, w1)"
    and rest: "thenE (wait_for_deployments_ready env tests) (wait_for_test_services_ready env bgd ns) w1 = (Inr (), w')" by (rule bindE_InrE)
  have tests: "tests = [DeploymentIdentity ns ?name]"
    using t assms(2) unfolding ensure_test_resources_def
    by (auto simp: Let_def retE_def elim!: bindE_InrE thenE_InrE)
  from rest obtain u w2 where d: "wait_for_deployments_ready env tests w1 = (Inr u, w2)"
    and s: "wait_for_test_services_ready env bgd ns w2 = (Inr (), w')" by (rule thenE_InrE)
  have s': "wait_endpoint_attempts env ns ?name 60 w2 = (Inr (), w')"
    using s assms(2) by (simp add: wait_for_test_services_ready_def wait_for_service_ready_endpoint_def)
  have "deployment_seen_ready env (w_log w2) (DeploymentIdentity ns ?name)" using d tests by (simp add: wait_deployments_seen)
  then show ?thesis
    using grows_seen(1) [OF makes_only_grows [OF workload_wait_endpoint s']] wait_endpoint_seen [OF s'] by blast
qed

section \<open>Property\<close>

definition changes_cluster :: "request \<Rightarrow> bool" where
  "changes_cluster rq = (case rq of RqCreate _ _ \<Rightarrow> True | RqReplace _ _ _ \<Rightarrow> True | RqApply _ _ _ \<Rightarrow> True | RqDelete _ _ _ \<Rightarrow> True | _ \<Rightarrow> False)"

lemma changes_cluster_simps [simp]:
  "\<not> changes_cluster (RqHttp verb url auth body)" "\<not> changes_cluster (RqGet k ns n)" "\<not> changes_cluster (RqGetBgd ns n)"
  by (simp_all add: changes_cluster_def)

lemma activate_changes_nothing: "makes_only (\<lambda>rq. \<not> changes_cluster rq) (activate_inceptor env bgd ns auth plan)"
proof -
  have post: "makes_only (\<lambda>rq. \<not> changes_cluster rq) (checked_post env mk what url token body n)" for mk what url token body n
  proof -
    have "makes_only (\<lambda>rq. \<not> changes_cluster rq) (http_attempts env url auth body n)" for auth
      by (induction n) (auto intro!: only_intros)
    then show ?thesis unfolding checked_post_def by (auto intro!: only_intros)
  qed
  show ?thesis
    unfolding activate_inceptor_def invoke_inceptor_lifecycle_def decode_lifecycle_def sign_inception_auth_token_def
      operator_key_def read_operator_signing_key_def sign_with_def get_bgd_def Let_def
    by (auto intro!: only_intros post)
qed


definition test_bgd :: BlueGreenDeployment where
  "test_bgd = sample_bgd\<lparr>bgd_spec := default_spec\<lparr>
     spec_test := Some \<lparr>test_name = ''checker'', test_deployment = sample_deployment_spec,
       test_service = \<lparr>svc_selector = [], svc_ports = [\<lparr>port_name = None, port_number = 80\<rparr>], svc_rest = JObj []\<rparr>,
       test_data_verification = None, test_custom_verification = None\<rparr>\<rparr>\<rparr>"

definition running_env :: "unit env" where
  "running_env = idle_env\<lparr>e_get_deployment := (\<lambda>_ _ _. Inr ready_orders),
     e_endpoints := (\<lambda>_ _ _. Inr [\<lparr>es_addresses = 1, es_ports = 1\<rparr>])\<rparr>"


end
