(* ===== verification/Draining.thy ===== *)
theory Draining
  imports Rollout StateStore Float64
begin

text \<open>
  The draining phase (\<open>src/operator/src/controller/phases/draining.rs\<close>): asking every inception point whether
  its traffic has drained, with a time limit for each, then collecting the last results and cleaning up.
  Instants are microseconds.
\<close>

definition store_call :: "'s env \<Rightarrow> store_call \<Rightarrow> ('s \<Rightarrow> (StoreError + 'a) \<times> 's) \<Rightarrow> ('s, ReconcileError, 'a) op" where
  "store_call env c f = mapErr (\<lambda>e. StateStoreError (e_show_store_error env e)) (store_op c f)"

definition elapsed_seconds :: "int \<Rightarrow> int \<Rightarrow> int" where
  "elapsed_seconds now started = max ((now - started) div 1000000) 0"

definition previous_drains :: "BlueGreenDeployment \<Rightarrow> InceptionPointDrainStatus list" where
  "previous_drains bgd = (case bgd_status bgd of None \<Rightarrow> [] | Some s \<Rightarrow> s_inception_point_drains s)"

definition drain_is_final :: "InceptionPointDrainStatus \<Rightarrow> bool" where
  "drain_is_final s \<longleftrightarrow> ds_phase s \<in> {DrainSuccessful, DrainTimedOutMaybeSuccessful}"

definition max_wait_seconds :: "InceptionPoint \<Rightarrow> int" where
  "max_wait_seconds ip = unwrap_or (Option.bind (pt_drain ip) drain_max_wait_seconds) 60"

definition drain_status :: "string \<Rightarrow> InceptionPointDrainPhase \<Rightarrow> string option \<Rightarrow> string option \<Rightarrow> InceptionPointDrainStatus" where
  "drain_status name phase message completed = \<lparr>ds_name = name, ds_phase = phase, ds_message = message, ds_completed_at = completed\<rparr>"

text \<open>The status of one inception point. \<open>all_final\<close> becomes false exactly when a plugin reports it has not drained.\<close>

definition poll_drain ::
  "'s env \<Rightarrow> BlueGreenDeployment \<Rightarrow> string \<Rightarrow> AuthConfig \<Rightarrow> int \<Rightarrow> InceptionPoint \<Rightarrow> ('s, ReconcileError, InceptionPointDrainStatus) op" where
  "poll_drain env bgd ns auth elapsed ip =
     (case find (\<lambda>s. ds_name s = pt_name ip \<and> drain_is_final s) (previous_drains bgd) of
        Some existing \<Rightarrow> retE existing
      | None \<Rightarrow>
          if elapsed \<ge> max_wait_seconds ip
          then bindE (now_op env) (\<lambda>now. retE (drain_status (pt_name ip) DrainTimedOutMaybeSuccessful
                 (Some (''max drain wait of '' @ show_int (max_wait_seconds ip) @ ''s elapsed before plugin confirmed completion''))
                 (Some (e_show_time env now))))
          else bindE (get_plugin env (ref_name (pt_plugin_ref ip))) (\<lambda>plugin.
               bindE (invoke_inceptor_drain_status env (bgd_name_or [] bgd) ns (pt_name ip) plugin auth) (\<lambda>response.
               bindE (now_op env) (\<lambda>now. retE (case response of
                 Some r \<Rightarrow>
                   if pds_drained r then drain_status (pt_name ip) DrainSuccessful (pds_message r) (Some (e_show_time env now))
                   else drain_status (pt_name ip) DrainPending (pds_message r) None
               | None \<Rightarrow> drain_status (pt_name ip) DrainSuccessful (Some ''plugin does not expose drainStatusPath'')
                   (Some (e_show_time env now)))))))"

definition poll_drains ::
  "'s env \<Rightarrow> BlueGreenDeployment \<Rightarrow> string \<Rightarrow> AuthConfig \<Rightarrow> int \<Rightarrow> ('s, ReconcileError, InceptionPointDrainStatus list) op" where
  "poll_drains env bgd ns auth elapsed =
     foldE (\<lambda>statuses ip. bindE (poll_drain env bgd ns auth elapsed ip) (\<lambda>s. retE (statuses @ [s]))) []
       (spec_inception_points (bgd_spec bgd))"

definition force_replace_interrupted_rollout :: "BlueGreenDeployment \<Rightarrow> bool" where
  "force_replace_interrupted_rollout bgd =
     (let force_replace = Option.bind (spec_update_policy (bgd_spec bgd)) up_active_rollout = Some ForceReplace;
          generation = unwrap_or (md_generation (bgd_metadata bgd)) 0;
          rollout_generation = unwrap_or (Option.bind (bgd_status bgd) s_rollout_generation) 0
      in force_replace \<and> rollout_generation > 0 \<and> generation > rollout_generation)"

definition cleanup_plugin :: "'s env \<Rightarrow> BlueGreenDeployment \<Rightarrow> string \<Rightarrow> AuthConfig \<Rightarrow> InceptionPoint \<Rightarrow> ('s, ReconcileError, unit) op" where
  "cleanup_plugin env bgd ns auth ip =
     bindE (get_plugin env (ref_name (pt_plugin_ref ip))) (\<lambda>plugin.
     bindE (invoke_inceptor_lifecycle env (bgd_name_or [] bgd) ns (pt_name ip) plugin auth CleanupStage) (\<lambda>_.
     bindE (invoke_plugin_manager_lifecycle env (bgd_name_or [] bgd) ns ip plugin auth CleanupStage) (\<lambda>_. retE ())))"

definition finalize_draining :: "'s env \<Rightarrow> BlueGreenDeployment \<Rightarrow> string \<Rightarrow> AuthConfig \<Rightarrow> bool \<Rightarrow> ('s, ReconcileError, unit) op" where
  "finalize_draining env bgd ns auth terminal_counts_have_failure =
     thenE (eachE (cleanup_plugin env bgd ns auth) (spec_inception_points (bgd_spec bgd)))
    (thenE (cleanup_inception_resources env bgd ns)
    (thenE (cleanup_test_resources env bgd ns)
       (update_status_phase env bgd ns
         (if force_replace_interrupted_rollout bgd \<or> terminal_counts_have_failure then PhRolledBack else PhCompleted))))"

definition success_rate :: "Counts \<Rightarrow> rat" where
  "success_rate counts =
     (let finalized = counts_passed counts + counts_failed counts + counts_timed_out counts
      in if finalized > 0 then f64_rate (counts_passed counts) finalized else 0)"

definition collect_results :: "'s env \<Rightarrow> BlueGreenDeployment \<Rightarrow> string \<Rightarrow> AuthConfig \<Rightarrow> string \<Rightarrow> ('s, ReconcileError, unit) op" where
  "collect_results env bgd ns auth state_key =
     bindE (store_call env (StoreCounts state_key) (op_counts (e_store env) state_key)) (\<lambda>counts.
     bindE (store_call env (StoreLatestFailure state_key) (op_latest_failure_message (e_store env) state_key)) (\<lambda>latest_failure.
     thenE (update_status_counts env bgd ns counts (success_rate counts) latest_failure)
       (if counts_pending counts > 0 then retE ()
        else finalize_draining env bgd ns auth (counts_failed counts > 0 \<or> counts_timed_out counts > 0))))"

definition reconcile_draining :: "'s env \<Rightarrow> BlueGreenDeployment \<Rightarrow> string \<Rightarrow> AuthConfig \<Rightarrow> string \<Rightarrow> ('s, ReconcileError, unit) op" where
  "reconcile_draining env bgd ns auth state_key =
     bindE (now_op env) (\<lambda>now.
       let started = unwrap_or (Option.bind (Option.bind (bgd_status bgd) s_drain_started_at) (e_parse_time env)) now
       in bindE (poll_drains env bgd ns auth (elapsed_seconds now started)) (\<lambda>statuses.
          thenE (update_inception_point_drain_statuses env bgd ns statuses)
            (if \<exists>s \<in> set statuses. ds_phase s = DrainPending then retE ()
             else collect_results env bgd ns auth state_key)))"

section \<open>What draining requests\<close>

definition writes_phase :: "request \<Rightarrow> bool" where
  "writes_phase rq = (case rq of RqReplaceStatus _ _ _ \<Rightarrow> True | _ \<Rightarrow> False)"

definition no_phase_write :: "event list \<Rightarrow> bool" where
  "no_phase_write new \<longleftrightarrow> (\<forall>ev \<in> set new. \<not> writes_phase (ev_request ev))"

lemma no_phase_write_simps [simp]:
  "no_phase_write []" "no_phase_write (xs @ ys) \<longleftrightarrow> no_phase_write xs \<and> no_phase_write ys"
  "no_phase_write (listing ns selector)"
  by (auto simp: no_phase_write_def listing_def writes_phase_def owned_kinds_def)

lemma only_no_phase_write: "makes_only P m \<Longrightarrow> (\<And>rq. P rq \<Longrightarrow> \<not> writes_phase rq) \<Longrightarrow> yields m (\<lambda>new r. no_phase_write new)"
  unfolding makes_only_def no_phase_write_def by (erule yields_mono) auto

lemma workload_no_phase: "workload_request rq \<Longrightarrow> \<not> writes_phase rq"
  by (auto simp: workload_request_def writes_phase_def split: request.splits)

lemma cleanup_no_phase: "is_cleanup_request ns rq \<Longrightarrow> \<not> writes_phase rq"
  by (auto simp: is_cleanup_request_def writes_phase_def split: request.splits)

lemma workload_poll_drains: "makes_only workload_request (poll_drains env bgd ns auth elapsed)"
  unfolding poll_drains_def poll_drain_def
  by (auto intro!: only_intros workload_intros)

lemma workload_cleanup_plugin: "makes_only workload_request (cleanup_plugin env bgd ns auth ip)"
  unfolding cleanup_plugin_def by (auto intro!: only_intros workload_intros)

lemmas drain_step_logs =
  only_no_phase_write [OF workload_poll_drains workload_no_phase]
  only_no_phase_write [OF only_each [OF workload_cleanup_plugin] workload_no_phase]
  only_no_phase_write [OF cleanup_makes_only(2) cleanup_no_phase]
  only_no_phase_write [OF cleanup_makes_only(3) cleanup_no_phase]

lemma poll_drain_Inr:
  "poll_drain env bgd ns auth elapsed ip w = (Inr s, w') \<Longrightarrow>
   ds_name s = pt_name ip \<and> (ds_phase s = DrainPending \<or> drain_is_final s)"
  unfolding poll_drain_def
  by (auto simp: retE_def drain_status_def drain_is_final_def find_Some_iff split: option.splits if_splits elim!: bindE_InrE)

lemma poll_drains_Inr:
  assumes "poll_drains env bgd ns auth elapsed w = (Inr ss, w')"
  shows "map ds_name ss = map pt_name (spec_inception_points (bgd_spec bgd)) \<and>
    (\<forall>s \<in> set ss. ds_phase s = DrainPending \<or> drain_is_final s)"
proof -
  have "\<exists>new. ss = acc @ new \<and> map ds_name new = map pt_name points \<and> (\<forall>s \<in> set new. ds_phase s = DrainPending \<or> drain_is_final s)"
    if "foldE (\<lambda>statuses ip. bindE (poll_drain env bgd ns auth elapsed ip) (\<lambda>s. retE (statuses @ [s]))) acc points w = (Inr ss, w')"
    for acc points w
    using that
  proof (induction points arbitrary: acc w)
    case Nil
    then show ?case by (simp add: retE_def)
  next
    case (Cons ip points)
    obtain acc' w2 where step: "bindE (poll_drain env bgd ns auth elapsed ip) (\<lambda>s. retE (acc @ [s])) w = (Inr acc', w2)"
      and rest': "foldE (\<lambda>statuses ip. bindE (poll_drain env bgd ns auth elapsed ip) (\<lambda>s. retE (statuses @ [s]))) acc' points w2
        = (Inr ss, w')"
      by (rule bindE_InrE [OF Cons.prems [unfolded foldE.simps]])
    from step obtain s w1 where s: "poll_drain env bgd ns auth elapsed ip w = (Inr s, w1)" and acc': "acc' = acc @ [s]"
      by (auto simp: retE_def elim!: bindE_InrE)
    note rest = rest' [unfolded acc']
    from Cons.IH [OF rest] obtain new where "ss = acc @ (s # new)" "map ds_name new = map pt_name points"
      "\<forall>s \<in> set new. ds_phase s = DrainPending \<or> drain_is_final s" by auto
    then show ?case using poll_drain_Inr [OF s] by (intro exI [of _ "s # new"]) simp
  qed
  from this [OF assms [unfolded poll_drains_def]] show ?thesis by auto
qed

text \<open>Only the last step writes the phase, after both cleanups and when nothing is pending.\<close>

lemma status_patch_logs:
  "yields (update_inception_point_drain_statuses env bgd ns statuses) (\<lambda>new r. r = Inr () \<and> no_phase_write new \<and>
     (\<forall>n. md_name (bgd_metadata bgd) = Some n \<longrightarrow> (\<exists>ok. Ev (RqPatchStatus ns n (PatchDrains statuses)) ok \<in> set new)))"
  "yields (update_status_counts env bgd ns counts rate msg) (\<lambda>new r. r = Inr () \<and> no_phase_write new \<and>
     (\<forall>n. md_name (bgd_metadata bgd) = Some n \<longrightarrow> (\<exists>ok. Ev (RqPatchStatus ns n (PatchCounts counts rate msg)) ok \<in> set new)))"
  unfolding yields_def update_inception_point_drain_statuses_def update_status_counts_def patch_status_def
  by (auto simp: op_simps no_phase_write_def writes_phase_def split: option.splits)

lemma store_call_logs: "yields (store_call env c f) (\<lambda>new r. no_phase_write new)"
  unfolding yields_def store_call_def
  by (auto simp: op_simps no_phase_write_def writes_phase_def split: prod.splits sum.splits)

definition teardown :: "'s env \<Rightarrow> BlueGreenDeployment \<Rightarrow> string \<Rightarrow> AuthConfig \<Rightarrow> ('s, ReconcileError, unit) op" where
  "teardown env bgd ns auth =
     thenE (eachE (cleanup_plugin env bgd ns auth) (spec_inception_points (bgd_spec bgd)))
    (thenE (cleanup_inception_resources env bgd ns) (cleanup_test_resources env bgd ns))"

lemma thenE_assoc: "thenE m (thenE n k) = thenE (thenE m n) k"
  by (rule ext) (auto simp: thenE_def bindE_def split: prod.splits sum.splits)

lemma finalize_teardown:
  "finalize_draining env bgd ns auth failed = thenE (teardown env bgd ns auth)
     (update_status_phase env bgd ns (if force_replace_interrupted_rollout bgd \<or> failed then PhRolledBack else PhCompleted))"
  by (simp add: finalize_draining_def teardown_def thenE_assoc)

lemma teardown_logs: "yields (teardown env bgd ns auth) (\<lambda>new r. no_phase_write new)"
  unfolding teardown_def
  by (intro yields_then [OF drain_step_logs(2) yields_then [OF drain_step_logs(3) drain_step_logs(4)]]) auto

lemma teardown_Inr:
  assumes "teardown env bgd ns auth w = (Inr (), w')"
  shows "\<exists>h post. w_log w' = h @ listing ns (inception_selector (bgd_name_or [] bgd)) @ post \<and>
    all_gone env h ns (inception_selector (bgd_name_or [] bgd))"
proof -
  from assms obtain w1 w2 where gone: "wait_for_inception_resources_deleted env ns (bgd_name_or [] bgd) w1 = (Inr (), w2)"
    and tests: "cleanup_test_resources env bgd ns w2 = (Inr (), w')"
    unfolding teardown_def cleanup_inception_resources_def Let_def by (auto elim!: thenE_InrE)
  from makes_onlyD [OF cleanup_makes_only(3) tests] wait_gone_Inr [OF gone [unfolded wait_for_inception_resources_deleted_def]]
  show ?thesis by (metis append.assoc)
qed

lemma update_status_phase_logs:
  "yields (update_status_phase env bgd ns phase) (\<lambda>new r. r = Inr () \<and> (\<forall>ev \<in> set new. is_status_request (ev_request ev)) \<and>
     (new \<noteq> [] \<longrightarrow> md_name (bgd_metadata bgd) \<noteq> None))"
  unfolding yields_def update_status_phase_def replace_status_def Let_def
  by (auto simp: op_simps is_status_request_def split: option.splits sum.splits)

lemma finalize_logs:
  assumes "finalize_draining env bgd ns auth failed w = (r, w')"
  shows "(\<exists>new. w_log w' = w_log w @ new \<and> no_phase_write new) \<or>
    r = Inr () \<and> (\<exists>pre post. w_log w' = w_log w @ pre @ post \<and> no_phase_write pre \<and>
      (\<forall>ev \<in> set post. is_status_request (ev_request ev)) \<and> md_name (bgd_metadata bgd) \<noteq> None \<and>
      (\<exists>h rest. w_log w @ pre = h @ listing ns (inception_selector (bgd_name_or [] bgd)) @ rest \<and>
         all_gone env h ns (inception_selector (bgd_name_or [] bgd))))"
proof -
  obtain r1 w1 where t: "teardown env bgd ns auth w = (r1, w1)" by (metis surj_pair)
  from yieldsD [OF teardown_logs t] obtain pre where pre: "w_log w1 = w_log w @ pre" "no_phase_write pre" by blast
  show ?thesis
  proof (cases r1)
    case (Inl e)
    then have "w' = w1" using assms t by (simp add: finalize_teardown thenE_def bindE_def)
    then show ?thesis using pre by blast
  next
    case (Inr u)
    then obtain failed' where p: "update_status_phase env bgd ns failed' w1 = (r, w')"
      using assms t by (auto simp: finalize_teardown thenE_def bindE_def split: if_splits)
    from yieldsD [OF update_status_phase_logs p] obtain post where post: "w_log w' = w_log w1 @ post" "r = Inr ()"
      "\<forall>ev \<in> set post. is_status_request (ev_request ev)" "post \<noteq> [] \<longrightarrow> md_name (bgd_metadata bgd) \<noteq> None" by blast
    from teardown_Inr [of env bgd ns auth w w1] t Inr obtain h rest where
      h: "w_log w @ pre = h @ listing ns (inception_selector (bgd_name_or [] bgd)) @ rest"
         "all_gone env h ns (inception_selector (bgd_name_or [] bgd))"
      using pre(1) by auto
    show ?thesis
    proof (cases "post = []")
      case True
      then show ?thesis using pre post by simp
    next
      case False
      then show ?thesis using pre post h by (metis append.assoc)
    qed
  qed
qed

lemma collect_logs:
  assumes "collect_results env bgd ns auth key w = (r, w')"
  shows "(\<exists>new. w_log w' = w_log w @ new \<and> no_phase_write new) \<or>
    (\<exists>counts rate msg failed w1 n1. w_log w1 = w_log w @ n1 \<and> no_phase_write n1 \<and> counts_pending counts \<le> 0 \<and>
       (\<forall>n. md_name (bgd_metadata bgd) = Some n \<longrightarrow> (\<exists>ok. Ev (RqPatchStatus ns n (PatchCounts counts rate msg)) ok \<in> set n1)) \<and>
       finalize_draining env bgd ns auth failed w1 = (r, w'))"
  using assms unfolding collect_results_def
proof (cases rule: bindE_cases)
  case (failed e)
  then show ?thesis using yieldsD [OF store_call_logs] by blast
next
  case (ok counts w1)
  obtain n1 where n1: "w_log w1 = w_log w @ n1" "no_phase_write n1" using yieldsD [OF store_call_logs ok(1)] by blast
  from ok(2) show ?thesis
  proof (cases rule: bindE_cases)
    case (failed e)
    then show ?thesis using yieldsD [OF store_call_logs failed(1)] n1 by (metis append.assoc no_phase_write_simps(2))
  next
    case (ok msg w2)
    obtain n2 where n2: "w_log w2 = w_log w1 @ n2" "no_phase_write n2" using yieldsD [OF store_call_logs ok(1)] by blast
    let ?patch = "update_status_counts env bgd ns counts (success_rate counts) msg :: ('a, ReconcileError, unit) op"
    obtain u w3 where p: "?patch w2 = (u, w3)" by (metis surj_pair)
    obtain n3 where n3: "u = Inr ()" "w_log w3 = w_log w2 @ n3" "no_phase_write n3"
      "\<forall>n. md_name (bgd_metadata bgd) = Some n \<longrightarrow> (\<exists>ok. Ev (RqPatchStatus ns n (PatchCounts counts (success_rate counts) msg)) ok \<in> set n3)"
      using yieldsD [OF status_patch_logs(2) p] by blast
    have logs: "w_log w3 = w_log w @ (n1 @ n2 @ n3)" "no_phase_write (n1 @ n2 @ n3)" using n1 n2 n3 by auto
    have tail: "(if counts_pending counts > 0 then retE ()
        else finalize_draining env bgd ns auth (counts_failed counts > 0 \<or> counts_timed_out counts > 0)) w3 = (r, w')"
      using ok(2) p n3(1) by (simp add: thenE_def bindE_def)
    show ?thesis
    proof (cases "counts_pending counts > 0")
      case True
      then have "w' = w3" using tail by (simp add: retE_def)
      then show ?thesis using logs by blast
    next
      case False
      have "\<forall>n. md_name (bgd_metadata bgd) = Some n \<longrightarrow>
          (\<exists>ok. Ev (RqPatchStatus ns n (PatchCounts counts (success_rate counts) msg)) ok \<in> set (n1 @ n2 @ n3))"
        using n3(4) by fastforce
      moreover have "finalize_draining env bgd ns auth (counts_failed counts > 0 \<or> counts_timed_out counts > 0) w3 = (r, w')"
        "counts_pending counts \<le> 0" using False tail by simp_all
      ultimately show ?thesis using logs by blast
    qed
  qed
qed

lemma reconcile_draining_logs:
  assumes "reconcile_draining env bgd ns auth key w = (r, w')"
  shows "(\<exists>new. w_log w' = w_log w @ new \<and> no_phase_write new) \<or>
    (\<exists>statuses w1 n1. w_log w1 = w_log w @ n1 \<and> no_phase_write n1 \<and>
       map ds_name statuses = map pt_name (spec_inception_points (bgd_spec bgd)) \<and> (\<forall>s \<in> set statuses. drain_is_final s) \<and>
       (\<forall>n. md_name (bgd_metadata bgd) = Some n \<longrightarrow> (\<exists>ok. Ev (RqPatchStatus ns n (PatchDrains statuses)) ok \<in> set n1)) \<and>
       collect_results env bgd ns auth key w1 = (r, w'))"
proof -
  obtain elapsed where "bindE (poll_drains env bgd ns auth elapsed) (\<lambda>statuses.
      thenE (update_inception_point_drain_statuses env bgd ns statuses)
        (if \<exists>s \<in> set statuses. ds_phase s = DrainPending then retE () else collect_results env bgd ns auth key)) w = (r, w')"
    using assms by (auto simp: reconcile_draining_def Let_def now_op_def bindE_def [where m = "now_op env"])
  then show ?thesis
  proof (cases rule: bindE_cases)
    case (failed e)
    then show ?thesis using yieldsD [OF drain_step_logs(1) failed(1)] by blast
  next
    case (ok statuses w1)
    obtain n1 where n1: "w_log w1 = w_log w @ n1" "no_phase_write n1" using yieldsD [OF drain_step_logs(1) ok(1)] by blast
    let ?patch = "update_inception_point_drain_statuses env bgd ns statuses :: ('a, ReconcileError, unit) op"
    obtain u w2 where p: "?patch w1 = (u, w2)" by (metis surj_pair)
    obtain n2 where n2: "u = Inr ()" "w_log w2 = w_log w1 @ n2" "no_phase_write n2"
      "\<forall>n. md_name (bgd_metadata bgd) = Some n \<longrightarrow> (\<exists>ok. Ev (RqPatchStatus ns n (PatchDrains statuses)) ok \<in> set n2)"
      using yieldsD [OF status_patch_logs(1) p] by blast
    have logs: "w_log w2 = w_log w @ (n1 @ n2)" "no_phase_write (n1 @ n2)" using n1 n2 by auto
    have tail: "(if \<exists>s \<in> set statuses. ds_phase s = DrainPending then retE () else collect_results env bgd ns auth key) w2 = (r, w')"
      using ok(2) p n2(1) by (simp add: thenE_def bindE_def)
    show ?thesis
    proof (cases "\<exists>s \<in> set statuses. ds_phase s = DrainPending")
      case True
      then have "w' = w2" using tail by (simp add: retE_def)
      then show ?thesis using logs by blast
    next
      case False
      have "\<forall>n. md_name (bgd_metadata bgd) = Some n \<longrightarrow> (\<exists>ok. Ev (RqPatchStatus ns n (PatchDrains statuses)) ok \<in> set (n1 @ n2))"
        using n2(4) by fastforce
      moreover have "collect_results env bgd ns auth key w2 = (r, w')" using False tail by simp
      moreover have "\<forall>s \<in> set statuses. drain_is_final s" "map ds_name statuses = map pt_name (spec_inception_points (bgd_spec bgd))"
        using poll_drains_Inr [OF ok(1)] False by auto
      ultimately show ?thesis using logs by blast
    qed
  qed
qed

section \<open>Properties\<close>


definition drained_point :: InceptionPointDrainStatus where
  "drained_point = drain_status ''queue'' DrainSuccessful None (Some ''t'')"

definition draining_bgd :: BlueGreenDeployment where
  "draining_bgd = sample_bgd\<lparr>bgd_metadata := (bgd_metadata sample_bgd)\<lparr>md_finalizers := [''fluidbg.io/cleanup'']\<rparr>,
     bgd_spec := default_spec\<lparr>spec_inception_points := [sample_point\<lparr>pt_name := ''queue''\<rparr>]\<rparr>,
     bgd_status := Some (default_status\<lparr>s_phase := Some PhDraining, s_rollout_generation := Some 1, s_observed_generation := Some 1,
       s_inception_point_drains := [drained_point]\<rparr>)\<rparr>"

definition draining_env :: "unit env" where
  "draining_env = idle_env\<lparr>e_get_status := (\<lambda>_ _ _. Inr draining_bgd), e_get_plugin := (\<lambda>_ _. Inr sample_plugin),
     e_get_bgd := (\<lambda>_ _ _. Inr draining_bgd)\<rparr>"

text \<open>A concrete run: a rollout whose only inception point has drained becomes completed.\<close>

lemma draining_run:
  "fst (reconcile_draining draining_env draining_bgd ''shop'' signing_auth ''shop/orders'' w) = Inr () \<and>
   (\<exists>pre obj. w_log (snd (reconcile_draining draining_env draining_bgd ''shop'' signing_auth ''shop/orders'' w))
     = pre @ [Ev (RqReplaceStatus ''shop'' ''orders'' obj) True])"
proof -
  let ?ps = "[drained_point]"
  have env: "e_write draining_env = (\<lambda>_ _. Inr ())" "e_now draining_env = (\<lambda>_. 0)" "e_list_meta draining_env = (\<lambda>_ _ _ _. Inr [])"
      "e_get_plugin draining_env = (\<lambda>_ _. Inr sample_plugin)" "e_get_status draining_env = (\<lambda>_ _ _. Inr draining_bgd)"
      "e_store draining_env = idle_store" "e_get_meta draining_env = (\<lambda>_ _ _ _. Inr None)"
    by (simp_all add: draining_env_def idle_env_def quiet_env_def)
  have bgd: "bgd_status draining_bgd = Some (default_status\<lparr>s_phase := Some PhDraining, s_rollout_generation := Some 1,
       s_observed_generation := Some 1, s_inception_point_drains := [drained_point]\<rparr>)"
      "spec_inception_points (bgd_spec draining_bgd) = [sample_point\<lparr>pt_name := ''queue''\<rparr>]" "spec_test (bgd_spec draining_bgd) = None"
      "spec_update_policy (bgd_spec draining_bgd) = None" "md_name (bgd_metadata draining_bgd) = Some ''orders''"
      "md_generation (bgd_metadata draining_bgd) = Some 1"
    by (simp_all add: draining_bgd_def sample_bgd_def default_spec_def default_meta_def)
  have poll: "poll_drains draining_env draining_bgd ns auth el w = (Inr ?ps, w)" for ns auth el w
    by (simp add: poll_drains_def poll_drain_def previous_drains_def bgd drained_point_def drain_status_def drain_is_final_def op_simps)
  have current: "phase_update_is_current draining_bgd PhCompleted 1"
    by (simp add: phase_update_is_current_def phase_transition_is_current_def status_phase_def status_generation_def bgd default_status_def
        phase_is_terminal_def phase_rank_def)
  have none: "Option.bind (ip_lifecycle (plugin_spec sample_plugin)) f = None" "ip_manager (plugin_spec sample_plugin) = None" for f
    by (simp_all add: sample_plugin_def)
  have clean: "fst (cleanup_inception_resources draining_env draining_bgd ns w) = Inr ()" for ns w
    by (simp add: cleanup_inception_resources_def bgd delete_inception_def delete_deployment_def delete_service_def delete_config_map_def
        delete_secret_def delete_object_def wait_for_inception_resources_deleted_def count_owned_def owned_kinds_def list_meta_def
        numeral_eq_Suc op_simps env)
  have down: "fst (teardown draining_env draining_bgd ns auth w) = Inr ()" for ns auth w
    by (simp add: teardown_def cleanup_test_resources_def wait_for_test_resources_deleted_def bgd cleanup_plugin_def get_plugin_def none
      invoke_inceptor_lifecycle_def invoke_plugin_manager_lifecycle_def op_simps env clean case_prod_beta)
  have phase: "fst (update_status_phase draining_env draining_bgd ns PhCompleted w :: (ReconcileError + unit) \<times> unit world) = Inr () \<and>
      (\<exists>pre obj. w_log (snd (update_status_phase draining_env draining_bgd ns PhCompleted w :: (ReconcileError + unit) \<times> unit world)) =
      pre @ [Ev (RqReplaceStatus ns ''orders'' obj) True])" for ns w
    by (simp add: update_status_phase_def replace_status_def bgd current current_rollout_generation_def default_status_def op_simps env)
  show ?thesis
    by (simp add: reconcile_draining_def poll collect_results_def finalize_teardown force_replace_interrupted_rollout_def bgd
        update_inception_point_drain_statuses_def update_status_counts_def patch_status_def store_call_def idle_store_def
        default_counts_def drained_point_def drain_status_def op_simps env down phase case_prod_beta)
qed




end
