(* ===== verification/Controller.thy ===== *)
theory Controller
  imports InceptionPhase Draining
begin

text \<open>
  The reconciler (\<open>src/operator/src/controller.rs\<close>): one reconciliation of a rollout, its phases, finalizers,
  the snapshot of the specification a rollout was started with, the cleanup of deleted rollouts and of
  orphans. The work queue that calls \<open>reconcile\<close> and the timer of the orphan cleanup are not modelled.
\<close>

section \<open>Errors and locks\<close>

definition diagnostic_reason :: "ReconcileError \<Rightarrow> string" where
  "diagnostic_reason e = (case e of
     InvalidSpec _ \<Rightarrow> ''InvalidSpec''
   | Store _ \<Rightarrow> ''ControllerError''
   | StateStoreError _ \<Rightarrow> ''StateStoreError''
   | Lease _ \<Rightarrow> ''LeaseError''
   | PluginManagerError _ \<Rightarrow> ''PluginManagerError''
   | PluginInceptorError _ \<Rightarrow> ''PluginInceptorError''
   | PluginDrainStatusError _ \<Rightarrow> ''PluginDrainStatusError''
   | PluginTrafficShift _ \<Rightarrow> ''PluginTrafficShiftError''
   | Auth _ \<Rightarrow> ''AuthError''
   | Resource _ \<Rightarrow> ''ResourceError''
   | K8s _ \<Rightarrow> ''KubernetesApiError'')"

definition is_terminal_for_generation :: "ReconcileError \<Rightarrow> bool" where
  "is_terminal_for_generation e = (case e of InvalidSpec _ \<Rightarrow> True | _ \<Rightarrow> False)"

definition publish_reconcile_error_status ::
  "'s env \<Rightarrow> BlueGreenDeployment \<Rightarrow> string \<Rightarrow> ReconcileError \<Rightarrow> ('s, ReconcileError, unit) op" where
  "publish_reconcile_error_status env bgd ns e =
     (if is_terminal_for_generation e then update_status_invalid env bgd ns (diagnostic_reason e) (show_error env e)
      else update_status_reconcile_failure env bgd ns (diagnostic_reason e) (show_error env e))"

definition local_lock_key :: "BlueGreenDeployment \<Rightarrow> string" where
  "local_lock_key bgd =
     (let ns = unwrap_or (md_namespace (bgd_metadata bgd)) ''unknown''
      in case md_uid (bgd_metadata bgd) of
           Some uid \<Rightarrow> ns @ ''/'' @ uid
         | None \<Rightarrow> blue_green_state_key ns (bgd_name_or ''unknown'' bgd))"

text \<open>The keys held in this process, before and after; the guard gives its key back when it is dropped.\<close>

definition try_acquire_local_reconcile_lock :: "BlueGreenDeployment \<Rightarrow> string set \<Rightarrow> (string \<times> string set) option" where
  "try_acquire_local_reconcile_lock bgd locks =
     (if local_lock_key bgd \<in> locks then None else Some (local_lock_key bgd, insert (local_lock_key bgd) locks))"

definition drop_local_lock :: "string \<Rightarrow> string set \<Rightarrow> string set" where
  "drop_local_lock key locks = locks - {key}"

section \<open>Finalizers\<close>

definition BGD_FINALIZER :: string where
  "BGD_FINALIZER = ''fluidbg.io/cleanup''"

definition has_finalizer :: "BlueGreenDeployment \<Rightarrow> string \<Rightarrow> bool" where
  "has_finalizer bgd finalizer \<longleftrightarrow> finalizer \<in> set (md_finalizers (bgd_metadata bgd))"

definition ensure_finalizer :: "'s env \<Rightarrow> BlueGreenDeployment \<Rightarrow> string \<Rightarrow> ('s, ReconcileError, unit) op" where
  "ensure_finalizer env bgd ns = (case md_name (bgd_metadata bgd) of
     None \<Rightarrow> retE ()
   | Some name \<Rightarrow> k8s (write_op env (RqPatchFinalizers ns name (Some [BGD_FINALIZER]))))"

definition remove_finalizer :: "'s env \<Rightarrow> BlueGreenDeployment \<Rightarrow> string \<Rightarrow> ('s, ReconcileError, unit) op" where
  "remove_finalizer env bgd ns = (case md_name (bgd_metadata bgd) of
     None \<Rightarrow> retE ()
   | Some name \<Rightarrow>
       (let finalizers = filter (\<lambda>f. f \<noteq> BGD_FINALIZER) (md_finalizers (bgd_metadata bgd))
        in k8s (write_op env (RqPatchFinalizers ns name (if finalizers = [] then None else Some finalizers)))))"

section \<open>Generations\<close>

definition bgd_generation :: "BlueGreenDeployment \<Rightarrow> int" where
  "bgd_generation bgd = unwrap_or (md_generation (bgd_metadata bgd)) 0"

definition rollout_needs_restart :: "BlueGreenDeployment \<Rightarrow> BGDPhase \<Rightarrow> bool" where
  "rollout_needs_restart bgd phase =
     (if phase \<notin> {PhCompleted, PhRolledBack, PhInvalid} then False
      else bgd_generation bgd > unwrap_or (Option.bind (bgd_status bgd) s_observed_generation) 0)"

definition active_rollout_has_new_spec_generation :: "BlueGreenDeployment \<Rightarrow> BGDPhase \<Rightarrow> bool" where
  "active_rollout_has_new_spec_generation bgd phase =
     (if phase \<in> {PhCompleted, PhRolledBack} then False
      else let rollout_generation = unwrap_or (Option.bind (bgd_status bgd) s_rollout_generation) 0
           in rollout_generation > 0 \<and> bgd_generation bgd > rollout_generation)"

definition force_replace_active_rollout :: "BlueGreenDeployment \<Rightarrow> bool" where
  "force_replace_active_rollout bgd \<longleftrightarrow>
     Option.bind (spec_update_policy (bgd_spec bgd)) up_active_rollout = Some ForceReplace"

definition should_start_force_replace_rollout :: "BlueGreenDeployment \<Rightarrow> BGDPhase \<Rightarrow> bool" where
  "should_start_force_replace_rollout bgd phase \<longleftrightarrow>
     force_replace_active_rollout bgd \<and> active_rollout_has_new_spec_generation bgd phase \<and> phase \<noteq> PhDraining"

section \<open>The snapshot of the specification\<close>

definition snapshot_name :: "'s env \<Rightarrow> BlueGreenDeployment \<Rightarrow> string \<Rightarrow> string" where
  "snapshot_name env bgd ns = rollout_spec_snapshot_name (jl_sha256 (e_jwt env)) bgd ns"

definition rollout_snapshot :: "'s env \<Rightarrow> BlueGreenDeployment \<Rightarrow> string \<Rightarrow> string \<Rightarrow> resource" where
  "rollout_snapshot env bgd ns name =
     RConfigMap (named_meta ns (snapshot_name env bgd ns)
         (btree [(''fluidbg.io/blue-green-ref'', name), (''fluidbg.io/rollout-snapshot'', ''true'')]))
       (btree [(''generation'', show_int (current_rollout_generation bgd)), (''spec.yaml'', e_spec_to_yaml env (bgd_spec bgd))])"

definition ensure_rollout_spec_snapshot :: "'s env \<Rightarrow> BlueGreenDeployment \<Rightarrow> string \<Rightarrow> ('s, ReconcileError, unit) op" where
  "ensure_rollout_spec_snapshot env bgd ns = (case md_name (bgd_metadata bgd) of
     None \<Rightarrow> retE ()
   | Some name \<Rightarrow> apply_resource env ns (snapshot_name env bgd ns) (rollout_snapshot env bgd ns name))"

definition load_rollout_spec_snapshot ::
  "'s env \<Rightarrow> BlueGreenDeployment \<Rightarrow> string \<Rightarrow> ('s, ReconcileError, BlueGreenDeployment) op" where
  "load_rollout_spec_snapshot env bgd ns =
     (let name = bgd_name_or ''unknown'' bgd;
          snapshot = snapshot_name env bgd ns
      in bindE (mapErr (\<lambda>err. Resource (''BGD '' @ quoted name @ '' was updated during an active rollout, but rollout spec snapshot ''
               @ quoted snapshot @ '' could not be loaded: '' @ e_show_kube_error env err))
             (request_op (RqGet KConfigMap ns snapshot) (\<lambda>h. e_get_config_map env h ns snapshot))) (\<lambda>data.
         case map_of data ''spec.yaml'' of
           None \<Rightarrow> failE (Resource (''BGD '' @ quoted name @ '' rollout spec snapshot '' @ quoted snapshot @ '' is missing spec.yaml''))
         | Some yaml \<Rightarrow> (case e_spec_from_yaml env yaml of
             Inl err \<Rightarrow> failE (Resource (''BGD '' @ quoted name @ '' rollout spec snapshot '' @ quoted snapshot
               @ '' could not be parsed: '' @ err))
           | Inr spec \<Rightarrow> retE (bgd\<lparr>bgd_spec := (if force_replace_active_rollout bgd
               then spec\<lparr>spec_update_policy := spec_update_policy (bgd_spec bgd)\<rparr> else spec)\<rparr>))))"

definition delete_rollout_spec_snapshot :: "'s env \<Rightarrow> BlueGreenDeployment \<Rightarrow> string \<Rightarrow> ('s, ReconcileError, unit) op" where
  "delete_rollout_spec_snapshot env bgd ns =
     tryE (write_op env (RqDelete KConfigMap ns (snapshot_name env bgd ns))) (\<lambda>r. case r of
       Inr _ \<Rightarrow> retE ()
     | Inl e \<Rightarrow> if is_not_found e then retE () else failE (K8s e))"

definition start_force_replace_rollout :: "'s env \<Rightarrow> BlueGreenDeployment \<Rightarrow> string \<Rightarrow> AuthConfig \<Rightarrow> ('s, ReconcileError, unit) op" where
  "start_force_replace_rollout env bgd ns auth =
     tryE (load_rollout_spec_snapshot env bgd ns) (\<lambda>r.
       let rollout_bgd = (case r of Inr b \<Rightarrow> b | Inl _ \<Rightarrow> bgd)
       in thenE (begin_draining_after_rollback env rollout_bgd ns auth)
         (thenE (update_status_phase env rollout_bgd ns PhDraining)
           (update_drain_started_at env rollout_bgd ns)))"

section \<open>Cleaning up a rollout\<close>

definition cleanup_records :: "'s env \<Rightarrow> string \<Rightarrow> ('s, ReconcileError, nat) op" where
  "cleanup_records env key = store_call env (StoreCleanup key) (op_cleanup_blue_green (e_store env) key)"

text \<open>The four steps that the restart, the deletion and the terminal phases have in common.\<close>

definition cleanup_rollout :: "'s env \<Rightarrow> BlueGreenDeployment \<Rightarrow> string \<Rightarrow> string \<Rightarrow> ('s, ReconcileError, nat) op" where
  "cleanup_rollout env bgd ns key =
     thenE (cleanup_inception_resources env bgd ns)
    (thenE (cleanup_test_resources env bgd ns)
    (thenE (delete_rollout_spec_snapshot env bgd ns)
       (cleanup_records env key)))"

definition missing_namespace :: "BlueGreenDeployment \<Rightarrow> ReconcileError" where
  "missing_namespace bgd = Resource (''BlueGreenDeployment '' @ quoted (bgd_name_or ''unknown'' bgd) @ '' is missing metadata.namespace'')"

definition cleanup_deleted_bgd :: "'s env \<Rightarrow> BlueGreenDeployment \<Rightarrow> ('s, ReconcileError, unit) op" where
  "cleanup_deleted_bgd env bgd = (case md_namespace (bgd_metadata bgd) of
     None \<Rightarrow> failE (missing_namespace bgd)
   | Some ns \<Rightarrow>
       thenE (cleanup_rollout env bgd ns (blue_green_state_key ns (bgd_name_or ''unknown'' bgd)))
         (remove_finalizer env bgd ns))"

section \<open>Orphans\<close>

definition cleanup_single_orphaned_blue_green_ref :: "'s env \<Rightarrow> string \<Rightarrow> ('s, ReconcileError, unit) op" where
  "cleanup_single_orphaned_blue_green_ref env key =
     bindE (liftE (split_blue_green_state_key key)) (\<lambda>(ns, bg).
     thenE (cleanup_orphaned_blue_green_resources env ns bg)
    (thenE (cleanup_records env key) (retE ())))"

definition bgd_keys :: "BlueGreenDeployment list \<Rightarrow> string list" where
  "bgd_keys bgds = List.map_filter (\<lambda>b. Option.bind (md_namespace (bgd_metadata b)) (\<lambda>ns.
     map_option (blue_green_state_key ns) (md_name (bgd_metadata b)))) bgds"

definition existing_blue_green_keys :: "'s env \<Rightarrow> ('s, ReconcileError, string list) op" where
  "existing_blue_green_keys env = bindE (k8s (request_op RqListBgds (e_list_bgds env))) (\<lambda>bgds. retE (bgd_keys bgds))"

definition clean_orphan :: "'s env \<Rightarrow> LeaseConfig \<Rightarrow> string list \<Rightarrow> nat \<Rightarrow> string \<Rightarrow> ('s, ReconcileError, nat) op" where
  "clean_orphan env lease existing cleaned key =
     (if key \<in> set existing then retE cleaned
      else bindE (run_with_orphan_lease env key (unwrap_or (orphan_namespace key) ''default'') lease
                   (cleanup_single_orphaned_blue_green_ref env key)) (\<lambda>result.
        retE (if result \<noteq> None then cleaned + 1 else cleaned)))"

definition cleanup_orphaned_blue_green_refs :: "'s env \<Rightarrow> LeaseConfig \<Rightarrow> ('s, ReconcileError, nat) op" where
  "cleanup_orphaned_blue_green_refs env lease =
     bindE (existing_blue_green_keys env) (\<lambda>existing.
     bindE (store_call env StoreListRefs (op_list_blue_green_refs (e_store env))) (\<lambda>stored.
     bindE (blue_green_refs_from_owned_resources_all env) (\<lambda>owned.
       foldE (clean_orphan env lease existing) 0 (fold insort_insert owned stored))))"

definition sync_plugin_managers :: "'s env \<Rightarrow> AuthConfig \<Rightarrow> ('s, ReconcileError, unit) op" where
  "sync_plugin_managers env auth =
     bindE (k8s (request_op RqListPlugins (e_list_plugins env))) (\<lambda>plugins.
       eachE (\<lambda>plugin. if ip_manager (plugin_spec plugin) = None then retE () else invoke_plugin_manager_sync env plugin auth) plugins)"

end
