(* ===== verification/ReconcileLoop.thy ===== *)
theory ReconcileLoop
  imports Controller
begin

text \<open>
  One reconciliation (\<open>reconcile\<close> and \<open>reconcile_locked\<close> of \<open>src/operator/src/controller.rs\<close>), with the arm of each
  phase as a definition of its own.
\<close>

datatype Action = AwaitChange | Requeue nat

record ReconcileCtx =
  ctx_auth :: AuthConfig
  ctx_lease :: LeaseConfig

section \<open>The phases\<close>

definition pending_phase ::
  "'s env \<Rightarrow> AuthConfig \<Rightarrow> BlueGreenDeployment \<Rightarrow> string \<Rightarrow> ('s, ReconcileError, Action) op" where
  "pending_phase env auth bgd ns =
     thenE (ensure_rollout_generation env bgd ns)
    (thenE (ensure_rollout_spec_snapshot env bgd ns)
    (bindE (ensure_generated_candidate_name env bgd ns) (\<lambda>generated_name. case generated_name of
       None \<Rightarrow> retE (Requeue 1)
     | Some _ \<Rightarrow>
         bindE (bootstrap_initial_green_if_empty env bgd ns) (\<lambda>bootstrapped.
           if bootstrapped
           then thenE (update_status_phase env bgd ns PhCompleted) (retE (Requeue 300))
           else
             thenE (resolve_current_green env ns (spec_selector (bgd_spec bgd)))
            (thenE (validate_progressive_shifting_support env bgd)
            (thenE (ensure_inception_resources env bgd ns auth)
            (thenE (initialize_splitter_traffic env bgd ns auth)
            (thenE (update_status_phase env bgd ns PhObserving)
              (retE (Requeue 5))))))))))"

definition act_on_decision ::
  "'s env \<Rightarrow> AuthConfig \<Rightarrow> BlueGreenDeployment \<Rightarrow> string \<Rightarrow> PromotionAction \<Rightarrow> ('s, ReconcileError, unit) op" where
  "act_on_decision env auth bgd ns action = (case action of
     ContinueObserving \<Rightarrow> retE ()
   | Promote \<Rightarrow> update_status_phase env bgd ns PhPromoting
   | Rollback \<Rightarrow>
       thenE (begin_draining_after_rollback env bgd ns auth)
      (thenE (update_status_phase env bgd ns PhDraining)
        (update_drain_started_at env bgd ns))
   | AdvanceStep step traffic_percent \<Rightarrow>
       thenE (apply_splitter_traffic_percent env bgd ns auth traffic_percent)
        (update_status_progress env bgd ns step traffic_percent))"

definition observing_phase ::
  "'s env \<Rightarrow> AuthConfig \<Rightarrow> BlueGreenDeployment \<Rightarrow> string \<Rightarrow> string \<Rightarrow> ('s, ReconcileError, Action) op" where
  "observing_phase env auth bgd ns key =
     thenE (liftE (validate_test_configuration bgd))
    (bindE (store_call env (StoreCounts key) (op_counts (e_store env) key)) (\<lambda>counts.
     bindE (store_call env (StoreCountsForMode key Data) (op_counts_for_mode (e_store env) key Data)) (\<lambda>data_counts.
     bindE (store_call env (StoreCountsForMode key Custom) (op_counts_for_mode (e_store env) key Custom)) (\<lambda>custom_counts.
     bindE (store_call env (StoreLatestFailure key) (op_latest_failure_message (e_store env) key)) (\<lambda>latest_failure.
     thenE (update_status_counts env bgd ns counts (success_rate counts) latest_failure)
    (bindE (liftE (decide_promotion_action bgd data_counts custom_counts (Option.bind (bgd_status bgd) s_current_step))) (\<lambda>action.
     thenE (act_on_decision env auth bgd ns action)
       (retE (Requeue 5)))))))))"

definition promoting_phase ::
  "'s env \<Rightarrow> AuthConfig \<Rightarrow> BlueGreenDeployment \<Rightarrow> string \<Rightarrow> ('s, ReconcileError, Action) op" where
  "promoting_phase env auth bgd ns =
     bindE (promote env bgd ns) (\<lambda>previous_green.
     thenE (begin_draining_after_promotion env bgd ns auth previous_green)
    (thenE (update_status_phase env bgd ns PhDraining)
    (thenE (update_drain_started_at env bgd ns)
      (retE (Requeue 5)))))"

definition run_phase ::
  "'s env \<Rightarrow> AuthConfig \<Rightarrow> BlueGreenDeployment \<Rightarrow> string \<Rightarrow> string \<Rightarrow> BGDPhase \<Rightarrow> ('s, ReconcileError, Action) op" where
  "run_phase env auth bgd ns key phase = (case phase of
     PhPending \<Rightarrow> pending_phase env auth bgd ns
   | PhObserving \<Rightarrow> observing_phase env auth bgd ns key
   | PhPromoting \<Rightarrow> promoting_phase env auth bgd ns
   | PhDraining \<Rightarrow> thenE (reconcile_draining env bgd ns auth key) (retE (Requeue 5))
   | _ \<Rightarrow> thenE (cleanup_rollout env bgd ns key) (retE (Requeue 300)))"

section \<open>Reconciling\<close>

definition current_phase :: "BlueGreenDeployment \<Rightarrow> BGDPhase" where
  "current_phase bgd = unwrap_or (Option.bind (bgd_status bgd) s_phase) PhPending"

definition reconcile_locked :: "'s env \<Rightarrow> AuthConfig \<Rightarrow> BlueGreenDeployment \<Rightarrow> ('s, ReconcileError, Action) op" where
  "reconcile_locked env auth bgd = (case md_namespace (bgd_metadata bgd) of
     None \<Rightarrow> failE (missing_namespace bgd)
   | Some ns \<Rightarrow>
       (let key = blue_green_state_key ns (bgd_name_or ''unknown'' bgd);
            phase = current_phase bgd
        in if md_deletion_timestamp (bgd_metadata bgd) \<noteq> None
           then thenE (cleanup_deleted_bgd env bgd) (retE AwaitChange)
           else if \<not> has_finalizer bgd BGD_FINALIZER
           then thenE (ensure_finalizer env bgd ns) (retE (Requeue 1))
           else if rollout_needs_restart bgd phase
           then thenE (cleanup_rollout env bgd ns key)
               (thenE (reset_status_for_new_rollout env bgd ns) (retE (Requeue 1)))
           else if active_rollout_has_new_spec_generation bgd phase
           then if should_start_force_replace_rollout bgd phase
                then thenE (start_force_replace_rollout env bgd ns auth) (retE (Requeue 1))
                else thenE (if force_replace_active_rollout bgd then retE () else update_status_update_deferred env bgd ns)
                    (bindE (load_rollout_spec_snapshot env bgd ns) (\<lambda>frozen. run_phase env auth frozen ns key phase))
           else run_phase env auth bgd ns key phase))"

text \<open>Reading the rollout again, by name; \<open>None\<close> when it is gone.\<close>

definition reread_bgd :: "'s env \<Rightarrow> string \<Rightarrow> string \<Rightarrow> ('s, ReconcileError, BlueGreenDeployment option) op" where
  "reread_bgd env ns name = tryE (get_bgd env ns name) (\<lambda>r. case r of
     Inr latest \<Rightarrow> retE (Some latest)
   | Inl e \<Rightarrow> if is_not_found e then retE None else failE (K8s e))"

definition reconcile_under_lease :: "'s env \<Rightarrow> AuthConfig \<Rightarrow> BlueGreenDeployment \<Rightarrow> string \<Rightarrow> ('s, ReconcileError, Action) op" where
  "reconcile_under_lease env auth bgd ns = (case md_name (bgd_metadata bgd) of
     None \<Rightarrow> retE AwaitChange
   | Some name \<Rightarrow> bindE (reread_bgd env ns name) (\<lambda>latest. case latest of
       None \<Rightarrow> retE AwaitChange
     | Some b \<Rightarrow> reconcile_locked env auth b))"

definition reporting :: "'s env \<Rightarrow> BlueGreenDeployment \<Rightarrow> string \<Rightarrow> ('s, ReconcileError, 'a) op \<Rightarrow> ('s, ReconcileError, 'a) op" where
  "reporting env bgd ns m = tryE m (\<lambda>r. case r of
     Inr a \<Rightarrow> retE a
   | Inl e \<Rightarrow> thenE (publish_reconcile_error_status env bgd ns e) (failE e))"

definition reconcile_deleted :: "'s env \<Rightarrow> BlueGreenDeployment \<Rightarrow> string \<Rightarrow> ('s, ReconcileError, Action) op" where
  "reconcile_deleted env bgd ns = (case md_name (bgd_metadata bgd) of
     None \<Rightarrow> retE AwaitChange
   | Some name \<Rightarrow> reporting env bgd ns (bindE (reread_bgd env ns name) (\<lambda>latest. case latest of
       None \<Rightarrow> retE AwaitChange
     | Some b \<Rightarrow> thenE (cleanup_deleted_bgd env b) (retE AwaitChange))))"

definition reconcile :: "'s env \<Rightarrow> ReconcileCtx \<Rightarrow> string set \<Rightarrow> BlueGreenDeployment \<Rightarrow> ('s, ReconcileError, Action) op" where
  "reconcile env ctx locks bgd = (case md_namespace (bgd_metadata bgd) of
     None \<Rightarrow> retE AwaitChange
   | Some ns \<Rightarrow> (case try_acquire_local_reconcile_lock bgd locks of
       None \<Rightarrow> retE (Requeue 1)
     | Some _ \<Rightarrow>
         if md_deletion_timestamp (bgd_metadata bgd) \<noteq> None then reconcile_deleted env bgd ns
         else bindE (reporting env bgd ns (run_with_bgd_lease env bgd ns (ctx_lease ctx)
                (reconcile_under_lease env (ctx_auth ctx) bgd ns))) (\<lambda>result. case result of
              Some action \<Rightarrow> retE action
            | None \<Rightarrow> retE (Requeue 2))))"

definition error_policy :: Action where
  "error_policy = Requeue 30"

end
