(* ===== verification/Histories.thy ===== *)
theory Histories
  imports Kube
begin

text \<open>
  Requests in the light of what was requested before: \<open>guarded Q m\<close> says that every request a run of \<open>m\<close> makes is
  allowed by \<open>Q\<close> given the whole log up to it.
\<close>

definition guarded_events :: "(event list \<Rightarrow> request \<Rightarrow> bool) \<Rightarrow> event list \<Rightarrow> event list \<Rightarrow> bool" where
  "guarded_events Q h new \<longleftrightarrow> (\<forall>i < length new. Q (h @ take i new) (ev_request (new ! i)))"

definition guarded :: "(event list \<Rightarrow> request \<Rightarrow> bool) \<Rightarrow> ('s, 'e, 'a) op \<Rightarrow> bool" where
  "guarded Q m \<longleftrightarrow> (\<forall>w. \<exists>new. w_log (snd (m w)) = w_log w @ new \<and> guarded_events Q (w_log w) new)"

named_theorems guarded_intros \<open>introduction rules for guarded\<close>

lemma guarded_events_Nil [simp]: "guarded_events Q h []"
  by (simp add: guarded_events_def)

lemma guarded_events_append:
  "guarded_events Q h (xs @ ys) \<longleftrightarrow> guarded_events Q h xs \<and> guarded_events Q (h @ xs) ys"
proof
  assume all: "guarded_events Q h (xs @ ys)"
  have "Q (h @ take i xs) (ev_request (xs ! i))" if "i < length xs" for i
    using all [unfolded guarded_events_def, rule_format, of i] that by (simp add: nth_append)
  moreover have "Q ((h @ xs) @ take i ys) (ev_request (ys ! i))" if "i < length ys" for i
    using all [unfolded guarded_events_def, rule_format, of "length xs + i"] that by (simp add: nth_append)
  ultimately show "guarded_events Q h xs \<and> guarded_events Q (h @ xs) ys" by (simp add: guarded_events_def)
next
  assume both: "guarded_events Q h xs \<and> guarded_events Q (h @ xs) ys"
  have "Q (h @ take i (xs @ ys)) (ev_request ((xs @ ys) ! i))" if "i < length (xs @ ys)" for i
  proof (cases "i < length xs")
    case True
    then show ?thesis using both by (auto simp: guarded_events_def nth_append)
  next
    case False
    then obtain j where j: "i = length xs + j" by (auto simp: nat_le_iff_add not_less)
    then have "j < length ys" using that by simp
    then show ?thesis using both j by (simp add: guarded_events_def nth_append)
  qed
  then show "guarded_events Q h (xs @ ys)" by (simp add: guarded_events_def)
qed

lemma guarded_events_single [simp]: "guarded_events Q h [ev] \<longleftrightarrow> Q h (ev_request ev)"
  by (simp add: guarded_events_def)

lemma guarded_eventsD:
  "guarded_events Q h new \<Longrightarrow> new = xs @ ev # ys \<Longrightarrow> Q (h @ xs) (ev_request ev)"
  by (simp add: guarded_events_append [of Q h xs "ev # ys"] guarded_events_append [of Q _ "[ev]" ys, simplified])

lemma guardedD:
  "guarded Q m \<Longrightarrow> m w = (r, w') \<Longrightarrow> \<exists>new. w_log w' = w_log w @ new \<and> guarded_events Q (w_log w) new"
  unfolding guarded_def by (metis snd_conv)

lemma guarded_mono: "guarded Q m \<Longrightarrow> (\<And>h rq. Q h rq \<Longrightarrow> Q' h rq) \<Longrightarrow> guarded Q' m"
  unfolding guarded_def guarded_events_def by blast

lemma guarded_ret [guarded_intros]: "guarded Q (retE a)"
  by (simp add: guarded_def retE_def)

lemma guarded_fail [guarded_intros]: "guarded Q (failE e)"
  by (simp add: guarded_def failE_def)

lemma guarded_lift [guarded_intros]: "guarded Q (liftE r)"
  by (simp add: guarded_def liftE_def)

lemma guarded_now [guarded_intros]: "guarded Q (now_op env)"
  by (simp add: guarded_def now_op_def)

lemma guarded_makes_only:
  assumes "makes_only P m" and "\<And>h rq. P rq \<Longrightarrow> Q h rq"
  shows "guarded Q m"
  unfolding guarded_def
proof
  fix w
  obtain r w' where "m w = (r, w')" by fastforce
  with makes_onlyD [OF assms(1) this] assms(2)
  show "\<exists>new. w_log (snd (m w)) = w_log w @ new \<and> guarded_events Q (w_log w) new"
    by (auto simp: guarded_events_def)
qed

text \<open>The continuation may use what the first part returned and logged.\<close>

lemma guarded_try_dep:
  assumes "guarded Q m" and "\<And>w r w1 r' w2. m w = (r, w1) \<Longrightarrow> f r w1 = (r', w2) \<Longrightarrow>
    \<exists>new. w_log w2 = w_log w1 @ new \<and> guarded_events Q (w_log w1) new"
  shows "guarded Q (tryE m f)"
  unfolding guarded_def
proof
  fix w
  obtain r w1 where m: "m w = (r, w1)" by fastforce
  obtain r' w2 where f: "f r w1 = (r', w2)" by fastforce
  obtain n where n: "w_log w1 = w_log w @ n" "guarded_events Q (w_log w) n" using guardedD [OF assms(1) m] by blast
  obtain n' where n': "w_log w2 = w_log w1 @ n'" "guarded_events Q (w_log w1) n'" using assms(2) [OF m f] by blast
  show "\<exists>new. w_log (snd (tryE m f w)) = w_log w @ new \<and> guarded_events Q (w_log w) new"
    using n n' by (intro exI [of _ "n @ n'"]) (simp add: tryE_def m f guarded_events_append)
qed

lemma guarded_try [guarded_intros]: "guarded Q m \<Longrightarrow> (\<And>r. guarded Q (f r)) \<Longrightarrow> guarded Q (tryE m f)"
  by (rule guarded_try_dep) (auto dest: guardedD)

lemma guarded_bind [guarded_intros]:
  assumes "guarded Q m" and "\<And>a. guarded Q (f a)"
  shows "guarded Q (bindE m f)"
  unfolding bindE_try by (rule guarded_try [OF assms(1)]) (auto split: sum.splits intro: guarded_fail assms(2))

text \<open>With a condition that the result of the first part satisfies.\<close>

lemma guarded_bind_dep:
  assumes "guarded Q m" and "\<And>w a w1. m w = (Inr a, w1) \<Longrightarrow> C a" and "\<And>a. C a \<Longrightarrow> guarded Q (f a)"
  shows "guarded Q (bindE m f)"
  unfolding bindE_try
proof (rule guarded_try_dep [OF assms(1)])
  fix w r w1 r' w2
  assume m: "m w = (r, w1)" and f: "(case r of Inl e \<Rightarrow> failE e | Inr a \<Rightarrow> f a) w1 = (r', w2)"
  show "\<exists>new. w_log w2 = w_log w1 @ new \<and> guarded_events Q (w_log w1) new"
  proof (cases r)
    case (Inl e)
    then show ?thesis using f by (simp add: failE_def)
  next
    case (Inr a)
    then show ?thesis using guardedD [OF assms(3) [OF assms(2)]] m f by (simp add: Inr)
  qed
qed

lemma guarded_then [guarded_intros]: "guarded Q m \<Longrightarrow> guarded Q n \<Longrightarrow> guarded Q (thenE m n)"
  unfolding thenE_def by (rule guarded_bind)

lemma guarded_if [guarded_intros]: "(b \<Longrightarrow> guarded Q m) \<Longrightarrow> (\<not> b \<Longrightarrow> guarded Q n) \<Longrightarrow> guarded Q (if b then m else n)"
  by simp

lemma guarded_case_option [guarded_intros]:
  "(x = None \<Longrightarrow> guarded Q m) \<Longrightarrow> (\<And>a. x = Some a \<Longrightarrow> guarded Q (f a)) \<Longrightarrow>
   guarded Q (case x of None \<Rightarrow> m | Some a \<Rightarrow> f a)"
  by (cases x) simp_all

lemma guarded_each [guarded_intros]: "(\<And>x. x \<in> set xs \<Longrightarrow> guarded Q (f x)) \<Longrightarrow> guarded Q (eachE f xs)"
  by (induction xs) (auto intro: guarded_intros)

lemma guarded_fold [guarded_intros]: "(\<And>acc x. x \<in> set xs \<Longrightarrow> guarded Q (f acc x)) \<Longrightarrow> guarded Q (foldE f acc xs)"
  by (induction xs arbitrary: acc) (auto intro!: guarded_ret guarded_bind)

end
