(* ===== verification/ReconcileSafety.thy ===== *)
theory ReconcileSafety
  imports ReconcileLoop Histories
begin

text \<open>What a reconciliation guarantees about the order of its requests.\<close>

section \<open>Requests\<close>

definition is_finalizer_patch :: "request \<Rightarrow> bool" where
  "is_finalizer_patch rq = (case rq of RqPatchFinalizers _ _ _ \<Rightarrow> True | _ \<Rightarrow> False)"

text \<open>What the guarded work may request: no lease, and no list of rollouts or plugins for the orphan cleanup.\<close>

definition is_lease_request :: "request \<Rightarrow> bool" where
  "is_lease_request rq = (case rq of RqLeaseGet _ _ \<Rightarrow> True | RqLeaseReplace _ _ _ \<Rightarrow> True | RqLeaseCreate _ _ \<Rightarrow> True | _ \<Rightarrow> False)"

lemma request_kinds_disjoint:
  "workload_request rq \<Longrightarrow> \<not> is_finalizer_patch rq" "is_cleanup_request ns rq \<Longrightarrow> \<not> is_finalizer_patch rq"
  "is_status_request rq \<Longrightarrow> \<not> is_finalizer_patch rq"
  by (auto simp: workload_request_def is_cleanup_request_def is_status_request_def is_finalizer_patch_def split: request.splits)

section \<open>Cleaning up\<close>

lemma only_store_call [only_intros]: "P (RqStore c) \<Longrightarrow> makes_only P (store_call env c f)"
  unfolding store_call_def by (intro only_intros)

lemma cleanup_rollout_only:
  assumes "\<And>rq. is_cleanup_request ns rq \<Longrightarrow> P rq" and "P (RqStore (StoreCleanup key))"
  shows "makes_only P (cleanup_rollout env bgd ns key)"
proof -
  have "makes_only P (delete_rollout_spec_snapshot env bgd ns)"
    unfolding delete_rollout_spec_snapshot_def
    by (intro only_intros) (simp_all add: assms(1) is_cleanup_request_def owned_kinds_def only_intros)
  then show ?thesis
    unfolding cleanup_rollout_def cleanup_records_def
    by (intro only_intros only_mono [OF cleanup_makes_only(2) assms(1)] only_mono [OF cleanup_makes_only(3) assms(1)] assms(2))
qed

lemma delete_snapshot_logs:
  "yields (delete_rollout_spec_snapshot env bgd ns) (\<lambda>new r. \<exists>ok. new = [Ev (RqDelete KConfigMap ns (snapshot_name env bgd ns)) ok])"
  unfolding yields_def delete_rollout_spec_snapshot_def by (auto simp: op_simps split: sum.splits)

lemma remove_finalizer_logs: "yields (remove_finalizer env bgd ns) (\<lambda>new r. length new \<le> 1)"
  unfolding yields_def remove_finalizer_def
  by (cases "md_name (bgd_metadata bgd)") (simp_all add: op_simps split: sum.splits)

text \<open>What a completed cleanup has done, in order.\<close>

lemma cleanup_rollout_Inr:
  assumes "cleanup_rollout env bgd ns key w = (Inr n, w')"
  shows "\<exists>h mid. w_log w' = h @ listing ns (inception_selector (bgd_name_or [] bgd)) @ mid \<and>
    all_gone env h ns (inception_selector (bgd_name_or [] bgd)) \<and>
    (\<exists>ok. Ev (RqDelete KConfigMap ns (snapshot_name env bgd ns)) ok \<in> set mid) \<and> Ev (RqStore (StoreCleanup key)) True \<in> set mid \<and>
    test_gone env bgd ns (w_log w')"
proof -
  from assms obtain w1 w2 w3 w4 where gone: "wait_for_inception_resources_deleted env ns (bgd_name_or [] bgd) w1 = (Inr (), w2)"
    and tests: "cleanup_test_resources env bgd ns w2 = (Inr (), w3)"
    and snapshot: "delete_rollout_spec_snapshot env bgd ns w3 = (Inr (), w4)"
    and records: "cleanup_records env key w4 = (Inr n, w')"
    unfolding cleanup_rollout_def cleanup_inception_resources_def Let_def by (auto elim!: thenE_InrE)
  obtain h where h: "w_log w2 = h @ listing ns (inception_selector (bgd_name_or [] bgd))"
      "all_gone env h ns (inception_selector (bgd_name_or [] bgd))"
    using wait_gone_Inr [OF gone [unfolded wait_for_inception_resources_deleted_def]] by blast
  obtain n1 where n1: "w_log w3 = w_log w2 @ n1" using makes_onlyD [OF cleanup_makes_only(3) tests] by blast
  obtain ok where n2: "w_log w4 = w_log w3 @ [Ev (RqDelete KConfigMap ns (snapshot_name env bgd ns)) ok]"
    using yieldsD [OF delete_snapshot_logs snapshot] by blast
  have n3: "w_log w' = w_log w4 @ [Ev (RqStore (StoreCleanup key)) True]"
    using records unfolding cleanup_records_def store_call_def
    by (auto simp: op_simps split: sum.splits prod.splits)
  have "test_gone env bgd ns (w_log w')"
    unfolding n3 n2 by (intro test_gone_append cleanup_test_Inr [OF tests])
  then show ?thesis
    using h n1 n2 n3
    by (intro exI [of _ h] exI [of _ "n1 @ [Ev (RqDelete KConfigMap ns (snapshot_name env bgd ns)) ok, Ev (RqStore (StoreCleanup key)) True]"])
      auto
qed



section \<open>The lease\<close>

text \<open>The work of a reconciliation makes no request for a lease.\<close>

definition work_request :: "request \<Rightarrow> bool" where
  "work_request rq \<longleftrightarrow> \<not> is_lease_request rq"

lemma work_requests:
  "workload_request rq \<Longrightarrow> work_request rq" "is_cleanup_request ns rq \<Longrightarrow> work_request rq"
  "is_status_request rq \<Longrightarrow> work_request rq"
  by (auto simp: workload_request_def is_cleanup_request_def is_status_request_def work_request_def is_lease_request_def
      split: request.splits)

lemma work_simps [simp]:
  "work_request (RqStore c)" "work_request (RqPatchFinalizers ns n fs)" "work_request (RqDelete k ns n)" "work_request (RqGet k ns n)"
  "work_request (RqGetBgd ns n)" "work_request (RqApply ns n res)"
  by (simp_all add: work_request_def is_lease_request_def)

lemmas work_of_workload = only_mono [OF _ work_requests(1)]
lemmas work_of_cleanup = only_mono [OF _ work_requests(2)]
lemmas work_of_status = only_status_updates [THEN only_mono, OF work_requests(3)]

lemma work_rollback: "makes_only work_request (begin_draining_after_rollback env bgd ns auth)"
  unfolding begin_draining_after_rollback_def delete_deployment_def
  by (intro only_intros work_of_workload [OF workload_start_draining] only_delete_object) simp_all

lemma work_promotion_drain: "makes_only work_request (begin_draining_after_promotion env bgd ns auth previous)"
  unfolding begin_draining_after_promotion_def delete_current_green_def Let_def
  by (intro only_intros work_of_workload [OF workload_start_draining] only_delete_object) simp_all

lemma work_draining: "makes_only work_request (reconcile_draining env bgd ns auth key)"
  unfolding reconcile_draining_def collect_results_def finalize_draining_def Let_def
  by (intro only_intros work_of_workload [OF workload_poll_drains] work_of_workload [OF workload_cleanup_plugin] work_of_status
      work_of_cleanup [OF cleanup_makes_only(2)] work_of_cleanup [OF cleanup_makes_only(3)]) simp_all

lemma work_candidate_name: "makes_only work_request (ensure_generated_candidate_name env bgd ns)"
proof -
  have "makes_only work_request (first_free_name env bgd ns dns suffixes)" for dns suffixes
    by (induction suffixes) (auto simp: get_deployment_def intro!: only_intros work_of_status)
  then show ?thesis unfolding ensure_generated_candidate_name_def by (intro only_intros)
qed

lemma work_snapshot:
  "makes_only work_request (ensure_rollout_spec_snapshot env bgd ns)" "makes_only work_request (load_rollout_spec_snapshot env bgd ns)"
  unfolding ensure_rollout_spec_snapshot_def load_rollout_spec_snapshot_def Let_def
  by (auto intro!: only_intros work_of_workload [OF workload_apply_resource])

lemma work_traffic: "makes_only work_request (initialize_splitter_traffic env bgd ns auth)"
  unfolding initialize_splitter_traffic_def
  by (intro only_intros work_of_workload [OF workload_traffic] work_of_status)

lemma work_act: "makes_only work_request (act_on_decision env auth bgd ns action)"
  unfolding act_on_decision_def
  by (cases action) (auto intro!: only_intros work_rollback work_of_workload [OF workload_traffic] work_of_status)

lemma work_pending: "makes_only work_request (pending_phase env auth bgd ns)"
  unfolding pending_phase_def
  by (intro only_intros work_of_status work_snapshot work_candidate_name work_traffic work_of_workload [OF workload_bootstrap]
      work_of_workload [OF workload_resolve_green] work_of_workload [OF workload_validate_progressive] work_of_workload [OF workload_inception])

lemma work_cleanup: "makes_only work_request (cleanup_rollout env bgd ns key)"
  by (rule cleanup_rollout_only) (simp_all add: work_requests(2))

lemma work_deleted: "makes_only work_request (cleanup_deleted_bgd env bgd)"
  unfolding cleanup_deleted_bgd_def remove_finalizer_def Let_def
  by (intro only_intros work_cleanup) simp_all

lemma work_run_phase: "makes_only work_request (run_phase env auth bgd ns key phase)"
proof -
  have "makes_only work_request (observing_phase env auth bgd ns key)"
    unfolding observing_phase_def by (intro only_intros work_of_status work_act) simp_all
  moreover have "makes_only work_request (promoting_phase env auth bgd ns)"
    unfolding promoting_phase_def
    by (intro only_intros work_of_status work_promotion_drain work_of_workload [OF workload_promote])
  ultimately show ?thesis
    unfolding run_phase_def by (cases phase) (auto intro!: only_then only_ret work_pending work_draining work_cleanup)
qed

lemma work_reconcile_locked: "makes_only work_request (reconcile_locked env auth bgd)"
  unfolding reconcile_locked_def start_force_replace_rollout_def ensure_finalizer_def Let_def
  by (intro only_intros work_run_phase work_deleted work_cleanup work_snapshot work_of_status work_rollback) simp_all

text \<open>The requests of an accepted acquisition, as the lease protocol allows them.\<close>

definition accepted_acquisition :: "'s env \<Rightarrow> event list \<Rightarrow> string \<Rightarrow> string \<Rightarrow> LeaseConfig \<Rightarrow> event list \<Rightarrow> bool" where
  "accepted_acquisition env h ns name config evs \<longleftrightarrow> (\<exists>got rq now. evs = [Ev (RqLeaseGet ns name) got, Ev rq True] \<and>
     ((\<exists>l. e_get_lease env h ns name = Inr l \<and> lease_can_be_acquired l config now \<and>
         rq = RqLeaseReplace ns name (acquired_lease l config now)) \<or>
      (\<exists>e. e_get_lease env h ns name = Inl e \<and> is_not_found e \<and> rq = RqLeaseCreate ns (created_lease name config now))))"

lemma only_try_acquire: "makes_only is_lease_request (try_acquire_lease env ns name config)"
  unfolding try_acquire_lease_def by (intro only_intros) (simp_all add: is_lease_request_def)

lemma run_with_lease_logs:
  assumes "run_with_lease env ns name config future w = (r, w')" and "makes_only P future"
  shows "\<exists>new. w_log w' = w_log w @ new \<and> ((\<forall>ev \<in> set new. is_lease_request (ev_request ev)) \<or>
    (\<exists>acq rest. new = acq @ rest \<and> accepted_acquisition env (w_log w) ns name config acq \<and> (\<forall>ev \<in> set rest. P (ev_request ev))))"
  using assms(1) unfolding run_with_lease_def
proof (cases rule: bindE_cases)
  case (failed e)
  then show ?thesis using makes_onlyD [OF only_try_acquire failed(1)] by blast
next
  case (ok acquired w1)
  show ?thesis
  proof (cases acquired)
    case False
    then have "w' = w1" using ok(2) by (simp add: retE_def)
    then show ?thesis using makes_onlyD [OF only_try_acquire ok(1)] by blast
  next
    case True
    have "makes_only P (bindE future (\<lambda>a. retE (Some a)))" by (intro only_intros assms(2))
    moreover have "bindE future (\<lambda>a. retE (Some a)) w1 = (r, w')" using ok(2) True by simp
    ultimately obtain rest where rest: "w_log w' = w_log w1 @ rest" "\<forall>ev \<in> set rest. P (ev_request ev)"
      using makes_onlyD by blast
    have acq: "try_acquire_lease env ns name config w = (Inr True, w1)" using ok(1) True by simp
    obtain got rq now where log: "w_log w1 = w_log w @ [Ev (RqLeaseGet ns name) got, Ev rq True]"
      and allowed: "(\<exists>l. e_get_lease env (w_log w) ns name = Inr l \<and> lease_can_be_acquired l config now \<and>
         rq = RqLeaseReplace ns name (acquired_lease l config now)) \<or>
        (\<exists>e. e_get_lease env (w_log w) ns name = Inl e \<and> is_not_found e \<and> rq = RqLeaseCreate ns (created_lease name config now))"
      using try_acquire_true [OF acq] by (elim exE conjE) assumption
    have "accepted_acquisition env (w_log w) ns name config [Ev (RqLeaseGet ns name) got, Ev rq True]"
      unfolding accepted_acquisition_def using allowed by blast
    moreover have "w_log w' = w_log w @ ([Ev (RqLeaseGet ns name) got, Ev rq True] @ rest)" using log rest(1) by simp
    ultimately show ?thesis using rest(2) by blast
  qed
qed

lemma publish_only: "makes_only is_status_request (publish_reconcile_error_status env bgd ns e)"
  unfolding publish_reconcile_error_status_def by (intro only_intros)

lemma reporting_logs:
  assumes "reporting env bgd ns m w = (r, w')"
  shows "\<exists>r1 w1 new. m w = (r1, w1) \<and> w_log w' = w_log w1 @ new \<and> (\<forall>ev \<in> set new. is_status_request (ev_request ev))"
proof -
  obtain r1 w1 where m: "m w = (r1, w1)" by (metis surj_pair)
  have "makes_only is_status_request (case r1 of Inr a \<Rightarrow> retE a | Inl e \<Rightarrow> thenE (publish_reconcile_error_status env bgd ns e) (failE e))"
    by (intro only_intros publish_only)
  then show ?thesis using makes_onlyD assms m by (fastforce simp: reporting_def tryE_def)
qed

lemma leased_work:
  assumes "reconcile env ctx locks bgd w = (r, w')" and ns: "md_namespace (bgd_metadata bgd) = Some ns"
    and free: "local_lock_key bgd \<notin> locks" and live: "md_deletion_timestamp (bgd_metadata bgd) = None"
    and "w_log w' = w_log w @ new" and "ev \<in> set new"
    and "\<not> is_lease_request (ev_request ev)" and "\<not> is_status_request (ev_request ev)"
  shows "\<exists>name uid acq rest. md_name (bgd_metadata bgd) = Some name \<and>
    md_uid (bgd_metadata bgd) = Some uid \<and> new = acq @ rest \<and> ev \<in> set rest \<and>
    accepted_acquisition env (w_log w) ns (lease_name (jl_sha256 (e_jwt env)) ''bgd'' name uid) (ctx_lease ctx) acq"
proof -
  let ?leased = "run_with_bgd_lease env bgd ns (ctx_lease ctx) (reconcile_under_lease env (ctx_auth ctx) bgd ns)"
  obtain r0 where rep: "reporting env bgd ns ?leased w = (r0, w')"
  proof -
    have "bindE (reporting env bgd ns ?leased) (\<lambda>result. case result of Some action \<Rightarrow> retE action | None \<Rightarrow> retE (Requeue 2)) w = (r, w')"
      using assms(1) live ns free by (simp add: reconcile_def try_acquire_local_reconcile_lock_def)
    then show ?thesis by (cases rule: bindE_cases) (auto simp: retE_def that split: option.splits)
  qed
  obtain r1 w1 n2 where leased: "?leased w = (r1, w1)" and n2: "w_log w' = w_log w1 @ n2" "\<forall>ev \<in> set n2. is_status_request (ev_request ev)"
    using reporting_logs [OF rep] by blast
  have "w1 \<noteq> w" using n2 assms(5,6,8) by auto
  then obtain name uid where id: "md_name (bgd_metadata bgd) = Some name" "md_uid (bgd_metadata bgd) = Some uid"
    and run: "run_with_lease env ns (lease_name (jl_sha256 (e_jwt env)) ''bgd'' name uid) (ctx_lease ctx)
      (reconcile_under_lease env (ctx_auth ctx) bgd ns) w = (r1, w1)"
    using leased by (auto simp: run_with_bgd_lease_def retE_def split: option.splits)
  have "makes_only work_request (reconcile_under_lease env (ctx_auth ctx) bgd ns)"
    unfolding reconcile_under_lease_def reread_bgd_def get_bgd_def
    by (intro only_intros work_reconcile_locked) simp_all
  from run_with_lease_logs [OF run this] obtain n1 where n1: "w_log w1 = w_log w @ n1"
    "(\<forall>ev \<in> set n1. is_lease_request (ev_request ev)) \<or> (\<exists>acq rest. n1 = acq @ rest \<and>
      accepted_acquisition env (w_log w) ns (lease_name (jl_sha256 (e_jwt env)) ''bgd'' name uid) (ctx_lease ctx) acq)" by blast
  have new: "new = n1 @ n2" using n1(1) n2(1) assms(5) by simp
  then have "ev \<in> set n1" using assms(6,8) n2(2) by auto
  then obtain acq rest where acq: "n1 = acq @ rest"
    "accepted_acquisition env (w_log w) ns (lease_name (jl_sha256 (e_jwt env)) ''bgd'' name uid) (ctx_lease ctx) acq"
    using n1(2) assms(7) by blast
  have "ev \<notin> set acq" using acq(2) assms(7) by (auto simp: accepted_acquisition_def is_lease_request_def)
  then have "new = acq @ (rest @ n2)" "ev \<in> set (rest @ n2)" using new acq(1) \<open>ev \<in> set n1\<close> by auto
  then show ?thesis using id acq(2) by blast
qed

definition teardown_request :: "string \<Rightarrow> string \<Rightarrow> request \<Rightarrow> bool" where
  "teardown_request ns name rq \<longleftrightarrow> rq = RqGetBgd ns name \<or> (\<exists>ns'. is_cleanup_request ns' rq) \<or>
     (\<exists>key. rq = RqStore (StoreCleanup key)) \<or> is_finalizer_patch rq"

lemma teardown_only: "makes_only (teardown_request ns name) (cleanup_deleted_bgd env b)"
proof -
  have "makes_only (teardown_request ns name) (cleanup_rollout env b ns' key)" for ns' key
    by (rule cleanup_rollout_only) (auto simp: teardown_request_def)
  then show ?thesis
    unfolding cleanup_deleted_bgd_def remove_finalizer_def Let_def
    by (intro only_intros) (simp_all add: teardown_request_def is_finalizer_patch_def)
qed

lemma teardown_no_lease: "teardown_request ns name rq \<Longrightarrow> \<not> is_lease_request rq" "is_status_request rq \<Longrightarrow> \<not> is_lease_request rq"
  by (auto simp: teardown_request_def is_cleanup_request_def is_finalizer_patch_def is_lease_request_def is_status_request_def split: request.splits)

lemma deleted_work:
  assumes "reconcile env ctx locks bgd w = (r, w')" and ns: "md_namespace (bgd_metadata bgd) = Some ns"
    and free: "local_lock_key bgd \<notin> locks" and dead: "md_deletion_timestamp (bgd_metadata bgd) \<noteq> None"
    and log: "w_log w' = w_log w @ new" and ev: "ev \<in> set new"
    and "\<not> is_lease_request (ev_request ev)" and other: "\<not> is_status_request (ev_request ev)"
  shows "\<exists>name. md_name (bgd_metadata bgd) = Some name \<and> (\<forall>e \<in> set new. \<not> is_lease_request (ev_request e)) \<and>
    teardown_request ns name (ev_request ev)"
proof -
  have run: "reconcile_deleted env bgd ns w = (r, w')"
    using assms(1) ns free dead by (simp add: reconcile_def try_acquire_local_reconcile_lock_def)
  then obtain name where name: "md_name (bgd_metadata bgd) = Some name"
    using log ev by (auto simp: reconcile_deleted_def retE_def split: option.splits)
  let ?m = "bindE (reread_bgd env ns name) (\<lambda>latest. case latest of None \<Rightarrow> retE AwaitChange
     | Some b \<Rightarrow> thenE (cleanup_deleted_bgd env b) (retE AwaitChange))"
  have "reporting env bgd ns ?m w = (r, w')" using run name by (simp add: reconcile_deleted_def)
  from reporting_logs [OF this] obtain r1 w1 n2 where m: "?m w = (r1, w1)"
    and n2: "w_log w' = w_log w1 @ n2" "\<forall>ev \<in> set n2. is_status_request (ev_request ev)" by blast
  have "makes_only (teardown_request ns name) ?m"
    unfolding reread_bgd_def get_bgd_def by (intro only_intros teardown_only) (simp_all add: teardown_request_def)
  then obtain n1 where n1: "w_log w1 = w_log w @ n1" "\<forall>ev \<in> set n1. teardown_request ns name (ev_request ev)"
    using makes_onlyD m by blast
  have new: "new = n1 @ n2" using n1(1) n2(1) log by simp
  then have "ev \<in> set n1" using ev other n2(2) by auto
  moreover have "\<forall>e \<in> set new. \<not> is_lease_request (ev_request e)"
    using new n1(2) n2(2) teardown_no_lease by auto
  ultimately show ?thesis using name n1(2) by blast
qed


definition leased_env :: "unit env" where
  "leased_env = idle_env\<lparr>e_get_bgd := \<lambda>_ _ _. Inr sample_bgd\<rparr>"

definition demo_ctx :: ReconcileCtx where
  "demo_ctx = \<lparr>ctx_auth = signing_auth, ctx_lease = demo_cfg ''a''\<rparr>"


end
