(* ===== verification/PhaseMachine.thy ===== *)
theory PhaseMachine
  imports ReconcileSafety
begin

text \<open>
  The phases of a rollout as a state machine: its edges, and that every status write of a reconciliation takes
  one of them or leaves the phase alone.
\<close>

section \<open>The edges\<close>

inductive phase_edge :: "BlueGreenDeployment \<Rightarrow> BGDPhase \<Rightarrow> BGDPhase \<Rightarrow> bool" for bgd where
  start: "phase_edge bgd PhPending PhObserving"
| bootstrap: "phase_edge bgd PhPending PhCompleted"
| promote: "phase_edge bgd PhObserving PhPromoting"
| roll_back: "phase_edge bgd PhObserving PhDraining"
| promoted: "phase_edge bgd PhPromoting PhDraining"
| completed: "phase_edge bgd PhDraining PhCompleted"
| rolled_back: "phase_edge bgd PhDraining PhRolledBack"
| replace: "should_start_force_replace_rollout bgd p \<Longrightarrow> phase_edge bgd p PhDraining"

lemmas phase_edge_intros [intro] = phase_edge.intros

inductive_cases phase_edgeE: "phase_edge bgd p q"

text \<open>The edges lead forward: no edge enters \<open>Pending\<close> or a phase of smaller rank, and none leaves a completed or rolled
  back rollout.\<close>

lemma phase_edge_forward:
  assumes "phase_edge bgd p q" and "p \<noteq> PhInvalid"
  shows "phase_rank p < phase_rank q"
  using assms
  by (cases rule: phase_edge.cases)
    (cases p; simp add: phase_rank_def should_start_force_replace_rollout_def active_rollout_has_new_spec_generation_def)+

section \<open>Status writes\<close>

text \<open>A phase written by replacement is in the object read just before, or is the end of an edge; a merge patch leaves the
  phase alone, except the reset of an ended rollout to its new generation.\<close>

definition allowed_status_write :: "'s env \<Rightarrow> BlueGreenDeployment \<Rightarrow> event list \<Rightarrow> request \<Rightarrow> bool" where
  "allowed_status_write env bgd h rq = (case rq of
     RqReplaceStatus ns n written \<Rightarrow> (\<exists>h0 latest. h = h0 @ [Ev (RqGetStatus ns n) True] \<and> e_get_status env h0 ns n = Inr latest \<and>
       (status_phase written = status_phase latest \<or> (\<exists>p. phase_edge bgd (current_phase bgd) p \<and> status_phase written = Some p)))
   | RqPatchStatus ns n patch \<Rightarrow> keeps_phase patch \<or>
       (\<exists>cs. patch = PatchReset (bgd_generation bgd) cs) \<and> rollout_needs_restart bgd (current_phase bgd)
   | _ \<Rightarrow> True)"

definition harmless :: "request \<Rightarrow> bool" where
  "harmless rq = (case rq of RqReplaceStatus _ _ _ \<Rightarrow> False | RqPatchStatus _ _ patch \<Rightarrow> keeps_phase patch | _ \<Rightarrow> True)"

lemma harmless_requests: "workload_request rq \<Longrightarrow> harmless rq" "is_cleanup_request ns rq \<Longrightarrow> harmless rq"
  by (auto simp: workload_request_def is_cleanup_request_def harmless_def split: request.splits)

lemma harmless_allowed: "harmless rq \<Longrightarrow> allowed_status_write env bgd h rq"
  by (auto simp: harmless_def allowed_status_write_def split: request.splits)

lemma harmless_simps [simp]:
  "harmless (RqStore c)" "harmless (RqPatchFinalizers ns n fs)" "harmless (RqDelete k ns n)" "harmless (RqGet k ns n)"
  "harmless (RqPatchStatus ns n patch) = keeps_phase patch" "harmless (RqLeaseGet ns n)" "harmless (RqLeaseReplace ns n l)"
  "harmless (RqLeaseCreate ns l)" "harmless (RqGetBgd ns n)"
  by (simp_all add: harmless_def)

lemma guarded_harmless: "makes_only harmless m \<Longrightarrow> guarded (allowed_status_write env bgd) m"
  by (erule guarded_makes_only) (rule harmless_allowed)

lemma guarded_workload: "makes_only workload_request m \<Longrightarrow> guarded (allowed_status_write env bgd) m"
  by (rule guarded_harmless) (erule only_mono, rule harmless_requests(1))

lemma guarded_cleanup: "makes_only (is_cleanup_request ns) m \<Longrightarrow> guarded (allowed_status_write env bgd) m"
  by (rule guarded_harmless) (erule only_mono, rule harmless_requests(2))

lemma guarded_patches:
  "guarded (allowed_status_write env bgd) (ensure_rollout_generation env b ns)"
  "guarded (allowed_status_write env bgd) (update_drain_started_at env b ns)"
  "guarded (allowed_status_write env bgd) (update_inception_point_drain_statuses env b ns drains)"
  "guarded (allowed_status_write env bgd) (update_status_generated_deployment_name env b ns n)"
  "guarded (allowed_status_write env bgd) (update_status_counts env b ns c rate msg)"
  "guarded (allowed_status_write env bgd) (update_status_progress env b ns step traffic)"
proof -
  have patch: "keeps_phase p \<Longrightarrow> makes_only harmless (patch_status env b ns p)" for p
    unfolding patch_status_def by (intro only_intros) simp_all
  note patches = guarded_harmless [OF patch]
  show "guarded (allowed_status_write env bgd) (ensure_rollout_generation env b ns)"
    unfolding ensure_rollout_generation_def by (simp add: patches guarded_intros)
  show "guarded (allowed_status_write env bgd) (update_drain_started_at env b ns)"
    unfolding update_drain_started_at_def by (intro guarded_intros patches) simp
  show "guarded (allowed_status_write env bgd) (update_inception_point_drain_statuses env b ns drains)"
    unfolding update_inception_point_drain_statuses_def by (rule patches) simp
  show "guarded (allowed_status_write env bgd) (update_status_generated_deployment_name env b ns n)"
    unfolding update_status_generated_deployment_name_def by (rule patches) simp
  show "guarded (allowed_status_write env bgd) (update_status_counts env b ns c rate msg)"
    unfolding update_status_counts_def by (rule patches) simp
  show "guarded (allowed_status_write env bgd) (update_status_progress env b ns step traffic)"
    unfolding update_status_progress_def by (rule patches) simp
qed

lemma guarded_reset:
  "rollout_needs_restart bgd (current_phase bgd) \<Longrightarrow> guarded (allowed_status_write env bgd) (reset_status_for_new_rollout env bgd ns)"
  unfolding reset_status_for_new_rollout_def patch_status_def Let_def
  by (intro guarded_makes_only [where P = "\<lambda>rq. \<exists>cs. rq = RqPatchStatus ns (the (md_name (bgd_metadata bgd))) (PatchReset (bgd_generation bgd) cs)"]
      only_intros)
    (auto simp: allowed_status_write_def bgd_generation_def)

lemma guarded_replace_gen:
  assumes "\<And>name h. Q h (RqGetStatus ns name)"
    and "\<And>name h latest now written. e_get_status env h ns name = Inr latest \<Longrightarrow> change latest now = Some written \<Longrightarrow>
      Q (h @ [Ev (RqGetStatus ns name) True]) (RqReplaceStatus ns name written)"
  shows "guarded Q (replace_status env b ns change)"
  unfolding guarded_def
proof
  fix w
  show "\<exists>new. w_log (snd (replace_status env b ns change w)) = w_log w @ new \<and> guarded_events Q (w_log w) new"
  proof (cases "md_name (bgd_metadata b)")
    case None
    then show ?thesis by (simp add: replace_status_def retE_def)
  next
    case (Some name)
    show ?thesis
    proof (cases "e_get_status env (w_log w) ns name")
      case (Inl e)
      then show ?thesis
        by (intro exI [of _ "[Ev (RqGetStatus ns name) False]"]) (simp add: replace_status_def Some op_simps assms(1))
    next
      case (Inr latest)
      let ?h = "w_log w @ [Ev (RqGetStatus ns name) True]"
      show ?thesis
      proof (cases "change latest (e_show_time env (e_now env ?h))")
        case None
        then show ?thesis
          by (intro exI [of _ "[Ev (RqGetStatus ns name) True]"]) (simp add: replace_status_def Some Inr op_simps assms(1))
      next
        case c: (Some written)
        have "Q ?h (RqReplaceStatus ns name written)" using assms(2) [OF Inr c] .
        moreover have "\<exists>ok. w_log (snd (replace_status env b ns change w)) = ?h @ [Ev (RqReplaceStatus ns name written) ok]"
          by (simp add: replace_status_def Some Inr c op_simps split: sum.splits)
        ultimately show ?thesis
          by (auto simp: guarded_events_append [of _ _ "[Ev (RqGetStatus ns name) True]" "[Ev (RqReplaceStatus ns name written) ok]" for ok, simplified]
              assms(1))
      qed
    qed
  qed
qed

lemma guarded_replace_status:
  assumes "\<And>latest now written. change latest now = Some written \<Longrightarrow> status_phase written = status_phase latest \<or>
    (\<exists>p. phase_edge bgd (current_phase bgd) p \<and> status_phase written = Some p)"
  shows "guarded (allowed_status_write env bgd) (replace_status env b ns change)"
  by (rule guarded_replace_gen) (use assms in \<open>auto simp: allowed_status_write_def\<close>)

lemma guarded_update_phase:
  "phase_edge bgd (current_phase bgd) p \<Longrightarrow> guarded (allowed_status_write env bgd) (update_status_phase env b ns p)"
  unfolding update_status_phase_def Let_def
  by (rule guarded_replace_status) (auto split: if_splits)

lemma status_phase_of_conditions:
  "status_phase (latest\<lparr>bgd_status := Some ((status_or_default latest)\<lparr>s_conditions := cs\<rparr>)\<rparr>) = status_phase latest"
  by (cases "bgd_status latest") (simp_all add: status_phase_def status_or_default_def default_status_def)

lemma guarded_deferred: "guarded (allowed_status_write env bgd) (update_status_update_deferred env b ns)"
  unfolding update_status_update_deferred_def Let_def
  by (rule guarded_replace_status) (auto simp: status_phase_of_conditions)

section \<open>The phases of a reconciliation\<close>

lemma workload_get_deployment [workload_intros]: "makes_only workload_request (get_deployment env ns n)"
  unfolding get_deployment_def by (intro only_intros) simp

lemmas guarded_work =
  guarded_workload [OF workload_start_draining] guarded_workload [OF workload_poll_drains] guarded_workload [OF workload_cleanup_plugin]
  guarded_workload [OF workload_traffic] guarded_workload [OF workload_bootstrap] guarded_workload [OF workload_resolve_green]
  guarded_workload [OF workload_validate_progressive] guarded_workload [OF workload_inception] guarded_workload [OF workload_promote]
  guarded_workload [OF workload_apply_resource] guarded_workload [OF workload_get_deployment]
  guarded_cleanup [OF cleanup_makes_only(2)] guarded_cleanup [OF cleanup_makes_only(3)]

lemma guarded_store_call: "guarded (allowed_status_write env bgd) (store_call e c f)"
  by (rule guarded_harmless) (simp add: only_store_call)

lemma guarded_delete: "guarded (allowed_status_write env bgd) (delete_object e k ns n)"
  by (rule guarded_harmless) (simp add: only_delete_object)

lemma guarded_rollback: "guarded (allowed_status_write env bgd) (begin_draining_after_rollback e b ns auth)"
  unfolding begin_draining_after_rollback_def delete_deployment_def
  by (intro guarded_intros guarded_work guarded_delete)

lemma guarded_snapshot:
  "guarded (allowed_status_write env bgd) (ensure_rollout_spec_snapshot e b ns)"
  "guarded (allowed_status_write env bgd) (load_rollout_spec_snapshot e b ns)"
proof -
  show "guarded (allowed_status_write env bgd) (ensure_rollout_spec_snapshot e b ns)"
    unfolding ensure_rollout_spec_snapshot_def by (intro guarded_intros guarded_work)
  have "makes_only harmless (load_rollout_spec_snapshot e b ns)"
    unfolding load_rollout_spec_snapshot_def Let_def by (intro only_intros) simp
  then show "guarded (allowed_status_write env bgd) (load_rollout_spec_snapshot e b ns)" by (rule guarded_harmless)
qed

lemma guarded_candidate_name: "guarded (allowed_status_write env bgd) (ensure_generated_candidate_name e b ns)"
proof -
  have "guarded (allowed_status_write env bgd) (first_free_name e b ns dns suffixes)" for dns suffixes
  proof (induction suffixes)
    case Nil
    then show ?case by (simp add: guarded_intros)
  next
    case (Cons suffix suffixes)
    have "guarded (allowed_status_write env bgd) (update_status_generated_deployment_name e b ns n)" for n
      unfolding update_status_generated_deployment_name_def patch_status_def
      by (intro guarded_harmless only_intros) simp
    then show ?case using Cons by (auto split: option.splits sum.splits intro!: guarded_intros guarded_work)
  qed
  then show ?thesis unfolding ensure_generated_candidate_name_def by (intro guarded_intros)
qed

lemma guarded_cleanup_rollout: "guarded (allowed_status_write env bgd) (cleanup_rollout e b ns key)"
  by (rule guarded_harmless, rule cleanup_rollout_only) (simp_all add: harmless_requests(2))

lemma guarded_draining:
  assumes "current_phase bgd = PhDraining"
  shows "guarded (allowed_status_write env bgd) (reconcile_draining env b ns auth key)"
proof -
  have phase: "guarded (allowed_status_write env bgd) (update_status_phase env b ns (if c then PhRolledBack else PhCompleted))" for c
    by (rule guarded_update_phase) (auto simp: assms)
  show ?thesis
    unfolding reconcile_draining_def collect_results_def finalize_draining_def Let_def
    by (intro guarded_intros guarded_work guarded_patches guarded_store_call phase)
qed

lemma guarded_observing:
  assumes "current_phase bgd = PhObserving"
  shows "guarded (allowed_status_write env bgd) (observing_phase env auth b ns key)"
proof -
  have "guarded (allowed_status_write env bgd) (act_on_decision env auth b ns action)" for action
    unfolding act_on_decision_def
    by (cases action) (auto simp: assms intro!: guarded_intros guarded_work guarded_patches guarded_rollback guarded_update_phase)
  then show ?thesis
    unfolding observing_phase_def by (intro guarded_intros guarded_store_call guarded_patches)
qed

lemma guarded_promoting:
  assumes "current_phase bgd = PhPromoting"
  shows "guarded (allowed_status_write env bgd) (promoting_phase env auth b ns)"
proof -
  have edge: "phase_edge bgd (current_phase bgd) PhDraining" by (simp add: assms phase_edge.promoted)
  show ?thesis
    unfolding promoting_phase_def begin_draining_after_promotion_def delete_current_green_def Let_def
    by (intro guarded_intros guarded_work guarded_patches guarded_delete guarded_update_phase edge)
qed

lemma guarded_pending:
  assumes "current_phase bgd = PhPending"
  shows "guarded (allowed_status_write env bgd) (pending_phase env auth b ns)"
proof -
  have edge: "phase_edge bgd (current_phase bgd) PhCompleted" "phase_edge bgd (current_phase bgd) PhObserving"
    by (auto simp: assms)
  have traffic: "guarded (allowed_status_write env bgd) (initialize_splitter_traffic env b ns auth)"
    unfolding initialize_splitter_traffic_def by (intro guarded_intros guarded_work guarded_patches)
  show ?thesis
    unfolding pending_phase_def
    by (intro guarded_intros guarded_work guarded_patches guarded_snapshot guarded_candidate_name traffic
        guarded_update_phase [OF edge(1)] guarded_update_phase [OF edge(2)])
qed

lemma guarded_run_phase: "guarded (allowed_status_write env bgd) (run_phase env auth b ns key (current_phase bgd))"
  unfolding run_phase_def
  by (cases "current_phase bgd")
    (simp_all add: guarded_pending guarded_observing guarded_promoting guarded_draining guarded_cleanup_rollout guarded_intros)

lemma guarded_reconcile_locked: "guarded (allowed_status_write env bgd) (reconcile_locked env auth bgd)"
proof -
  have deleted: "guarded (allowed_status_write env bgd) (cleanup_deleted_bgd env bgd)"
    unfolding cleanup_deleted_bgd_def remove_finalizer_def Let_def
    by (intro guarded_intros guarded_cleanup_rollout guarded_harmless only_intros) simp
  have finalizer: "guarded (allowed_status_write env bgd) (ensure_finalizer env bgd ns)" for ns
    unfolding ensure_finalizer_def by (intro guarded_harmless only_intros) simp
  have replace: "guarded (allowed_status_write env bgd) (start_force_replace_rollout env bgd ns auth)"
    if "should_start_force_replace_rollout bgd (current_phase bgd)" for ns
    unfolding start_force_replace_rollout_def Let_def
    by (intro guarded_intros guarded_snapshot guarded_rollback guarded_update_phase phase_edge.replace that guarded_patches)
  show ?thesis
    unfolding reconcile_locked_def Let_def
    by (intro guarded_intros deleted finalizer guarded_cleanup_rollout guarded_deferred guarded_snapshot guarded_run_phase replace guarded_reset)
qed

section \<open>Properties\<close>

section \<open>The whole reconciliation\<close>

text \<open>A status write that leaves the phase as it was read, or does not mention it.\<close>

definition keeps_phase_read :: "'s env \<Rightarrow> event list \<Rightarrow> request \<Rightarrow> bool" where
  "keeps_phase_read env h rq = (case rq of
     RqReplaceStatus ns n written \<Rightarrow> (\<exists>h0 latest. h = h0 @ [Ev (RqGetStatus ns n) True] \<and> e_get_status env h0 ns n = Inr latest \<and>
       status_phase written = status_phase latest)
   | RqPatchStatus ns n patch \<Rightarrow> keeps_phase patch
   | _ \<Rightarrow> True)"

text \<open>A status write that moves the rollout \<open>view\<close> along an edge, or resets it.\<close>

definition moves_phase :: "BlueGreenDeployment \<Rightarrow> request \<Rightarrow> bool" where
  "moves_phase view rq = (case rq of
     RqReplaceStatus ns n written \<Rightarrow> (\<exists>p. phase_edge view (current_phase view) p \<and> status_phase written = Some p)
   | RqPatchStatus ns n patch \<Rightarrow> (\<exists>cs. patch = PatchReset (bgd_generation view) cs) \<and> rollout_needs_restart view (current_phase view)
   | _ \<Rightarrow> False)"

lemma allowed_split: "allowed_status_write env view h rq \<Longrightarrow> keeps_phase_read env h rq \<or> moves_phase view rq"
  by (auto simp: allowed_status_write_def keeps_phase_read_def moves_phase_def split: request.splits)

lemma harmless_keeps: "harmless rq \<Longrightarrow> keeps_phase_read env h rq"
  by (auto simp: harmless_def keeps_phase_read_def split: request.splits)

lemma lease_harmless: "is_lease_request rq \<Longrightarrow> harmless rq" "is_lease_write rq \<Longrightarrow> harmless rq"
  by (auto simp: is_lease_request_def is_lease_write_def harmless_def split: request.splits)

text \<open>Under the lease the rollout is read again, and that is the rollout that is reconciled.\<close>

lemma under_lease_cases:
  assumes "reconcile_under_lease env auth bgd ns w = (r, w')"
  obtains (quiet) new where "w_log w' = w_log w @ new" "\<forall>ev \<in> set new. harmless (ev_request ev)"
    | (locked) name b w1 where "w_log w1 = w_log w @ [Ev (RqGetBgd ns name) True]" "e_get_bgd env (w_log w) ns name = Inr b"
      "reconcile_locked env auth b w1 = (r, w')"
proof (cases "md_name (bgd_metadata bgd)")
  case None
  then have "w' = w" using assms by (simp add: reconcile_under_lease_def retE_def)
  then have "w_log w' = w_log w @ []" by simp
  then show ?thesis by (rule quiet) simp
next
  case (Some name)
  show ?thesis
  proof (cases "e_get_bgd env (w_log w) ns name")
    case (Inl e)
    then have "w_log w' = w_log w @ [Ev (RqGetBgd ns name) False]"
      using assms Some by (auto simp: reconcile_under_lease_def reread_bgd_def get_bgd_def op_simps split: if_splits)
    then show ?thesis by (rule quiet) (simp add: harmless_def)
  next
    case (Inr b)
    then show ?thesis
      using assms Some locked [of "w\<lparr>w_log := w_log w @ [Ev (RqGetBgd ns name) True]\<rparr>" name b]
      by (auto simp: reconcile_under_lease_def reread_bgd_def get_bgd_def op_simps)
  qed
qed

text \<open>The report of a failure is one merge patch for an invalid specification, and otherwise keeps the phase.\<close>

lemma publish_cases:
  assumes "publish_reconcile_error_status env bgd ns e w = (r, w')"
  obtains (invalid) m n cs ok where "e = InvalidSpec m"
      "w_log w' = w_log w @ [Ev (RqPatchStatus ns n (PatchInvalid (current_rollout_generation bgd) cs)) ok]"
    | (kept) new where "w_log w' = w_log w @ new" "guarded_events (keeps_phase_read env) (w_log w) new"
proof (cases "is_terminal_for_generation e")
  case True
  then obtain m where "e = InvalidSpec m" by (auto simp: is_terminal_for_generation_def split: ReconcileError.splits)
  note m = this
  show ?thesis
  proof (cases "md_name (bgd_metadata bgd)")
    case None
    then have "w' = w"
      using assms True by (simp add: publish_reconcile_error_status_def update_status_invalid_def patch_status_def op_simps Let_def)
    then have "w_log w' = w_log w @ []" by simp
    then show ?thesis by (rule kept) simp
  next
    case (Some n)
    then have "\<exists>cs ok. w_log w' = w_log w @ [Ev (RqPatchStatus ns n (PatchInvalid (current_rollout_generation bgd) cs)) ok]"
      using assms True
      by (auto simp: publish_reconcile_error_status_def update_status_invalid_def patch_status_def op_simps Let_def split: sum.splits)
    then show ?thesis using invalid [OF m] by blast
  qed
next
  case False
  have "guarded (keeps_phase_read env) (update_status_reconcile_failure env bgd ns reason message :: ('a, ReconcileError, unit) op)" for reason message
    unfolding update_status_reconcile_failure_def Let_def
    by (rule guarded_replace_gen) (auto simp: keeps_phase_read_def status_phase_of_conditions)
  from guardedD [OF this] show ?thesis
    using assms False kept by (simp add: publish_reconcile_error_status_def) blast
qed

text \<open>The rollout \<open>view\<close> was read from the API server among the requests \<open>before\<close>.\<close>

definition reread_in :: "'s env \<Rightarrow> event list \<Rightarrow> event list \<Rightarrow> BlueGreenDeployment \<Rightarrow> bool" where
  "reread_in env h before view \<longleftrightarrow> (\<exists>pre ns n rest. before = pre @ Ev (RqGetBgd ns n) True # rest \<and> e_get_bgd env (h @ pre) ns n = Inr view)"

definition phase_step_ok :: "'s env \<Rightarrow> event list \<Rightarrow> event list \<Rightarrow> request \<Rightarrow> bool" where
  "phase_step_ok env h before rq \<longleftrightarrow> keeps_phase_read env (h @ before) rq \<or> (\<exists>view. reread_in env h before view \<and> moves_phase view rq)"

definition phase_steps_ok :: "'s env \<Rightarrow> event list \<Rightarrow> event list \<Rightarrow> bool" where
  "phase_steps_ok env h new \<longleftrightarrow> (\<forall>xs ev ys. new = xs @ ev # ys \<longrightarrow> phase_step_ok env h xs (ev_request ev))"

lemma steps_harmless: "\<forall>ev \<in> set new. harmless (ev_request ev) \<Longrightarrow> phase_steps_ok env h new"
  by (auto simp: phase_steps_ok_def phase_step_ok_def harmless_keeps)

lemma steps_append:
  assumes "phase_steps_ok env h new" and "\<And>xs ev ys. new' = xs @ ev # ys \<Longrightarrow> phase_step_ok env h (new @ xs) (ev_request ev)"
  shows "phase_steps_ok env h (new @ new')"
  unfolding phase_steps_ok_def
proof (intro allI impI)
  fix xs ev ys
  assume "new @ new' = xs @ ev # ys"
  then consider (old) zs where "new = xs @ ev # zs" | (new) zs where "xs = new @ zs" "new' = zs @ ev # ys"
    by (auto simp: append_eq_append_conv2 append_eq_Cons_conv)
  then show "phase_step_ok env h xs (ev_request ev)"
    by cases (use assms in \<open>auto simp: phase_steps_ok_def\<close>)
qed

lemma under_lease_steps:
  assumes "reconcile_under_lease env auth bgd ns w = (r, w')" and "w_log w = h @ pre" and "phase_steps_ok env h pre"
  shows "\<exists>new. w_log w' = h @ new \<and> phase_steps_ok env h new"
  using assms(1)
proof (cases rule: under_lease_cases)
  case (quiet new)
  have "phase_step_ok env h (pre @ xs) (ev_request ev)" if "new = xs @ ev # ys" for xs ev ys
    using quiet(2) that by (simp add: phase_step_ok_def harmless_keeps)
  then have "phase_steps_ok env h (pre @ new)" using assms(3) steps_append by blast
  then show ?thesis using quiet(1) assms(2) by auto
next
  case (locked name b w1)
  let ?get = "Ev (RqGetBgd ns name) True"
  obtain new where new: "w_log w' = w_log w1 @ new" "guarded_events (allowed_status_write env b) (w_log w1) new"
    using guardedD [OF guarded_reconcile_locked locked(3)] by blast
  have view: "reread_in env h (pre @ ?get # xs) b" for xs using locked(2) assms(2) by (auto simp: reread_in_def)
  have "phase_step_ok env h (pre @ xs) (ev_request ev)" if split: "?get # new = xs @ ev # ys" for xs ev ys
  proof (cases xs)
    case Nil
    then show ?thesis using split by (auto simp: phase_step_ok_def keeps_phase_read_def)
  next
    case (Cons x zs)
    then have "x = ?get" "new = zs @ ev # ys" using split by auto
    then have "allowed_status_write env b (h @ pre @ ?get # zs) (ev_request ev)"
      using guarded_eventsD [OF new(2)] locked(1) assms(2) by simp
    then show ?thesis using allowed_split view Cons \<open>x = ?get\<close> by (fastforce simp: phase_step_ok_def)
  qed
  then have "phase_steps_ok env h (pre @ ?get # new)" using assms(3) steps_append by blast
  then show ?thesis using new(1) locked(1) assms(2) by auto
qed

lemma leased_steps:
  assumes "run_with_bgd_lease env bgd ns config (reconcile_under_lease env auth bgd ns) w = (r, w')"
  shows "\<exists>new. w_log w' = w_log w @ new \<and> phase_steps_ok env (w_log w) new"
proof (cases "md_uid (bgd_metadata bgd) \<noteq> None \<and> md_name (bgd_metadata bgd) \<noteq> None")
  case False
  then have "w_log w' = w_log w @ []" using assms by (auto simp: run_with_bgd_lease_def retE_def split: option.splits)
  then show ?thesis using steps_harmless [of "[]"] by fastforce
next
  case True
  then obtain name where run: "run_with_lease env ns name config (reconcile_under_lease env auth bgd ns) w = (r, w')"
    using assms by (auto simp: run_with_bgd_lease_def)
  from run_with_lease_split [OF run] consider
    (work) got rq w1 r1 where "w_log w1 = w_log w @ [Ev (RqLeaseGet ns name) got, Ev rq True]"
      "reconcile_under_lease env auth bgd ns w1 = (r1, w')" "harmless rq"
    | (refused) got new where "w_log w' = w_log w @ Ev (RqLeaseGet ns name) got # new" "\<forall>ev \<in> set new. harmless (ev_request ev)"
    by (elim disjE exE conjE) (auto simp: lease_harmless)
  then show ?thesis
  proof cases
    case work
    have "phase_steps_ok env (w_log w) [Ev (RqLeaseGet ns name) got, Ev rq True]"
      by (rule steps_harmless) (use work(3) in \<open>auto simp: harmless_def\<close>)
    from under_lease_steps [OF work(2,1) this] show ?thesis .
  next
    case refused
    have "phase_steps_ok env (w_log w) (Ev (RqLeaseGet ns name) got # new)"
      by (rule steps_harmless) (use refused(2) in \<open>auto simp: harmless_def\<close>)
    then show ?thesis using refused(1) by blast
  qed
qed

lemma deleted_only: "makes_only harmless (cleanup_deleted_bgd env b)"
proof -
  have "makes_only harmless (cleanup_rollout env b ns key)" for ns key
    by (rule cleanup_rollout_only) (simp_all add: harmless_requests(2))
  then show ?thesis
    unfolding cleanup_deleted_bgd_def remove_finalizer_def Let_def by (intro only_intros) simp_all
qed

lemma reporting_steps:
  assumes run: "reporting env bgd ns m w = (r, w')"
    and m: "\<And>r1 w1. m w = (r1, w1) \<Longrightarrow> \<exists>new. w_log w1 = w_log w @ new \<and> phase_steps_ok env (w_log w) new"
    and log: "w_log w' = w_log w @ before @ ev # after"
  shows "phase_step_ok env (w_log w) before (ev_request ev) \<or>
    (\<exists>ns n cs e. ev_request ev = RqPatchStatus ns n (PatchInvalid (current_rollout_generation bgd) cs) \<and> after = [] \<and> r = Inl (InvalidSpec e))"
proof -
  obtain r1 w1 where r1: "m w = (r1, w1)" by fastforce
  then obtain n1 where n1: "w_log w1 = w_log w @ n1" "phase_steps_ok env (w_log w) n1" using m by blast
  show ?thesis
  proof (cases r1)
    case (Inr a)
    then have "w' = w1" using run r1 by (simp add: reporting_def op_simps)
    then show ?thesis using n1 log by (auto simp: phase_steps_ok_def)
  next
    case (Inl e)
    obtain r2 w2 where pub: "publish_reconcile_error_status env bgd ns e w1 = (r2, w2)" by fastforce
    have total: "r2 = Inr ()"
      using pub by (auto simp: publish_reconcile_error_status_def update_status_invalid_def update_status_reconcile_failure_def Let_def
          bindE_def now_op_def replace_status_total patch_status_total dest: arg_cong [where f = fst] split: if_splits)
    have res: "w' = w2" "r = Inl e" using run r1 Inl pub total by (simp_all add: reporting_def op_simps)
    from pub show ?thesis
    proof (cases rule: publish_cases)
      case (invalid msg n cs ok)
      then have "n1 @ [Ev (RqPatchStatus ns n (PatchInvalid (current_rollout_generation bgd) cs)) ok] = before @ ev # after"
        using log res(1) n1(1) by simp
      then consider zs where "n1 = before @ ev # zs"
        | "ev = Ev (RqPatchStatus ns n (PatchInvalid (current_rollout_generation bgd) cs)) ok" "after = []"
        by (fastforce simp: append_eq_append_conv2 append_eq_Cons_conv Cons_eq_append_conv)
      then show ?thesis using n1(2) res(2) invalid(1) by cases (auto simp: phase_steps_ok_def)
    next
      case (kept n2)
      have "phase_step_ok env (w_log w) (n1 @ xs) (ev_request ev)" if "n2 = xs @ ev # ys" for xs ev ys
        using guarded_eventsD [OF kept(2) that] n1(1) by (simp add: phase_step_ok_def)
      then have "phase_steps_ok env (w_log w) (n1 @ n2)" using n1(2) steps_append by blast
      moreover have "n1 @ n2 = before @ ev # after" using log res(1) n1(1) kept(1) by simp
      ultimately show ?thesis by (auto simp: phase_steps_ok_def)
    qed
  qed
qed

lemma reread_deleted_steps:
  assumes "bindE (reread_bgd env ns name) (\<lambda>latest. case latest of None \<Rightarrow> retE AwaitChange
     | Some b \<Rightarrow> thenE (cleanup_deleted_bgd env b) (retE AwaitChange)) w = (r, w')"
  shows "\<exists>new. w_log w' = w_log w @ new \<and> phase_steps_ok env (w_log w) new"
proof -
  have "makes_only harmless (bindE (reread_bgd env ns name) (\<lambda>latest. case latest of None \<Rightarrow> retE AwaitChange
     | Some b \<Rightarrow> thenE (cleanup_deleted_bgd env b) (retE AwaitChange)))"
    unfolding reread_bgd_def get_bgd_def by (intro only_intros deleted_only) (simp_all add: harmless_def)
  from makes_onlyD [OF this assms] show ?thesis using steps_harmless by blast
qed

text \<open>C1: a whole reconciliation follows the state machine of the phases. Whatever the servers and plugins answer, each
  status write it makes, error reports included, either keeps the phase of the object read just before; or, for the
  rollout that it has read again before, writes the end of an edge that leaves that rollout's phase, or resets it to
  its generation when it had ended in an older one; or it marks the specification as invalid, and then it is the last
  request of a reconciliation that fails with that error.\<close>

theorem reconcile_follows_the_phases:
  assumes "reconcile env ctx locks bgd w = (r, w')" and "w_log w' = w_log w @ before @ ev # after"
  shows "keeps_phase_read env (w_log w @ before) (ev_request ev) \<or>
    (\<exists>view. reread_in env (w_log w) before view \<and>
      ((\<exists>ns n written p. ev_request ev = RqReplaceStatus ns n written \<and> phase_edge view (current_phase view) p \<and>
          status_phase written = Some p) \<or>
       (\<exists>ns n cs. ev_request ev = RqPatchStatus ns n (PatchReset (bgd_generation view) cs) \<and>
          current_phase view \<in> {PhCompleted, PhRolledBack, PhInvalid} \<and> status_generation view < bgd_generation view))) \<or>
    (\<exists>ns n cs e. ev_request ev = RqPatchStatus ns n (PatchInvalid (current_rollout_generation bgd) cs) \<and> after = [] \<and>
       r = Inl (InvalidSpec e))"
proof -
  have moves: ?thesis if "phase_step_ok env (w_log w) before (ev_request ev)"
    using that unfolding phase_step_ok_def
    by (fastforce simp: moves_phase_def rollout_needs_restart_def status_generation_def split: request.splits if_splits)
  obtain ns where ns: "md_namespace (bgd_metadata bgd) = Some ns"
    using assms by (auto simp: reconcile_def retE_def split: option.splits)
  have free: "local_lock_key bgd \<notin> locks"
    using assms ns by (auto simp: reconcile_def try_acquire_local_reconcile_lock_def retE_def split: if_splits)
  show ?thesis
  proof (cases "md_deletion_timestamp (bgd_metadata bgd) = None")
    case False
    then have run: "reconcile_deleted env bgd ns w = (r, w')"
      using assms(1) ns free by (simp add: reconcile_def try_acquire_local_reconcile_lock_def)
    then obtain name where "md_name (bgd_metadata bgd) = Some name" using assms(2) by (auto simp: reconcile_deleted_def retE_def split: option.splits)
    then have rep: "reporting env bgd ns (bindE (reread_bgd env ns name) (\<lambda>latest. case latest of None \<Rightarrow> retE AwaitChange
        | Some b \<Rightarrow> thenE (cleanup_deleted_bgd env b) (retE AwaitChange))) w = (r, w')"
      using run by (simp add: reconcile_deleted_def)
    have "phase_step_ok env (w_log w) before (ev_request ev) \<or>
        (\<exists>ns n cs e. ev_request ev = RqPatchStatus ns n (PatchInvalid (current_rollout_generation bgd) cs) \<and> after = [] \<and> r = Inl (InvalidSpec e))"
      by (rule reporting_steps [OF rep _ assms(2)]) (rule reread_deleted_steps)
    then show ?thesis using moves by metis
  next
    case True
    let ?leased = "run_with_bgd_lease env bgd ns (ctx_lease ctx) (reconcile_under_lease env (ctx_auth ctx) bgd ns)"
    have "bindE (reporting env bgd ns ?leased) (\<lambda>result. case result of Some action \<Rightarrow> retE action | None \<Rightarrow> retE (Requeue 2)) w = (r, w')"
      using assms(1) ns free True by (simp add: reconcile_def try_acquire_local_reconcile_lock_def)
    then obtain r0 where rep: "reporting env bgd ns ?leased w = (r0, w')" and r: "\<And>e. r0 = Inl e \<Longrightarrow> r = Inl e"
      by (cases rule: bindE_cases) (auto simp: retE_def split: option.splits)
    have "phase_step_ok env (w_log w) before (ev_request ev) \<or>
        (\<exists>ns n cs e. ev_request ev = RqPatchStatus ns n (PatchInvalid (current_rollout_generation bgd) cs) \<and> after = [] \<and> r0 = Inl (InvalidSpec e))"
      by (rule reporting_steps [OF rep _ assms(2)]) (rule leased_steps)
    then show ?thesis using moves r by metis
  qed
qed

text \<open>A draining rollout is completed: the status written is that of an edge from its phase.\<close>

lemma reconcile_follows_the_phases_witness:
  "\<exists>before obj. w_log (snd (reconcile draining_env demo_ctx {} draining_bgd (start_world ())))
      = before @ [Ev (RqReplaceStatus ''shop'' ''orders'' obj) True] \<and>
     (keeps_phase_read draining_env before (RqReplaceStatus ''shop'' ''orders'' obj) \<or>
      (\<exists>view p. reread_in draining_env [] before view \<and> phase_edge view (current_phase view) p \<and> status_phase obj = Some p))"
proof -
  let ?run = "reconcile draining_env demo_ctx {} draining_bgd (start_world ())"
  have bgd: "md_namespace (bgd_metadata draining_bgd) = Some ''shop''" "md_name (bgd_metadata draining_bgd) = Some ''orders''"
      "md_uid (bgd_metadata draining_bgd) = Some ''uid-1''"
      "md_deletion_timestamp (bgd_metadata draining_bgd) = None" "md_generation (bgd_metadata draining_bgd) = Some 1"
      "has_finalizer draining_bgd BGD_FINALIZER" "current_phase draining_bgd = PhDraining"
      "Option.bind (bgd_status draining_bgd) s_rollout_generation = Some 1"
    by (simp_all add: draining_bgd_def sample_bgd_def default_meta_def has_finalizer_def BGD_FINALIZER_def current_phase_def)
  have env: "e_write draining_env = (\<lambda>_ _. Inr ())" "e_get_lease draining_env = (\<lambda>_ _ _. Inl (ApiError 404 []))"
      "e_get_bgd draining_env = (\<lambda>_ _ _. Inr draining_bgd)" "e_now draining_env = (\<lambda>_. 0)"
    by (simp_all add: draining_env_def idle_env_def quiet_env_def)
  let ?lease = "lease_name (jl_sha256 (e_jwt draining_env)) ''bgd'' ''orders'' ''uid-1''"
  define w1 where "w1 = (start_world () :: unit world)\<lparr>w_log := [Ev (RqLeaseGet ''shop'' ?lease) False,
      Ev (RqLeaseCreate ''shop'' (created_lease ?lease (demo_cfg ''a'') 0)) True, Ev (RqGetBgd ''shop'' ''orders'') True]\<rparr>"
  obtain w2 where drained: "reconcile_draining draining_env draining_bgd ''shop'' signing_auth ''shop/orders'' w1 = (Inr (), w2)"
    using draining_run [of w1] by (metis prod.collapse)
  have "reconcile_locked draining_env signing_auth draining_bgd w1 = (Inr (Requeue 5), w2)"
    by (simp add: reconcile_locked_def bgd rollout_needs_restart_def active_rollout_has_new_spec_generation_def bgd_generation_def
        run_phase_def blue_green_state_key_def bgd_name_or_def thenE_def bindE_def retE_def drained [unfolded blue_green_state_key_def])
  then have "snd ?run = w2"
    by (simp add: reconcile_def try_acquire_local_reconcile_lock_def reporting_def run_with_bgd_lease_def run_with_lease_def
        try_acquire_lease_def conflict_means_not_acquired_def is_not_found_def reconcile_under_lease_def reread_bgd_def get_bgd_def
        op_simps env bgd demo_ctx_def w1_def)
  then obtain before obj where log: "w_log (snd ?run) = before @ [Ev (RqReplaceStatus ''shop'' ''orders'' obj) True]"
    using draining_run [of w1] drained by auto
  have run: "?run = (fst ?run, snd ?run)" by simp
  have "w_log (snd ?run) = w_log (start_world ()) @ before @ Ev (RqReplaceStatus ''shop'' ''orders'' obj) True # []" using log by simp
  from reconcile_follows_the_phases [OF run this] log show ?thesis by auto
qed

section \<open>Promotion\<close>

definition not_promoting :: "request \<Rightarrow> bool" where
  "not_promoting rq = (case rq of RqReplaceStatus _ _ written \<Rightarrow> status_phase written \<noteq> Some PhPromoting | _ \<Rightarrow> True)"

definition promotes_in :: "event list \<Rightarrow> bool" where
  "promotes_in new \<longleftrightarrow> (\<exists>ev \<in> set new. \<not> not_promoting (ev_request ev))"

lemma promotes_in_simps [simp]: "\<not> promotes_in []" "promotes_in (xs @ ys) \<longleftrightarrow> promotes_in xs \<or> promotes_in ys"
  "promotes_in (ev # xs) \<longleftrightarrow> \<not> not_promoting (ev_request ev) \<or> promotes_in xs"
  by (auto simp: promotes_in_def)

lemma not_promoting_simps [simp]: "not_promoting (RqStore c)" "not_promoting (RqDelete k ns n)" "not_promoting (RqPatchStatus ns n patch)"
  "not_promoting (RqGetStatus ns n)"
  by (simp_all add: not_promoting_def)

lemma workload_not_promoting: "workload_request rq \<Longrightarrow> not_promoting rq"
  by (auto simp: workload_request_def not_promoting_def split: request.splits)

lemma update_phase_not_promoting: "p \<noteq> PhPromoting \<Longrightarrow> makes_only not_promoting (update_status_phase env b ns p)"
proof -
  assume p: "p \<noteq> PhPromoting"
  have "makes_only not_promoting (replace_status env b ns (\<lambda>latest now. if c latest then Some (with_phase latest p g now) else None))" for c g
    unfolding replace_status_def
    by (auto intro!: only_intros simp: not_promoting_def p split: sum.splits if_splits)
  then show ?thesis unfolding update_status_phase_def Let_def .
qed

lemma patch_not_promoting: "makes_only not_promoting (patch_status env b ns patch)"
  unfolding patch_status_def by (intro only_intros) simp

lemma act_promotes:
  assumes "action \<noteq> Promote"
  shows "makes_only not_promoting (act_on_decision env auth bgd ns action)"
  unfolding act_on_decision_def begin_draining_after_rollback_def delete_deployment_def update_drain_started_at_def update_status_progress_def
  using assms
  by (cases action)
    (auto intro!: only_intros only_mono [OF workload_start_draining workload_not_promoting] only_mono [OF workload_traffic workload_not_promoting]
      only_delete_object update_phase_not_promoting patch_not_promoting)

lemma store_call_cases:
  assumes "bindE (store_call env c f) g w = (r, w')"
  obtains (failed) "w_log w' = w_log w @ [Ev (RqStore c) False]"
    | (ok) a s1 where "f (w_store w) = (Inr a, s1)" "g a (w\<lparr>w_log := w_log w @ [Ev (RqStore c) True], w_store := s1\<rparr>) = (r, w')"
proof (cases "f (w_store w)")
  case (Pair x s1)
  show ?thesis
  proof (cases x)
    case (Inl e)
    then show ?thesis using assms Pair failed by (auto simp: store_call_def op_simps)
  next
    case (Inr a)
    then show ?thesis using assms Pair ok by (auto simp: store_call_def op_simps)
  qed
qed

text \<open>C3: a rollout is promoted only on the evidence of its test cases. When an observing reconciliation writes the
  promoting phase, the test configuration is valid, and the counts it has just read from the store, data and custom
  cases one after the other, make the decision to promote.\<close>

theorem promotion_is_decided:
  assumes "observing_phase env auth bgd ns key w = (r, w')" and "w_log w' = w_log w @ new" and "promotes_in new"
  shows "validate_test_configuration bgd = Inr () \<and>
    (\<exists>counts s1 data s2 custom s3. op_counts (e_store env) key (w_store w) = (Inr counts, s1) \<and>
       op_counts_for_mode (e_store env) key Data s1 = (Inr data, s2) \<and>
       op_counts_for_mode (e_store env) key Custom s2 = (Inr custom, s3) \<and>
       decide_promotion_action bgd data custom (Option.bind (bgd_status bgd) s_current_step) = Inr Promote)"
proof -
  have last: False if "w_log w' = w_log w @ n" "\<not> promotes_in n" for n using that assms(2,3) by simp
  have valid: "validate_test_configuration bgd = Inr ()"
    using assms(1) last [of "[]"] by (cases "validate_test_configuration bgd") (auto simp: observing_phase_def thenE_def bindE_def liftE_def)
  let ?rq1 = "Ev (RqStore (StoreCounts key)) True" and ?rq2 = "Ev (RqStore (StoreCountsForMode key Data)) True"
  let ?rq3 = "Ev (RqStore (StoreCountsForMode key Custom)) True" and ?rq4 = "Ev (RqStore (StoreLatestFailure key)) True"
  let ?tail = "\<lambda>counts data custom latest_failure. thenE (update_status_counts env bgd ns counts (success_rate counts) latest_failure)
      (bindE (liftE (decide_promotion_action bgd data custom (Option.bind (bgd_status bgd) s_current_step))) (\<lambda>action.
        thenE (act_on_decision env auth bgd ns action) (retE (Requeue 5))))"
  have run: "bindE (store_call env (StoreCounts key) (op_counts (e_store env) key)) (\<lambda>counts.
     bindE (store_call env (StoreCountsForMode key Data) (op_counts_for_mode (e_store env) key Data)) (\<lambda>data.
     bindE (store_call env (StoreCountsForMode key Custom) (op_counts_for_mode (e_store env) key Custom)) (\<lambda>custom.
     bindE (store_call env (StoreLatestFailure key) (op_latest_failure_message (e_store env) key)) (?tail counts data custom)))) w = (r, w')"
    using assms(1) valid by (simp add: observing_phase_def thenE_def [where m = "liftE r" for r] bindE_def [where m = "liftE r" for r] liftE_def)
  obtain counts s1 w1 where c: "op_counts (e_store env) key (w_store w) = (Inr counts, s1)" "w_log w1 = w_log w @ [?rq1]" "w_store w1 = s1"
    and run1: "bindE (store_call env (StoreCountsForMode key Data) (op_counts_for_mode (e_store env) key Data)) (\<lambda>data.
     bindE (store_call env (StoreCountsForMode key Custom) (op_counts_for_mode (e_store env) key Custom)) (\<lambda>custom.
     bindE (store_call env (StoreLatestFailure key) (op_latest_failure_message (e_store env) key)) (?tail counts data custom))) w1 = (r, w')"
    using run by (cases rule: store_call_cases) (use last in fastforce)+
  obtain data s2 w2 where d: "op_counts_for_mode (e_store env) key Data s1 = (Inr data, s2)" "w_log w2 = w_log w @ [?rq1, ?rq2]" "w_store w2 = s2"
    and run2: "bindE (store_call env (StoreCountsForMode key Custom) (op_counts_for_mode (e_store env) key Custom)) (\<lambda>custom.
     bindE (store_call env (StoreLatestFailure key) (op_latest_failure_message (e_store env) key)) (?tail counts data custom)) w2 = (r, w')"
    using run1 by (cases rule: store_call_cases) (use last c in fastforce)+
  obtain custom s3 w3 where u: "op_counts_for_mode (e_store env) key Custom s2 = (Inr custom, s3)" "w_log w3 = w_log w @ [?rq1, ?rq2, ?rq3]"
    and run3: "bindE (store_call env (StoreLatestFailure key) (op_latest_failure_message (e_store env) key)) (?tail counts data custom) w3 = (r, w')"
    using run2 by (cases rule: store_call_cases) (use last d in fastforce)+
  obtain latest_failure w4 where l: "w_log w4 = w_log w @ [?rq1, ?rq2, ?rq3, ?rq4]" and run4: "?tail counts data custom latest_failure w4 = (r, w')"
    using run3 by (cases rule: store_call_cases) (use last u in fastforce)+
  have "decide_promotion_action bgd data custom (Option.bind (bgd_status bgd) s_current_step) = Inr Promote"
  proof (rule ccontr)
    assume no: "\<not> ?thesis"
    have "makes_only not_promoting (?tail counts data custom latest_failure)"
    proof (cases "decide_promotion_action bgd data custom (Option.bind (bgd_status bgd) s_current_step)")
      case (Inl e)
      have "bindE (liftE (Inl e :: ReconcileError + PromotionAction)) f = failE e" for f :: "PromotionAction \<Rightarrow> ('a, ReconcileError, Action) op"
        by (rule ext) (simp add: bindE_def liftE_def failE_def)
      then show ?thesis unfolding Inl update_status_counts_def by (simp add: only_then patch_not_promoting only_fail)
    next
      case (Inr action)
      have "bindE (liftE (Inr action :: ReconcileError + PromotionAction)) f = f action" for f :: "PromotionAction \<Rightarrow> ('a, ReconcileError, Action) op"
        by (rule ext) (simp add: bindE_def liftE_def)
      moreover have "makes_only not_promoting (act_on_decision env auth bgd ns action)"
        by (rule act_promotes) (use no Inr in simp)
      ultimately show ?thesis unfolding Inr update_status_counts_def by (simp add: only_then patch_not_promoting only_ret)
    qed
    then obtain n where "w_log w' = w_log w4 @ n" "\<forall>ev \<in> set n. not_promoting (ev_request ev)" using makes_onlyD run4 by blast
    then show False using last [of "[?rq1, ?rq2, ?rq3, ?rq4] @ n"] l by (auto simp: promotes_in_def)
  qed
  then show ?thesis using valid c(1) d(1) u(1) by blast
qed

definition counting_store :: "unit StateStore" where
  "counting_store = idle_store\<lparr>op_counts_for_mode := \<lambda>_ m s. (Inr (if m = Custom then sample_counts 2 0 0 else default_counts), s)\<rparr>"

definition promoting_env :: "unit env" where
  "promoting_env = idle_env\<lparr>e_get_status := (\<lambda>_ _ _. Inr custom_bgd), e_store := counting_store\<rparr>"

lemma promotion_is_decided_witness:
  "\<exists>data custom. op_counts_for_mode counting_store ''shop/orders'' Data () = (Inr data, ()) \<and>
     op_counts_for_mode counting_store ''shop/orders'' Custom () = (Inr custom, ()) \<and>
     decide_promotion_action custom_bgd data custom None = Inr Promote"
proof -
  let ?run = "observing_phase promoting_env signing_auth custom_bgd ''shop'' ''shop/orders'' (start_world ())"
  have env: "e_write promoting_env = (\<lambda>_ _. Inr ())" "e_get_status promoting_env = (\<lambda>_ _ _. Inr custom_bgd)"
      "e_store promoting_env = counting_store" "e_now promoting_env = (\<lambda>_. 0)"
    by (simp_all add: promoting_env_def idle_env_def quiet_env_def)
  have bgd: "validate_test_configuration custom_bgd = Inr ()" "bgd_status custom_bgd = None" "md_name (bgd_metadata custom_bgd) = Some ''orders''"
      "decide_promotion_action custom_bgd default_counts (sample_counts 2 0 0) None = Inr Promote"
      "\<And>g. phase_update_is_current custom_bgd PhPromoting g \<longleftrightarrow> 0 \<le> g" "current_rollout_generation custom_bgd = 1"
    by (simp_all add: validate_test_configuration_def custom_bgd_def default_spec_def sample_bgd_def default_meta_def
        decide_promotion_action_def combine_actions_def decide_custom_promotion_def sample_counts_simps default_counts_def
        phase_update_is_current_def phase_transition_is_current_def status_phase_def status_generation_def current_rollout_generation_def)
      auto?
  have "promotes_in (w_log (snd ?run))"
    by (simp add: observing_phase_def store_call_def counting_store_def idle_store_def update_status_counts_def patch_status_def
        act_on_decision_def update_status_phase_def replace_status_def op_simps env bgd not_promoting_def)
  moreover have "?run = (fst ?run, snd ?run)" by simp
  moreover have "w_log (snd ?run) = w_log (start_world ()) @ w_log (snd ?run)" by simp
  ultimately have "\<exists>counts s1 data s2 custom s3. op_counts (e_store promoting_env) ''shop/orders'' (w_store (start_world ())) = (Inr counts, s1) \<and>
       op_counts_for_mode (e_store promoting_env) ''shop/orders'' Data s1 = (Inr data, s2) \<and>
       op_counts_for_mode (e_store promoting_env) ''shop/orders'' Custom s2 = (Inr custom, s3) \<and>
       decide_promotion_action custom_bgd data custom (Option.bind (bgd_status custom_bgd) s_current_step) = Inr Promote"
    using promotion_is_decided [of promoting_env signing_auth custom_bgd "''shop''" "''shop/orders''" "start_world ()"] by blast
  then show ?thesis by (simp add: env bgd)
qed

end
