(* ===== verification/OrphanSafety.thy ===== *)
theory OrphanSafety
  imports ReconcileSafety
begin

text \<open>The cleanup of orphans deletes only what belongs to rollouts that no longer exist.\<close>

section \<open>What the cleanup of an orphan requests\<close>

text \<open>Reads and leases are free; an object is deleted only after it was listed under the label of a missing rollout; test
  cases are removed only under a missing key. Nothing else is requested.\<close>

definition orphan_request :: "'s env \<Rightarrow> string list \<Rightarrow> request \<Rightarrow> bool" where
  "orphan_request env existing rq = (case rq of
     RqList _ _ _ \<Rightarrow> True | RqNamespaces \<Rightarrow> True | RqListBgds \<Rightarrow> True
   | RqLeaseGet _ _ \<Rightarrow> True | RqLeaseReplace _ _ _ \<Rightarrow> True | RqLeaseCreate _ _ \<Rightarrow> True
   | RqStore c \<Rightarrow> (case c of StoreCleanup key \<Rightarrow> key \<notin> set existing | StoreListRefs \<Rightarrow> True | _ \<Rightarrow> False)
   | RqDelete k ns name \<Rightarrow> (\<exists>bg h items. blue_green_state_key ns bg \<notin> set existing \<and>
       e_list_meta env h k ns (blue_green_ref_selector bg) = Inr items \<and> name \<in> (\<lambda>m. unwrap_or (md_name m) []) ` set items)
   | _ \<Rightarrow> False)"

lemma orphan_request_simps [simp]:
  "orphan_request env existing (RqList k ns sel)" "orphan_request env existing RqNamespaces" "orphan_request env existing RqListBgds"
  "orphan_request env existing (RqStore (StoreCleanup key)) \<longleftrightarrow> key \<notin> set existing" "orphan_request env existing (RqStore StoreListRefs)"
  by (simp_all add: orphan_request_def)

lemma lease_orphan_request: "is_lease_request rq \<Longrightarrow> orphan_request env existing rq"
  by (auto simp: is_lease_request_def orphan_request_def split: request.splits)

lemma list_meta_Inr: "list_meta env k ns selector w = (Inr items, w') \<Longrightarrow> e_list_meta env (w_log w) k ns selector = Inr items"
  unfolding list_meta_def by (auto simp: op_simps split: sum.splits)

abbreviation orphan_guard :: "'s env \<Rightarrow> string list \<Rightarrow> event list \<Rightarrow> request \<Rightarrow> bool" where
  "orphan_guard env existing \<equiv> \<lambda>h. orphan_request env existing"

lemma guarded_list_meta: "guarded (orphan_guard env existing) (list_meta env k ns selector)"
  unfolding list_meta_def by (rule guarded_makes_only [where P = "\<lambda>rq. \<exists>k n s. rq = RqList k n s"]) (auto intro!: only_intros)

lemma guarded_delete_labeled:
  assumes "blue_green_state_key ns bg \<notin> set existing"
  shows "guarded (orphan_guard env existing) (delete_labeled_resources env ns (blue_green_ref_selector bg) k)"
  unfolding delete_labeled_resources_def
proof (rule guarded_bind_dep [where C = "\<lambda>items. \<exists>h. e_list_meta env h k ns (blue_green_ref_selector bg) = Inr items"])
  show "guarded (orphan_guard env existing) (list_meta env k ns (blue_green_ref_selector bg))" by (rule guarded_list_meta)
  show "\<exists>h. e_list_meta env h k ns (blue_green_ref_selector bg) = Inr items"
    if "list_meta env k ns (blue_green_ref_selector bg) w = (Inr items, w1)" for w items and w1
    using list_meta_Inr [OF that] by blast
next
  fix items
  assume "\<exists>h. e_list_meta env h k ns (blue_green_ref_selector bg) = Inr items"
  then have "orphan_request env existing (RqDelete k ns (unwrap_or (md_name m) []))" if "m \<in> set items" for m
    using assms that by (auto simp: orphan_request_def)
  then show "guarded (orphan_guard env existing) (eachE (\<lambda>item. delete_object env k ns (unwrap_or (md_name item) [])) items)"
    by (intro guarded_makes_only [where P = "orphan_request env existing"] only_each only_delete_object) auto
qed

lemma guarded_orphan:
  assumes "key \<notin> set existing"
  shows "guarded (orphan_guard env existing) (cleanup_single_orphaned_blue_green_ref env key)"
proof (cases "split_blue_green_state_key key")
  case (Inl e)
  have "cleanup_single_orphaned_blue_green_ref env key = failE e"
    by (rule ext) (simp add: cleanup_single_orphaned_blue_green_ref_def Inl bindE_def liftE_def failE_def)
  then show ?thesis by (simp add: guarded_fail)
next
  case (Inr p)
  obtain ns bg where p: "p = (ns, bg)" by (cases p)
  have key: "key = blue_green_state_key ns bg"
    using Inr by (auto simp: split_blue_green_state_key_def blue_green_state_key_def p split_once_Some split: option.splits)
  have run: "cleanup_single_orphaned_blue_green_ref env key =
      thenE (cleanup_orphaned_blue_green_resources env ns bg) (thenE (cleanup_records env key) (retE ()))"
    by (rule ext) (simp add: cleanup_single_orphaned_blue_green_ref_def Inr p bindE_def liftE_def)
  have "guarded (orphan_guard env existing) (cleanup_orphaned_blue_green_resources env ns bg)"
    unfolding cleanup_orphaned_blue_green_resources_def wait_for_blue_green_resources_deleted_def
    using assms key
    by (intro guarded_intros guarded_delete_labeled guarded_makes_only [where P = "orphan_request env existing"] only_wait_gone) auto
  moreover have "guarded (orphan_guard env existing) (cleanup_records env key)"
    unfolding cleanup_records_def
    by (rule guarded_makes_only [where P = "orphan_request env existing"]) (simp_all add: only_store_call assms)
  ultimately show ?thesis unfolding run by (intro guarded_intros)
qed

lemma guarded_clean_orphan: "guarded (orphan_guard env existing) (clean_orphan env lease existing cleaned key)"
proof -
  have "guarded (orphan_guard env existing) (try_acquire_lease env ns name config)" for ns name config
    by (rule guarded_makes_only [OF only_try_acquire]) (rule lease_orphan_request)
  then show ?thesis
    unfolding clean_orphan_def run_with_orphan_lease_def run_with_lease_def
    by (intro guarded_intros guarded_orphan)
qed

lemma only_owned_refs: "makes_only (orphan_request env existing) (blue_green_refs_from_owned_resources_all e)"
  unfolding blue_green_refs_from_owned_resources_all_def blue_green_refs_from_owned_resources_def collect_blue_green_refs_def list_meta_def
  by (auto intro!: only_intros)

section \<open>Property\<close>


definition orphan_env :: "unit env" where
  "orphan_env = idle_env\<lparr>e_list_bgds := (\<lambda>_. Inr [sample_bgd]),
     e_store := idle_store\<lparr>op_list_blue_green_refs := \<lambda>s. (Inr [''shop/gone'', ''shop/orders''], s)\<rparr>\<rparr>"


end
