(* ===== verification/HttpApi.thy ===== *)
theory HttpApi
  imports PluginLifecycle StoreClients
begin

text \<open>
  The operator's HTTP interface (\<open>src/operator/src/http_api.rs\<close>): registering test cases, setting verdicts and
  reading counts. A handler takes the \<open>Authorization\<close> header, \<open>None\<close> when it is missing or not readable text, and
  the parsed body, and answers with a status code and a body. The routing and the JSON codec are the web framework's.
  The only handler that can panic is \<open>register_test_case\<close>, on a timeout chrono cannot represent: an \<open>Inl\<close>.
\<close>

section \<open>Bodies\<close>

record RegisterTestCaseResponse =
  reg_test_id :: string
  reg_status :: string

record HealthResponse =
  health_status :: string

record VerdictRequest =
  vq_test_id :: string
  vq_blue_green_ref :: "string option"
  vq_passed :: bool

record VerdictResponse =
  vr_test_id :: string
  vr_status :: string

record CountsResponse =
  cr_blue_green_ref :: string
  cr_passed :: int
  cr_failed :: int
  cr_timed_out :: int
  cr_pending :: int

abbreviation OK :: nat where "OK \<equiv> 200"
abbreviation CREATED :: nat where "CREATED \<equiv> 201"
abbreviation BAD_REQUEST :: nat where "BAD_REQUEST \<equiv> 400"
abbreviation UNAUTHORIZED :: nat where "UNAUTHORIZED \<equiv> 401"
abbreviation NOT_FOUND :: nat where "NOT_FOUND \<equiv> 404"
abbreviation GONE :: nat where "GONE \<equiv> 410"
abbreviation INTERNAL_SERVER_ERROR :: nat where "INTERNAL_SERVER_ERROR \<equiv> 500"

definition health :: HealthResponse where
  "health = \<lparr>health_status = ''ok''\<rparr>"

section \<open>Authorization\<close>

definition claims_match_request :: "PluginAuthClaims \<Rightarrow> RegisterTestCaseRequest \<Rightarrow> bool" where
  "claims_match_request claims req \<longleftrightarrow>
     cl_blue_green_ref claims = rq_blue_green_ref req \<and> cl_inception_point claims = rq_inception_point req"

definition verdict_authorized :: "string option \<Rightarrow> TestCaseRecord \<Rightarrow> bool" where
  "verdict_authorized header_value rec = bearer_matches header_value (Some (tc_verifier_auth_token rec))"

definition state_key_for_authorized_ref :: "PluginAuthClaims \<Rightarrow> string \<Rightarrow> string option" where
  "state_key_for_authorized_ref claims requested_ref =
     (let state_key = blue_green_state_key (cl_namespace claims) (cl_blue_green_ref claims)
      in if requested_ref = cl_blue_green_ref claims \<or> requested_ref = state_key then Some state_key else None)"

definition validate_registration_bgd ::
  "'s env \<Rightarrow> PluginAuthClaims \<Rightarrow> RegisterTestCaseRequest \<Rightarrow> ('s, nat \<times> string, unit) op" where
  "validate_registration_bgd env claims req =
     (case cl_blue_green_uid claims of
        None \<Rightarrow> failE (UNAUTHORIZED, ''Unauthorized'')
      | Some claim_uid \<Rightarrow>
          if claim_uid = [] then failE (UNAUTHORIZED, ''Unauthorized'')
          else bindE (mapErr (\<lambda>e. if is_not_found e then (GONE, ''BlueGreenDeploymentGone'')
                   else (INTERNAL_SERVER_ERROR, ''BlueGreenDeploymentLookupFailed: '' @ e_show_kube_error env e))
                 (get_bgd env (cl_namespace claims) (rq_blue_green_ref req))) (\<lambda>bgd.
            if md_uid (bgd_metadata bgd) \<noteq> Some claim_uid then failE (UNAUTHORIZED, ''Unauthorized'')
            else if md_deletion_timestamp (bgd_metadata bgd) \<noteq> None \<or>
                Option.bind (bgd_status bgd) s_phase \<in> {Some PhCompleted, Some PhRolledBack}
            then failE (GONE, ''BlueGreenDeploymentTerminal'')
            else retE ()))"

section \<open>Handlers\<close>

text \<open>\<open>Duration::seconds\<close> in microseconds; it panics beyond the milliseconds of an \<open>i64\<close>.\<close>

definition duration_seconds :: "int \<Rightarrow> int option" where
  "duration_seconds n = (if \<bar>n\<bar> \<le> 9223372036854775 then Some (n * 1000000) else None)"

definition test_case_run :: "string option \<Rightarrow> PluginAuthClaims \<Rightarrow> RegisterTestCaseRequest \<Rightarrow> int \<Rightarrow> int \<Rightarrow> TestCaseRecord" where
  "test_case_run auth_header claims req triggered_at timeout = \<lparr>
     tc_test_id = rq_test_id req,
     tc_blue_green_ref = blue_green_state_key (cl_namespace claims) (rq_blue_green_ref req),
     tc_triggered_at = triggered_at,
     tc_source_inception_point = rq_inception_point req,
     tc_timeout = timeout,
     tc_status = Triggered,
     tc_verdict = None,
     tc_verification_mode = Data,
     tc_verify_url = unwrap_or (rq_verify_url req) [],
     tc_verifier_auth_token = unwrap_or (Option.bind auth_header bearer_token) [],
     tc_retries_remaining = 0,
     tc_failure_message = None\<rparr>"

definition register_run ::
  "'s env \<Rightarrow> TestCaseRecord \<Rightarrow> ('s, string, nat \<times> RegisterTestCaseResponse) op" where
  "register_run env run = tryE (store_op (StoreRegister run) (op_register (e_store env) run)) (\<lambda>r. case r of
     Inr _ \<Rightarrow> retE (CREATED, \<lparr>reg_test_id = tc_test_id run, reg_status = ''Triggered''\<rparr>)
   | Inl e \<Rightarrow> retE (INTERNAL_SERVER_ERROR,
       \<lparr>reg_test_id = tc_test_id run, reg_status = ''error: '' @ e_show_store_error env e\<rparr>))"

definition requested_at :: "'s env \<Rightarrow> RegisterTestCaseRequest \<Rightarrow> ('s, string, int) op" where
  "requested_at env req = (case rq_triggered_at req of Some t \<Rightarrow> retE t | None \<Rightarrow> now_op env)"

definition register_test_case ::
  "'s env \<Rightarrow> AuthConfig \<Rightarrow> string option \<Rightarrow> RegisterTestCaseRequest \<Rightarrow>
   ('s, string, nat \<times> RegisterTestCaseResponse) op" where
  "register_test_case env auth auth_header req =
     (let unauthorized = retE (UNAUTHORIZED, \<lparr>reg_test_id = rq_test_id req, reg_status = ''Unauthorized''\<rparr>)
      in tryE (validate_plugin_auth env auth auth_header) (\<lambda>validated. case validated of
           Inl _ \<Rightarrow> unauthorized
         | Inr None \<Rightarrow> unauthorized
         | Inr (Some claims) \<Rightarrow>
             if \<not> claims_match_request claims req then unauthorized
             else tryE (validate_registration_bgd env claims req) (\<lambda>live. case live of
               Inl (status_code, status) \<Rightarrow> retE (status_code, \<lparr>reg_test_id = rq_test_id req, reg_status = status\<rparr>)
             | Inr _ \<Rightarrow>
                 bindE (requested_at env req) (\<lambda>triggered_at.
                 case duration_seconds (unwrap_or (rq_timeout_seconds req) 60) of
                   None \<Rightarrow> failE ''TimeDelta::seconds out of bounds''
                 | Some timeout \<Rightarrow> register_run env (test_case_run auth_header claims req triggered_at timeout)))))"

definition set_verdict ::
  "'s env \<Rightarrow> AuthConfig \<Rightarrow> string option \<Rightarrow> VerdictRequest \<Rightarrow> ('s, string, nat \<times> VerdictResponse) op" where
  "set_verdict env auth auth_header req =
     (let answer = (\<lambda>code status. retE (code, \<lparr>vr_test_id = vq_test_id req, vr_status = status\<rparr>))
      in case vq_blue_green_ref req of
           None \<Rightarrow> answer BAD_REQUEST ''error: blue_green_ref is required''
         | Some blue_green_ref \<Rightarrow>
             tryE (validate_plugin_auth env auth auth_header) (\<lambda>validated. case validated of
               Inl _ \<Rightarrow> answer UNAUTHORIZED ''Unauthorized''
             | Inr None \<Rightarrow> answer UNAUTHORIZED ''Unauthorized''
             | Inr (Some claims) \<Rightarrow>
                 (case state_key_for_authorized_ref claims blue_green_ref of
                    None \<Rightarrow> answer UNAUTHORIZED ''Unauthorized''
                  | Some state_key \<Rightarrow>
                      tryE (store_op (StoreGet state_key (vq_test_id req)) (op_get (e_store env) state_key (vq_test_id req))) (\<lambda>got.
                      case got of
                        Inl e \<Rightarrow> answer INTERNAL_SERVER_ERROR (''error: '' @ e_show_store_error env e)
                      | Inr None \<Rightarrow> answer NOT_FOUND ''error: test case not found''
                      | Inr (Some rec) \<Rightarrow>
                          if \<not> verdict_authorized auth_header rec then answer UNAUTHORIZED ''Unauthorized''
                          else tryE (store_op (StoreSetVerdict state_key (vq_test_id req) (vq_passed req))
                              (op_set_verdict (e_store env) state_key (vq_test_id req) (vq_passed req) None)) (\<lambda>done.
                            case done of
                              Inr _ \<Rightarrow> answer OK (if vq_passed req then ''Passed'' else ''Failed'')
                            | Inl e \<Rightarrow> answer NOT_FOUND (''error: '' @ e_show_store_error env e))))))"

definition no_counts :: "string \<Rightarrow> CountsResponse" where
  "no_counts ref = \<lparr>cr_blue_green_ref = ref, cr_passed = 0, cr_failed = 0, cr_timed_out = 0, cr_pending = 0\<rparr>"

definition get_counts ::
  "'s env \<Rightarrow> AuthConfig \<Rightarrow> string option \<Rightarrow> string \<Rightarrow> ('s, string, nat \<times> CountsResponse) op" where
  "get_counts env auth auth_header bg_ref =
     tryE (validate_plugin_auth env auth auth_header) (\<lambda>validated. case validated of
       Inl _ \<Rightarrow> retE (UNAUTHORIZED, no_counts bg_ref)
     | Inr None \<Rightarrow> retE (UNAUTHORIZED, no_counts bg_ref)
     | Inr (Some claims) \<Rightarrow>
         (case state_key_for_authorized_ref claims bg_ref of
            None \<Rightarrow> retE (UNAUTHORIZED, no_counts bg_ref)
          | Some state_key \<Rightarrow>
              tryE (store_op (StoreCounts state_key) (op_counts (e_store env) state_key)) (\<lambda>r. case r of
                Inr c \<Rightarrow> retE (OK, \<lparr>cr_blue_green_ref = state_key, cr_passed = counts_passed c, cr_failed = counts_failed c,
                    cr_timed_out = counts_timed_out c, cr_pending = counts_pending c\<rparr>)
              | Inl _ \<Rightarrow> retE (INTERNAL_SERVER_ERROR, no_counts state_key))))"

section \<open>What a valid token says\<close>

text \<open>\<open>authenticates env auth header token claims\<close>: the header carries the token, and it verifies to the claims under a
  key read from the operator's key secret.\<close>

definition authenticates :: "'s env \<Rightarrow> AuthConfig \<Rightarrow> string option \<Rightarrow> string \<Rightarrow> PluginAuthClaims \<Rightarrow> bool" where
  "authenticates env auth header token claims \<longleftrightarrow> header = Some (bearer_value token) \<and>
     (\<exists>h secret k. e_get_secret env h (auth_namespace auth) (auth_secret_name auth) = Inr secret \<and>
        map_of secret (auth_secret_key auth) = Some k \<and> k \<noteq> [] \<and>
        verify_plugin_auth_token (e_jwt env) token k = Inr claims)"

lemma operator_key_run:
  assumes "operator_key env auth w = (r, w1)"
  shows "w_store w1 = w_store w"
    and "\<exists>ok. w_log w1 = w_log w @ [Ev (RqGet KSecret (auth_namespace auth) (auth_secret_name auth)) ok]"
    and "r = Inr k \<Longrightarrow> \<exists>h secret. e_get_secret env h (auth_namespace auth) (auth_secret_name auth) = Inr secret \<and>
      map_of secret (auth_secret_key auth) = Some k \<and> k \<noteq> []"
  using assms
  by (auto simp: operator_key_def read_operator_signing_key_def op_simps split: sum.splits option.splits if_splits)

lemma validate_plugin_auth_run:
  assumes "validate_plugin_auth env auth header w = (r, w1)"
  shows "w_store w1 = w_store w"
    and "\<exists>new. w_log w1 = w_log w @ new \<and> (\<forall>ev \<in> set new. \<exists>k ns n. ev_request ev = RqGet k ns n)"
    and "r = Inr (Some claims) \<Longrightarrow> \<exists>token. authenticates env auth header token claims"
proof -
  have "w_store w1 = w_store w \<and> (\<exists>new. w_log w1 = w_log w @ new \<and> (\<forall>ev \<in> set new. \<exists>k ns n. ev_request ev = RqGet k ns n)) \<and>
    (r = Inr (Some claims) \<longrightarrow> (\<exists>token. authenticates env auth header token claims))"
  proof (cases "Option.bind header bearer_token")
    case None
    then show ?thesis
      using assms by (auto simp: validate_plugin_auth_def validate_inception_auth_token_def mapErr_def tryE_def retE_def)
  next
    case (Some token)
    then have h: "header = Some (bearer_value token)"
      by (auto simp: bearer_token_def bearer_value_def strip_prefix_Some bind_eq_Some_conv)
    obtain rk w2 where k: "operator_key env auth w = (rk, w2)" by fastforce
    note run = operator_key_run [OF k]
    show ?thesis
    proof (cases rk)
      case (Inl e)
      then show ?thesis
        using assms run(1,2) Some k
        by (auto simp: validate_plugin_auth_def validate_inception_auth_token_def mapErr_def tryE_def bindE_def retE_def failE_def)
    next
      case (Inr key)
      then show ?thesis
        using assms run(1,2) run(3) [of key] Some k h
        by (auto simp: validate_plugin_auth_def validate_inception_auth_token_def mapErr_def tryE_def bindE_def retE_def failE_def
            authenticates_def split: sum.splits)
    qed
  qed
  then show "w_store w1 = w_store w"
    and "\<exists>new. w_log w1 = w_log w @ new \<and> (\<forall>ev \<in> set new. \<exists>k ns n. ev_request ev = RqGet k ns n)"
    and "r = Inr (Some claims) \<Longrightarrow> \<exists>token. authenticates env auth header token claims" by blast+
qed

section \<open>Registering\<close>

text \<open>The rollout a registration is for: it exists under the token's UID, is not being deleted and has not ended.\<close>

definition accepts_registrations :: "PluginAuthClaims \<Rightarrow> BlueGreenDeployment \<Rightarrow> bool" where
  "accepts_registrations claims bgd \<longleftrightarrow>
     (\<exists>uid. cl_blue_green_uid claims = Some uid \<and> uid \<noteq> [] \<and> md_uid (bgd_metadata bgd) = Some uid) \<and>
     md_deletion_timestamp (bgd_metadata bgd) = None \<and>
     Option.bind (bgd_status bgd) s_phase \<notin> {Some PhCompleted, Some PhRolledBack}"

lemma validate_registration_run:
  assumes "validate_registration_bgd env claims req w = (r, w1)"
  shows "w_store w1 = w_store w"
    and "\<exists>new. w_log w1 = w_log w @ new \<and> (\<forall>ev \<in> set new. \<exists>ns n. ev_request ev = RqGetBgd ns n)"
    and "r = Inr () \<Longrightarrow> \<exists>h bgd. e_get_bgd env h (cl_namespace claims) (rq_blue_green_ref req) = Inr bgd \<and>
      accepts_registrations claims bgd"
    and "r = Inl (code, status) \<Longrightarrow> code \<in> {UNAUTHORIZED, GONE, INTERNAL_SERVER_ERROR}"
  using assms
  by (auto simp: validate_registration_bgd_def get_bgd_def accepts_registrations_def op_simps
      split: option.splits if_splits sum.splits)

lemma register_run_step:
  assumes "register_run env run w = (r, w')" and "op_register (e_store env) run (w_store w) = (res, s')"
  shows "w_store w' = s'" and "w_log w' = w_log w @ [Ev (RqStore (StoreRegister run)) (is_ok res)]"
    and "r = Inr (CREATED, body) \<longleftrightarrow> body = \<lparr>reg_test_id = tc_test_id run, reg_status = ''Triggered''\<rparr> \<and> is_ok res"
    and "\<exists>code body. r = Inr (code, body) \<and> (code = CREATED \<longleftrightarrow> is_ok res)"
  using assms by (auto simp: register_run_def op_simps split: sum.splits)

text \<open>A registration is refused without touching the store, or it goes to the store.\<close>

lemma register_test_case_cases:
  assumes "register_test_case env auth header req w = (r, w')"
  obtains (refused) new where "w_store w' = w_store w" "w_log w' = w_log w @ new"
      "\<forall>ev \<in> set new. \<forall>c. ev_request ev \<noteq> RqStore c" "\<forall>body. r \<noteq> Inr (CREATED, body)"
    | (stored) token claims h bgd t timeout w2 new where "authenticates env auth header token claims"
      "claims_match_request claims req" "e_get_bgd env h (cl_namespace claims) (rq_blue_green_ref req) = Inr bgd"
      "accepts_registrations claims bgd" "w_store w2 = w_store w" "w_log w2 = w_log w @ new"
      "\<forall>ev \<in> set new. \<forall>c. ev_request ev \<noteq> RqStore c"
      "register_run env (test_case_run header claims req t timeout) w2 = (r, w')"
proof -
  obtain rv w1 where v: "validate_plugin_auth env auth header w = (rv, w1)" by fastforce
  note valid = validate_plugin_auth_run [OF v]
  obtain n1 where n1: "w_log w1 = w_log w @ n1" "\<forall>ev \<in> set n1. \<forall>c. ev_request ev \<noteq> RqStore c" using valid(2) by fastforce
  show thesis
  proof (cases "\<exists>claims. rv = Inr (Some claims) \<and> claims_match_request claims req")
    case False
    then have "w_store w' = w_store w \<and> w_log w' = w_log w1 \<and> (\<forall>body. r \<noteq> Inr (CREATED, body))"
      using assms v valid(1) by (auto simp: register_test_case_def tryE_def retE_def Let_def split: sum.splits option.splits if_splits)
    then show thesis using refused n1 by simp
  next
    case True
    then obtain claims where claims: "rv = Inr (Some claims)" "claims_match_request claims req" by blast
    obtain rl w2 where l: "validate_registration_bgd env claims req w1 = (rl, w2)" by fastforce
    note live = validate_registration_run [OF l]
    obtain n2 where n2: "w_log w2 = w_log w @ n2" "\<forall>ev \<in> set n2. \<forall>c. ev_request ev \<noteq> RqStore c"
      using live(2) n1 by fastforce
    obtain token where token: "authenticates env auth header token claims" using valid(3) claims(1) by blast
    show thesis
    proof (cases rl)
      case (Inl cs)
      obtain code status where cs: "cs = (code, status)" by (cases cs)
      then have "r = Inr (code, \<lparr>reg_test_id = rq_test_id req, reg_status = status\<rparr>) \<and> w' = w2"
        using assms v claims l Inl by (simp add: register_test_case_def tryE_def retE_def Let_def)
      then show thesis using refused [of n2] live(1) live(4) [of code status] valid(1) n2 Inl cs by auto
    next
      case (Inr u)
      obtain t where t: "requested_at env req w2 = (Inr t, w2)"
        by (cases "rq_triggered_at req") (auto simp: requested_at_def retE_def now_op_def)
      show thesis
      proof (cases "duration_seconds (unwrap_or (rq_timeout_seconds req) 60)")
        case None
        then have "(\<exists>e. r = Inl e) \<and> w' = w2"
          using assms v claims l Inr t by (auto simp: register_test_case_def tryE_def bindE_def failE_def Let_def)
        then show thesis using refused [of n2] live(1) valid(1) n2 by auto
      next
        case (Some timeout)
        then have "register_run env (test_case_run header claims req t timeout) w2 = (r, w')"
          using assms v claims l Inr t by (auto simp: register_test_case_def tryE_def bindE_def Let_def)
        with stored [OF token claims(2)] live(1,3) valid(1) Inr n2 show thesis by auto
      qed
    qed
  qed
qed

section \<open>Setting verdicts\<close>

lemma verdict_authorized_iff:
  "verdict_authorized header rec \<longleftrightarrow>
     tc_verifier_auth_token rec \<noteq> [] \<and> header = Some (bearer_value (tc_verifier_auth_token rec))"
  by (auto simp: verdict_authorized_def bearer_matches_iff)

lemma state_key_for_authorized_ref_Some:
  "state_key_for_authorized_ref claims ref = Some key \<Longrightarrow>
   key = blue_green_state_key (cl_namespace claims) (cl_blue_green_ref claims)"
  by (auto simp: state_key_for_authorized_ref_def Let_def split: if_splits)

text \<open>A verdict is refused before the store is asked, or the store is asked for the record, and to change it only when the
  record's own token was presented.\<close>

lemma set_verdict_cases:
  assumes "set_verdict env auth header req w = (r, w')"
  obtains (refused) "w_store w' = w_store w" "\<forall>body. r \<noteq> Inr (OK, body)"
    | (read) token claims s1 got where "authenticates env auth header token claims"
      "op_get (e_store env) (blue_green_state_key (cl_namespace claims) (cl_blue_green_ref claims)) (vq_test_id req) (w_store w) = (got, s1)"
      "w_store w' = s1" "\<forall>body. r \<noteq> Inr (OK, body)"
    | (written) token claims s1 rec res where "authenticates env auth header token claims"
      "op_get (e_store env) (blue_green_state_key (cl_namespace claims) (cl_blue_green_ref claims)) (vq_test_id req) (w_store w)
         = (Inr (Some rec), s1)"
      "verdict_authorized header rec"
      "op_set_verdict (e_store env) (blue_green_state_key (cl_namespace claims) (cl_blue_green_ref claims)) (vq_test_id req)
         (vq_passed req) None s1 = (res, w_store w')"
      "\<exists>code body. r = Inr (code, body) \<and> (code = OK \<longleftrightarrow> is_ok res)"
proof -
  obtain rv w1 where v: "validate_plugin_auth env auth header w = (rv, w1)" by fastforce
  note valid = validate_plugin_auth_run [OF v]
  show thesis
  proof (cases "\<exists>ref claims. vq_blue_green_ref req = Some ref \<and> rv = Inr (Some claims) \<and> state_key_for_authorized_ref claims ref \<noteq> None")
    case False
    then have "w_store w' = w_store w \<and> (\<forall>body. r \<noteq> Inr (OK, body))"
      using assms v valid(1) by (auto simp: set_verdict_def tryE_def retE_def Let_def split: sum.splits option.splits)
    then show thesis using refused by blast
  next
    case True
    then obtain ref claims key where c: "vq_blue_green_ref req = Some ref" "rv = Inr (Some claims)"
        "state_key_for_authorized_ref claims ref = Some key" by blast
    obtain token where token: "authenticates env auth header token claims" using valid(3) c(2) by blast
    note key = state_key_for_authorized_ref_Some [OF c(3)]
    obtain got s1 where g: "op_get (e_store env) key (vq_test_id req) (w_store w) = (got, s1)" by fastforce
    show thesis
    proof (cases "\<exists>rec. got = Inr (Some rec) \<and> verdict_authorized header rec")
      case False
      then have "w_store w' = s1 \<and> (\<forall>body. r \<noteq> Inr (OK, body))"
        using assms v valid(1) c g
        by (auto simp: set_verdict_def tryE_def retE_def store_op_def Let_def split: sum.splits option.splits if_splits)
      then show thesis using read [OF token] g key by blast
    next
      case True
      then obtain rec where rec: "got = Inr (Some rec)" "verdict_authorized header rec" by blast
      obtain res s2 where res: "op_set_verdict (e_store env) key (vq_test_id req) (vq_passed req) None s1 = (res, s2)" by fastforce
      have "w_store w' = s2 \<and> (\<exists>code body. r = Inr (code, body) \<and> (code = OK \<longleftrightarrow> is_ok res))"
        using assms v valid(1) c g rec res
        by (auto simp: set_verdict_def tryE_def retE_def store_op_def is_ok_def Let_def split: sum.splits option.splits if_splits)
      then show thesis using written [OF token] g rec res key by auto
    qed
  qed
qed

section \<open>On a store that keeps its contract\<close>

text \<open>Tokens are signed for rollouts of the cluster, whose names contain no control character.\<close>

definition tokens_name_rollouts :: "jwt_lib \<Rightarrow> bool" where
  "tokens_name_rollouts lib \<longleftrightarrow> (\<forall>token k claims. verify_plugin_auth_token lib token k = Inr claims \<longrightarrow>
     valid_ref (blue_green_state_key (cl_namespace claims) (cl_blue_green_ref claims)))"

lemma authenticates_valid_ref:
  "tokens_name_rollouts (e_jwt env) \<Longrightarrow> authenticates env auth header token claims \<Longrightarrow>
   valid_ref (blue_green_state_key (cl_namespace claims) (cl_blue_green_ref claims))"
  unfolding tokens_name_rollouts_def authenticates_def by blast

context state_store
begin

lemma registration_sound:
  assumes "e_store env = ops" and "invar (w_store w)" and "tokens_name_rollouts (e_jwt env)"
    and "\<And>claims t timeout. storable (test_case_run header claims req t timeout)"
    and "register_test_case env auth header req w = (r, w')"
  shows "(\<forall>body. r \<noteq> Inr (CREATED, body)) \<and> abs (w_store w') = abs (w_store w) \<or>
    (\<exists>body token claims h bgd t timeout. r = Inr (CREATED, body) \<and> authenticates env auth header token claims \<and>
      claims_match_request claims req \<and> e_get_bgd env h (cl_namespace claims) (rq_blue_green_ref req) = Inr bgd \<and>
      accepts_registrations claims bgd \<and>
      abs (w_store w') = register_spec (test_case_run header claims req t timeout) (abs (w_store w)))"
  using assms(5)
proof (cases rule: register_test_case_cases)
  case refused
  then show ?thesis by simp
next
  case (stored token claims h bgd t timeout w2 new)
  let ?run = "test_case_run header claims req t timeout"
  obtain res s' where res: "op_register ops ?run (w_store w) = (res, s')" by fastforce
  have "op_register (e_store env) ?run (w_store w2) = (res, s')" using res stored(5) assms(1) by simp
  note step = register_run_step [OF stored(8) this]
  have "valid_ref (tc_blue_green_ref ?run)"
    using authenticates_valid_ref [OF assms(3) stored(1)] stored(2) by (simp add: test_case_run_def claims_match_request_def)
  note law = register_law [OF assms(2) this assms(4) res]
  obtain code body where r: "r = Inr (code, body)" "code = CREATED \<longleftrightarrow> is_ok res" using step(4) by blast
  show ?thesis
  proof (cases "is_fault res")
    case True
    then have "code \<noteq> CREATED" using r(2) by (cases res) (simp_all add: is_ok_def)
    then show ?thesis using law step(1) r(1) True by simp
  next
    case False
    then have "res = Inr ()" "abs s' = register_spec ?run (abs (w_store w))" using law by simp_all
    moreover from this have "r = Inr (CREATED, body)" using r by (simp add: is_ok_def)
    ultimately show ?thesis using stored(1,2,3,4) step(1) by blast
  qed
qed

lemma verdict_sound:
  assumes "e_store env = ops" and "invar (w_store w)" and "tokens_name_rollouts (e_jwt env)"
    and "set_verdict env auth header req w = (r, w')"
  shows "(\<forall>body. r \<noteq> Inr (OK, body)) \<and> abs (w_store w') = abs (w_store w) \<or>
    (\<exists>body token claims rec key. r = Inr (OK, body) \<and> authenticates env auth header token claims \<and>
      key = (blue_green_state_key (cl_namespace claims) (cl_blue_green_ref claims), vq_test_id req) \<and>
      abs (w_store w) key = Some rec \<and> is_pending rec \<and> tc_verifier_auth_token rec = token \<and>
      abs (w_store w') = (abs (w_store w))(key \<mapsto> verdict_of (vq_passed req) None rec))"
  using assms(4)
proof (cases rule: set_verdict_cases)
  case refused
  then show ?thesis by simp
next
  case (read token claims s1 got)
  then show ?thesis
    using get_law [OF assms(2) authenticates_valid_ref [OF assms(3) read(1)] read(2) [unfolded assms(1)]] by auto
next
  case (written token claims s1 rec res)
  let ?bg = "blue_green_state_key (cl_namespace claims) (cl_blue_green_ref claims)"
  have valid: "valid_ref ?bg" by (rule authenticates_valid_ref [OF assms(3) written(1)])
  have g: "invar s1" "abs s1 = abs (w_store w)" "abs (w_store w) (?bg, vq_test_id req) = Some rec"
    using get_law [OF assms(2) valid written(2) [unfolded assms(1)]] by auto
  have law: "if is_fault res then abs (w_store w') = abs s1
      else (res, abs (w_store w')) = finalize_spec (verdict_of (vq_passed req) None) ?bg (vq_test_id req) (abs s1)"
    using set_verdict_law [OF g(1) valid written(4) [unfolded assms(1)]] by blast
  have token: "tc_verifier_auth_token rec = token"
    using written(1,3) by (simp add: authenticates_def verdict_authorized_iff bearer_value_def)
  obtain code body where r: "r = Inr (code, body)" "code = OK \<longleftrightarrow> is_ok res" using written(5) by blast
  show ?thesis
  proof (cases "is_fault res \<or> \<not> is_pending rec")
    case True
    then have "\<not> is_ok res \<and> abs (w_store w') = abs (w_store w)"
      using law g(2,3) by (cases res) (auto simp: finalize_spec_def is_ok_def split: if_splits)
    then show ?thesis using r by simp
  next
    case False
    then have "res = Inr ()" "abs (w_store w') = (abs (w_store w))((?bg, vq_test_id req) \<mapsto> verdict_of (vq_passed req) None rec)"
      using law g by (auto simp: finalize_spec_def)
    moreover from this have "r = Inr (OK, body)" using r by (simp add: is_ok_def)
    ultimately show ?thesis using written(1) g(3) token False by blast
  qed
qed

end

section \<open>Properties\<close>


definition api_claims :: PluginAuthClaims where
  "api_claims = claims_new_with_uid ''shop'' ''orders'' ''uid-1'' ''ip'' ''http''"

definition api_env :: "mem_store env" where
  "api_env = (quiet_env (memory_ops (\<lambda>_ _. 0)))\<lparr>e_jwt := toy_jwt api_claims,
     e_get_secret := \<lambda>_ _ _. Inr [(''k'', [1, 2, 3])], e_get_bgd := \<lambda>_ _ _. Inr sample_bgd\<rparr>"

definition api_request :: RegisterTestCaseRequest where
  "api_request = \<lparr>rq_test_id = ''case-1'', rq_blue_green_ref = ''orders'', rq_inception_point = ''ip'',
     rq_triggered_at = None, rq_timeout_seconds = None, rq_verify_url = None\<rparr>"

definition api_verdict :: VerdictRequest where
  "api_verdict = \<lparr>vq_test_id = ''case-1'', vq_blue_green_ref = Some ''orders'', vq_passed = True\<rparr>"

lemma api_env_simps:
  "e_store api_env = memory_ops (\<lambda>_ _. 0)" "e_get_secret api_env = (\<lambda>_ _ _. Inr [(''k'', [1, 2, 3])])"
  "e_get_bgd api_env = (\<lambda>_ _ _. Inr sample_bgd)" "e_jwt api_env = toy_jwt api_claims" "e_now api_env = (\<lambda>_. 0)"
  by (simp_all add: api_env_def quiet_env_def)

lemma verify_claims_of_jwt:
  "verify_plugin_auth_token (toy_jwt c) token k = Inr claims \<Longrightarrow> claims = c"
  by (auto simp: verify_plugin_auth_token_def verify_segments_Inr toy_jwt_def bind_eq_Some_conv split: if_splits list.splits)

lemma api_tokens: "tokens_name_rollouts (e_jwt api_env)"
  by (auto simp: tokens_name_rollouts_def api_env_simps valid_ref_def blue_green_state_key_def api_claims_def claims_new_with_uid_def
      claims_new_def dest!: verify_claims_of_jwt)

lemma api_token: obtains token where "token \<noteq> []"
  "\<And>w. validate_plugin_auth api_env signing_auth (Some (bearer_value token)) w = (Inr (Some api_claims),
     w\<lparr>w_log := w_log w @ [Ev (RqGet KSecret ''sys'' ''key'') True]\<rparr>)"
proof -
  have k: "stable_key api_env signing_auth [1, 2, 3]"
    by (auto simp: stable_key_def api_env_simps signing_auth_def)
  have j: "jwt_roundtrips (e_jwt api_env) api_claims"
    by (simp add: api_env_simps toy_jwt_roundtrips)
  obtain token where t: "verify_plugin_auth_token (e_jwt api_env) token [1, 2, 3] = Inr api_claims"
    using sign_verify [OF j, of "[1, 2, 3]"] by (auto simp: api_claims_def claims_new_with_uid_def claims_new_def)
  then have "token \<noteq> []" by (auto simp: verify_plugin_auth_token_def)
  have auth: "auth_namespace signing_auth = ''sys''" "auth_secret_name signing_auth = ''key''" by (simp_all add: signing_auth_def)
  have "validate_plugin_auth api_env signing_auth (Some (bearer_value token)) w = (Inr (Some api_claims),
     w\<lparr>w_log := w_log w @ [Ev (RqGet KSecret ''sys'' ''key'') True]\<rparr>)" for w
    using t operator_key_stable [OF k, of w] auth
    by (simp add: validate_plugin_auth_def validate_inception_auth_token_def bearer_value_def bearer_token_def
        mapErr_def tryE_def bindE_def retE_def)
  then show thesis by (rule that [OF \<open>token \<noteq> []\<close>])
qed

lemma mem_invar_empty: "mem_invar []"
  by (simp add: mem_invar_def table_ok_def mem_values_def)



text \<open>The same rule on the Postgres store.\<close>

lemma verdict_needs_own_token_postgres:
  assumes "e_store env = postgres_ops" and "pg_invar (w_store w)" and "tokens_name_rollouts (e_jwt env)"
    and "set_verdict env auth header req w = (Inr (OK, body), w')"
  shows "\<exists>token claims rec. authenticates env auth header token claims \<and> tc_verifier_auth_token rec = token \<and> is_pending rec \<and>
    pg_abs (w_store w) (blue_green_state_key (cl_namespace claims) (cl_blue_green_ref claims), vq_test_id req) = Some rec"
  using pg.verdict_sound [OF assms] by blast


end
