(* ===== verification/PluginEffects.thy ===== *)
theory PluginEffects
  imports AuthTokens
begin

text \<open>
  The effects of the plugins: a run asks the outside world (brokers, HTTP servers, the clock) a sequence of calls of
  type \<open>'c\<close> and is answered by a function of the calls made before. The log holds every call with whether it
  succeeded. The theory also holds what every plugin inherits from the SDK: its runtime
  (\<open>src/sdk/rust/src/runtime.rs\<close>), the delivery of notifications and registrations with retries
  (\<open>src/sdk/rust/src/notify.rs\<close>) and the fields of HTTP requests (\<open>src/sdk/rust/src/http.rs\<close>).
\<close>

section \<open>Calls\<close>

type_synonym 'c calls = "('c \<times> bool) list"

type_synonym ('c, 'e, 'a) act = "'c calls \<Rightarrow> ('e + 'a) \<times> 'c calls"

definition retA :: "'a \<Rightarrow> ('c, 'e, 'a) act" where
  "retA a h = (Inr a, h)"

definition failA :: "'e \<Rightarrow> ('c, 'e, 'a) act" where
  "failA e h = (Inl e, h)"

definition tryA :: "('c, 'd, 'a) act \<Rightarrow> ('d + 'a \<Rightarrow> ('c, 'e, 'b) act) \<Rightarrow> ('c, 'e, 'b) act" where
  "tryA m f h = (case m h of (r, h') \<Rightarrow> f r h')"

definition bindA :: "('c, 'e, 'a) act \<Rightarrow> ('a \<Rightarrow> ('c, 'e, 'b) act) \<Rightarrow> ('c, 'e, 'b) act" where
  "bindA m f = tryA m (\<lambda>r. case r of Inl e \<Rightarrow> failA e | Inr a \<Rightarrow> f a)"

definition seqA :: "('c, 'e, 'a) act \<Rightarrow> ('c, 'e, 'b) act \<Rightarrow> ('c, 'e, 'b) act" where
  "seqA m n = bindA m (\<lambda>_. n)"

definition liftA :: "'e + 'a \<Rightarrow> ('c, 'e, 'a) act" where
  "liftA r h = (r, h)"

definition callA :: "('c calls \<Rightarrow> 'e + 'a) \<Rightarrow> 'c \<Rightarrow> ('c, 'e, 'a) act" where
  "callA answer c h = (let r = answer h in (r, h @ [(c, case r of Inl _ \<Rightarrow> False | Inr _ \<Rightarrow> True)]))"

fun forA :: "('a \<Rightarrow> ('c, 'e, unit) act) \<Rightarrow> 'a list \<Rightarrow> ('c, 'e, unit) act" where
  "forA f [] = retA ()"
| "forA f (x # xs) = seqA (f x) (forA f xs)"

lemmas act_simps = retA_def failA_def tryA_def bindA_def seqA_def liftA_def callA_def Let_def

section \<open>What a run calls\<close>

text \<open>\<open>does m R\<close>: every run of \<open>m\<close> appends some calls to the log that \<open>R\<close> relates to its result.\<close>

definition does :: "('c, 'e, 'a) act \<Rightarrow> ('c calls \<Rightarrow> 'e + 'a \<Rightarrow> bool) \<Rightarrow> bool" where
  "does m R \<longleftrightarrow> (\<forall>h. \<exists>new. snd (m h) = h @ new \<and> R new (fst (m h)))"

named_theorems does_rules \<open>rules for what a run calls\<close>

lemma doesD: "does m R \<Longrightarrow> m h = (r, h') \<Longrightarrow> \<exists>new. h' = h @ new \<and> R new r"
  unfolding does_def by (metis fst_conv snd_conv)

lemma does_mono: "does m R \<Longrightarrow> (\<And>n r. R n r \<Longrightarrow> S n r) \<Longrightarrow> does m S"
  unfolding does_def by blast

lemma does_ret: "R [] (Inr a) \<Longrightarrow> does (retA a) R"
  by (simp add: does_def retA_def)

lemma does_fail: "R [] (Inl e) \<Longrightarrow> does (failA e) R"
  by (simp add: does_def failA_def)

lemma does_lift: "R [] r \<Longrightarrow> does (liftA r) R"
  by (simp add: does_def liftA_def)

lemma does_call:
  "(\<And>e. R [(c, False)] (Inl e)) \<Longrightarrow> (\<And>a. R [(c, True)] (Inr a)) \<Longrightarrow> does (callA answer c) R"
  by (auto simp: does_def callA_def Let_def split: sum.splits)

lemma does_try:
  assumes "does m R" and "\<And>r. does (f r) (S r)" and "\<And>n r n' r'. R n r \<Longrightarrow> S r n' r' \<Longrightarrow> Q (n @ n') r'"
  shows "does (tryA m f) Q"
  unfolding does_def
proof
  fix h
  obtain r h1 where m: "m h = (r, h1)" by fastforce
  obtain r' h2 where f: "f r h1 = (r', h2)" by fastforce
  obtain n where n: "h1 = h @ n" "R n r" using doesD [OF assms(1) m] by blast
  obtain n' where n': "h2 = h1 @ n'" "S r n' r'" using doesD [OF assms(2) f] by blast
  have "tryA m f h = (r', h2)" by (simp add: tryA_def m f)
  moreover have "h2 = h @ n @ n'" using n(1) n'(1) by simp
  ultimately show "\<exists>new. snd (tryA m f h) = h @ new \<and> Q new (fst (tryA m f h))"
    using assms(3) [OF n(2) n'(2)] by auto
qed

lemma does_bind:
  assumes m: "does m R" and f: "\<And>a. does (f a) (S a)" and "\<And>n e. R n (Inl e) \<Longrightarrow> Q n (Inl e)"
    and "\<And>n a n' r'. R n (Inr a) \<Longrightarrow> S a n' r' \<Longrightarrow> Q (n @ n') r'"
  shows "does (bindA m f) Q"
  unfolding bindA_def
proof (rule does_try [OF m])
  show "does (case r of Inl e \<Rightarrow> failA e | Inr a \<Rightarrow> f a)
      (\<lambda>n' r'. case r of Inl e \<Rightarrow> n' = [] \<and> r' = Inl e | Inr a \<Rightarrow> S a n' r')" for r
    using f by (cases r) (auto intro: does_fail)
  show "Q (n @ n') r'" if "R n r" "case r of Inl e \<Rightarrow> n' = [] \<and> r' = Inl e | Inr a \<Rightarrow> S a n' r'" for n r n' r'
    using that assms(3,4) by (cases r) auto
qed

lemma does_seq:
  assumes "does m R" and "does n S" and "\<And>x e. R x (Inl e) \<Longrightarrow> Q x (Inl e)"
    and "\<And>x a y r. R x (Inr a) \<Longrightarrow> S y r \<Longrightarrow> Q (x @ y) r"
  shows "does (seqA m n) Q"
  unfolding seqA_def by (rule does_bind [OF assms(1), where S = "\<lambda>_. S"]) (use assms in auto)

text \<open>A property of every call a run makes.\<close>

definition only_calls :: "('c \<Rightarrow> bool) \<Rightarrow> ('c, 'e, 'a) act \<Rightarrow> bool" where
  "only_calls P m \<longleftrightarrow> does m (\<lambda>new r. list_all (P \<circ> fst) new)"

named_theorems calls_intros \<open>introduction rules for only_calls\<close>

lemma calls_ret [calls_intros]: "only_calls P (retA a)"
  unfolding only_calls_def by (rule does_ret) simp

lemma calls_fail [calls_intros]: "only_calls P (failA e)"
  unfolding only_calls_def by (rule does_fail) simp

lemma calls_lift [calls_intros]: "only_calls P (liftA r)"
  unfolding only_calls_def by (rule does_lift) simp

lemma calls_call [calls_intros]: "P c \<Longrightarrow> only_calls P (callA answer c)"
  unfolding only_calls_def by (rule does_call) simp_all

lemma calls_try [calls_intros]: "only_calls P m \<Longrightarrow> (\<And>r. only_calls P (f r)) \<Longrightarrow> only_calls P (tryA m f)"
  unfolding only_calls_def
  by (erule does_try [where S = "\<lambda>_ n _. list_all (P \<circ> fst) n"]) (auto simp: list_all_iff)

lemma calls_bind [calls_intros]: "only_calls P m \<Longrightarrow> (\<And>a. only_calls P (f a)) \<Longrightarrow> only_calls P (bindA m f)"
  unfolding bindA_def by (rule calls_try) (auto split: sum.splits intro: calls_fail)

lemma calls_seq [calls_intros]: "only_calls P m \<Longrightarrow> only_calls P n \<Longrightarrow> only_calls P (seqA m n)"
  unfolding seqA_def by (rule calls_bind)

lemma calls_if [calls_intros]: "(b \<Longrightarrow> only_calls P m) \<Longrightarrow> (\<not> b \<Longrightarrow> only_calls P n) \<Longrightarrow> only_calls P (if b then m else n)"
  by simp

lemma calls_case_option [calls_intros]:
  "(x = None \<Longrightarrow> only_calls P m) \<Longrightarrow> (\<And>a. x = Some a \<Longrightarrow> only_calls P (f a)) \<Longrightarrow>
   only_calls P (case x of None \<Rightarrow> m | Some a \<Rightarrow> f a)"
  by (cases x) simp_all

lemma calls_case_sum [calls_intros]:
  "(\<And>e. x = Inl e \<Longrightarrow> only_calls P (f e)) \<Longrightarrow> (\<And>a. x = Inr a \<Longrightarrow> only_calls P (g a)) \<Longrightarrow>
   only_calls P (case x of Inl e \<Rightarrow> f e | Inr a \<Rightarrow> g a)"
  by (cases x) simp_all

lemma calls_for [calls_intros]: "(\<And>x. x \<in> set xs \<Longrightarrow> only_calls P (f x)) \<Longrightarrow> only_calls P (forA f xs)"
  by (induction xs) (auto intro: calls_intros)

lemma only_callsD:
  "only_calls P m \<Longrightarrow> m h = (r, h') \<Longrightarrow> \<exists>new. h' = h @ new \<and> list_all (P \<circ> fst) new"
  unfolding only_calls_def by (rule doesD)

text \<open>A property of the calls of a run that holds of no calls and is kept by appending.\<close>

definition additive :: "('c calls \<Rightarrow> bool) \<Rightarrow> bool" where
  "additive P \<longleftrightarrow> P [] \<and> (\<forall>m n. P m \<longrightarrow> P n \<longrightarrow> P (m @ n))"

definition keeps :: "('c calls \<Rightarrow> bool) \<Rightarrow> ('c, 'e, 'a) act \<Rightarrow> bool" where
  "keeps P m \<longleftrightarrow> does m (\<lambda>new r. P new)"

named_theorems keeps_intros \<open>introduction rules for keeps\<close>

lemma keepsD: "keeps P m \<Longrightarrow> m h = (r, h') \<Longrightarrow> \<exists>new. h' = h @ new \<and> P new"
  unfolding keeps_def by (rule doesD)

lemma keeps_ret [keeps_intros]: "additive P \<Longrightarrow> keeps P (retA a)"
  unfolding keeps_def additive_def by (rule does_ret) simp

lemma keeps_fail [keeps_intros]: "additive P \<Longrightarrow> keeps P (failA e)"
  unfolding keeps_def additive_def by (rule does_fail) simp

lemma keeps_lift [keeps_intros]: "additive P \<Longrightarrow> keeps P (liftA r)"
  unfolding keeps_def additive_def by (rule does_lift) simp

lemma keeps_try [keeps_intros]: "additive P \<Longrightarrow> keeps P m \<Longrightarrow> (\<And>r. keeps P (f r)) \<Longrightarrow> keeps P (tryA m f)"
  unfolding keeps_def additive_def by (erule does_try [where S = "\<lambda>_ n _. P n"]) auto

lemma keeps_bind [keeps_intros]: "additive P \<Longrightarrow> keeps P m \<Longrightarrow> (\<And>a. keeps P (f a)) \<Longrightarrow> keeps P (bindA m f)"
  unfolding bindA_def by (rule keeps_try) (auto split: sum.splits intro: keeps_fail)

lemma keeps_seq [keeps_intros]: "additive P \<Longrightarrow> keeps P m \<Longrightarrow> keeps P n \<Longrightarrow> keeps P (seqA m n)"
  unfolding seqA_def by (rule keeps_bind)

lemma keeps_if [keeps_intros]: "(b \<Longrightarrow> keeps P m) \<Longrightarrow> (\<not> b \<Longrightarrow> keeps P n) \<Longrightarrow> keeps P (if b then m else n)"
  by simp

lemma keeps_case_option [keeps_intros]:
  "(x = None \<Longrightarrow> keeps P m) \<Longrightarrow> (\<And>a. x = Some a \<Longrightarrow> keeps P (f a)) \<Longrightarrow>
   keeps P (case x of None \<Rightarrow> m | Some a \<Rightarrow> f a)"
  by (cases x) simp_all

lemma keeps_case_sum [keeps_intros]:
  "(\<And>e. x = Inl e \<Longrightarrow> keeps P (f e)) \<Longrightarrow> (\<And>a. x = Inr a \<Longrightarrow> keeps P (g a)) \<Longrightarrow>
   keeps P (case x of Inl e \<Rightarrow> f e | Inr a \<Rightarrow> g a)"
  by (cases x) simp_all

lemma keeps_for [keeps_intros]: "additive P \<Longrightarrow> (\<And>x. x \<in> set xs \<Longrightarrow> keeps P (f x)) \<Longrightarrow> keeps P (forA f xs)"
  by (induction xs) (auto intro: keeps_ret keeps_seq)

lemma keeps_only: "only_calls Q m \<Longrightarrow> (\<And>new. list_all (Q \<circ> fst) new \<Longrightarrow> P new) \<Longrightarrow> keeps P m"
  unfolding keeps_def only_calls_def by (erule does_mono) blast

lemma seqA_InrE:
  assumes "seqA m n h = (Inr b, h')"
  obtains a h1 where "m h = (Inr a, h1)" "n h1 = (Inr b, h')"
  using assms by (auto simp: act_simps split: prod.splits sum.splits)

lemma bindA_InrE:
  assumes "bindA m f h = (Inr b, h')"
  obtains a h1 where "m h = (Inr a, h1)" "f a h1 = (Inr b, h')"
  using assms by (auto simp: act_simps split: prod.splits sum.splits)

section \<open>Fields of HTTP requests\<close>

definition split_path_query :: "string \<Rightarrow> string \<times> string" where
  "split_path_query path_and_query = unwrap_or (split_once (CHR ''?'') path_and_query) (path_and_query, [])"

text \<open>The first pair of the query with the key and an equals sign.\<close>

fun query_value :: "string \<Rightarrow> string list \<Rightarrow> string option" where
  "query_value key [] = None"
| "query_value key (p # ps) = (case split_once (CHR ''='') p of
     Some (k, v) \<Rightarrow> if k = key then Some v else query_value key ps
   | None \<Rightarrow> query_value key ps)"

definition resolve_http_field ::
  "(rat \<Rightarrow> string) \<Rightarrow> FilterCondition \<Rightarrow> string \<Rightarrow> string \<Rightarrow> json \<Rightarrow> (string \<Rightarrow> string option) \<Rightarrow> string option" where
  "resolve_http_field show_f64 condition http_verb path body header_lookup =
     (let (path_only, query_str) = split_path_query path; field = fc_field condition
      in if field = ''http.method'' then Some http_verb
         else if field = ''http.path'' then Some path_only
         else if field = ''http.body'' then
           (case fc_json_path condition of
              Some json_path \<Rightarrow> extract_json_path show_f64 body json_path
            | None \<Rightarrow> as_str body)
         else (case strip_prefix ''http.header.'' field of
              Some key \<Rightarrow> header_lookup key
            | None \<Rightarrow>
                (case strip_prefix ''http.query.'' field of
                   Some key \<Rightarrow> query_value key (split_on (CHR ''&'') query_str)
                 | None \<Rightarrow> None)))"

definition nth_opt :: "'a list \<Rightarrow> nat \<Rightarrow> 'a option" where
  "nth_opt xs n = (if n < length xs then Some (xs ! n) else None)"

definition extract_http_test_id ::
  "(rat \<Rightarrow> string) \<Rightarrow> TestIdSelector \<Rightarrow> json \<Rightarrow> string \<Rightarrow> (string \<Rightarrow> string option) \<Rightarrow> string option" where
  "extract_http_test_id show_f64 selector body path header_lookup =
     (let path_only = fst (split_path_query path)
      in case ts_value selector of
           Some value \<Rightarrow> Some value
         | None \<Rightarrow> Option.bind (ts_field selector) (\<lambda>field.
             if field = ''http.body'' then
               (case ts_json_path selector of
                  Some json_path \<Rightarrow> extract_json_path show_f64 body json_path
                | None \<Rightarrow> as_str body)
             else if field = ''http.path'' then
               (case ts_path_segment selector of
                  Some segment \<Rightarrow>
                    nth_opt (filter (\<lambda>part. part \<noteq> []) (split_on (CHR ''/'') path_only)) (as_usize (segment - 1))
                | None \<Rightarrow> Some path_only)
             else Option.bind (strip_prefix ''http.header.'' field) header_lookup))"

section \<open>The runtime of a plugin\<close>

record PluginInceptorRuntime =
  rt_roles :: "PluginRole list"
  rt_testcase_registration_url :: string
  rt_test_container_url :: string
  rt_testcase_verify_path_template :: "string option"
  rt_inception_point :: string
  rt_blue_green_ref :: string
  rt_auth_token :: "string option"

definition runtime_from_env :: "env_vars \<Rightarrow> PluginInceptorRuntime" where
  "runtime_from_env env = \<lparr>
     rt_roles = active_roles env,
     rt_testcase_registration_url = unwrap_or (env ''FLUIDBG_TESTCASE_REGISTRATION_URL'') ''http://localhost:8090/testcases'',
     rt_test_container_url = unwrap_or (env ''FLUIDBG_TEST_CONTAINER_URL'') ''http://localhost:8080'',
     rt_testcase_verify_path_template = env ''FLUIDBG_TESTCASE_VERIFY_PATH_TEMPLATE'',
     rt_inception_point = unwrap_or (env ''FLUIDBG_INCEPTION_POINT'') ''unknown'',
     rt_blue_green_ref = unwrap_or (env ''FLUIDBG_BLUE_GREEN_REF'') ''unknown'',
     rt_auth_token = auth_token_from_env env\<rparr>"

definition runtime_has_role :: "PluginInceptorRuntime \<Rightarrow> PluginRole \<Rightarrow> bool" where
  "runtime_has_role rt role = has_role (rt_roles rt) role"

definition notification_json :: "string \<Rightarrow> string \<Rightarrow> TrafficRoute \<Rightarrow> json \<Rightarrow> json" where
  "notification_json test_id inception_point route payload = JObj [
     (''testId'', JStr test_id), (''inceptionPoint'', JStr inception_point),
     (''route'', JStr (route_as_str route)), (''payload'', payload)]"

definition register_request_json :: "(int \<Rightarrow> string) \<Rightarrow> RegisterTestCaseRequest \<Rightarrow> json" where
  "register_request_json show_time r = JObj (
     [(''test_id'', JStr (rq_test_id r)), (''blue_green_ref'', JStr (rq_blue_green_ref r)),
      (''inception_point'', JStr (rq_inception_point r))]
     @ (case rq_triggered_at r of None \<Rightarrow> [] | Some t \<Rightarrow> [(''triggered_at'', JStr (show_time t))])
     @ (case rq_timeout_seconds r of None \<Rightarrow> [] | Some n \<Rightarrow> [(''timeout_seconds'', JInt n)])
     @ (case rq_verify_url r of None \<Rightarrow> [] | Some u \<Rightarrow> [(''verify_url'', JStr u)]))"

text \<open>The mode of a plugin; each plugin declares the same enumeration.\<close>

datatype RuntimeMode = ModeActive | ModeDraining | ModeIdle

definition mode_as_u8 :: "RuntimeMode \<Rightarrow> u8" where
  "mode_as_u8 m = (case m of ModeActive \<Rightarrow> 0 | ModeDraining \<Rightarrow> 1 | ModeIdle \<Rightarrow> 2)"

definition mode_from_u8 :: "u8 \<Rightarrow> RuntimeMode" where
  "mode_from_u8 v = (if v = 1 then ModeDraining else if v = 2 then ModeIdle else ModeActive)"

lemma mode_roundtrip [simp]: "mode_from_u8 (mode_as_u8 m) = m"
  by (cases m) (simp_all add: mode_from_u8_def mode_as_u8_def)

section \<open>Deliveries\<close>

text \<open>A POST of a JSON body, with the value of its \<open>Authorization\<close> header. A plugin's calls contain them through \<open>wrap\<close>;
  the answer is a transport error or a status.\<close>

record post =
  post_url :: string
  post_auth :: "string option"
  post_body :: json

fun deliver_attempts :: "('c calls \<Rightarrow> string + nat) \<Rightarrow> 'c \<Rightarrow> nat \<Rightarrow> string option \<Rightarrow> ('c, string, unit) act" where
  "deliver_attempts answer c 0 last_error = failA (unwrap_or last_error ''request failed'')"
| "deliver_attempts answer c (Suc n) last_error =
     tryA (callA answer c) (\<lambda>r. case r of
       Inr st \<Rightarrow>
         if status_success st then retA ()
         else if \<not> retryable_status st then
           (if 400 \<le> st \<and> st < 600 then failA ''HTTP status client error'' else retA ())
         else deliver_attempts answer c n (Some (''HTTP status '' @ show_nat st))
     | Inl e \<Rightarrow> deliver_attempts answer c n (Some e))"

definition deliver :: "('c calls \<Rightarrow> 'c \<Rightarrow> string + nat) \<Rightarrow> 'c \<Rightarrow> ('c, string, unit) act" where
  "deliver send c = deliver_attempts (\<lambda>h. send h c) c delivery_attempts None"

definition runtime_notify_observer ::
  "('c calls \<Rightarrow> 'c \<Rightarrow> string + nat) \<Rightarrow> (post \<Rightarrow> 'c) \<Rightarrow> PluginInceptorRuntime \<Rightarrow> string \<Rightarrow> string \<Rightarrow> json \<Rightarrow> TrafficRoute \<Rightarrow>
   ('c, string, unit) act" where
  "runtime_notify_observer send wrap rt notify_path test_id payload route =
     deliver send (wrap \<lparr>post_url = notify_url (rt_test_container_url rt) notify_path test_id (rt_inception_point rt),
       post_auth = map_option bearer_value (rt_auth_token rt),
       post_body = notification_json test_id (rt_inception_point rt) route payload\<rparr>)"

definition registration_post :: "(int \<Rightarrow> string) \<Rightarrow> PluginInceptorRuntime \<Rightarrow> string \<Rightarrow> int \<Rightarrow> post" where
  "registration_post show_time rt test_id now = \<lparr>post_url = rt_testcase_registration_url rt,
     post_auth = map_option bearer_value (rt_auth_token rt),
     post_body = register_request_json show_time (registration_request (rt_blue_green_ref rt) (rt_inception_point rt) test_id
       (rt_test_container_url rt) (rt_testcase_verify_path_template rt) now)\<rparr>"

definition runtime_register_test_case ::
  "('c calls \<Rightarrow> 'c \<Rightarrow> string + nat) \<Rightarrow> (post \<Rightarrow> 'c) \<Rightarrow> ('c calls \<Rightarrow> int) \<Rightarrow> (int \<Rightarrow> string) \<Rightarrow>
   PluginInceptorRuntime \<Rightarrow> string \<Rightarrow> ('c, string, unit) act" where
  "runtime_register_test_case send wrap clock show_time rt test_id h =
     deliver send (wrap (registration_post show_time rt test_id (clock h))) h"

lemma does_deliver_attempts:
  "does (deliver_attempts answer c n e) (\<lambda>new r. length new \<le> n \<and> list_all (\<lambda>(x, ok). x = c) new \<and> (r = Inr () \<longrightarrow> new \<noteq> []))"
proof (induction n arbitrary: e)
  case 0
  then show ?case by (auto intro: does_fail)
next
  case (Suc n)
  have "does (case r of
       Inr st \<Rightarrow>
         if status_success st then retA ()
         else if \<not> retryable_status st then
           (if 400 \<le> st \<and> st < 600 then failA ''HTTP status client error'' else retA ())
         else deliver_attempts answer c n (Some (''HTTP status '' @ show_nat st))
     | Inl e \<Rightarrow> deliver_attempts answer c n (Some e)) (\<lambda>new r. length new \<le> n \<and> list_all (\<lambda>(x, ok). x = c) new)" for r
    by (cases r) (auto intro: does_ret does_fail does_mono [OF Suc.IH])
  then show ?case
    unfolding deliver_attempts.simps
    by (rule does_try [where R = "\<lambda>new r. \<exists>ok. new = [(c, ok)]", rotated]) (auto intro: does_call)
qed

lemma does_deliver:
  "does (deliver send c) (\<lambda>new r. length new \<le> 10 \<and> list_all (\<lambda>(x, ok). x = c) new \<and> (r = Inr () \<longrightarrow> new \<noteq> []))"
  unfolding deliver_def by (rule does_mono [OF does_deliver_attempts]) (auto simp: delivery_attempts_def)

lemma calls_deliver [calls_intros]: "P c \<Longrightarrow> only_calls P (deliver send c)"
  unfolding only_calls_def by (rule does_mono [OF does_deliver]) (auto simp: list_all_iff)

end
