(* ===== verification/HttpPlugin.thy ===== *)
theory HttpPlugin
  imports PluginEffects
begin

text \<open>
  The HTTP plugin (\<open>src/plugins/http/src\<close>): its configuration, the filters, the proxy, the writer and the control
  plane. The shared atomics (mode, admitted requests, traffic share) are the record \<open>HttpState\<close>, which a handler
  reads when it starts; how they change between handlers is the subject of the theory HttpDrain. Header names are
  lower-case, as the HTTP library keeps them. Bodies are byte strings; a streamed body is forwarded as it arrives.
\<close>

section \<open>Configuration (config.rs)\<close>

datatype ProxyProtocol = ProtoHttp | ProtoHttps

record DirectionConfig =
  dir_filters :: "NotificationFilter list"

record InboundTlsConfig =
  itls_enabled :: bool
  itls_port :: "nat option"
  itls_cert_path :: "string option"
  itls_key_path :: "string option"

record ClientTlsConfig =
  ctls_ca_cert_path :: "string option"
  ctls_insecure_skip_verify :: bool

record HttpConfig =
  hc_port :: "nat option"
  hc_proxy_protocol :: "ProxyProtocol option"
  hc_write_protocol :: "ProxyProtocol option"
  hc_real_endpoint :: "string option"
  hc_target_url :: "string option"
  hc_green_endpoint :: "string option"
  hc_blue_endpoint :: "string option"
  hc_env_var_name :: "string option"
  hc_write_env_var :: "string option"
  hc_verifier_endpoint :: "string option"
  hc_mock_path :: "string option"
  hc_test_id :: "TestIdSelector option"
  hc_match :: "FilterCondition list"
  hc_filters :: "NotificationFilter list"
  hc_ingress :: "DirectionConfig option"
  hc_egress :: "DirectionConfig option"
  hc_tls_inbound :: InboundTlsConfig
  hc_client_tls :: ClientTlsConfig

definition listen_port :: "HttpConfig \<Rightarrow> nat" where
  "listen_port config = unwrap_or (hc_port config) 9090"

definition inbound_https_port :: "HttpConfig \<Rightarrow> nat" where
  "inbound_https_port config = unwrap_or (itls_port (hc_tls_inbound config)) 9443"

definition resolve_runtime_endpoint_with :: "string \<Rightarrow> string \<Rightarrow> string" where
  "resolve_runtime_endpoint_with endpoint test_container_url =
     str_replace ''{testContainerUrl}'' test_container_url
       (str_replace ''{{testContainerUrl}}'' test_container_url endpoint)"

definition resolve_runtime_endpoint :: "env_vars \<Rightarrow> string \<Rightarrow> string" where
  "resolve_runtime_endpoint env endpoint =
     resolve_runtime_endpoint_with endpoint (unwrap_or (env ''FLUIDBG_TEST_CONTAINER_URL'') [])"

definition routed_proxy_target :: "env_vars \<Rightarrow> HttpConfig \<Rightarrow> TrafficRoute \<Rightarrow> string option" where
  "routed_proxy_target env config route = map_option (resolve_runtime_endpoint env) (case route of
     RouteBlue \<Rightarrow> opt_or (hc_blue_endpoint config) (hc_real_endpoint config)
   | RouteGreen \<Rightarrow> opt_or (hc_green_endpoint config) (hc_real_endpoint config)
   | _ \<Rightarrow> hc_real_endpoint config)"

definition write_target :: "env_vars \<Rightarrow> HttpConfig \<Rightarrow> string option" where
  "write_target env config =
     map_option (resolve_runtime_endpoint env) (opt_or (hc_target_url config) (hc_real_endpoint config))"

definition verifier_base_url :: "env_vars \<Rightarrow> HttpConfig \<Rightarrow> string \<Rightarrow> string" where
  "verifier_base_url env config runtime_test_container_url =
     unwrap_or (map_option (resolve_runtime_endpoint env) (hc_verifier_endpoint config)) runtime_test_container_url"

definition validate_inbound_tls :: "InboundTlsConfig \<Rightarrow> string + unit" where
  "validate_inbound_tls tls =
     (if \<not> itls_enabled tls then Inr ()
      else if unwrap_or (itls_port tls) 9443 = 0 then Inl ''tls.inbound.port must be greater than zero''
      else if unwrap_or (itls_cert_path tls) [] = [] then Inl ''tls.inbound.certPath is required when inbound TLS is enabled''
      else if unwrap_or (itls_key_path tls) [] = [] then Inl ''tls.inbound.keyPath is required when inbound TLS is enabled''
      else Inr ())"

definition validate_http_config :: "HttpConfig \<Rightarrow> string + unit" where
  "validate_http_config config =
     (case (if hc_proxy_protocol config = Some ProtoHttps \<or> hc_write_protocol config = Some ProtoHttps
            then validate_inbound_tls (hc_tls_inbound config) else Inr ()) of
        Inl e \<Rightarrow> Inl e
      | Inr _ \<Rightarrow> if itls_enabled (hc_tls_inbound config) then validate_inbound_tls (hc_tls_inbound config) else Inr ())"

section \<open>Requests, answers and the outside world\<close>

type_synonym headers = "(string \<times> string) list"

record http_request =
  hr_method :: string
  hr_path_and_query :: string
  hr_headers :: headers
  hr_body :: "string + bytes"

datatype payload = Buffered bytes | Streaming "string + bytes" | JsonPayload json

record out_request =
  or_method :: string
  or_url :: string
  or_headers :: headers
  or_body :: payload

record http_response =
  resp_status :: nat
  resp_headers :: headers
  resp_body :: bytes

text \<open>What the proxy calls: requests it passes on, and posts of its own to the verifier and the operator.\<close>

datatype http_call = Forward out_request | Post post

record http_env =
  he_forward :: "http_call calls \<Rightarrow> out_request \<Rightarrow> string + http_response"
  he_post :: "http_call calls \<Rightarrow> post \<Rightarrow> string + nat"
  he_clock :: "http_call calls \<Rightarrow> int"
  he_show_time :: "int \<Rightarrow> string"
  he_vars :: env_vars
  he_hash :: "bytes \<Rightarrow> nat"
  he_regex :: "string \<Rightarrow> string \<Rightarrow> bool option"
  he_show_f64 :: "rat \<Rightarrow> string"
  he_parse_json :: "bytes \<Rightarrow> json option"
  he_text :: "bytes \<Rightarrow> string"

definition http_send :: "http_env \<Rightarrow> http_call calls \<Rightarrow> http_call \<Rightarrow> string + nat" where
  "http_send env h c = (case c of Post p \<Rightarrow> he_post env h p | Forward r \<Rightarrow> map_sum id resp_status (he_forward env h r))"

section \<open>Shared state (state.rs)\<close>

record HttpState =
  hs_mode :: u8
  hs_active_requests :: nat
  hs_traffic_percent :: nat

record AppState =
  app_config :: HttpConfig
  app_runtime :: PluginInceptorRuntime

definition runtime_mode :: "HttpState \<Rightarrow> RuntimeMode" where
  "runtime_mode s = mode_from_u8 (hs_mode s)"

definition set_runtime_mode :: "RuntimeMode \<Rightarrow> HttpState \<Rightarrow> HttpState" where
  "set_runtime_mode m s = s\<lparr>hs_mode := mode_as_u8 m\<rparr>"

section \<open>Filters (filters.rs)\<close>

definition visible_ascii :: "char \<Rightarrow> bool" where
  "visible_ascii c = (let n = (of_char c :: nat) in 32 \<le> n \<and> n < 127 \<or> n = 9)"

definition header_to_str :: "string \<Rightarrow> string option" where
  "header_to_str v = (if list_all visible_ascii v then Some v else None)"

definition header_lookup :: "headers \<Rightarrow> string \<Rightarrow> string option" where
  "header_lookup hs key = Option.bind (map_of hs (map to_ascii_lowercase key)) header_to_str"

definition http_resolve_field :: "http_env \<Rightarrow> FilterCondition \<Rightarrow> string \<Rightarrow> string \<Rightarrow> headers \<Rightarrow> json \<Rightarrow> string option" where
  "http_resolve_field env c http_verb path hs body =
     resolve_http_field (he_show_f64 env) c http_verb path body (header_lookup hs)"

definition http_matches_filter :: "http_env \<Rightarrow> FilterCondition list \<Rightarrow> string \<Rightarrow> string \<Rightarrow> headers \<Rightarrow> json \<Rightarrow> bool" where
  "http_matches_filter env conditions http_verb path hs body =
     match_conditions (he_regex env) conditions (\<lambda>c. http_resolve_field env c http_verb path hs body)"

definition direction_filters :: "HttpConfig \<Rightarrow> NotificationFilter list" where
  "direction_filters config =
     (case hc_ingress config of None \<Rightarrow> [] | Some d \<Rightarrow> dir_filters d)
     @ (case hc_egress config of None \<Rightarrow> [] | Some d \<Rightarrow> dir_filters d)"

definition matching_filter :: "http_env \<Rightarrow> HttpConfig \<Rightarrow> string \<Rightarrow> string \<Rightarrow> headers \<Rightarrow> json \<Rightarrow> NotificationFilter option" where
  "matching_filter env config http_verb path hs body =
     find (\<lambda>f. http_matches_filter env (nf_match f) http_verb path hs body) (hc_filters config @ direction_filters config)"

definition has_any_filters :: "HttpConfig \<Rightarrow> bool" where
  "has_any_filters config \<longleftrightarrow> hc_filters config \<noteq> []
     \<or> (case hc_ingress config of None \<Rightarrow> False | Some d \<Rightarrow> dir_filters d \<noteq> [])
     \<or> (case hc_egress config of None \<Rightarrow> False | Some d \<Rightarrow> dir_filters d \<noteq> [])"

definition http_extract_test_id :: "http_env \<Rightarrow> TestIdSelector \<Rightarrow> json \<Rightarrow> string \<Rightarrow> headers \<Rightarrow> string option" where
  "http_extract_test_id env sel body path hs = extract_http_test_id (he_show_f64 env) sel body path (header_lookup hs)"

section \<open>Forwarding (handlers.rs)\<close>

abbreviation authorization_header :: string where
  "authorization_header \<equiv> ''authorization''"

definition plain_response :: "nat \<Rightarrow> string \<Rightarrow> http_response" where
  "plain_response status body = \<lparr>resp_status = status, resp_headers = [(''content-type'', ''text/plain; charset=utf-8'')],
     resp_body = as_bytes body\<rparr>"

definition is_hop_by_hop_header :: "string \<Rightarrow> bool" where
  "is_hop_by_hop_header name \<longleftrightarrow> map to_ascii_lowercase name \<in> {''connection'', ''keep-alive'', ''proxy-authenticate'',
     ''proxy-authorization'', ''te'', ''trailer'', ''transfer-encoding'', ''upgrade''}"

definition should_forward_request_header :: "string \<Rightarrow> bool" where
  "should_forward_request_header name \<longleftrightarrow> \<not> is_hop_by_hop_header name \<and> name \<noteq> ''host'' \<and> name \<noteq> ''content-length''"

definition should_forward_response_header :: "string \<Rightarrow> bool" where
  "should_forward_response_header name \<longleftrightarrow>
     \<not> is_hop_by_hop_header name \<and> name \<noteq> ''content-length'' \<and> name \<noteq> ''transfer-encoding''"

definition response_from_reqwest :: "http_response \<Rightarrow> http_response" where
  "response_from_reqwest resp = resp\<lparr>resp_headers := filter (\<lambda>(n, v). should_forward_response_header n) (resp_headers resp)\<rparr>"

definition forward_raw_request ::
  "http_env \<Rightarrow> string \<Rightarrow> string \<Rightarrow> headers \<Rightarrow> payload \<Rightarrow> headers \<Rightarrow> (http_call, 'e, http_response) act" where
  "forward_raw_request env http_verb url hs body extra_headers =
     (let overrides_authorization = list_ex (\<lambda>(n, v). map to_ascii_lowercase n = authorization_header) extra_headers;
          kept = filter (\<lambda>(n, v). \<not> (overrides_authorization \<and> map to_ascii_lowercase n = authorization_header)
                   \<and> should_forward_request_header n) hs;
          out = \<lparr>or_method = http_verb, or_url = url, or_headers = kept @ extra_headers, or_body = body\<rparr>
      in tryA (callA (\<lambda>h. he_forward env h out) (Forward out)) (\<lambda>r. case r of
           Inr resp \<Rightarrow> retA (response_from_reqwest resp)
         | Inl _ \<Rightarrow> retA (plain_response 502 ''upstream error'')))"

definition forward_streaming_request ::
  "http_env \<Rightarrow> string \<Rightarrow> string \<Rightarrow> headers \<Rightarrow> string + bytes \<Rightarrow> headers \<Rightarrow> (http_call, 'e, http_response) act" where
  "forward_streaming_request env http_verb url hs body extra_headers =
     forward_raw_request env http_verb url hs (Streaming body) extra_headers"

definition verifier_headers :: "AppState \<Rightarrow> string \<Rightarrow> TrafficRoute \<Rightarrow> headers" where
  "verifier_headers app test_id route =
     (case rt_auth_token (app_runtime app) of None \<Rightarrow> [] | Some token \<Rightarrow> [(authorization_header, bearer_value token)])
     @ [(''x-fluidbg-test-id'', test_id), (''x-fluidbg-inception-point'', rt_inception_point (app_runtime app)),
        (''x-fluidbg-blue-green-ref'', rt_blue_green_ref (app_runtime app)), (''x-fluidbg-route'', route_as_str route)]"

definition join_target_url :: "string \<Rightarrow> string \<Rightarrow> string" where
  "join_target_url base path_and_query =
     (let (path, query) = (case split_once (CHR ''?'') path_and_query of
            Some (path, query) \<Rightarrow> (path, Some query) | None \<Rightarrow> (path_and_query, None));
          base = trim_end_slash base;
          joined = (if path = [] \<or> path = ''/'' then base else base @ path)
      in case query of
           Some query \<Rightarrow> if query \<noteq> [] then joined @ ''?'' @ query else joined
         | None \<Rightarrow> joined)"

section \<open>Which requests need their body\<close>

definition conditions_use_body :: "FilterCondition list \<Rightarrow> bool" where
  "conditions_use_body conditions = list_ex (\<lambda>c. fc_field c = ''http.body'') conditions"

definition filter_uses_body :: "NotificationFilter \<Rightarrow> bool" where
  "filter_uses_body f = conditions_use_body (nf_match f)"

definition selector_uses_body :: "TestIdSelector option \<Rightarrow> bool" where
  "selector_uses_body selector \<longleftrightarrow> Option.bind selector ts_field = Some ''http.body''"

definition config_uses_body :: "HttpConfig \<Rightarrow> bool" where
  "config_uses_body config \<longleftrightarrow> selector_uses_body (hc_test_id config) \<or> conditions_use_body (hc_match config)
     \<or> list_ex filter_uses_body (hc_filters config)
     \<or> (case hc_ingress config of None \<Rightarrow> False | Some d \<Rightarrow> list_ex filter_uses_body (dir_filters d))
     \<or> (case hc_egress config of None \<Rightarrow> False | Some d \<Rightarrow> list_ex filter_uses_body (dir_filters d))"

definition app_has_role :: "AppState \<Rightarrow> PluginRole \<Rightarrow> bool" where
  "app_has_role app role = runtime_has_role (app_runtime app) role"

definition request_requires_buffer :: "AppState \<Rightarrow> bool" where
  "request_requires_buffer app \<longleftrightarrow>
     app_has_role app Splitter \<or> app_has_role app Observer \<or> config_uses_body (app_config app)"

definition matches_without_body :: "http_env \<Rightarrow> HttpConfig \<Rightarrow> string \<Rightarrow> string \<Rightarrow> headers \<Rightarrow> bool" where
  "matches_without_body env config http_verb path hs \<longleftrightarrow>
     http_matches_filter env (hc_match config) http_verb path hs JNull \<and>
     (\<not> has_any_filters config \<or> matching_filter env config http_verb path hs JNull \<noteq> None)"

definition filter_mock_path :: "HttpConfig \<Rightarrow> NotificationFilter option \<Rightarrow> string option" where
  "filter_mock_path config f = opt_or (Option.bind f nf_mock_path) (hc_mock_path config)"

definition should_mock_request :: "HttpConfig \<Rightarrow> NotificationFilter option \<Rightarrow> bool" where
  "should_mock_request config f \<longleftrightarrow> filter_mock_path config f \<noteq> None"

section \<open>The proxy\<close>

definition verifier_url :: "http_env \<Rightarrow> AppState \<Rightarrow> string \<Rightarrow> string \<Rightarrow> string" where
  "verifier_url env app template test_id =
     trim_end_slash (verifier_base_url (he_vars env) (app_config app) (rt_test_container_url (app_runtime app)))
     @ render_path template test_id (rt_inception_point (app_runtime app))"

definition notify_observer_with_client ::
  "http_env \<Rightarrow> AppState \<Rightarrow> string \<Rightarrow> string \<Rightarrow> json \<Rightarrow> TrafficRoute \<Rightarrow> (http_call, string, unit) act" where
  "notify_observer_with_client env app notify_path test_id payload route =
     (let p = \<lparr>post_url = verifier_url env app notify_path test_id,
               post_auth = map_option bearer_value (rt_auth_token (app_runtime app)),
               post_body = notification_json test_id (rt_inception_point (app_runtime app)) route payload\<rparr>
      in bindA (callA (\<lambda>h. he_post env h p) (Post p)) (\<lambda>st.
           if 400 \<le> st \<and> st < 600 then failA ''HTTP status error'' else retA ()))"

definition forward_mock_request ::
  "http_env \<Rightarrow> AppState \<Rightarrow> NotificationFilter option \<Rightarrow> string option \<Rightarrow> TrafficRoute \<Rightarrow> string \<Rightarrow> headers \<Rightarrow> bytes \<Rightarrow>
   (http_call, 'e, http_response) act" where
  "forward_mock_request env app f test_id route http_verb hs body = (case filter_mock_path (app_config app) f of
     None \<Rightarrow> retA (plain_response 502 ''mockPath not configured for HTTP mock role'')
   | Some mock_path \<Rightarrow>
       (let test_id = unwrap_or test_id ''unknown''
        in forward_raw_request env http_verb (verifier_url env app mock_path test_id) hs (Buffered body)
             (verifier_headers app test_id route)))"

definition forward_mock_streaming_request ::
  "http_env \<Rightarrow> AppState \<Rightarrow> http_request \<Rightarrow> (http_call, 'e, http_response) act" where
  "forward_mock_streaming_request env app req =
     (let f = matching_filter env (app_config app) (hr_method req) (hr_path_and_query req) (hr_headers req) JNull
      in case filter_mock_path (app_config app) f of
           None \<Rightarrow> retA (plain_response 502 ''mockPath not configured for HTTP mock role'')
         | Some mock_path \<Rightarrow>
             (let test_id = unwrap_or (Option.bind (hc_test_id (app_config app)) (\<lambda>sel.
                    http_extract_test_id env sel JNull (hr_path_and_query req) (hr_headers req))) ''unknown''
              in forward_streaming_request env (hr_method req) (verifier_url env app mock_path test_id) (hr_headers req)
                   (hr_body req) (verifier_headers app test_id RouteBlue)))"

text \<open>A request whose body is not needed.\<close>

definition proxy_streaming :: "http_env \<Rightarrow> AppState \<Rightarrow> http_request \<Rightarrow> (http_call, 'e, http_response) act" where
  "proxy_streaming env app req =
     (let config = app_config app;
          matched = matches_without_body env config (hr_method req) (hr_path_and_query req) (hr_headers req);
          matched_filter = matching_filter env config (hr_method req) (hr_path_and_query req) (hr_headers req) JNull
      in if matched \<and> app_has_role app Mock \<and> should_mock_request config matched_filter
         then forward_mock_streaming_request env app req
         else (case routed_proxy_target (he_vars env) config RouteBlue of
                 None \<Rightarrow> retA (plain_response 502 ''realEndpoint not configured'')
               | Some real_endpoint \<Rightarrow>
                   forward_streaming_request env (hr_method req) (join_target_url real_endpoint (hr_path_and_query req))
                     (hr_headers req) (hr_body req) []))"

text \<open>A body beyond the limit, or one that breaks off, is read as the empty body.\<close>

definition buffer_limit :: nat where
  "buffer_limit = 10485760"

definition buffer_body :: "string + bytes \<Rightarrow> bytes" where
  "buffer_body body = (case body of Inl _ \<Rightarrow> [] | Inr b \<Rightarrow> if length b \<le> buffer_limit then b else [])"

definition splitter_route :: "http_env \<Rightarrow> AppState \<Rightarrow> HttpState \<Rightarrow> bytes \<Rightarrow> TrafficRoute" where
  "splitter_route env app s body =
     (if app_has_role app Splitter
      then if routes_to_blue (he_hash env) body (min (hs_traffic_percent s) 100) then RouteBlue else RouteGreen
      else RouteBlue)"

definition observe_request ::
  "http_env \<Rightarrow> AppState \<Rightarrow> NotificationFilter option \<Rightarrow> string \<Rightarrow> json \<Rightarrow> TrafficRoute \<Rightarrow> (http_call, 'e, unit) act" where
  "observe_request env app matched_filter test_id body_json route =
     bindA (case Option.bind matched_filter nf_notify_path of
              None \<Rightarrow> retA False
            | Some notify_path \<Rightarrow>
                tryA (notify_observer_with_client env app notify_path test_id body_json route) (\<lambda>r. retA (case r of Inl _ \<Rightarrow> False | Inr _ \<Rightarrow> True)))
       (\<lambda>verifier_notified.
          if verifier_notified \<and> should_register_case route
          then tryA (runtime_register_test_case (http_send env) Post (he_clock env) (he_show_time env) (app_runtime app) test_id)
                 (\<lambda>_. retA ())
          else retA ())"

definition proxy_buffered :: "http_env \<Rightarrow> AppState \<Rightarrow> HttpState \<Rightarrow> http_request \<Rightarrow> (http_call, 'e, http_response) act" where
  "proxy_buffered env app s req =
     (let config = app_config app; http_verb = hr_method req; path = hr_path_and_query req; hs = hr_headers req;
          body_bytes = buffer_body (hr_body req);
          body_json = unwrap_or (he_parse_json env body_bytes) JNull;
          route = splitter_route env app s body_bytes;
          matched_filter = matching_filter env config http_verb path hs body_json;
          matched = http_matches_filter env (hc_match config) http_verb path hs body_json
            \<and> (\<not> has_any_filters config \<or> matched_filter \<noteq> None);
          test_id = Option.bind (hc_test_id config) (\<lambda>sel. http_extract_test_id env sel body_json path hs)
      in seqA (if matched \<and> app_has_role app Observer
               then (case test_id of None \<Rightarrow> retA () | Some t \<Rightarrow> observe_request env app matched_filter t body_json route)
               else retA ())
          (if matched \<and> app_has_role app Mock \<and> should_mock_request config matched_filter
           then forward_mock_request env app matched_filter test_id route http_verb hs body_bytes
           else (case routed_proxy_target (he_vars env) config route of
                   None \<Rightarrow> retA (plain_response 502 ''realEndpoint not configured'')
                 | Some real_endpoint \<Rightarrow>
                     forward_raw_request env http_verb (join_target_url real_endpoint path) hs (Buffered body_bytes) [])))"

definition proxy_handler :: "http_env \<Rightarrow> AppState \<Rightarrow> HttpState \<Rightarrow> http_request \<Rightarrow> (http_call, 'e, http_response) act" where
  "proxy_handler env app s req =
     (if \<not> app_has_role app Splitter \<and> \<not> app_has_role app Observer \<and> \<not> app_has_role app Mock
      then retA (plain_response 404 ''fluidbg http proxy role is not active'')
      else if runtime_mode s \<noteq> ModeActive then retA (plain_response 503 ''fluidbg http plugin is not active'')
      else if \<not> request_requires_buffer app then proxy_streaming env app req
      else proxy_buffered env app s req)"

section \<open>The writer\<close>

record HttpWriteRequest =
  hw_test_id :: "string option"
  hw_payload :: json
  hw_method :: "string option"
  hw_headers :: "json option"
  hw_path :: "string option"

definition authorize_operator :: "AppState \<Rightarrow> headers \<Rightarrow> nat + unit" where
  "authorize_operator app hs =
     (if bearer_matches (header_lookup hs authorization_header) (rt_auth_token (app_runtime app)) then Inr () else Inl 401)"

definition authorize_operator_response :: "AppState \<Rightarrow> headers \<Rightarrow> (nat \<times> string) + unit" where
  "authorize_operator_response app hs =
     map_sum (\<lambda>_. (401, ''unauthorized'')) id
       (require_bearer_token (header_lookup hs authorization_header) (rt_auth_token (app_runtime app)))"

text \<open>An HTTP method is a non-empty token.\<close>

definition is_token_char :: "char \<Rightarrow> bool" where
  "is_token_char c \<longleftrightarrow> is_ascii_alphanumeric c \<or> c \<in> set ''!#$%&*+-.^_`|~'' \<or> c = CHR 0x27"

definition parse_method :: "string \<Rightarrow> string option" where
  "parse_method m = (if m \<noteq> [] \<and> list_all is_token_char m then Some m else None)"

definition json_headers :: "json option \<Rightarrow> headers" where
  "json_headers v = (case Option.bind v as_object of
     None \<Rightarrow> []
   | Some obj \<Rightarrow> List.map_filter (\<lambda>(key, val). map_option (Pair key) (as_str val)) obj)"

definition write_handler ::
  "http_env \<Rightarrow> AppState \<Rightarrow> HttpState \<Rightarrow> headers \<Rightarrow> HttpWriteRequest \<Rightarrow> (http_call, 'e, nat \<times> string) act" where
  "write_handler env app s hs req = (case authorize_operator_response app hs of
     Inl err \<Rightarrow> retA err
   | Inr _ \<Rightarrow>
       if \<not> app_has_role app Writer then retA (404, ''fluidbg http writer role is not active'')
       else if runtime_mode s \<noteq> ModeActive then retA (503, ''fluidbg http plugin is not active'')
       else (case write_target (he_vars env) (app_config app) of
               None \<Rightarrow> retA (400, ''targetUrl not configured'')
             | Some target_url \<Rightarrow>
                 (let out = \<lparr>or_method = unwrap_or (parse_method (unwrap_or (hw_method req) ''POST'')) ''POST'',
                        or_url = join_target_url target_url (unwrap_or (hw_path req) ''/''),
                        or_headers = json_headers (hw_headers req), or_body = JsonPayload (hw_payload req)\<rparr>
                  in tryA (callA (\<lambda>h. he_forward env h out) (Forward out)) (\<lambda>r. case r of
                       Inr resp \<Rightarrow> retA (resp_status resp, he_text env (resp_body resp))
                     | Inl _ \<Rightarrow> retA (502, ''upstream error'')))))"

section \<open>The control plane\<close>

definition set_mode_handler :: "RuntimeMode \<Rightarrow> AppState \<Rightarrow> headers \<Rightarrow> HttpState \<Rightarrow> (nat + PluginLifecycleResponse) \<times> HttpState" where
  "set_mode_handler m app hs s = (case authorize_operator app hs of
     Inl code \<Rightarrow> (Inl code, s)
   | Inr _ \<Rightarrow> (Inr default_lifecycle_response, set_runtime_mode m s))"

definition prepare_handler :: "AppState \<Rightarrow> headers \<Rightarrow> HttpState \<Rightarrow> (nat + PluginLifecycleResponse) \<times> HttpState" where
  "prepare_handler = set_mode_handler ModeIdle"

definition activate_handler :: "AppState \<Rightarrow> headers \<Rightarrow> HttpState \<Rightarrow> (nat + PluginLifecycleResponse) \<times> HttpState" where
  "activate_handler = set_mode_handler ModeActive"

definition drain_handler :: "AppState \<Rightarrow> headers \<Rightarrow> HttpState \<Rightarrow> (nat + PluginLifecycleResponse) \<times> HttpState" where
  "drain_handler = set_mode_handler ModeDraining"

definition cleanup_handler :: "AppState \<Rightarrow> headers \<Rightarrow> HttpState \<Rightarrow> (nat + PluginLifecycleResponse) \<times> HttpState" where
  "cleanup_handler = set_mode_handler ModeDraining"

text \<open>The report from the number of admitted requests and the mode, which the handler loads in this order.\<close>

definition drain_report :: "nat \<Rightarrow> RuntimeMode \<Rightarrow> PluginDrainStatusResponse" where
  "drain_report active mode =
     (let drained = (mode = ModeDraining \<and> active = 0)
      in \<lparr>pds_drained = drained, pds_message = Some (
           if drained then ''http plugin is draining and has no admitted proxy/write requests''
           else if mode = ModeIdle then ''http plugin is idle and has not been activated''
           else if mode = ModeActive then ''http plugin is active and has not entered drain mode''
           else ''http plugin still has '' @ show_nat active @ '' active proxy/write request(s)'')\<rparr>)"

definition drain_status :: "AppState \<Rightarrow> headers \<Rightarrow> HttpState \<Rightarrow> nat + PluginDrainStatusResponse" where
  "drain_status app hs s =
     map_sum id (\<lambda>_. drain_report (hs_active_requests s) (runtime_mode s)) (authorize_operator app hs)"

definition traffic_shift_handler :: "AppState \<Rightarrow> headers \<Rightarrow> nat \<Rightarrow> HttpState \<Rightarrow> (nat + nat) \<times> HttpState" where
  "traffic_shift_handler app hs traffic_percent s = (case authorize_operator app hs of
     Inl code \<Rightarrow> (Inl code, s)
   | Inr _ \<Rightarrow>
       if \<not> app_has_role app Splitter then (Inl 400, s)
       else (let s' = s\<lparr>hs_traffic_percent := min traffic_percent 100\<rparr> in (Inr (hs_traffic_percent s'), s')))"

definition initial_http_state :: "env_vars \<Rightarrow> HttpState" where
  "initial_http_state env =
     \<lparr>hs_mode = mode_as_u8 ModeIdle, hs_active_requests = 0, hs_traffic_percent = traffic_percent_from_env env\<rparr>"

end
