(* ===== verification/HttpDrain.thy ===== *)
theory HttpDrain
  imports HttpPlugin
begin

text \<open>
  Draining the HTTP plugin while requests come in (\<open>src/plugins/http/src/state.rs\<close>, \<open>drain_status\<close> of
  \<open>src/plugins/http/src/handlers.rs\<close>). Handlers run concurrently; each access to the mode or to the counter of
  admitted requests is one atomic step, and the steps of all handlers interleave in any order.
\<close>

section \<open>Threads\<close>

text \<open>Where a proxied request stands in \<open>ActiveRequestGuard::try_new\<close> and after it.\<close>

datatype request_pc =
  ReqNew
| ReqChecked
| ReqCounted
| ReqAdmitted
| ReqBackingOut
| ReqRejected
| ReqDone

text \<open>Where a call of \<open>drain_status\<close> stands: it loads the counter, then the mode, then reports.\<close>

datatype status_pc =
  StatusNew
| StatusLoaded nat
| StatusReported PluginDrainStatusResponse

record drain_sys =
  ds_shared :: HttpState
  ds_requests :: "nat \<Rightarrow> request_pc"
  ds_statuses :: "nat \<Rightarrow> status_pc"

datatype drain_label = LSetMode RuntimeMode | LRequest nat | LStatus nat

definition start_drain_sys :: "env_vars \<Rightarrow> drain_sys" where
  "start_drain_sys env =
     \<lparr>ds_shared = initial_http_state env, ds_requests = (\<lambda>_. ReqNew), ds_statuses = (\<lambda>_. StatusNew)\<rparr>"

definition sys_mode :: "drain_sys \<Rightarrow> RuntimeMode" where
  "sys_mode s = runtime_mode (ds_shared s)"

definition set_request :: "nat \<Rightarrow> request_pc \<Rightarrow> drain_sys \<Rightarrow> drain_sys" where
  "set_request r pc s = s\<lparr>ds_requests := (ds_requests s)(r := pc)\<rparr>"

definition set_status :: "nat \<Rightarrow> status_pc \<Rightarrow> drain_sys \<Rightarrow> drain_sys" where
  "set_status r pc s = s\<lparr>ds_statuses := (ds_statuses s)(r := pc)\<rparr>"

definition add_active :: "(nat \<Rightarrow> nat) \<Rightarrow> drain_sys \<Rightarrow> drain_sys" where
  "add_active f s = s\<lparr>ds_shared := (ds_shared s)\<lparr>hs_active_requests := f (hs_active_requests (ds_shared s))\<rparr>\<rparr>"

definition switch_mode :: "RuntimeMode \<Rightarrow> drain_sys \<Rightarrow> drain_sys" where
  "switch_mode m s = s\<lparr>ds_shared := set_runtime_mode m (ds_shared s)\<rparr>"

section \<open>Atomic steps\<close>

inductive drain_step :: "drain_sys \<Rightarrow> drain_label \<Rightarrow> drain_sys \<Rightarrow> bool" where
  set_mode: "drain_step s (LSetMode m) (switch_mode m s)"
| first_check: "ds_requests s r = ReqNew \<Longrightarrow>
    drain_step s (LRequest r) (set_request r (if sys_mode s = ModeActive then ReqChecked else ReqRejected) s)"
| count: "ds_requests s r = ReqChecked \<Longrightarrow>
    drain_step s (LRequest r) (set_request r ReqCounted (add_active (\<lambda>n. n + 1) s))"
| second_check: "ds_requests s r = ReqCounted \<Longrightarrow>
    drain_step s (LRequest r) (set_request r (if sys_mode s = ModeActive then ReqAdmitted else ReqBackingOut) s)"
| back_out: "ds_requests s r = ReqBackingOut \<Longrightarrow>
    drain_step s (LRequest r) (set_request r ReqRejected (add_active (\<lambda>n. n - 1) s))"
| finish: "ds_requests s r = ReqAdmitted \<Longrightarrow>
    drain_step s (LRequest r) (set_request r ReqDone (add_active (\<lambda>n. n - 1) s))"
| load_active: "ds_statuses s q = StatusNew \<Longrightarrow>
    drain_step s (LStatus q) (set_status q (StatusLoaded (hs_active_requests (ds_shared s))) s)"
| load_mode: "ds_statuses s q = StatusLoaded n \<Longrightarrow>
    drain_step s (LStatus q) (set_status q (StatusReported (drain_report n (sys_mode s))) s)"

inductive drain_run :: "drain_sys \<Rightarrow> drain_label list \<Rightarrow> drain_sys \<Rightarrow> bool" where
  run_nil: "drain_run s [] s"
| run_snoc: "drain_run s ls s' \<Longrightarrow> drain_step s' l s'' \<Longrightarrow> drain_run s (ls @ [l]) s''"

inductive_cases drain_stepE: "drain_step s l s'"
inductive_cases drain_run_snocE: "drain_run s (ls @ [l]) s'"

lemma sys_simps [simp]:
  "sys_mode (set_request r pc s) = sys_mode s" "sys_mode (set_status q st s) = sys_mode s" "sys_mode (add_active f s) = sys_mode s"
  "sys_mode (switch_mode m s) = m" "ds_requests (switch_mode m s) = ds_requests s" "ds_statuses (switch_mode m s) = ds_statuses s"
  "ds_requests (set_request r pc s) = (ds_requests s)(r := pc)" "ds_requests (set_status q st s) = ds_requests s"
  "ds_requests (add_active f s) = ds_requests s"
  "ds_statuses (set_status q st s) = (ds_statuses s)(q := st)" "ds_statuses (set_request r pc s) = ds_statuses s"
  "ds_statuses (add_active f s) = ds_statuses s"
  "hs_active_requests (ds_shared (set_request r pc s)) = hs_active_requests (ds_shared s)"
  "hs_active_requests (ds_shared (set_status q st s)) = hs_active_requests (ds_shared s)"
  "hs_active_requests (ds_shared (add_active f s)) = f (hs_active_requests (ds_shared s))"
  "hs_active_requests (ds_shared (switch_mode m s)) = hs_active_requests (ds_shared s)"
  by (simp_all add: sys_mode_def runtime_mode_def set_request_def set_status_def add_active_def switch_mode_def
      set_runtime_mode_def)

section \<open>The counter counts\<close>

text \<open>The requests the counter stands for: those between their increment and their decrement.\<close>

definition holders :: "drain_sys \<Rightarrow> nat set" where
  "holders s = {r. ds_requests s r \<in> {ReqCounted, ReqAdmitted, ReqBackingOut}}"

definition counter_ok :: "drain_sys \<Rightarrow> bool" where
  "counter_ok s \<longleftrightarrow> finite (holders s) \<and> hs_active_requests (ds_shared s) = card (holders s)"

lemma holders_simps:
  "holders (set_request r pc s) =
     (if pc \<in> {ReqCounted, ReqAdmitted, ReqBackingOut} then insert r (holders s) else holders s - {r})"
  "holders (set_status q st s) = holders s" "holders (add_active f s) = holders s"
  "holders (switch_mode m s) = holders s"
  by (auto simp: holders_def)

lemma counter_step:
  assumes "drain_step s l s'" and "counter_ok s"
  shows "counter_ok s'"
  using assms
proof cases
  case (count r)
  then have "r \<notin> holders s" by (simp add: holders_def)
  with count assms(2) show ?thesis by (simp add: counter_ok_def holders_simps)
next
  case (second_check r)
  then have "insert r (holders s) = holders s" by (auto simp: holders_def)
  with second_check assms(2) show ?thesis by (simp add: counter_ok_def holders_simps)
next
  case (back_out r)
  then have "r \<in> holders s" by (simp add: holders_def)
  with back_out assms(2) show ?thesis by (simp add: counter_ok_def holders_simps)
next
  case (finish r)
  then have "r \<in> holders s" by (simp add: holders_def)
  with finish assms(2) show ?thesis by (simp add: counter_ok_def holders_simps)
next
  case (first_check r)
  then have "holders s - {r} = holders s" by (auto simp: holders_def)
  with first_check assms(2) show ?thesis by (simp add: counter_ok_def holders_simps)
qed (simp_all add: counter_ok_def holders_simps)

lemma counter_run: "drain_run s ls s' \<Longrightarrow> counter_ok s \<Longrightarrow> counter_ok s'"
  by (induction rule: drain_run.induct) (auto intro: counter_step)

lemma counter_start: "counter_ok (start_drain_sys env)"
  by (simp add: counter_ok_def holders_def start_drain_sys_def initial_http_state_def)

section \<open>While draining\<close>

definition admitted :: "drain_sys \<Rightarrow> nat set" where
  "admitted s = {r. ds_requests s r = ReqAdmitted}"

definition keeps_draining :: "drain_label list \<Rightarrow> bool" where
  "keeps_draining ls \<longleftrightarrow> (\<forall>m. LSetMode m \<in> set ls \<longrightarrow> m = ModeDraining)"

lemma keeps_draining_snoc [simp]:
  "keeps_draining (ls @ [l]) \<longleftrightarrow> keeps_draining ls \<and> (\<forall>m. l = LSetMode m \<longrightarrow> m = ModeDraining)"
  by (auto simp: keeps_draining_def)

text \<open>In draining mode nothing is admitted, and a status call that has loaded zero saw the plugin empty.\<close>

definition draining_ok :: "nat \<Rightarrow> drain_sys \<Rightarrow> bool" where
  "draining_ok q s \<longleftrightarrow> sys_mode s = ModeDraining \<and> counter_ok s \<and>
     (ds_statuses s q = StatusLoaded 0 \<longrightarrow> admitted s = {}) \<and>
     (\<forall>resp. ds_statuses s q = StatusReported resp \<longrightarrow> pds_drained resp \<longrightarrow> admitted s = {})"

lemma admitted_step: "drain_step s l s' \<Longrightarrow> sys_mode s = ModeDraining \<Longrightarrow> admitted s' \<subseteq> admitted s"
  by (cases rule: drain_step.cases) (auto simp: admitted_def split: if_splits)

lemma counter_zero: "counter_ok s \<Longrightarrow> hs_active_requests (ds_shared s) = 0 \<Longrightarrow> admitted s = {}"
  by (auto simp: counter_ok_def holders_def admitted_def)

lemma draining_step:
  assumes step: "drain_step s l s'" and ok: "draining_ok q s" and l: "\<forall>m. l = LSetMode m \<longrightarrow> m = ModeDraining"
  shows "draining_ok q s'"
proof -
  have mode: "sys_mode s = ModeDraining" and c: "counter_ok s" using ok by (simp_all add: draining_ok_def)
  have adm: "admitted s' \<subseteq> admitted s" by (rule admitted_step [OF step mode])
  have c': "counter_ok s'" by (rule counter_step [OF step c])
  from step show ?thesis
  proof cases
    case (load_active q')
    then show ?thesis
      using ok c c' mode adm counter_zero [OF c] by (auto simp: draining_ok_def)
  next
    case (load_mode q' n)
    then show ?thesis
      using ok c' mode adm by (auto simp: draining_ok_def drain_report_def Let_def split: if_splits)
  qed (use ok c' mode adm l in \<open>auto simp: draining_ok_def\<close>)
qed

lemma http_draining_run:
  "drain_run s ls s' \<Longrightarrow> draining_ok q s \<Longrightarrow> keeps_draining ls \<Longrightarrow> draining_ok q s'"
  by (induction rule: drain_run.induct) (auto intro: draining_step)

section \<open>Properties\<close>


lemma run_steps:
  "drain_run s ls s' \<Longrightarrow> drain_step s' l s'' \<Longrightarrow> ls' = ls @ [l] \<Longrightarrow> drain_run s ls' s''"
  by (simp add: run_snoc)

definition demo_vars :: env_vars where
  "demo_vars = (\<lambda>_. None)"

definition drained_start :: drain_sys where
  "drained_start = switch_mode ModeDraining (start_drain_sys demo_vars)"


text \<open>The status call must come after the drain call. A status call that overlaps the switch to draining loads the
  counter before the mode, so it can report the plugin drained while a request is being served.\<close>

theorem overlapping_status_can_lie:
  "\<exists>ls s report. drain_run (start_drain_sys env) ls s \<and> ds_statuses s q = StatusReported report \<and> pds_drained report \<and>
     ds_requests s r = ReqAdmitted"
proof -
  let ?s0 = "start_drain_sys env"
  let ?s1 = "switch_mode ModeActive ?s0"
  let ?s2 = "set_status q (StatusLoaded 0) ?s1"
  let ?s3 = "set_request r ReqChecked ?s2"
  let ?s4 = "set_request r ReqCounted (add_active (\<lambda>n. n + 1) ?s3)"
  let ?s5 = "set_request r ReqAdmitted ?s4"
  let ?s6 = "switch_mode ModeDraining ?s5"
  let ?s7 = "set_status q (StatusReported (drain_report 0 ModeDraining)) ?s6"
  have start: "ds_statuses ?s0 q = StatusNew" "ds_requests ?s0 r = ReqNew" "hs_active_requests (ds_shared ?s0) = 0"
    by (simp_all add: start_drain_sys_def initial_http_state_def)
  have steps: "drain_step ?s0 (LSetMode ModeActive) ?s1" "drain_step ?s1 (LStatus q) ?s2" "drain_step ?s2 (LRequest r) ?s3"
      "drain_step ?s3 (LRequest r) ?s4" "drain_step ?s4 (LRequest r) ?s5" "drain_step ?s5 (LSetMode ModeDraining) ?s6"
      "drain_step ?s6 (LStatus q) ?s7"
    using set_mode [of ?s0] load_active [of ?s1 q] first_check [of ?s2 r] count [of ?s3 r] second_check [of ?s4 r]
      set_mode [of ?s5] load_mode [of ?s6 q 0] start
    by simp_all
  have "drain_run ?s0 [LSetMode ModeActive, LStatus q, LRequest r, LRequest r, LRequest r, LSetMode ModeDraining, LStatus q] ?s7"
    by (rule run_steps [OF run_steps [OF run_steps [OF run_steps [OF run_steps [OF run_steps [OF run_steps [OF run_nil
          steps(1)] steps(2)] steps(3)] steps(4)] steps(5)] steps(6)] steps(7)]) simp_all
  moreover have "ds_statuses ?s7 q = StatusReported (drain_report 0 ModeDraining)" "ds_requests ?s7 r = ReqAdmitted"
    by simp_all
  moreover have "pds_drained (drain_report 0 ModeDraining)" by (simp add: drain_report_def Let_def)
  ultimately show ?thesis by blast
qed

end
