(* ===== verification/HttpPluginSafety.thy ===== *)
theory HttpPluginSafety
  imports HttpPlugin
begin

text \<open>What the HTTP proxy sends, and in which order.\<close>

section \<open>The calls of each part\<close>

definition forwarded_headers :: "headers \<Rightarrow> headers \<Rightarrow> headers" where
  "forwarded_headers hs extra = filter (\<lambda>(n, v). \<not> (list_ex (\<lambda>(n, v). map to_ascii_lowercase n = authorization_header) extra
     \<and> map to_ascii_lowercase n = authorization_header) \<and> should_forward_request_header n) hs @ extra"

lemma forward_raw_does:
  "does (forward_raw_request env http_verb url hs body extra) (\<lambda>new r. \<exists>ok. new = [(Forward
     \<lparr>or_method = http_verb, or_url = url, or_headers = forwarded_headers hs extra, or_body = body\<rparr>, ok)])"
  unfolding forward_raw_request_def forwarded_headers_def Let_def
  by (rule does_try [where S = "\<lambda>_ new _. new = []", OF does_call]) (auto intro: does_ret split: sum.splits)

text \<open>What the proxy may pass on: the request itself to the service, or the request with the plugin's own headers to
  the verifier.\<close>

definition passes_on :: "http_env \<Rightarrow> AppState \<Rightarrow> http_request \<Rightarrow> out_request \<Rightarrow> bool" where
  "passes_on env app req out \<longleftrightarrow> or_method out = hr_method req \<and>
     (or_body out = Streaming (hr_body req) \<and> \<not> request_requires_buffer app \<or>
      or_body out = Buffered (buffer_body (hr_body req)) \<and> request_requires_buffer app) \<and>
     ((\<exists>route target. routed_proxy_target (he_vars env) (app_config app) route = Some target \<and>
         or_url out = join_target_url target (hr_path_and_query req) \<and> or_headers out = forwarded_headers (hr_headers req) []) \<or>
      (\<exists>template test_id route. app_has_role app Mock \<and> or_url out = verifier_url env app template test_id \<and>
         or_headers out = forwarded_headers (hr_headers req) (verifier_headers app test_id route)))"

definition forwards_one :: "http_env \<Rightarrow> AppState \<Rightarrow> http_request \<Rightarrow> http_call calls \<Rightarrow> bool" where
  "forwards_one env app req new \<longleftrightarrow> new = [] \<or> (\<exists>out ok. new = [(Forward out, ok)] \<and> passes_on env app req out)"

lemma forwards_none: "does (retA a) (\<lambda>new r. forwards_one env app req new)"
  by (rule does_ret) (simp add: forwards_one_def)

lemma forwards_raw:
  "passes_on env app req \<lparr>or_method = http_verb, or_url = url, or_headers = forwarded_headers hs extra, or_body = body\<rparr> \<Longrightarrow>
   does (forward_raw_request env http_verb url hs body extra) (\<lambda>new r. forwards_one env app req new)"
  by (rule does_mono [OF forward_raw_does]) (auto simp: forwards_one_def)

lemma forwards_streaming:
  "\<not> request_requires_buffer app \<Longrightarrow> does (proxy_streaming env app req) (\<lambda>new r. forwards_one env app req new)"
  unfolding proxy_streaming_def forward_mock_streaming_request_def forward_streaming_request_def Let_def
  by (auto simp: passes_on_def split: option.splits intro!: forwards_none forwards_raw; blast)

lemma forwards_mock:
  "app_has_role app Mock \<Longrightarrow> request_requires_buffer app \<Longrightarrow>
   does (forward_mock_request env app f test_id route (hr_method req) (hr_headers req) (buffer_body (hr_body req)))
     (\<lambda>new r. forwards_one env app req new)"
  unfolding forward_mock_request_def Let_def
  by (auto simp: passes_on_def split: option.splits intro!: forwards_none forwards_raw; blast)

section \<open>Observing\<close>

definition notification_post :: "http_env \<Rightarrow> AppState \<Rightarrow> string \<Rightarrow> string \<Rightarrow> json \<Rightarrow> TrafficRoute \<Rightarrow> post" where
  "notification_post env app notify_path test_id payload route =
     \<lparr>post_url = verifier_url env app notify_path test_id, post_auth = map_option bearer_value (rt_auth_token (app_runtime app)),
      post_body = notification_json test_id (rt_inception_point (app_runtime app)) route payload\<rparr>"

definition accepted_post :: "http_env \<Rightarrow> post \<Rightarrow> bool" where
  "accepted_post env p \<longleftrightarrow> (\<exists>h st. he_post env h p = Inr st \<and> \<not> (400 \<le> st \<and> st < 600))"

text \<open>A registration follows an accepted notification of the same case, and never for green traffic.\<close>

definition observes :: "http_env \<Rightarrow> AppState \<Rightarrow> string \<Rightarrow> TrafficRoute \<Rightarrow> http_call calls \<Rightarrow> bool" where
  "observes env app test_id route new \<longleftrightarrow> new = [] \<or>
     (\<exists>path body ok regs. new = (Post (notification_post env app path test_id body route), ok) # regs \<and> length regs \<le> 10 \<and>
        (regs \<noteq> [] \<longrightarrow> ok \<and> route \<noteq> RouteGreen \<and>
           accepted_post env (notification_post env app path test_id body route) \<and>
           (\<exists>now. list_all (\<lambda>(c, ok). c = Post (registration_post (he_show_time env) (app_runtime app) test_id now)) regs)))"

lemma notify_run:
  assumes "notify_observer_with_client env app path test_id body route h = (r, h')"
  shows "\<exists>ok. h' = h @ [(Post (notification_post env app path test_id body route), ok)] \<and>
    (r = Inr () \<longrightarrow> ok \<and> accepted_post env (notification_post env app path test_id body route))"
  using assms
  by (auto simp: notify_observer_with_client_def notification_post_def accepted_post_def act_simps split: sum.splits prod.splits if_splits)

lemma register_run:
  assumes "runtime_register_test_case (http_send env) Post (he_clock env) (he_show_time env) rt test_id h = (r, h')"
  shows "\<exists>regs now. h' = h @ regs \<and> length regs \<le> 10 \<and>
    list_all (\<lambda>(c, ok). c = Post (registration_post (he_show_time env) rt test_id now)) regs"
  using doesD [OF does_deliver assms [unfolded runtime_register_test_case_def]] by blast

lemma observe_does: "does (observe_request env app f test_id body route) (\<lambda>new r. observes env app test_id route new)"
proof (cases "Option.bind f nf_notify_path")
  case None
  then show ?thesis by (auto simp: does_def observe_request_def act_simps observes_def)
next
  case (Some path)
  show ?thesis
    unfolding does_def
  proof
    fix h :: "http_call calls"
    let ?p = "Post (notification_post env app path test_id body route)"
    obtain r1 h1 where n: "notify_observer_with_client env app path test_id body route h = (r1, h1)" by fastforce
    then obtain ok where ok: "h1 = h @ [(?p, ok)]" "r1 = Inr () \<longrightarrow> ok \<and> accepted_post env (notification_post env app path test_id body route)"
      using notify_run [OF n] by blast
    obtain r2 h2 where g: "runtime_register_test_case (http_send env) Post (he_clock env) (he_show_time env) (app_runtime app) test_id h1
        = (r2, h2)" by fastforce
    obtain regs now where regs: "h2 = h1 @ regs" "length regs \<le> 10"
        "list_all (\<lambda>(c, ok). c = Post (registration_post (he_show_time env) (app_runtime app) test_id now)) regs"
      using register_run [OF g] by blast
    show "\<exists>new. snd (observe_request env app f test_id body route h) = h @ new \<and> observes env app test_id route new"
    proof (cases "r1 = Inr () \<and> should_register_case route")
      case True
      then have "snd (observe_request env app f test_id body route h) = h2"
        using n g Some by (simp add: observe_request_def act_simps)
      moreover have "observes env app test_id route ((?p, ok) # regs)"
        unfolding observes_def using True ok(2) regs(2,3) by (intro disjI2 exI conjI impI) (auto simp: should_register_case_def)
      ultimately show ?thesis using ok(1) regs(1) by auto
    next
      case False
      then have "snd (observe_request env app f test_id body route h) = h1"
        using n Some by (auto simp: observe_request_def act_simps split: sum.splits)
      moreover have "observes env app test_id route [(?p, ok)]" by (auto simp: observes_def)
      ultimately show ?thesis using ok(1) by blast
    qed
  qed
qed

section \<open>The proxy\<close>

definition proxies :: "http_env \<Rightarrow> AppState \<Rightarrow> HttpState \<Rightarrow> http_request \<Rightarrow> http_call calls \<Rightarrow> bool" where
  "proxies env app s req new \<longleftrightarrow> (\<exists>seen passed test_id. new = seen @ passed \<and> forwards_one env app req passed \<and>
     observes env app test_id (splitter_route env app s (buffer_body (hr_body req))) seen)"

lemma proxies_forward: "forwards_one env app req new \<Longrightarrow> proxies env app s req new"
  by (auto simp: proxies_def observes_def)

lemma proxy_buffered_does:
  assumes "request_requires_buffer app"
  shows "does (proxy_buffered env app s req) (\<lambda>new r. proxies env app s req new)"
proof -
  let ?route = "splitter_route env app s (buffer_body (hr_body req))"
  have seen: "does (if b then (case t of None \<Rightarrow> retA () | Some t \<Rightarrow> observe_request env app f t body ?route) else retA ())
      (\<lambda>new r. \<exists>t. observes env app t ?route new)" for b t f body
  proof (cases "b \<and> t \<noteq> None")
    case True
    then obtain a where t: "t = Some a" "b" by auto
    show ?thesis unfolding t by (simp add: t(2)) (rule does_mono [OF observe_does], blast)
  next
    case False
    have "observes env app [] ?route []" by (simp add: observes_def)
    then have "does (retA ()) (\<lambda>new r. \<exists>t. observes env app t ?route new)" by (intro does_ret) blast
    then show ?thesis using False by (auto split: option.splits)
  qed
  have passed: "does (if m \<and> app_has_role app Mock \<and> k then forward_mock_request env app f t ?route (hr_method req) (hr_headers req)
        (buffer_body (hr_body req))
      else (case routed_proxy_target (he_vars env) (app_config app) ?route of
              None \<Rightarrow> retA (plain_response 502 msg)
            | Some e \<Rightarrow> forward_raw_request env (hr_method req) (join_target_url e (hr_path_and_query req)) (hr_headers req)
                (Buffered (buffer_body (hr_body req))) []))
      (\<lambda>new r. forwards_one env app req new)" for m k f t msg
    using assms by (auto simp: passes_on_def split: option.splits intro!: forwards_none forwards_raw forwards_mock; blast)
  show ?thesis
    unfolding proxy_buffered_def Let_def
    by (rule does_seq [OF seen passed]) (auto simp: proxies_def forwards_one_def)
qed

lemma proxy_does: "does (proxy_handler env app s req) (\<lambda>new r. proxies env app s req new)"
  unfolding proxy_handler_def
  by (simp add: does_mono [OF forwards_none proxies_forward] does_mono [OF forwards_streaming proxies_forward] proxy_buffered_does)

section \<open>Properties\<close>


definition demo_http_env :: http_env where
  "demo_http_env = \<lparr>he_forward = (\<lambda>_ _. Inr \<lparr>resp_status = 200, resp_headers = [], resp_body = []\<rparr>), he_post = (\<lambda>_ _. Inr 200),
     he_clock = (\<lambda>_. 0), he_show_time = (\<lambda>_. ''now''), he_vars = (\<lambda>_. None), he_hash = (\<lambda>_. 0), he_regex = (\<lambda>_ _. None),
     he_show_f64 = (\<lambda>_. []), he_parse_json = (\<lambda>_. None), he_text = (\<lambda>_. [])\<rparr>"

definition demo_filter :: NotificationFilter where
  "demo_filter = \<lparr>nf_match = [], nf_notify_path = Some ''/seen'', nf_mock_path = None, nf_payload = None\<rparr>"

definition demo_http_config :: HttpConfig where
  "demo_http_config = \<lparr>hc_port = None, hc_proxy_protocol = None, hc_write_protocol = None, hc_real_endpoint = Some ''http://up'',
     hc_target_url = None, hc_green_endpoint = None, hc_blue_endpoint = None, hc_env_var_name = None, hc_write_env_var = None,
     hc_verifier_endpoint = None, hc_mock_path = None,
     hc_test_id = Some \<lparr>ts_field = None, ts_json_path = None, ts_path_segment = None, ts_value = Some ''case''\<rparr>,
     hc_match = [], hc_filters = [demo_filter], hc_ingress = None, hc_egress = None,
     hc_tls_inbound = \<lparr>itls_enabled = False, itls_port = None, itls_cert_path = None, itls_key_path = None\<rparr>,
     hc_client_tls = \<lparr>ctls_ca_cert_path = None, ctls_insecure_skip_verify = False\<rparr>\<rparr>"

definition demo_http_app :: AppState where
  "demo_http_app = \<lparr>app_config = demo_http_config, app_runtime = \<lparr>rt_roles = [Observer], rt_testcase_registration_url = ''http://op'',
     rt_test_container_url = ''http://test'', rt_testcase_verify_path_template = None, rt_inception_point = ''ip'',
     rt_blue_green_ref = ''bg'', rt_auth_token = None\<rparr>\<rparr>"

definition demo_http_request :: http_request where
  "demo_http_request = \<lparr>hr_method = ''GET'', hr_path_and_query = ''/orders'', hr_headers = [], hr_body = Inr []\<rparr>"

definition active_state :: HttpState where
  "active_state = \<lparr>hs_mode = 0, hs_active_requests = 0, hs_traffic_percent = 100\<rparr>"

definition demo_http_run :: "(unit + http_response) \<times> http_call calls" where
  "demo_http_run = proxy_handler demo_http_env demo_http_app active_state demo_http_request []"


text \<open>What the limit on buffered bodies does: a larger request is passed on with an empty body, not refused.\<close>

lemma oversized_body_is_lost:
  assumes "buffer_limit < length body" and "hr_body req = Inr body" and "request_requires_buffer app"
    and "proxy_handler env app s req h = (r, h @ new)" and "(Forward out, ok) \<in> set new"
  shows "or_body out = Buffered []"
proof -
  obtain seen passed t where new: "h @ new = h @ seen @ passed" "observes env app t (splitter_route env app s (buffer_body (hr_body req))) seen"
      "forwards_one env app req passed"
    using proxy_does [THEN doesD, OF assms(4)] by (auto simp: proxies_def)
  have "(Forward out, ok) \<notin> set seen"
    using new(2) by (fastforce simp: observes_def list_all_iff)
  then have "passes_on env app req out" using new assms(5) by (auto simp: forwards_one_def)
  then show ?thesis using assms(1-3) by (auto simp: passes_on_def buffer_body_def)
qed

end
