(* ===== verification/RabbitConfig.thy ===== *)
theory RabbitConfig
  imports PluginEffects Naming
begin

text \<open>
  The RabbitMQ plugin's configuration, environment assignments and message filters (\<open>config.rs\<close>,
  \<open>assignments.rs\<close> and \<open>filtering.rs\<close> of \<open>src/plugins/rabbitmq/src\<close>). AMQP field tables are association lists.
\<close>

section \<open>Configuration (config.rs)\<close>

record QueueDeclarationConfig =
  qd_durable :: "bool option"
  qd_exclusive :: "bool option"
  qd_auto_delete :: "bool option"
  qd_arguments :: "(string \<times> json) list"

record ShadowQueueConfig =
  sh_suffix :: string
  sh_queue_declaration :: QueueDeclarationConfig

record SplitterConfig =
  sp_input_queue :: "string option"
  sp_green_input_queue :: "string option"
  sp_blue_input_queue :: "string option"
  sp_green_input_queue_env_var :: "string option"
  sp_blue_input_queue_env_var :: "string option"

record DuplicatorConfig =
  du_input_queue :: "string option"
  du_green_input_queue :: "string option"
  du_blue_input_queue :: "string option"
  du_green_input_queue_env_var :: "string option"
  du_blue_input_queue_env_var :: "string option"

record CombinerConfig =
  co_output_queue :: "string option"
  co_green_output_queue :: "string option"
  co_blue_output_queue :: "string option"
  co_green_output_queue_env_var :: "string option"
  co_blue_output_queue_env_var :: "string option"

record WriterConfig =
  wr_target_queue :: "string option"

record ConsumerConfig =
  cs_input_queue :: "string option"

record ObserverConfig =
  ob_test_id :: "TestIdSelector option"
  ob_match :: "FilterCondition list"
  ob_notify_path :: "string option"

record RabbitConfig =
  rc_queue_declaration :: QueueDeclarationConfig
  rc_shadow_queue :: "ShadowQueueConfig option"
  rc_duplicator :: "DuplicatorConfig option"
  rc_splitter :: "SplitterConfig option"
  rc_combiner :: "CombinerConfig option"
  rc_writer :: "WriterConfig option"
  rc_consumer :: "ConsumerConfig option"
  rc_observer :: "ObserverConfig option"

definition default_declaration :: QueueDeclarationConfig where
  "default_declaration = \<lparr>qd_durable = None, qd_exclusive = None, qd_auto_delete = None, qd_arguments = []\<rparr>"

definition default_rabbit_config :: RabbitConfig where
  "default_rabbit_config = \<lparr>rc_queue_declaration = default_declaration, rc_shadow_queue = None, rc_duplicator = None,
     rc_splitter = None, rc_combiner = None, rc_writer = None, rc_consumer = None, rc_observer = None\<rparr>"

definition durable_or_default :: "QueueDeclarationConfig \<Rightarrow> bool" where
  "durable_or_default d = unwrap_or (qd_durable d) True"

definition required :: "string option \<Rightarrow> string \<Rightarrow> string + string" where
  "required value name = (case value of Some v \<Rightarrow> Inr v | None \<Rightarrow> Inl (''missing config field '' @ quoted name))"

definition config_block :: "'a option \<Rightarrow> string \<Rightarrow> string + 'a" where
  "config_block block name = (case block of Some b \<Rightarrow> Inr b | None \<Rightarrow> Inl (''missing config block '' @ quoted name))"

definition duplicator_config :: "RabbitConfig \<Rightarrow> string + DuplicatorConfig" where
  "duplicator_config config = config_block (rc_duplicator config) ''duplicator''"

definition splitter_config :: "RabbitConfig \<Rightarrow> string + SplitterConfig" where
  "splitter_config config = config_block (rc_splitter config) ''splitter''"

definition combiner_config :: "RabbitConfig \<Rightarrow> string + CombinerConfig" where
  "combiner_config config = config_block (rc_combiner config) ''combiner''"

definition writer_config :: "RabbitConfig \<Rightarrow> string + WriterConfig" where
  "writer_config config = config_block (rc_writer config) ''writer''"

definition consumer_config :: "RabbitConfig \<Rightarrow> string + ConsumerConfig" where
  "consumer_config config = config_block (rc_consumer config) ''consumer''"

definition observer_config :: "RabbitConfig \<Rightarrow> ObserverConfig option" where
  "observer_config config = rc_observer config"

definition inceptor_infra_disabled :: "env_vars \<Rightarrow> bool" where
  "inceptor_infra_disabled env \<longleftrightarrow> env ''FLUIDBG_INCEPTOR_INFRA_DISABLED'' = Some ''true''"

definition shadow_queue_name :: "RabbitConfig \<Rightarrow> string \<Rightarrow> string option" where
  "shadow_queue_name config queue =
     map_option (\<lambda>shadow. derived_shadow_queue_name queue (sh_suffix shadow)) (rc_shadow_queue config)"

definition shadow_declaration :: "RabbitConfig \<Rightarrow> QueueDeclarationConfig" where
  "shadow_declaration config =
     unwrap_or (map_option sh_queue_declaration (rc_shadow_queue config)) (rc_queue_declaration config)"

section \<open>Assignments (assignments.rs)\<close>

definition env_assignment :: "AssignmentTarget \<Rightarrow> string \<Rightarrow> string \<Rightarrow> PropertyAssignment" where
  "env_assignment target name value =
     \<lparr>pa_target = target, pa_kind = KindEnv, pa_name = name, pa_value = value, pa_container_name = None\<rparr>"

definition queue_assignment :: "AssignmentTarget \<Rightarrow> string option \<Rightarrow> string option \<Rightarrow> PropertyAssignment list" where
  "queue_assignment target var queue = (case (var, queue) of
     (Some n, Some q) \<Rightarrow> [env_assignment target n q]
   | _ \<Rightarrow> [])"

definition temp_queue_declaration_assignments :: "(json \<Rightarrow> string) \<Rightarrow> RabbitConfig \<Rightarrow> PropertyAssignment list" where
  "temp_queue_declaration_assignments to_string config =
     (let durable = show_bool (durable_or_default (rc_queue_declaration config));
          arguments = to_string (JObj (qd_arguments (rc_queue_declaration config)))
      in concat (map (\<lambda>target. [env_assignment target ''AMQP_TEMP_QUEUE_DURABLE'' durable,
           env_assignment target ''AMQP_TEMP_QUEUE_ARGUMENTS_JSON'' arguments]) [TargetGreen, TargetBlue]))"

definition when_role :: "PluginRole list \<Rightarrow> PluginRole \<Rightarrow> 'a option \<Rightarrow> ('a \<Rightarrow> 'b list) \<Rightarrow> 'b list" where
  "when_role roles role block f = (if has_role roles role then (case block of None \<Rightarrow> [] | Some b \<Rightarrow> f b) else [])"

definition build_prepare_assignments :: "(json \<Rightarrow> string) \<Rightarrow> RabbitConfig \<Rightarrow> PluginRole list \<Rightarrow> PropertyAssignment list" where
  "build_prepare_assignments to_string config roles =
     when_role roles Duplicator (rc_duplicator config) (\<lambda>d.
       queue_assignment TargetGreen (du_green_input_queue_env_var d) (du_green_input_queue d)
       @ queue_assignment TargetBlue (du_blue_input_queue_env_var d) (du_blue_input_queue d))
     @ when_role roles Splitter (rc_splitter config) (\<lambda>s.
       queue_assignment TargetGreen (sp_green_input_queue_env_var s) (sp_green_input_queue s)
       @ queue_assignment TargetBlue (sp_blue_input_queue_env_var s) (sp_blue_input_queue s))
     @ when_role roles Combiner (rc_combiner config) (\<lambda>c.
       queue_assignment TargetGreen (co_green_output_queue_env_var c) (co_green_output_queue c)
       @ queue_assignment TargetBlue (co_blue_output_queue_env_var c) (co_blue_output_queue c))
     @ temp_queue_declaration_assignments to_string config"

definition build_cleanup_assignments :: "RabbitConfig \<Rightarrow> PluginRole list \<Rightarrow> PropertyAssignment list" where
  "build_cleanup_assignments config roles =
     when_role roles Duplicator (rc_duplicator config) (\<lambda>d.
       queue_assignment TargetGreen (du_green_input_queue_env_var d) (du_input_queue d)
       @ queue_assignment TargetBlue (du_blue_input_queue_env_var d) (du_input_queue d))
     @ when_role roles Splitter (rc_splitter config) (\<lambda>s.
       queue_assignment TargetGreen (sp_green_input_queue_env_var s) (sp_input_queue s)
       @ queue_assignment TargetBlue (sp_blue_input_queue_env_var s) (sp_input_queue s))
     @ when_role roles Combiner (rc_combiner config) (\<lambda>c.
       queue_assignment TargetGreen (co_green_output_queue_env_var c) (co_output_queue c)
       @ queue_assignment TargetBlue (co_blue_output_queue_env_var c) (co_output_queue c))"

definition build_drain_assignments :: "RabbitConfig \<Rightarrow> PluginRole list \<Rightarrow> PropertyAssignment list" where
  "build_drain_assignments = build_cleanup_assignments"

section \<open>Filters (filtering.rs)\<close>

datatype AMQPValue = LongString string | ShortString string | AmqpBoolean bool | LongInt int | LongLongInt int | LongUInt nat
  | AmqpDouble rat | AmqpVoid | OtherValue

type_synonym field_table = "(string \<times> AMQPValue) list"

definition route_from_output_source :: "CombinerConfig \<Rightarrow> string \<Rightarrow> TrafficRoute" where
  "route_from_output_source combiner source_queue =
     (if co_blue_output_queue combiner = Some source_queue then RouteBlue
      else if co_green_output_queue combiner = Some source_queue then RouteGreen
      else RouteUnknown)"

definition amqp_value_as_string :: "AMQPValue \<Rightarrow> string option" where
  "amqp_value_as_string v = (case v of LongString s \<Rightarrow> Some s | ShortString s \<Rightarrow> Some s | _ \<Rightarrow> None)"

definition message_field :: "(rat \<Rightarrow> string) \<Rightarrow> string \<Rightarrow> string option \<Rightarrow> json \<Rightarrow> field_table \<Rightarrow> string option" where
  "message_field show_f64 field json_path body properties =
     (if field = ''queue.body'' then
        (case json_path of Some jp \<Rightarrow> extract_json_path show_f64 body jp | None \<Rightarrow> as_str body)
      else Option.bind (strip_prefix ''queue.property.'' field) (\<lambda>key.
        Option.bind (map_of properties key) amqp_value_as_string))"

definition queue_extract_test_id :: "(rat \<Rightarrow> string) \<Rightarrow> TestIdSelector \<Rightarrow> json \<Rightarrow> field_table \<Rightarrow> string option" where
  "queue_extract_test_id show_f64 selector body properties = (case ts_value selector of
     Some v \<Rightarrow> Some v
   | None \<Rightarrow> Option.bind (ts_field selector) (\<lambda>field.
       message_field show_f64 field (ts_json_path selector) body properties))"

definition queue_matches_filter ::
  "(string \<Rightarrow> string \<Rightarrow> bool option) \<Rightarrow> (rat \<Rightarrow> string) \<Rightarrow> FilterCondition list \<Rightarrow> json \<Rightarrow> field_table \<Rightarrow> bool" where
  "queue_matches_filter regex show_f64 conditions body properties =
     list_all (\<lambda>c. case message_field show_f64 (fc_field c) (fc_json_path c) body properties of
       None \<Rightarrow> False
     | Some v \<Rightarrow> condition_matches regex (Some v) c) conditions"

end
