(* ===== verification/RabbitWorkers.thy ===== *)
theory RabbitWorkers
  imports RabbitConfig
begin

text \<open>
  The RabbitMQ plugin at work (\<open>amqp.rs\<close>, \<open>input.rs\<close>, \<open>combiner.rs\<close>, \<open>writer.rs\<close> of \<open>src/plugins/rabbitmq/src\<close>). The
  broker, the verifier and the operator answer every call as an arbitrary function of the calls before it; the mode
  and the traffic share, which control handlers change concurrently, are read as such functions too. The worker
  loops never end: a run is cut after \<open>fuel\<close> rounds, and is then \<open>StillRunning\<close>. Sleeping is not modelled.
\<close>

section \<open>The broker\<close>

record BasicProperties =
  bp_headers :: "field_table option"
  bp_other :: "(string \<times> string) list"

record delivery =
  dl_tag :: nat
  dl_data :: bytes
  dl_properties :: BasicProperties

record QueueDeclare =
  qdo_durable :: bool
  qdo_exclusive :: bool
  qdo_auto_delete :: bool
  qdo_arguments :: field_table

datatype amqp_call =
  AmqpConnect
| AmqpChannel
| AmqpDeclare string QueueDeclare
| AmqpPassive string
| AmqpDelete string
| AmqpGet string
| AmqpPublish string bytes BasicProperties
| AmqpAck nat
| AmqpNack nat
| AmqpSetMode RuntimeMode
| AmqpPost post
| AmqpHttp string string "json option"

text \<open>Running out of fuel is not an error of the program and is never handled by it.\<close>

datatype amqp_error = AmqpError string | StillRunning

record rabbit_env =
  ra_perform :: "amqp_call calls \<Rightarrow> amqp_call \<Rightarrow> string + unit"
  ra_get :: "amqp_call calls \<Rightarrow> string \<Rightarrow> string + delivery option"
  ra_passive :: "amqp_call calls \<Rightarrow> string \<Rightarrow> string + nat \<times> nat"
  ra_http :: "amqp_call calls \<Rightarrow> amqp_call \<Rightarrow> string + nat \<times> json option"
  ra_post :: "amqp_call calls \<Rightarrow> amqp_call \<Rightarrow> string + nat"
  ra_mode :: "amqp_call calls \<Rightarrow> RuntimeMode"
  ra_traffic :: "amqp_call calls \<Rightarrow> nat"
  ra_clock :: "amqp_call calls \<Rightarrow> int"
  ra_show_time :: "int \<Rightarrow> string"
  ra_vars :: env_vars
  ra_hash :: "bytes \<Rightarrow> nat"
  ra_regex :: "string \<Rightarrow> string \<Rightarrow> bool option"
  ra_show_f64 :: "rat \<Rightarrow> string"
  ra_parse_lossy :: "bytes \<Rightarrow> json option"
  ra_parse :: "bytes \<Rightarrow> json option"
  ra_to_string :: "json \<Rightarrow> string"
  ra_field_table :: "json \<Rightarrow> field_table option"

type_synonym 'a rabbit = "(amqp_call, amqp_error, 'a) act"

definition orFail :: "string + 'a \<Rightarrow> 'a rabbit" where
  "orFail r = liftA (map_sum AmqpError id r)"

definition perform :: "rabbit_env \<Rightarrow> amqp_call \<Rightarrow> unit rabbit" where
  "perform env c = callA (\<lambda>h. map_sum AmqpError id (ra_perform env h c)) c"

definition catchA :: "'a rabbit \<Rightarrow> (string + 'a \<Rightarrow> 'b rabbit) \<Rightarrow> 'b rabbit" where
  "catchA m f = tryA m (\<lambda>r. case r of
     Inl StillRunning \<Rightarrow> failA StillRunning
   | Inl (AmqpError e) \<Rightarrow> f (Inl e)
   | Inr a \<Rightarrow> f (Inr a))"

definition read_mode :: "rabbit_env \<Rightarrow> (RuntimeMode \<Rightarrow> 'a rabbit) \<Rightarrow> 'a rabbit" where
  "read_mode env f h = f (ra_mode env h) h"

section \<open>Broker operations (amqp.rs)\<close>

definition json_to_amqp_value :: "json \<Rightarrow> AMQPValue option" where
  "json_to_amqp_value v = (case v of
     JBool b \<Rightarrow> Some (AmqpBoolean b)
   | JInt n \<Rightarrow> Some (
       if - (2 ^ 31) \<le> n \<and> n < 2 ^ 31 then LongInt n
       else if - (2 ^ 63) \<le> n \<and> n < 2 ^ 63 then LongLongInt n
       else LongLongInt (min n (2 ^ 63 - 1)))
   | JFloat r \<Rightarrow> Some (AmqpDouble r)
   | JStr s \<Rightarrow> Some (LongString s)
   | JNull \<Rightarrow> Some AmqpVoid
   | JArr _ \<Rightarrow> None
   | JObj _ \<Rightarrow> None)"

fun queue_arguments :: "(string \<times> json) list \<Rightarrow> string + field_table" where
  "queue_arguments [] = Inr []"
| "queue_arguments ((key, v) # rest) = (case json_to_amqp_value v of
     None \<Rightarrow> Inl (''unsupported RabbitMQ queue argument '' @ quoted key)
   | Some a \<Rightarrow> map_sum id ((#) (key, a)) (queue_arguments rest))"

definition declare_queue :: "rabbit_env \<Rightarrow> string \<Rightarrow> QueueDeclarationConfig \<Rightarrow> unit rabbit" where
  "declare_queue env queue d =
     bindA (orFail (queue_arguments (qd_arguments d))) (\<lambda>arguments.
       perform env (AmqpDeclare queue \<lparr>qdo_durable = durable_or_default d, qdo_exclusive = unwrap_or (qd_exclusive d) False,
         qdo_auto_delete = unwrap_or (qd_auto_delete d) False, qdo_arguments = arguments\<rparr>))"

definition delete_queue :: "rabbit_env \<Rightarrow> string \<Rightarrow> unit rabbit" where
  "delete_queue env queue = tryA (perform env (AmqpDelete queue)) (\<lambda>_. retA ())"

definition publish_confirmed :: "rabbit_env \<Rightarrow> string \<Rightarrow> bytes \<Rightarrow> BasicProperties \<Rightarrow> unit rabbit" where
  "publish_confirmed env queue data properties = perform env (AmqpPublish queue data properties)"

fun str_contains :: "string \<Rightarrow> string \<Rightarrow> bool" where
  "str_contains pat [] = (pat = [])"
| "str_contains pat (c # cs) = (strip_prefix pat (c # cs) \<noteq> None \<or> str_contains pat cs)"

definition is_missing_queue_error :: "string \<Rightarrow> bool" where
  "is_missing_queue_error e = str_contains ''NOT_FOUND - no queue'' e"

definition queue_state :: "rabbit_env \<Rightarrow> string \<Rightarrow> (nat \<times> nat) rabbit" where
  "queue_state env queue =
     tryA (callA (\<lambda>h. ra_passive env h queue) (AmqpPassive queue)) (\<lambda>r. case r of
       Inr counts \<Rightarrow> retA counts
     | Inl e \<Rightarrow> if is_missing_queue_error e then retA (0, 0) else failA (AmqpError e))"

definition basic_get :: "rabbit_env \<Rightarrow> string \<Rightarrow> (string + delivery option \<Rightarrow> 'a rabbit) \<Rightarrow> 'a rabbit" where
  "basic_get env queue f = tryA (callA (\<lambda>h. ra_get env h queue) (AmqpGet queue)) f"

fun move_queue_messages :: "rabbit_env \<Rightarrow> nat \<Rightarrow> string \<Rightarrow> string \<Rightarrow> nat \<Rightarrow> nat rabbit" where
  "move_queue_messages env 0 source target moved = failA StillRunning"
| "move_queue_messages env (Suc fuel) source target moved =
     basic_get env source (\<lambda>r. case r of
       Inl e \<Rightarrow> if is_missing_queue_error e then retA moved else failA (AmqpError e)
     | Inr None \<Rightarrow> retA moved
     | Inr (Some d) \<Rightarrow>
         seqA (publish_confirmed env target (dl_data d) (dl_properties d))
        (seqA (perform env (AmqpAck (dl_tag d)))
              (move_queue_messages env fuel source target (moved + 1))))"

fun connect_attempts :: "rabbit_env \<Rightarrow> nat \<Rightarrow> unit rabbit" where
  "connect_attempts env 0 = failA (AmqpError ''unable to connect to RabbitMQ'')"
| "connect_attempts env (Suc n) =
     tryA (perform env AmqpConnect) (\<lambda>r. case r of
       Inr _ \<Rightarrow> retA ()
     | Inl e \<Rightarrow> if n > 0 then connect_attempts env n else failA e)"

definition connect_with_retry :: "rabbit_env \<Rightarrow> unit rabbit" where
  "connect_with_retry env = connect_attempts env 30"

definition create_channel :: "rabbit_env \<Rightarrow> unit rabbit" where
  "create_channel env = perform env AmqpChannel"

section \<open>The input worker (input.rs)\<close>

record RabbitState =
  rs_config :: RabbitConfig
  rs_roles :: "PluginRole list"
  rs_runtime :: PluginInceptorRuntime

definition publish_opt :: "rabbit_env \<Rightarrow> string option \<Rightarrow> delivery \<Rightarrow> unit rabbit" where
  "publish_opt env queue d = (case queue of
     Some q \<Rightarrow> publish_confirmed env q (dl_data d) (dl_properties d)
   | None \<Rightarrow> retA ())"

definition route_delivery :: "rabbit_env \<Rightarrow> RabbitState \<Rightarrow> delivery \<Rightarrow> TrafficRoute rabbit" where
  "route_delivery env st d =
     (if has_role (rs_roles st) Duplicator then
        bindA (orFail (duplicator_config (rs_config st))) (\<lambda>duplicator.
          seqA (publish_opt env (du_green_input_queue duplicator) d)
         (seqA (publish_opt env (du_blue_input_queue duplicator) d)
               (retA RouteBoth)))
      else if has_role (rs_roles st) Splitter then
        bindA (orFail (splitter_config (rs_config st))) (\<lambda>splitter. \<lambda>h.
          (if routes_to_blue (ra_hash env) (dl_data d) (ra_traffic env h)
           then seqA (publish_opt env (sp_blue_input_queue splitter) d) (retA RouteBlue)
           else (case sp_green_input_queue splitter of
                   Some green_queue \<Rightarrow> seqA (publish_confirmed env green_queue (dl_data d) (dl_properties d)) (retA RouteGreen)
                 | None \<Rightarrow> retA RouteUnknown)) h)
      else retA RouteUnknown)"

definition queue_notify_observer ::
  "rabbit_env \<Rightarrow> RabbitState \<Rightarrow> ObserverConfig \<Rightarrow> string \<Rightarrow> json \<Rightarrow> TrafficRoute \<Rightarrow> bool rabbit" where
  "queue_notify_observer env st observer test_id payload route = (case ob_notify_path observer of
     None \<Rightarrow> retA False
   | Some path \<Rightarrow>
       tryA (runtime_notify_observer (ra_post env) AmqpPost (rs_runtime st) path test_id payload route)
         (\<lambda>r. retA (case r of Inl _ \<Rightarrow> False | Inr _ \<Rightarrow> True)))"

text \<open>Notifying the observer of a message and registering its case, shared by the input worker and the combiner.\<close>

definition observe_message ::
  "rabbit_env \<Rightarrow> RabbitState \<Rightarrow> json \<Rightarrow> field_table \<Rightarrow> TrafficRoute \<Rightarrow> unit rabbit" where
  "observe_message env st body headers route =
     (case observer_config (rs_config st) of
        None \<Rightarrow> retA ()
      | Some observer \<Rightarrow>
          if \<not> (has_role (rs_roles st) Observer \<and> queue_matches_filter (ra_regex env) (ra_show_f64 env) (ob_match observer) body headers)
          then retA ()
          else (case Option.bind (ob_test_id observer) (\<lambda>sel. queue_extract_test_id (ra_show_f64 env) sel body headers) of
                  None \<Rightarrow> retA ()
                | Some test_id \<Rightarrow>
                    bindA (queue_notify_observer env st observer test_id body route) (\<lambda>notified.
                      if notified \<and> should_register_case route
                      then tryA (runtime_register_test_case (ra_post env) AmqpPost (ra_clock env) (ra_show_time env) (rs_runtime st)
                             test_id) (\<lambda>_. retA ())
                      else retA ())))"

definition delivery_headers :: "delivery \<Rightarrow> field_table" where
  "delivery_headers d = unwrap_or (bp_headers (dl_properties d)) []"

definition process_input_delivery :: "rabbit_env \<Rightarrow> RabbitState \<Rightarrow> delivery \<Rightarrow> unit rabbit" where
  "process_input_delivery env st d =
     bindA (route_delivery env st d) (\<lambda>route.
     seqA (observe_message env st (unwrap_or (ra_parse_lossy env (dl_data d)) JNull) (delivery_headers d) route)
          (perform env (AmqpAck (dl_tag d))))"

definition input_drain_queues :: "RabbitState \<Rightarrow> string + (string \<times> string \<times> string) option" where
  "input_drain_queues st =
     (if has_role (rs_roles st) Duplicator then
        (case duplicator_config (rs_config st) of
           Inl e \<Rightarrow> Inl e
         | Inr c \<Rightarrow> (case (required (du_input_queue c) ''duplicator.inputQueue'', required (du_green_input_queue c) ''duplicator.greenInputQueue'',
                required (du_blue_input_queue c) ''duplicator.blueInputQueue'') of
              (Inl e, _, _) \<Rightarrow> Inl e | (Inr b, Inl e, _) \<Rightarrow> Inl e | (Inr b, Inr g, Inl e) \<Rightarrow> Inl e
            | (Inr b, Inr g, Inr bl) \<Rightarrow> Inr (Some (b, g, bl))))
      else if has_role (rs_roles st) Splitter then
        (case splitter_config (rs_config st) of
           Inl e \<Rightarrow> Inl e
         | Inr c \<Rightarrow> (case (required (sp_input_queue c) ''splitter.inputQueue'', required (sp_green_input_queue c) ''splitter.greenInputQueue'',
                required (sp_blue_input_queue c) ''splitter.blueInputQueue'') of
              (Inl e, _, _) \<Rightarrow> Inl e | (Inr b, Inl e, _) \<Rightarrow> Inl e | (Inr b, Inr g, Inl e) \<Rightarrow> Inl e
            | (Inr b, Inr g, Inr bl) \<Rightarrow> Inr (Some (b, g, bl))))
      else Inr None)"

text \<open>Moving a queue back, and its shadow queue to the shadow queue of the base, or to the base when there is none.\<close>

definition move_back :: "rabbit_env \<Rightarrow> nat \<Rightarrow> RabbitConfig \<Rightarrow> string \<Rightarrow> string \<Rightarrow> unit rabbit" where
  "move_back env fuel config source base =
     bindA (move_queue_messages env fuel source base 0) (\<lambda>_.
       case shadow_queue_name config source of
         None \<Rightarrow> retA ()
       | Some shadow \<Rightarrow>
           bindA (move_queue_messages env fuel shadow (unwrap_or (shadow_queue_name config base) base) 0) (\<lambda>_. retA ()))"

definition declare_base_shadow :: "rabbit_env \<Rightarrow> RabbitConfig \<Rightarrow> string \<Rightarrow> unit rabbit" where
  "declare_base_shadow env config base =
     (if inceptor_infra_disabled (ra_vars env) then retA ()
      else (case shadow_queue_name config base of
              None \<Rightarrow> retA ()
            | Some shadow \<Rightarrow> declare_queue env shadow (shadow_declaration config)))"

definition drain_input_queues :: "rabbit_env \<Rightarrow> nat \<Rightarrow> RabbitState \<Rightarrow> unit rabbit" where
  "drain_input_queues env fuel st =
     bindA (orFail (input_drain_queues st)) (\<lambda>queues. case queues of
       None \<Rightarrow> retA ()
     | Some (base, green, blue) \<Rightarrow>
         seqA (declare_base_shadow env (rs_config st) base)
           (forA (\<lambda>source. move_back env fuel (rs_config st) source base) [green, blue]))"

definition drain_input_roles :: "rabbit_env \<Rightarrow> nat \<Rightarrow> RabbitState \<Rightarrow> unit rabbit" where
  "drain_input_roles env fuel st =
     (if \<not> has_role (rs_roles st) Duplicator \<and> \<not> has_role (rs_roles st) Splitter then retA ()
      else seqA (connect_with_retry env) (seqA (create_channel env) (drain_input_queues env fuel st)))"

definition worker_input_queue :: "RabbitState \<Rightarrow> string + string" where
  "worker_input_queue st =
     (if has_role (rs_roles st) Duplicator then
        (case duplicator_config (rs_config st) of Inl e \<Rightarrow> Inl e | Inr c \<Rightarrow> required (du_input_queue c) ''duplicator.inputQueue'')
      else if has_role (rs_roles st) Splitter then
        (case splitter_config (rs_config st) of Inl e \<Rightarrow> Inl e | Inr c \<Rightarrow> required (sp_input_queue c) ''splitter.inputQueue'')
      else (case consumer_config (rs_config st) of Inl e \<Rightarrow> Inl e | Inr c \<Rightarrow> required (cs_input_queue c) ''consumer.inputQueue''))"

text \<open>The polling loop on one channel; it returns when the connection has to be made again.\<close>

fun input_poll :: "rabbit_env \<Rightarrow> nat \<Rightarrow> RabbitState \<Rightarrow> string \<Rightarrow> unit rabbit" where
  "input_poll env 0 st queue = failA StillRunning"
| "input_poll env (Suc fuel) st queue =
     read_mode env (\<lambda>mode. case mode of
       ModeIdle \<Rightarrow> input_poll env fuel st queue
     | ModeDraining \<Rightarrow>
         catchA (drain_input_queues env fuel st) (\<lambda>r. case r of Inl _ \<Rightarrow> retA () | Inr _ \<Rightarrow> input_poll env fuel st queue)
     | ModeActive \<Rightarrow>
         basic_get env queue (\<lambda>r. case r of
           Inr (Some d) \<Rightarrow>
             catchA (process_input_delivery env st d) (\<lambda>r. case r of Inl _ \<Rightarrow> retA () | Inr _ \<Rightarrow> input_poll env fuel st queue)
         | Inr None \<Rightarrow> input_poll env fuel st queue
         | Inl _ \<Rightarrow> retA ()))"

fun run_input_pipeline :: "rabbit_env \<Rightarrow> nat \<Rightarrow> RabbitState \<Rightarrow> unit rabbit" where
  "run_input_pipeline env 0 st = failA StillRunning"
| "run_input_pipeline env (Suc fuel) st =
     read_mode env (\<lambda>mode. case mode of
       ModeIdle \<Rightarrow> run_input_pipeline env fuel st
     | _ \<Rightarrow>
         catchA (seqA (connect_with_retry env) (create_channel env)) (\<lambda>r. case r of
           Inl _ \<Rightarrow> run_input_pipeline env fuel st
         | Inr _ \<Rightarrow>
             bindA (orFail (worker_input_queue st)) (\<lambda>queue.
             seqA (if inceptor_infra_disabled (ra_vars env) then retA ()
                   else declare_queue env queue (rc_queue_declaration (rs_config st)))
            (seqA (input_poll env fuel st queue)
                  (run_input_pipeline env fuel st)))))"

end
