(* ===== verification/RabbitLifecycle.thy ===== *)
theory RabbitLifecycle
  imports RabbitWorkers
begin

text \<open>
  The RabbitMQ plugin's combiner, writer, drain report and control plane (\<open>combiner.rs\<close>, \<open>writer.rs\<close> and
  \<open>lifecycle.rs\<close> of \<open>src/plugins/rabbitmq/src\<close>). A handler answers with \<open>Inl\<close> a status code or \<open>Inr\<close> its body.
\<close>

section \<open>The combiner (combiner.rs)\<close>

text \<open>The loop of \<open>run_combine_loop_once\<close> on its two channels.\<close>

fun combine_poll :: "rabbit_env \<Rightarrow> nat \<Rightarrow> RabbitState \<Rightarrow> CombinerConfig \<Rightarrow> string \<Rightarrow> string \<Rightarrow> unit rabbit" where
  "combine_poll env 0 st combiner source result = failA StillRunning"
| "combine_poll env (Suc fuel) st combiner source result =
     read_mode env (\<lambda>mode.
       if mode \<noteq> ModeActive then retA ()
       else basic_get env source (\<lambda>r. case r of
         Inl e \<Rightarrow> failA (AmqpError e)
       | Inr None \<Rightarrow> combine_poll env fuel st combiner source result
       | Inr (Some d) \<Rightarrow>
           read_mode env (\<lambda>mode.
             if mode \<noteq> ModeActive then perform env (AmqpNack (dl_tag d))
             else seqA (publish_confirmed env result (dl_data d) (dl_properties d))
                 (seqA (observe_message env st (unwrap_or (ra_parse env (dl_data d)) JNull) (delivery_headers d)
                         (route_from_output_source combiner source))
                 (seqA (perform env (AmqpAck (dl_tag d)))
                       (combine_poll env fuel st combiner source result))))))"

definition run_combine_loop_once :: "rabbit_env \<Rightarrow> nat \<Rightarrow> RabbitState \<Rightarrow> string \<Rightarrow> string \<Rightarrow> unit rabbit" where
  "run_combine_loop_once env fuel st source result =
     seqA (connect_with_retry env) (seqA (create_channel env) (seqA (create_channel env)
    (seqA (if inceptor_infra_disabled (ra_vars env) then retA ()
           else seqA (declare_queue env source (rc_queue_declaration (rs_config st)))
                     (declare_queue env result (rc_queue_declaration (rs_config st))))
    (bindA (orFail (combiner_config (rs_config st))) (\<lambda>combiner. combine_poll env fuel st combiner source result)))))"

definition drain_output_queue :: "rabbit_env \<Rightarrow> nat \<Rightarrow> RabbitState \<Rightarrow> string \<Rightarrow> string \<Rightarrow> unit rabbit" where
  "drain_output_queue env fuel st source result =
     seqA (connect_with_retry env) (seqA (create_channel env)
    (seqA (if inceptor_infra_disabled (ra_vars env) then retA ()
           else seqA (declare_queue env result (rc_queue_declaration (rs_config st)))
                     (declare_base_shadow env (rs_config st) result))
          (move_back env fuel (rs_config st) source result)))"

fun run_combine_loop :: "rabbit_env \<Rightarrow> nat \<Rightarrow> RabbitState \<Rightarrow> string \<Rightarrow> string \<Rightarrow> unit rabbit" where
  "run_combine_loop env 0 st source result = failA StillRunning"
| "run_combine_loop env (Suc fuel) st source result =
     read_mode env (\<lambda>mode. case mode of
       ModeIdle \<Rightarrow> run_combine_loop env fuel st source result
     | ModeDraining \<Rightarrow>
         catchA (drain_output_queue env fuel st source result) (\<lambda>_. run_combine_loop env fuel st source result)
     | ModeActive \<Rightarrow>
         catchA (run_combine_loop_once env fuel st source result) (\<lambda>_. run_combine_loop env fuel st source result))"

definition combiner_queues :: "RabbitState \<Rightarrow> string + string \<times> string \<times> string" where
  "combiner_queues st = (case combiner_config (rs_config st) of
     Inl e \<Rightarrow> Inl e
   | Inr c \<Rightarrow> (case (required (co_green_output_queue c) ''combiner.greenOutputQueue'',
         required (co_blue_output_queue c) ''combiner.blueOutputQueue'', required (co_output_queue c) ''combiner.outputQueue'') of
       (Inl e, _, _) \<Rightarrow> Inl e | (Inr g, Inl e, _) \<Rightarrow> Inl e | (Inr g, Inr b, Inl e) \<Rightarrow> Inl e
     | (Inr g, Inr b, Inr r) \<Rightarrow> Inr (g, b, r)))"

definition drain_output_queues :: "rabbit_env \<Rightarrow> nat \<Rightarrow> RabbitState \<Rightarrow> unit rabbit" where
  "drain_output_queues env fuel st =
     (if \<not> has_role (rs_roles st) Combiner then retA ()
      else bindA (orFail (combiner_queues st)) (\<lambda>(green, blue, result).
        seqA (drain_output_queue env fuel st green result) (drain_output_queue env fuel st blue result)))"

section \<open>The writer (writer.rs)\<close>

record WriteRequest =
  wq_test_id :: "string option"
  wq_payload :: json
  wq_properties :: "json option"

definition queue_authorize_operator :: "RabbitState \<Rightarrow> string option \<Rightarrow> bool" where
  "queue_authorize_operator st auth_header = bearer_matches auth_header (rt_auth_token (rs_runtime st))"

definition write_properties :: "rabbit_env \<Rightarrow> WriteRequest \<Rightarrow> BasicProperties" where
  "write_properties env req =
     \<lparr>bp_headers = Option.bind (Option.bind (wq_properties req) (jget ''headers'')) (ra_field_table env), bp_other = []\<rparr>"

definition queue_write_handler ::
  "rabbit_env \<Rightarrow> (json \<Rightarrow> bytes) \<Rightarrow> RabbitState \<Rightarrow> string option \<Rightarrow> WriteRequest \<Rightarrow> (nat \<times> string) rabbit" where
  "queue_write_handler env to_vec st auth_header req =
     (if require_bearer_token auth_header (rt_auth_token (rs_runtime st)) \<noteq> Inr () then retA (401, ''unauthorized'')
      else (case Option.bind (rc_writer (rs_config st)) wr_target_queue of
              None \<Rightarrow> retA (400, ''targetQueue not configured'')
            | Some queue \<Rightarrow>
                catchA (connect_with_retry env) (\<lambda>r. case r of
                  Inl _ \<Rightarrow> retA (500, ''connect failed'')
                | Inr _ \<Rightarrow> catchA (create_channel env) (\<lambda>r. case r of
                    Inl _ \<Rightarrow> retA (500, ''channel failed'')
                  | Inr _ \<Rightarrow> catchA (publish_confirmed env queue (to_vec (wq_payload req)) (write_properties env req)) (\<lambda>r. case r of
                      Inr _ \<Rightarrow> retA (200, ''published'')
                    | Inl _ \<Rightarrow> retA (500, ''publish failed''))))))"

section \<open>The management API, as far as draining needs it (management.rs)\<close>

record ManagementClient =
  mg_base_url :: string
  mg_username :: string
  mg_password :: string
  mg_vhost :: string

record QueueDepth =
  qp_ready :: nat
  qp_unacknowledged :: nat
  qp_consumers :: nat

definition encode_path_segment :: "string \<Rightarrow> string" where
  "encode_path_segment value = percent_encode value"

definition json_u64 :: "string \<Rightarrow> json \<Rightarrow> nat option" where
  "json_u64 k v = (case jget k v of
     None \<Rightarrow> Some 0
   | Some (JInt n) \<Rightarrow> if 0 \<le> n \<and> n < 2 ^ 64 then Some (nat n) else None
   | Some _ \<Rightarrow> None)"

definition queue_response :: "json \<Rightarrow> QueueDepth option" where
  "queue_response v = (case (as_object v, json_u64 ''messages_ready'' v, json_u64 ''messages_unacknowledged'' v, json_u64 ''consumers'' v) of
     (Some _, Some r, Some u, Some c) \<Rightarrow> Some \<lparr>qp_ready = r, qp_unacknowledged = u, qp_consumers = c\<rparr>
   | _ \<Rightarrow> None)"

text \<open>\<open>error_for_status\<close>, then the JSON body.\<close>

definition management_call :: "rabbit_env \<Rightarrow> string \<Rightarrow> string \<Rightarrow> json option \<Rightarrow> (nat \<times> json option) rabbit" where
  "management_call env verb url body =
     (let c = AmqpHttp verb url body in callA (\<lambda>h. map_sum AmqpError id (ra_http env h c)) c)"

definition error_for_status :: "nat \<times> json option \<Rightarrow> json option rabbit" where
  "error_for_status answer =
     (if 400 \<le> fst answer \<and> fst answer < 600 then failA (AmqpError ''HTTP status error'') else retA (snd answer))"

definition decoded :: "(json \<Rightarrow> 'a option) \<Rightarrow> json option \<Rightarrow> 'a rabbit" where
  "decoded decode body = (case Option.bind body decode of Some v \<Rightarrow> retA v | None \<Rightarrow> failA (AmqpError ''error decoding response body''))"

definition queue_depth :: "rabbit_env \<Rightarrow> ManagementClient \<Rightarrow> string \<Rightarrow> QueueDepth rabbit" where
  "queue_depth env m queue =
     bindA (management_call env ''GET'' (mg_base_url m @ ''api/queues/'' @ encode_path_segment (mg_vhost m) @ ''/''
         @ encode_path_segment queue) None) (\<lambda>answer.
       if fst answer = 404 then retA \<lparr>qp_ready = 0, qp_unacknowledged = 0, qp_consumers = 0\<rparr>
       else bindA (error_for_status answer) (\<lambda>body. decoded queue_response body))"

section \<open>The drain report (lifecycle.rs)\<close>

text \<open>Sums of 64-bit and of 32-bit counters wrap in the release build.\<close>

definition add_u64 :: "nat \<Rightarrow> nat \<Rightarrow> nat" where
  "add_u64 a b = (a + b) mod 2 ^ 64"

definition add_u32 :: "nat \<Rightarrow> nat \<Rightarrow> nat" where
  "add_u32 a b = (a + b) mod 2 ^ 32"

definition management_queue_depth_with_shadow ::
  "rabbit_env \<Rightarrow> ManagementClient \<Rightarrow> RabbitState \<Rightarrow> string \<Rightarrow> QueueDepth rabbit" where
  "management_queue_depth_with_shadow env m st queue =
     bindA (queue_depth env m queue) (\<lambda>depth. case shadow_queue_name (rs_config st) queue of
       None \<Rightarrow> retA depth
     | Some shadow_queue \<Rightarrow> bindA (queue_depth env m shadow_queue) (\<lambda>shadow.
         retA \<lparr>qp_ready = add_u64 (qp_ready depth) (qp_ready shadow),
           qp_unacknowledged = add_u64 (qp_unacknowledged depth) (qp_unacknowledged shadow),
           qp_consumers = add_u64 (qp_consumers depth) (qp_consumers shadow)\<rparr>))"

definition queue_state_with_shadow :: "rabbit_env \<Rightarrow> RabbitState \<Rightarrow> string \<Rightarrow> (nat \<times> nat) rabbit" where
  "queue_state_with_shadow env st queue =
     bindA (queue_state env queue) (\<lambda>(ready, consumers). case shadow_queue_name (rs_config st) queue of
       None \<Rightarrow> retA (ready, consumers)
     | Some shadow_queue \<Rightarrow> bindA (queue_state env shadow_queue) (\<lambda>(shadow_ready, shadow_consumers).
         retA (add_u32 ready shadow_ready, add_u32 consumers shadow_consumers)))"

definition management_drain_status :: "string \<Rightarrow> QueueDepth \<Rightarrow> QueueDepth \<Rightarrow> PluginDrainStatusResponse" where
  "management_drain_status label green blue =
     (let drained = (add_u64 (qp_ready green) (qp_unacknowledged green) = 0 \<and>
                     add_u64 (qp_ready blue) (qp_unacknowledged blue) = 0)
      in \<lparr>pds_drained = drained, pds_message = Some (
           if drained then label @ '' are empty and have no unacknowledged messages (consumers: green='' @ show_nat (qp_consumers green)
             @ '', blue='' @ show_nat (qp_consumers blue) @ '')''
           else label @ '' not drained (green ready='' @ show_nat (qp_ready green) @ '', unacked='' @ show_nat (qp_unacknowledged green)
             @ '', consumers='' @ show_nat (qp_consumers green) @ ''; blue ready='' @ show_nat (qp_ready blue)
             @ '', unacked='' @ show_nat (qp_unacknowledged blue) @ '', consumers='' @ show_nat (qp_consumers blue) @ '')'')\<rparr>)"

definition ready_drain_status :: "string \<Rightarrow> nat \<times> nat \<Rightarrow> nat \<times> nat \<Rightarrow> PluginDrainStatusResponse" where
  "ready_drain_status label green blue =
     (let drained = (fst green = 0 \<and> fst blue = 0)
      in \<lparr>pds_drained = drained, pds_message = Some (
           if drained then label @ '' have no ready messages; RabbitMQ management API is not configured, so unacknowledged counts are ''
             @ ''not directly observable (consumers: green='' @ show_nat (snd green) @ '', blue='' @ show_nat (snd blue) @ '')''
           else label @ '' still contain ready messages (green='' @ show_nat (fst green) @ '', blue='' @ show_nat (fst blue) @ '')'')\<rparr>)"

text \<open>The management client, when it is configured; building one can fail.\<close>

type_synonym management_setup = "string + ManagementClient option"

definition queue_pair_drain_status ::
  "rabbit_env \<Rightarrow> management_setup \<Rightarrow> RabbitState \<Rightarrow> string \<Rightarrow> string \<Rightarrow> string \<Rightarrow> PluginDrainStatusResponse rabbit" where
  "queue_pair_drain_status env setup st green_queue blue_queue label =
     bindA (orFail setup) (\<lambda>management. case management of
       Some m \<Rightarrow>
         bindA (management_queue_depth_with_shadow env m st green_queue) (\<lambda>green.
         bindA (management_queue_depth_with_shadow env m st blue_queue) (\<lambda>blue.
           retA (management_drain_status label green blue)))
     | None \<Rightarrow>
         bindA (queue_state_with_shadow env st green_queue) (\<lambda>green.
         bindA (queue_state_with_shadow env st blue_queue) (\<lambda>blue.
           retA (ready_drain_status label green blue))))"

definition drain_runtime_queues :: "rabbit_env \<Rightarrow> nat \<Rightarrow> RabbitState \<Rightarrow> unit rabbit" where
  "drain_runtime_queues env fuel st = seqA (drain_input_roles env fuel st) (drain_output_queues env fuel st)"

definition drain_pair :: "RabbitState \<Rightarrow> string + (string \<times> string \<times> string) option" where
  "drain_pair st =
     (if has_role (rs_roles st) Duplicator then
        (case duplicator_config (rs_config st) of
           Inl e \<Rightarrow> Inl e
         | Inr c \<Rightarrow> (case (required (du_green_input_queue c) ''duplicator.greenInputQueue'',
                required (du_blue_input_queue c) ''duplicator.blueInputQueue'') of
              (Inl e, _) \<Rightarrow> Inl e | (Inr g, Inl e) \<Rightarrow> Inl e | (Inr g, Inr b) \<Rightarrow> Inr (Some (g, b, ''temporary input queues''))))
      else if has_role (rs_roles st) Splitter then
        (case splitter_config (rs_config st) of
           Inl e \<Rightarrow> Inl e
         | Inr c \<Rightarrow> (case (required (sp_green_input_queue c) ''splitter.greenInputQueue'',
                required (sp_blue_input_queue c) ''splitter.blueInputQueue'') of
              (Inl e, _) \<Rightarrow> Inl e | (Inr g, Inl e) \<Rightarrow> Inl e | (Inr g, Inr b) \<Rightarrow> Inr (Some (g, b, ''temporary input queues''))))
      else if has_role (rs_roles st) Combiner then
        (case combiner_config (rs_config st) of
           Inl e \<Rightarrow> Inl e
         | Inr c \<Rightarrow> (case (required (co_green_output_queue c) ''combiner.greenOutputQueue'',
                required (co_blue_output_queue c) ''combiner.blueOutputQueue'') of
              (Inl e, _) \<Rightarrow> Inl e | (Inr g, Inl e) \<Rightarrow> Inl e | (Inr g, Inr b) \<Rightarrow> Inr (Some (g, b, ''temporary output queues''))))
      else Inr None)"

definition compute_drain_status ::
  "rabbit_env \<Rightarrow> nat \<Rightarrow> management_setup \<Rightarrow> RabbitState \<Rightarrow> PluginDrainStatusResponse rabbit" where
  "compute_drain_status env fuel setup st =
     seqA (read_mode env (\<lambda>mode. if mode = ModeDraining then drain_runtime_queues env fuel st else retA ()))
    (seqA (connect_with_retry env) (seqA (create_channel env)
    (bindA (orFail (drain_pair st)) (\<lambda>pair. case pair of
       Some (green, blue, label) \<Rightarrow> queue_pair_drain_status env setup st green blue label
     | None \<Rightarrow> retA \<lparr>pds_drained = True, pds_message = Some ''no drain-sensitive RabbitMQ roles active''\<rparr>))))"

section \<open>The control plane\<close>

definition set_mode :: "RuntimeMode \<Rightarrow> unit rabbit" where
  "set_mode m = callA (\<lambda>_. Inr ()) (AmqpSetMode m)"

text \<open>Failures become the status 500.\<close>

definition or500 :: "'a rabbit \<Rightarrow> ('a \<Rightarrow> (nat + 'b) rabbit) \<Rightarrow> (nat + 'b) rabbit" where
  "or500 m f = catchA m (\<lambda>r. case r of Inl _ \<Rightarrow> retA (Inl 500) | Inr a \<Rightarrow> f a)"

definition authorized :: "RabbitState \<Rightarrow> string option \<Rightarrow> (nat + 'b) rabbit \<Rightarrow> (nat + 'b) rabbit" where
  "authorized st auth_header m = (if queue_authorize_operator st auth_header then m else retA (Inl 401))"

definition declare_temp_queues :: "rabbit_env \<Rightarrow> RabbitState \<Rightarrow> string option list \<Rightarrow> unit rabbit" where
  "declare_temp_queues env st queues =
     forA (\<lambda>queue. case shadow_queue_name (rs_config st) queue of
         Some shadow \<Rightarrow> seqA (declare_queue env shadow (shadow_declaration (rs_config st)))
                             (declare_queue env queue (rc_queue_declaration (rs_config st)))
       | None \<Rightarrow> declare_queue env queue (rc_queue_declaration (rs_config st)))
       (List.map_filter id queues)"

definition delete_temp_queues :: "rabbit_env \<Rightarrow> RabbitState \<Rightarrow> string option list \<Rightarrow> unit rabbit" where
  "delete_temp_queues env st queues =
     forA (\<lambda>queue. seqA (delete_queue env queue)
         (case shadow_queue_name (rs_config st) queue of Some shadow \<Rightarrow> delete_queue env shadow | None \<Rightarrow> retA ()))
       (List.map_filter id queues)"

definition for_role ::
  "RabbitState \<Rightarrow> PluginRole \<Rightarrow> string + 'c \<Rightarrow> ('c \<Rightarrow> unit rabbit) \<Rightarrow> unit rabbit" where
  "for_role st role block f = (if has_role (rs_roles st) role then bindA (orFail block) f else retA ())"

definition queue_prepare_handler ::
  "rabbit_env \<Rightarrow> RabbitState \<Rightarrow> string option \<Rightarrow> (nat + PluginLifecycleResponse) rabbit" where
  "queue_prepare_handler env st auth_header =
     (let response = default_lifecycle_response\<lparr>plr_assignments :=
            build_prepare_assignments (ra_to_string env) (rs_config st) (rs_roles st)\<rparr>
      in authorized st auth_header (seqA (set_mode ModeIdle)
           (if inceptor_infra_disabled (ra_vars env) then retA (Inr response)
            else or500 (seqA (connect_with_retry env) (seqA (create_channel env)
             (seqA (for_role st Duplicator (duplicator_config (rs_config st)) (\<lambda>d.
                      declare_temp_queues env st [du_green_input_queue d, du_blue_input_queue d]))
             (seqA (for_role st Splitter (splitter_config (rs_config st)) (\<lambda>s.
                      declare_temp_queues env st [sp_green_input_queue s, sp_blue_input_queue s]))
             (seqA (for_role st Combiner (combiner_config (rs_config st)) (\<lambda>c.
                      declare_temp_queues env st [co_green_output_queue c, co_blue_output_queue c, co_output_queue c]))
                   (for_role st Writer (writer_config (rs_config st)) (\<lambda>w. declare_temp_queues env st [wr_target_queue w])))))))
              (\<lambda>_. retA (Inr response)))))"

definition queue_activate_handler :: "RabbitState \<Rightarrow> string option \<Rightarrow> (nat + PluginLifecycleResponse) rabbit" where
  "queue_activate_handler st auth_header =
     authorized st auth_header (seqA (set_mode ModeActive) (retA (Inr default_lifecycle_response)))"

definition queue_cleanup_handler :: "rabbit_env \<Rightarrow> RabbitState \<Rightarrow> string option \<Rightarrow> (nat + PluginLifecycleResponse) rabbit" where
  "queue_cleanup_handler env st auth_header =
     authorized st auth_header (seqA (set_mode ModeIdle)
       (if inceptor_infra_disabled (ra_vars env) then retA (Inr default_lifecycle_response)
        else or500 (seqA (connect_with_retry env) (seqA (create_channel env)
         (seqA (for_role st Duplicator (duplicator_config (rs_config st)) (\<lambda>d.
                  delete_temp_queues env st [du_green_input_queue d, du_blue_input_queue d]))
         (seqA (for_role st Splitter (splitter_config (rs_config st)) (\<lambda>s.
                  delete_temp_queues env st [sp_green_input_queue s, sp_blue_input_queue s]))
               (for_role st Combiner (combiner_config (rs_config st)) (\<lambda>c.
                  delete_temp_queues env st [co_green_output_queue c, co_blue_output_queue c]))))))
          (\<lambda>_. retA (Inr default_lifecycle_response))))"

definition queue_drain_handler ::
  "rabbit_env \<Rightarrow> nat \<Rightarrow> RabbitState \<Rightarrow> string option \<Rightarrow> (nat + PluginLifecycleResponse) rabbit" where
  "queue_drain_handler env fuel st auth_header =
     authorized st auth_header (seqA (set_mode ModeDraining)
       (or500 (drain_runtime_queues env fuel st) (\<lambda>_. retA (Inr (default_lifecycle_response\<lparr>plr_assignments :=
          build_drain_assignments (rs_config st) (rs_roles st)\<rparr>)))))"

definition queue_drain_status_handler ::
  "rabbit_env \<Rightarrow> nat \<Rightarrow> management_setup \<Rightarrow> RabbitState \<Rightarrow> string option \<Rightarrow> (nat + PluginDrainStatusResponse) rabbit" where
  "queue_drain_status_handler env fuel setup st auth_header =
     authorized st auth_header (or500 (compute_drain_status env fuel setup st) (\<lambda>status. retA (Inr status)))"

definition queue_traffic_shift :: "RabbitState \<Rightarrow> string option \<Rightarrow> nat \<Rightarrow> nat + nat" where
  "queue_traffic_shift st auth_header traffic_percent =
     (if queue_authorize_operator st auth_header then Inr (min traffic_percent 100) else Inl 401)"

end
