(* ===== verification/RabbitManager.thy ===== *)
theory RabbitManager
  imports RabbitLifecycle
begin

text \<open>
  The RabbitMQ plugin manager (\<open>manager.rs\<close> and the rest of \<open>management.rs\<close> of \<open>src/plugins/rabbitmq/src\<close>): it gives every
  inception a broker user of its own, declares and deletes the temporary queues, and collects what no active
  inception needs. URL parsing, regular expression escaping, the JSON decoder of the configuration and the
  construction of the HTTP client are libraries and parameters. A handler fails with a status code.
\<close>

section \<open>The management API (management.rs)\<close>

record manager_env =
  me_rabbit :: rabbit_env
  me_jwt :: jwt_lib
  me_sha :: sha256
  me_parse_url :: "string \<Rightarrow> parsed_url option"
  me_show_url :: "parsed_url \<Rightarrow> string"
  me_escape :: "string \<Rightarrow> string"
  me_decode_config :: "json \<Rightarrow> RabbitConfig option"
  me_http_client :: "string option \<Rightarrow> bool \<Rightarrow> string + unit"

definition ends_with :: "string \<Rightarrow> string \<Rightarrow> bool" where
  "ends_with suffix s = (take (length suffix) (rev s) = rev suffix)"

definition trim_slashes :: "string \<Rightarrow> string" where
  "trim_slashes s = trim_end_matches (\<lambda>c. c = CHR ''/'') s"

definition validate_management_base_url :: "manager_env \<Rightarrow> string \<Rightarrow> bool \<Rightarrow> string + parsed_url" where
  "validate_management_base_url env value allow_insecure =
     (case me_parse_url env (trim_matches rust_whitespace value) of
        None \<Rightarrow> Inl ''invalid RabbitMQ management URL''
      | Some url \<Rightarrow>
          if pu_host url = None then Inl ''RabbitMQ management URL must include a host''
          else if pu_username url \<noteq> [] \<or> pu_password url \<noteq> None then Inl ''RabbitMQ management URL must not contain credentials''
          else if pu_query url \<noteq> None \<or> pu_fragment url \<noteq> None
          then Inl ''RabbitMQ management URL must not contain query or fragment components''
          else if pu_scheme url = ''https'' \<or> (pu_scheme url = ''http'' \<and> allow_insecure)
          then Inr (if ends_with ''/'' (pu_path url) then url else url\<lparr>pu_path := trim_slashes (pu_path url) @ ''/''\<rparr>)
          else if pu_scheme url = ''http''
          then Inl ''RabbitMQ management URL uses http; set FLUIDBG_RABBITMQ_MANAGEMENT_ALLOW_INSECURE=true only for trusted in-cluster development endpoints''
          else Inl (''RabbitMQ management URL must use http or https, got '' @ quoted (pu_scheme url)))"

definition management_client_new ::
  "manager_env \<Rightarrow> string \<Rightarrow> string \<Rightarrow> string \<Rightarrow> string \<Rightarrow> bool \<Rightarrow> string option \<Rightarrow> bool \<Rightarrow> string + ManagementClient" where
  "management_client_new env base_url username password vhost allow_insecure ca_cert_path insecure_skip_verify =
     (case me_http_client env ca_cert_path insecure_skip_verify of
        Inl e \<Rightarrow> Inl e
      | Inr _ \<Rightarrow> (case validate_management_base_url env base_url allow_insecure of
          Inl e \<Rightarrow> Inl e
        | Inr url \<Rightarrow> Inr \<lparr>mg_base_url = me_show_url env url, mg_username = username, mg_password = password, mg_vhost = vhost\<rparr>))"

definition env_flag :: "env_vars \<Rightarrow> string \<Rightarrow> bool" where
  "env_flag vars name = (case vars name of None \<Rightarrow> False | Some v \<Rightarrow> v \<in> {''1'', ''true'', ''TRUE'', ''yes'', ''YES''})"

definition management_from_config :: "manager_env \<Rightarrow> env_vars \<Rightarrow> management_setup" where
  "management_from_config env vars =
     (case (vars ''FLUIDBG_RABBITMQ_MANAGEMENT_URL'', optional_env vars ''FLUIDBG_RABBITMQ_MANAGEMENT_USERNAME'',
         optional_env vars ''FLUIDBG_RABBITMQ_MANAGEMENT_PASSWORD'') of
        (Some url, Some username, Some password) \<Rightarrow>
          map_sum id Some (management_client_new env url username password
            (unwrap_or (vars ''FLUIDBG_RABBITMQ_MANAGEMENT_VHOST'') ''/'') (env_flag vars ''FLUIDBG_RABBITMQ_MANAGEMENT_ALLOW_INSECURE'')
            (optional_env vars ''FLUIDBG_RABBITMQ_MANAGEMENT_CA_CERT_PATH'')
            (env_flag vars ''FLUIDBG_RABBITMQ_MANAGEMENT_INSECURE_SKIP_VERIFY''))
      | _ \<Rightarrow> Inr None)"

definition queue_permission_regex :: "(string \<Rightarrow> string) \<Rightarrow> string list \<Rightarrow> string" where
  "queue_permission_regex escape queue_names =
     (let names = remdups_adj (sort (map escape (filter (\<lambda>name. name \<noteq> []) queue_names)))
      in if names = [] then ''^$'' else ''^('' @ join ''|'' names @ '')$'')"

definition default_exchange_permission_regex :: string where
  "default_exchange_permission_regex = ''^(amq'' @ [char_of (92 :: nat)] @ ''.default|)$''"

definition user_url :: "ManagementClient \<Rightarrow> string \<Rightarrow> string" where
  "user_url m username = mg_base_url m @ ''api/users/'' @ encode_path_segment username"

definition permissions_url :: "ManagementClient \<Rightarrow> string \<Rightarrow> string" where
  "permissions_url m username =
     mg_base_url m @ ''api/permissions/'' @ encode_path_segment (mg_vhost m) @ ''/'' @ encode_path_segment username"

definition user_body :: "string \<Rightarrow> json" where
  "user_body password = JObj [(''password'', JStr password), (''tags'', JStr ''monitoring'')]"

definition permissions_body :: "(string \<Rightarrow> string) \<Rightarrow> string list \<Rightarrow> json" where
  "permissions_body escape queue_names = JObj [(''configure'', JStr []),
     (''read'', JStr (queue_permission_regex escape queue_names)), (''write'', JStr default_exchange_permission_regex)]"

definition create_inceptor_user :: "manager_env \<Rightarrow> ManagementClient \<Rightarrow> string \<Rightarrow> string \<Rightarrow> string list \<Rightarrow> unit rabbit" where
  "create_inceptor_user env m username password queue_names =
     bindA (management_call (me_rabbit env) ''PUT'' (user_url m username) (Some (user_body password))) (\<lambda>answer.
     bindA (error_for_status answer) (\<lambda>_.
     bindA (management_call (me_rabbit env) ''PUT'' (permissions_url m username) (Some (permissions_body (me_escape env) queue_names))) (\<lambda>answer.
     bindA (error_for_status answer) (\<lambda>_. retA ()))))"

definition delete_user :: "manager_env \<Rightarrow> ManagementClient \<Rightarrow> string \<Rightarrow> unit rabbit" where
  "delete_user env m username =
     bindA (management_call (me_rabbit env) ''DELETE'' (user_url m username) None) (\<lambda>answer.
       if fst answer = 404 then retA () else bindA (error_for_status answer) (\<lambda>_. retA ()))"

fun response_names :: "json list \<Rightarrow> string list option" where
  "response_names [] = Some []"
| "response_names (v # vs) = (case (Option.bind (jget ''name'' v) as_str, response_names vs) of
     (Some name, Some names) \<Rightarrow> Some (name # names)
   | _ \<Rightarrow> None)"

definition name_list :: "json \<Rightarrow> string list option" where
  "name_list v = (case v of JArr vs \<Rightarrow> response_names vs | _ \<Rightarrow> None)"

definition list_users :: "manager_env \<Rightarrow> ManagementClient \<Rightarrow> string list rabbit" where
  "list_users env m =
     bindA (management_call (me_rabbit env) ''GET'' (mg_base_url m @ ''api/users'') None) (\<lambda>answer.
       bindA (error_for_status answer) (decoded name_list))"

definition list_queues :: "manager_env \<Rightarrow> ManagementClient \<Rightarrow> string list rabbit" where
  "list_queues env m =
     bindA (management_call (me_rabbit env) ''GET'' (mg_base_url m @ ''api/queues/'' @ encode_path_segment (mg_vhost m)) None) (\<lambda>answer.
       bindA (error_for_status answer) (decoded name_list))"

section \<open>The manager (manager.rs)\<close>

record ManagerState =
  ms_signing_key :: bytes
  ms_amqp_url :: string
  ms_management_url :: "string option"
  ms_management_username :: "string option"
  ms_management_password :: "string option"
  ms_management_vhost :: "string option"
  ms_management_allow_insecure :: bool
  ms_amqp_ca_cert_path :: "string option"
  ms_management_ca_cert_path :: "string option"
  ms_management_insecure_skip_verify :: bool

definition manager_state_from_env :: "env_vars \<Rightarrow> string + ManagerState" where
  "manager_state_from_env vars =
     (case (vars ''FLUIDBG_MANAGER_AUTH_SIGNING_KEY'', vars ''FLUIDBG_RABBITMQ_MANAGER_AMQP_URL'') of
        (None, _) \<Rightarrow> Inl ''missing FLUIDBG_MANAGER_AUTH_SIGNING_KEY''
      | (Some _, None) \<Rightarrow> Inl ''missing FLUIDBG_RABBITMQ_MANAGER_AMQP_URL''
      | (Some signing_key, Some amqp_url) \<Rightarrow> Inr \<lparr>ms_signing_key = as_bytes signing_key, ms_amqp_url = amqp_url,
          ms_management_url = vars ''FLUIDBG_RABBITMQ_MANAGER_MANAGEMENT_URL'',
          ms_management_username = vars ''FLUIDBG_RABBITMQ_MANAGER_MANAGEMENT_USERNAME'',
          ms_management_password = vars ''FLUIDBG_RABBITMQ_MANAGER_MANAGEMENT_PASSWORD'',
          ms_management_vhost = vars ''FLUIDBG_RABBITMQ_MANAGER_MANAGEMENT_VHOST'',
          ms_management_allow_insecure = env_flag vars ''FLUIDBG_RABBITMQ_MANAGER_MANAGEMENT_ALLOW_INSECURE'',
          ms_amqp_ca_cert_path = vars ''FLUIDBG_RABBITMQ_MANAGER_AMQP_CA_CERT_PATH'',
          ms_management_ca_cert_path = vars ''FLUIDBG_RABBITMQ_MANAGER_MANAGEMENT_CA_CERT_PATH'',
          ms_management_insecure_skip_verify = env_flag vars ''FLUIDBG_RABBITMQ_MANAGER_MANAGEMENT_INSECURE_SKIP_VERIFY''\<rparr>)"

type_synonym 'a manager = "(amqp_call, nat, 'a) act"

definition status500 :: "'a rabbit \<Rightarrow> 'a manager" where
  "status500 m = tryA m (\<lambda>r. case r of Inl _ \<Rightarrow> failA 500 | Inr a \<Rightarrow> retA a)"

definition manager_authorize :: "manager_env \<Rightarrow> ManagerState \<Rightarrow> string option \<Rightarrow> nat + PluginAuthClaims" where
  "manager_authorize env st auth_header =
     (case verify_manager_bearer_token (me_jwt env) auth_header (ms_signing_key st) of Inl _ \<Rightarrow> Inl 401 | Inr claims \<Rightarrow> Inr claims)"

definition ensure_request_matches_claims :: "PluginManagerLifecycleRequest \<Rightarrow> PluginAuthClaims \<Rightarrow> nat + unit" where
  "ensure_request_matches_claims req claims =
     (case require_manager_request_matches_claims req claims of Inl _ \<Rightarrow> Inl 401 | Inr _ \<Rightarrow> Inr ())"

definition ensure_sync_request_matches_claims :: "PluginManagerSyncRequest \<Rightarrow> PluginAuthClaims \<Rightarrow> nat + unit" where
  "ensure_sync_request_matches_claims req claims =
     (if cl_blue_green_ref claims = ''__manager_sync__'' \<and> cl_inception_point claims = ''__manager_sync__'' \<and> cl_plugin claims = sr_plugin req
      then Inr () else Inl 401)"

definition non_empty :: "string option \<Rightarrow> string option" where
  "non_empty v = (if v = Some [] then None else v)"

definition management_client :: "manager_env \<Rightarrow> ManagerState \<Rightarrow> nat + ManagementClient" where
  "management_client env st =
     (case (non_empty (ms_management_url st), non_empty (ms_management_username st), non_empty (ms_management_password st)) of
        (Some url, Some username, Some password) \<Rightarrow>
          (case management_client_new env url username password (unwrap_or (non_empty (ms_management_vhost st)) ''/'')
               (ms_management_allow_insecure st) (non_empty (ms_management_ca_cert_path st)) (ms_management_insecure_skip_verify st) of
             Inl _ \<Rightarrow> Inl 500 | Inr m \<Rightarrow> Inr m)
      | _ \<Rightarrow> Inl 500)"

definition scoped_username_parts :: "sha256 \<Rightarrow> string \<Rightarrow> string \<Rightarrow> string \<Rightarrow> string \<Rightarrow> string" where
  "scoped_username_parts sha ns bg uid ip = derived_scoped_identity_name sha ''fbg-rmq'' ns bg uid ip 64"

definition scoped_username :: "sha256 \<Rightarrow> PluginAuthClaims \<Rightarrow> string" where
  "scoped_username sha claims = scoped_username_parts sha (cl_namespace claims) (cl_blue_green_ref claims)
     (unwrap_or (cl_blue_green_uid claims) []) (cl_inception_point claims)"

definition scoped_username_from_active :: "sha256 \<Rightarrow> ActiveInception \<Rightarrow> string" where
  "scoped_username_from_active sha active = scoped_username_parts sha (ai_namespace active) (ai_blue_green_ref active)
     (unwrap_or (ai_blue_green_uid active) []) (ai_inception_point active)"

definition encode_userinfo :: "string \<Rightarrow> string" where
  "encode_userinfo = encode_path_segment"

text \<open>The position of a pattern's first occurrence, and the last of a character.\<close>

fun find_str :: "string \<Rightarrow> string \<Rightarrow> nat option" where
  "find_str pat [] = (if pat = [] then Some 0 else None)"
| "find_str pat (c # cs) = (if strip_prefix pat (c # cs) \<noteq> None then Some 0 else map_option Suc (find_str pat cs))"

definition amqp_url_with_credentials :: "string \<Rightarrow> string \<Rightarrow> string \<Rightarrow> string" where
  "amqp_url_with_credentials base username password =
     (case find_str ''://'' base of
        None \<Rightarrow> base
      | Some idx \<Rightarrow>
          let scheme = take (idx + 3) base; rest = drop (idx + 3) base;
              authority = takeWhile (\<lambda>c. c \<noteq> CHR ''/'') rest; path = dropWhile (\<lambda>c. c \<noteq> CHR ''/'') rest;
              host = (case rsplit_once (CHR ''@'') authority of Some (_, h) \<Rightarrow> h | None \<Rightarrow> authority)
          in scheme @ encode_userinfo username @ '':'' @ encode_userinfo password @ ''@'' @ host @ path)"

definition push_optional_env :: "string \<Rightarrow> string option \<Rightarrow> InceptorEnvVar list" where
  "push_optional_env name value = (case non_empty value of None \<Rightarrow> [] | Some v \<Rightarrow> [\<lparr>ev_name = name, ev_value = v\<rparr>])"

definition inceptor_env :: "ManagerState \<Rightarrow> string \<Rightarrow> string \<Rightarrow> string \<Rightarrow> string \<Rightarrow> InceptorEnvVar list" where
  "inceptor_env st management_url management_vhost username password =
     [\<lparr>ev_name = ''FLUIDBG_RABBITMQ_AMQP_URL'', ev_value = amqp_url_with_credentials (ms_amqp_url st) username password\<rparr>]
     @ push_optional_env ''FLUIDBG_RABBITMQ_MANAGEMENT_URL'' (Some management_url)
     @ push_optional_env ''FLUIDBG_RABBITMQ_MANAGEMENT_USERNAME'' (Some username)
     @ push_optional_env ''FLUIDBG_RABBITMQ_MANAGEMENT_PASSWORD'' (Some password)
     @ push_optional_env ''FLUIDBG_RABBITMQ_MANAGEMENT_VHOST'' (Some management_vhost)
     @ (if ms_management_allow_insecure st then push_optional_env ''FLUIDBG_RABBITMQ_MANAGEMENT_ALLOW_INSECURE'' (Some ''true'') else [])
     @ push_optional_env ''FLUIDBG_RABBITMQ_AMQP_CA_CERT_PATH'' (ms_amqp_ca_cert_path st)
     @ push_optional_env ''FLUIDBG_RABBITMQ_MANAGEMENT_CA_CERT_PATH'' (ms_management_ca_cert_path st)
     @ (if ms_management_insecure_skip_verify st
        then push_optional_env ''FLUIDBG_RABBITMQ_MANAGEMENT_INSECURE_SKIP_VERIFY'' (Some ''true'') else [])"

section \<open>Queues (manager.rs)\<close>

definition temporary_identifier :: "json \<Rightarrow> string \<Rightarrow> string option" where
  "temporary_identifier config role =
     Option.bind (Option.bind (jget role config) (jget ''temporaryQueueIdentifier'')) as_str"

fun set_nested_string :: "json \<Rightarrow> string list \<Rightarrow> string \<Rightarrow> json" where
  "set_nested_string config [] value = config"
| "set_nested_string config [k] value = jset k (JStr value) config"
| "set_nested_string config (k # ks) value = (case jget k config of
     None \<Rightarrow> config
   | Some next \<Rightarrow> jset k (set_nested_string next ks value) config)"

definition rewrite_queue_temp_names :: "sha256 \<Rightarrow> string \<Rightarrow> string \<Rightarrow> string \<Rightarrow> string \<Rightarrow> json \<Rightarrow> json" where
  "rewrite_queue_temp_names sha ns bg uid ip config =
     (let name = (\<lambda>role logical. derived_temp_queue_name_with_uid_and_identifier sha ns bg uid ip role logical
            (temporary_identifier config role))
      in fold (\<lambda>(role, key, logical) c. set_nested_string c [role, key] (name role logical))
           [(''duplicator'', ''greenInputQueue'', ''green-input''), (''duplicator'', ''blueInputQueue'', ''blue-input''),
            (''splitter'', ''greenInputQueue'', ''green-input''), (''splitter'', ''blueInputQueue'', ''blue-input''),
            (''combiner'', ''greenOutputQueue'', ''green-output''), (''combiner'', ''blueOutputQueue'', ''blue-output'')] config)"

definition secured_config_from_claims :: "manager_env \<Rightarrow> PluginAuthClaims \<Rightarrow> PluginManagerLifecycleRequest \<Rightarrow> json \<times> RabbitConfig" where
  "secured_config_from_claims env claims req =
     (let v = rewrite_queue_temp_names (me_sha env) (cl_namespace claims) (cl_blue_green_ref claims)
            (unwrap_or (cl_blue_green_uid claims) []) (cl_inception_point claims) (mr_config req)
      in (v, unwrap_or (me_decode_config env v) default_rabbit_config))"

definition managed_temp_queue_names :: "PluginRole list \<Rightarrow> RabbitConfig \<Rightarrow> string list" where
  "managed_temp_queue_names roles config = List.map_filter id
     (when_role roles Duplicator (rc_duplicator config) (\<lambda>d. [du_green_input_queue d, du_blue_input_queue d])
      @ when_role roles Splitter (rc_splitter config) (\<lambda>s. [sp_green_input_queue s, sp_blue_input_queue s])
      @ when_role roles Combiner (rc_combiner config) (\<lambda>c. [co_green_output_queue c, co_blue_output_queue c]))"

definition base_shadow_queue_names :: "PluginRole list \<Rightarrow> RabbitConfig \<Rightarrow> string list" where
  "base_shadow_queue_names roles config = List.map_filter id
     (when_role roles Duplicator (rc_duplicator config) (\<lambda>d. [du_input_queue d])
      @ when_role roles Splitter (rc_splitter config) (\<lambda>s. [sp_input_queue s])
      @ when_role roles Combiner (rc_combiner config) (\<lambda>c. [co_output_queue c]))"

definition inceptor_queue_names :: "PluginRole list \<Rightarrow> RabbitConfig \<Rightarrow> string list" where
  "inceptor_queue_names roles config =
     (let queues = managed_temp_queue_names roles config
            @ concat (map (\<lambda>queue. queue # List.map_filter id [shadow_queue_name config queue]) (base_shadow_queue_names roles config))
            @ List.map_filter id (when_role roles Writer (rc_writer config) (\<lambda>w. [wr_target_queue w])
                @ when_role roles Consumer (rc_consumer config) (\<lambda>c. [cs_input_queue c]));
          temp_shadows = List.map_filter (shadow_queue_name config) queues
      in remdups_adj (sort (queues @ temp_shadows)))"

definition parse_roles :: "string list \<Rightarrow> PluginRole list" where
  "parse_roles roles = List.map_filter parse_role roles"

text \<open>The temporary queues of an active inception and their shadow queues.\<close>

definition active_config :: "manager_env \<Rightarrow> ActiveInception \<Rightarrow> RabbitConfig" where
  "active_config env active = unwrap_or (me_decode_config env (rewrite_queue_temp_names (me_sha env) (ai_namespace active)
     (ai_blue_green_ref active) (unwrap_or (ai_blue_green_uid active) []) (ai_inception_point active) (ai_config active)))
     default_rabbit_config"

definition local_queues :: "manager_env \<Rightarrow> ActiveInception \<Rightarrow> string list" where
  "local_queues env active =
     (let config = active_config env active; names = managed_temp_queue_names (parse_roles (ai_roles active)) config
      in names @ List.map_filter (shadow_queue_name config) names)"

definition active_queue_names :: "manager_env \<Rightarrow> ActiveInception list \<Rightarrow> string set" where
  "active_queue_names env active_inceptions = set (concat (map (local_queues env) active_inceptions))"

definition declare_with_shadow :: "manager_env \<Rightarrow> RabbitConfig \<Rightarrow> string \<Rightarrow> unit rabbit" where
  "declare_with_shadow env config queue = (case shadow_queue_name config queue of
     Some shadow \<Rightarrow> seqA (declare_queue (me_rabbit env) shadow (shadow_declaration config))
                         (declare_queue (me_rabbit env) queue (rc_queue_declaration config))
   | None \<Rightarrow> declare_queue (me_rabbit env) queue (rc_queue_declaration config))"

definition delete_with_shadow :: "manager_env \<Rightarrow> RabbitConfig \<Rightarrow> string \<Rightarrow> unit rabbit" where
  "delete_with_shadow env config queue = seqA (delete_queue (me_rabbit env) queue) (case shadow_queue_name config queue of
     Some shadow \<Rightarrow> delete_queue (me_rabbit env) shadow | None \<Rightarrow> retA ())"

definition reconcile_queues :: "manager_env \<Rightarrow> string list \<Rightarrow> RabbitConfig \<Rightarrow> bool \<Rightarrow> unit manager" where
  "reconcile_queues env role_names config create =
     (let roles = parse_roles role_names
      in status500 (seqA (connect_with_retry (me_rabbit env)) (seqA (create_channel (me_rabbit env))
        (seqA (case rc_shadow_queue config of
                 Some shadow \<Rightarrow> if create then forA (\<lambda>queue. case shadow_queue_name config queue of
                     Some shadow_queue \<Rightarrow> declare_queue (me_rabbit env) shadow_queue (sh_queue_declaration shadow)
                   | None \<Rightarrow> retA ()) (base_shadow_queue_names roles config) else retA ()
               | None \<Rightarrow> retA ())
              (forA (if create then declare_with_shadow env config else delete_with_shadow env config)
                 (managed_temp_queue_names roles config))))))"

section \<open>Garbage collection and the handlers (manager.rs)\<close>

definition prepare_scoped_inceptor_env ::
  "manager_env \<Rightarrow> ManagerState \<Rightarrow> PluginAuthClaims \<Rightarrow> string list \<Rightarrow> RabbitConfig \<Rightarrow> InceptorEnvVar list manager" where
  "prepare_scoped_inceptor_env env st claims role_names config =
     bindA (liftA (management_client env st)) (\<lambda>m.
       let username = scoped_username (me_sha env) claims
       in case sign_plugin_auth_token (me_jwt env) claims (ms_signing_key st) of
            Inl _ \<Rightarrow> failA 500
          | Inr password \<Rightarrow>
              bindA (status500 (create_inceptor_user env m username password (inceptor_queue_names (parse_roles role_names) config))) (\<lambda>_.
                retA (inceptor_env st (trim_slashes (mg_base_url m)) (mg_vhost m) username password)))"

definition cleanup_scoped_inceptor_identity :: "manager_env \<Rightarrow> ManagerState \<Rightarrow> PluginAuthClaims \<Rightarrow> unit manager" where
  "cleanup_scoped_inceptor_identity env st claims =
     bindA (liftA (management_client env st)) (\<lambda>m. status500 (delete_user env m (scoped_username (me_sha env) claims)))"

definition garbage_collect_scoped_identities :: "manager_env \<Rightarrow> ManagerState \<Rightarrow> ActiveInception list \<Rightarrow> unit manager" where
  "garbage_collect_scoped_identities env st active_inceptions =
     bindA (liftA (management_client env st)) (\<lambda>m.
     bindA (status500 (list_users env m)) (\<lambda>users.
       forA (\<lambda>user. if strip_prefix ''fbg-rmq-'' user \<noteq> None \<and> user \<notin> scoped_username_from_active (me_sha env) ` set active_inceptions
                    then status500 (delete_user env m user) else retA ()) users))"

definition garbage_collect_temp_queues :: "manager_env \<Rightarrow> ManagerState \<Rightarrow> ActiveInception list \<Rightarrow> unit manager" where
  "garbage_collect_temp_queues env st active_inceptions =
     bindA (liftA (management_client env st)) (\<lambda>m.
     bindA (status500 (list_queues env m)) (\<lambda>queues.
     seqA (status500 (seqA (connect_with_retry (me_rabbit env)) (create_channel (me_rabbit env))))
       (forA (\<lambda>queue. if strip_prefix ''fluidbg-'' queue \<noteq> None \<and> queue \<notin> active_queue_names env active_inceptions
                      then status500 (delete_queue (me_rabbit env) queue) else retA ()) queues)))"

definition manager_prepare_handler ::
  "manager_env \<Rightarrow> ManagerState \<Rightarrow> string option \<Rightarrow> PluginManagerLifecycleRequest \<Rightarrow> PluginLifecycleResponse manager" where
  "manager_prepare_handler env st auth_header req =
     bindA (liftA (manager_authorize env st auth_header)) (\<lambda>claims.
     seqA (liftA (ensure_request_matches_claims req claims))
    (let roles = parse_roles (mr_roles req)
     in bindA (liftA (case queue_worker_role roles of Inl _ \<Rightarrow> Inl 400 | Inr w \<Rightarrow> Inr w)) (\<lambda>_.
       let (effective_config, config) = secured_config_from_claims env claims req
       in seqA (reconcile_queues env (mr_roles req) config True)
         (bindA (prepare_scoped_inceptor_env env st claims (mr_roles req) config) (\<lambda>inceptor_vars.
          seqA (garbage_collect_scoped_identities env st (mr_active_inceptions req))
            (retA \<lparr>plr_assignments = build_prepare_assignments (ra_to_string (me_rabbit env)) config roles,
                   plr_inceptor_env = inceptor_vars, plr_config = Some effective_config\<rparr>))))))"

definition manager_cleanup_handler ::
  "manager_env \<Rightarrow> ManagerState \<Rightarrow> string option \<Rightarrow> PluginManagerLifecycleRequest \<Rightarrow> json manager" where
  "manager_cleanup_handler env st auth_header req =
     bindA (liftA (manager_authorize env st auth_header)) (\<lambda>claims.
     seqA (liftA (ensure_request_matches_claims req claims))
    (seqA (reconcile_queues env (mr_roles req) (snd (secured_config_from_claims env claims req)) False)
    (seqA (cleanup_scoped_inceptor_identity env st claims)
    (seqA (garbage_collect_scoped_identities env st (mr_active_inceptions req))
          (retA (JObj [(''ok'', JBool True)]))))))"

definition manager_sync_handler ::
  "manager_env \<Rightarrow> ManagerState \<Rightarrow> string option \<Rightarrow> PluginManagerSyncRequest \<Rightarrow> json manager" where
  "manager_sync_handler env st auth_header req =
     bindA (liftA (manager_authorize env st auth_header)) (\<lambda>claims.
     seqA (liftA (ensure_sync_request_matches_claims req claims))
    (seqA (garbage_collect_scoped_identities env st (sr_active_inceptions req))
    (seqA (garbage_collect_temp_queues env st (sr_active_inceptions req))
          (retA (JObj [(''ok'', JBool True)])))))"

end
