(* ===== verification/RabbitSafety.thy ===== *)
theory RabbitSafety
  imports RabbitLifecycle
begin

text \<open>What the RabbitMQ plugin does with messages: none is acknowledged before it was passed on.\<close>

section \<open>Acknowledgements\<close>

text \<open>Where a message of the input worker goes: the queues its role prescribes.\<close>

definition input_targets :: "rabbit_env \<Rightarrow> RabbitState \<Rightarrow> bytes \<Rightarrow> nat \<Rightarrow> string list" where
  "input_targets env st data percent =
     (if has_role (rs_roles st) Duplicator then
        (case rc_duplicator (rs_config st) of
           None \<Rightarrow> [] | Some d \<Rightarrow> List.map_filter id [du_green_input_queue d, du_blue_input_queue d])
      else if has_role (rs_roles st) Splitter then
        (case rc_splitter (rs_config st) of
           None \<Rightarrow> []
         | Some s \<Rightarrow> List.map_filter id [if routes_to_blue (ra_hash env) data percent then sp_blue_input_queue s else sp_green_input_queue s])
      else [])"

definition published_to :: "amqp_call calls \<Rightarrow> delivery \<Rightarrow> string list \<Rightarrow> bool" where
  "published_to before d queues \<longleftrightarrow> (\<forall>q \<in> set queues. (AmqpPublish q (dl_data d) (dl_properties d), True) \<in> set before)"

text \<open>Where a message may be moved back to while draining: the base queue, or the shadow queue of the base.\<close>

definition back_targets :: "RabbitConfig \<Rightarrow> string \<Rightarrow> string list set" where
  "back_targets config base = {[base], [unwrap_or (shadow_queue_name config base) base]}"

definition input_allowed :: "rabbit_env \<Rightarrow> RabbitState \<Rightarrow> bytes \<Rightarrow> string list set" where
  "input_allowed env st data = range (input_targets env st data) \<union>
     (case input_drain_queues st of Inr (Some (base, _)) \<Rightarrow> back_targets (rs_config st) base | _ \<Rightarrow> {})"

definition combine_allowed :: "RabbitState \<Rightarrow> string \<Rightarrow> bytes \<Rightarrow> string list set" where
  "combine_allowed st result data = {[result]} \<union> back_targets (rs_config st) result"

text \<open>A message may be acknowledged when the broker delivered it and every queue of one of the allowed lists got it
  before, with its properties.\<close>

definition ack_justified :: "rabbit_env \<Rightarrow> (bytes \<Rightarrow> string list set) \<Rightarrow> amqp_call calls \<Rightarrow> nat \<Rightarrow> bool" where
  "ack_justified env A before tag \<longleftrightarrow> (\<exists>d h q. dl_tag d = tag \<and> ra_get env h q = Inr (Some d) \<and>
     (\<exists>queues \<in> A (dl_data d). published_to before d queues))"

definition acks_justified :: "rabbit_env \<Rightarrow> (bytes \<Rightarrow> string list set) \<Rightarrow> amqp_call calls \<Rightarrow> bool" where
  "acks_justified env A new \<longleftrightarrow>
     (\<forall>i < length new. \<forall>tag. fst (new ! i) = AmqpAck tag \<longrightarrow> ack_justified env A (take i new) tag)"

lemma ack_justified_mono: "ack_justified env A before tag \<Longrightarrow> set before \<subseteq> set before' \<Longrightarrow> ack_justified env A before' tag"
  unfolding ack_justified_def published_to_def by blast

lemma acks_justified_append:
  assumes "acks_justified env A m" and "acks_justified env A n"
  shows "acks_justified env A (m @ n)"
  unfolding acks_justified_def
proof (intro allI impI)
  fix i tag
  assume i: "i < length (m @ n)" and ack: "fst ((m @ n) ! i) = AmqpAck tag"
  show "ack_justified env A (take i (m @ n)) tag"
  proof (cases "i < length m")
    case True
    then show ?thesis using assms(1) ack by (simp add: acks_justified_def nth_append)
  next
    case False
    then have "ack_justified env A (take (i - length m) n) tag"
      using assms(2) i ack by (simp add: acks_justified_def nth_append)
    then show ?thesis by (rule ack_justified_mono) (use False in auto)
  qed
qed

lemma additive_acks: "additive (acks_justified env A)"
  by (simp add: additive_def acks_justified_append) (simp add: acks_justified_def)

definition no_ack :: "amqp_call \<Rightarrow> bool" where
  "no_ack c = (case c of AmqpAck _ \<Rightarrow> False | _ \<Rightarrow> True)"

lemma no_ack_simps [simp]:
  "no_ack AmqpConnect" "no_ack AmqpChannel" "no_ack (AmqpDeclare q d)" "no_ack (AmqpPassive q)" "no_ack (AmqpDelete q)"
  "no_ack (AmqpGet q)" "no_ack (AmqpPublish q b p)" "no_ack (AmqpNack t)" "no_ack (AmqpSetMode m)" "no_ack (AmqpPost p')"
  "no_ack (AmqpHttp v u j)" "\<not> no_ack (AmqpAck t)"
  by (simp_all add: no_ack_def)

lemma no_acks: "list_all (no_ack \<circ> fst) new \<Longrightarrow> acks_justified env A new"
  unfolding acks_justified_def by (metis comp_apply list_all_length no_ack_simps(12))

lemma no_acks_snoc:
  assumes "list_all (no_ack \<circ> fst) new" and "ack_justified env A new tag"
  shows "acks_justified env A (new @ [(AmqpAck tag, ok)])"
proof -
  have "acks_justified env A new" by (rule no_acks [OF assms(1)])
  then show ?thesis
    using assms(2) by (auto simp: acks_justified_def nth_append less_Suc_eq)
qed

lemma keeps_no_ack: "only_calls no_ack m \<Longrightarrow> keeps (acks_justified env A) m"
  by (erule keeps_only) (rule no_acks)

section \<open>Parts that acknowledge nothing\<close>

lemma calls_perform [calls_intros]: "P c \<Longrightarrow> only_calls P (perform env c)"
  unfolding perform_def by (rule calls_call)

lemma calls_orFail [calls_intros]: "only_calls P (orFail r)"
  unfolding orFail_def by (rule calls_lift)

lemma calls_declare [calls_intros]: "(\<And>d. P (AmqpDeclare queue d)) \<Longrightarrow> only_calls P (declare_queue env queue decl)"
  unfolding declare_queue_def by (intro calls_intros)

lemma calls_connect [calls_intros]: "P AmqpConnect \<Longrightarrow> only_calls P (connect_with_retry env)"
proof -
  assume c: "P AmqpConnect"
  have "only_calls P (connect_attempts env n)" for n
    by (induction n) (auto intro!: calls_intros c split: sum.splits)
  then show ?thesis unfolding connect_with_retry_def .
qed

lemma calls_channel [calls_intros]: "P AmqpChannel \<Longrightarrow> only_calls P (create_channel env)"
  unfolding create_channel_def by (rule calls_perform)

lemma calls_publish_opt [calls_intros]:
  "(\<And>q. queue = Some q \<Longrightarrow> P (AmqpPublish q (dl_data d) (dl_properties d))) \<Longrightarrow> only_calls P (publish_opt env queue d)"
  unfolding publish_opt_def publish_confirmed_def by (intro calls_intros) auto

lemma calls_register [calls_intros]:
  "(\<And>p. P (AmqpPost p)) \<Longrightarrow> only_calls P (runtime_register_test_case send AmqpPost clock show_time rt test_id)"
proof -
  assume P: "\<And>p. P (AmqpPost p)"
  have "only_calls P (deliver send (AmqpPost p))" for p by (rule calls_deliver) (rule P)
  then show ?thesis unfolding only_calls_def does_def runtime_register_test_case_def by blast
qed

lemma calls_observe [calls_intros]: "(\<And>p. P (AmqpPost p)) \<Longrightarrow> only_calls P (observe_message env st body headers route)"
  unfolding observe_message_def queue_notify_observer_def runtime_notify_observer_def
  by (intro calls_intros) auto

lemma read_mode_keeps [keeps_intros]: "(\<And>m. keeps P (f m)) \<Longrightarrow> keeps P (read_mode env f)"
  unfolding keeps_def does_def read_mode_def by blast

lemma catch_keeps [keeps_intros]: "additive P \<Longrightarrow> keeps P m \<Longrightarrow> (\<And>r. keeps P (f r)) \<Longrightarrow> keeps P (catchA m f)"
  unfolding catchA_def by (intro keeps_try) (auto split: sum.splits amqp_error.splits intro: keeps_fail)

text \<open>What follows a get may use that the broker delivered the message.\<close>

lemma basic_get_keeps:
  assumes "additive P" and "\<And>ok. P [(AmqpGet queue, ok)]"
    and "\<And>r h. ra_get env h queue = r \<Longrightarrow> keeps P (f r)"
  shows "keeps P (basic_get env queue f)"
  unfolding keeps_def does_def
proof
  fix h
  obtain r h1 where f: "f (ra_get env h queue) (h @ [(AmqpGet queue, case ra_get env h queue of Inl _ \<Rightarrow> False | Inr _ \<Rightarrow> True)]) = (r, h1)"
    by fastforce
  then have run: "basic_get env queue f h = (r, h1)" by (simp add: basic_get_def tryA_def callA_def Let_def)
  let ?got = "[(AmqpGet queue, case ra_get env h queue of Inl _ \<Rightarrow> False | Inr _ \<Rightarrow> True)]"
  obtain n where n: "h1 = h @ ?got @ n" "P n" using keepsD [OF assms(3) [OF refl] f] by auto
  have "P (?got @ n)" using assms(1) assms(2) n(2) unfolding additive_def by blast
  then show "\<exists>new. snd (basic_get env queue f h) = h @ new \<and> P new" using run n(1) by auto
qed

lemma acks_get: "acks_justified env A [(AmqpGet queue, ok)]"
  by (rule no_acks) simp

lemma basic_get_acks:
  "(\<And>r h. ra_get env h queue = r \<Longrightarrow> keeps (acks_justified env A) (f r)) \<Longrightarrow> keeps (acks_justified env A) (basic_get env queue f)"
  by (rule basic_get_keeps [OF additive_acks acks_get])

section \<open>Parts that acknowledge\<close>

text \<open>Publishing to all targets and only then acknowledging.\<close>

lemma publish_run:
  "publish_confirmed env q data props h = (r, h') \<Longrightarrow>
   \<exists>ok. h' = h @ [(AmqpPublish q data props, ok)] \<and> (r = Inr () \<longrightarrow> ok)"
  by (auto simp: publish_confirmed_def perform_def act_simps split: sum.splits)

lemma publish_does:
  "does (publish_confirmed env q data props) (\<lambda>new r. \<exists>ok. new = [(AmqpPublish q data props, ok)] \<and> (r = Inr () \<longrightarrow> ok))"
  unfolding does_def using publish_run by (metis prod.collapse)

definition published_all :: "delivery \<Rightarrow> string list \<Rightarrow> amqp_call calls \<Rightarrow> bool" where
  "published_all d queues new \<longleftrightarrow> new = map (\<lambda>q. (AmqpPublish q (dl_data d) (dl_properties d), True)) queues"

lemma published_all_to: "published_all d queues new \<Longrightarrow> set new \<subseteq> set before \<Longrightarrow> published_to before d queues"
  by (auto simp: published_all_def published_to_def)

lemma published_all_no_ack: "published_all d queues new \<Longrightarrow> list_all (no_ack \<circ> fst) new"
  by (auto simp: published_all_def list_all_iff)

lemma publish_opt_does:
  "does (publish_opt env queue d) (\<lambda>new r. list_all (no_ack \<circ> fst) new \<and>
     (r = Inr () \<longrightarrow> published_all d (List.map_filter id [queue]) new))"
proof (cases queue)
  case None
  then show ?thesis by (auto simp: publish_opt_def published_all_def List.map_filter_def intro: does_ret)
next
  case (Some q)
  show ?thesis unfolding publish_opt_def Some option.case
    by (rule does_mono [OF publish_does]) (auto simp: published_all_def List.map_filter_def)
qed

lemma published_all_append:
  "published_all d qs m \<Longrightarrow> published_all d rs n \<Longrightarrow> published_all d (qs @ rs) (m @ n)"
  by (simp add: published_all_def)

lemma map_filter_two: "List.map_filter id [a, b] = List.map_filter id [a] @ List.map_filter id [b]"
  by (simp add: List.map_filter_def split: option.splits)

text \<open>What a routed message was published to.\<close>

lemma route_does:
  "does (route_delivery env st d) (\<lambda>new r. list_all (no_ack \<circ> fst) new \<and>
     (\<forall>route. r = Inr route \<longrightarrow> (\<exists>percent. published_all d (input_targets env st (dl_data d) percent) new)))"
    (is "does _ ?R")
proof (cases "has_role (rs_roles st) Duplicator")
  case dup: True
  show ?thesis
  proof (cases "rc_duplicator (rs_config st)")
    case None
    then show ?thesis using dup
      by (auto simp: does_def route_delivery_def duplicator_config_def config_block_def orFail_def act_simps)
  next
    case (Some c)
    have "does (seqA (publish_opt env (du_green_input_queue c) d) (seqA (publish_opt env (du_blue_input_queue c) d) (retA RouteBoth)))
       (\<lambda>new r. list_all (no_ack \<circ> fst) new \<and> (\<forall>route. r = Inr route \<longrightarrow>
          published_all d (List.map_filter id [du_green_input_queue c, du_blue_input_queue c]) new))"
      unfolding map_filter_two
      by (rule does_seq [OF publish_opt_does does_seq [OF publish_opt_does does_ret [where R = "\<lambda>new r. new = []"]],
            where S = "\<lambda>new r. list_all (no_ack \<circ> fst) new \<and>
              (\<forall>route. r = Inr route \<longrightarrow> published_all d (List.map_filter id [du_blue_input_queue c]) new)"])
        (auto intro: published_all_append)
    then show ?thesis using dup Some
      by (simp add: route_delivery_def duplicator_config_def config_block_def orFail_def input_targets_def)
        (simp add: does_def act_simps)
  qed
next
  case no_dup: False
  show ?thesis
  proof (cases "has_role (rs_roles st) Splitter")
    case False
    then show ?thesis using no_dup
      by (auto simp: route_delivery_def input_targets_def published_all_def intro: does_ret)
  next
    case spl: True
    show ?thesis
    proof (cases "rc_splitter (rs_config st)")
      case None
      then show ?thesis using no_dup spl
        by (auto simp: does_def route_delivery_def splitter_config_def config_block_def orFail_def act_simps)
    next
      case (Some c)
      have blue: "does (seqA (publish_opt env (sp_blue_input_queue c) d) (retA RouteBlue))
         (\<lambda>new r. list_all (no_ack \<circ> fst) new \<and> (\<forall>route. r = Inr route \<longrightarrow>
            published_all d (List.map_filter id [sp_blue_input_queue c]) new))"
        by (rule does_seq [OF publish_opt_does does_ret [where R = "\<lambda>new r. new = []"]]) auto
      have green: "does (case sp_green_input_queue c of
            Some q \<Rightarrow> seqA (publish_confirmed env q (dl_data d) (dl_properties d)) (retA RouteGreen)
          | None \<Rightarrow> retA RouteUnknown)
         (\<lambda>new r. list_all (no_ack \<circ> fst) new \<and> (\<forall>route. r = Inr route \<longrightarrow>
            published_all d (List.map_filter id [sp_green_input_queue c]) new))"
      proof (cases "sp_green_input_queue c")
        case None
        then show ?thesis by (auto simp: published_all_def List.map_filter_def intro: does_ret)
      next
        case (Some q)
        show ?thesis unfolding Some option.case
          by (rule does_seq [OF publish_does does_ret [where R = "\<lambda>new r. new = []"]])
            (auto simp: published_all_def List.map_filter_def)
      qed
      show ?thesis
        unfolding does_def
      proof
        fix h
        let ?percent = "ra_traffic env h"
        let ?m = "if routes_to_blue (ra_hash env) (dl_data d) ?percent
          then seqA (publish_opt env (sp_blue_input_queue c) d) (retA RouteBlue)
          else (case sp_green_input_queue c of
            Some q \<Rightarrow> seqA (publish_confirmed env q (dl_data d) (dl_properties d)) (retA RouteGreen)
          | None \<Rightarrow> retA RouteUnknown)"
        have run: "route_delivery env st d h = ?m h"
          using no_dup spl Some
          by (simp add: route_delivery_def splitter_config_def config_block_def orFail_def act_simps)
        have "does ?m (\<lambda>new r. list_all (no_ack \<circ> fst) new \<and>
           (\<forall>route. r = Inr route \<longrightarrow> published_all d (input_targets env st (dl_data d) ?percent) new))"
          using blue green no_dup spl Some by (simp add: input_targets_def)
        then have "\<exists>new. snd (?m h) = h @ new \<and> list_all (no_ack \<circ> fst) new \<and>
           (\<forall>route. fst (?m h) = Inr route \<longrightarrow> published_all d (input_targets env st (dl_data d) ?percent) new)"
          unfolding does_def by blast
        then show "\<exists>new. snd (route_delivery env st d h) = h @ new \<and> ?R new (fst (route_delivery env st d h))"
          unfolding run by blast
      qed
    qed
  qed
qed

lemma some_bool [simp]: "Ex Not" "\<exists>ok. ok"
  by blast+

text \<open>Calls that acknowledge nothing, an acknowledgement, and then more.\<close>

lemma acks_block:
  assumes "list_all (no_ack \<circ> fst) before" and "ack_justified env A before tag" and "acks_justified env A rest"
  shows "acks_justified env A (before @ (AmqpAck tag, ok) # rest)"
  using acks_justified_append [OF no_acks_snoc [OF assms(1,2)] assms(3), of ok] by simp

lemma ack_then_does:
  assumes "keeps (acks_justified env A) m"
  shows "does (seqA (perform env (AmqpAck tag)) m) (\<lambda>new r. \<exists>ok rest. new = (AmqpAck tag, ok) # rest \<and> acks_justified env A rest)"
proof -
  have ack: "does (perform env (AmqpAck tag)) (\<lambda>new r. \<exists>ok. new = [(AmqpAck tag, ok)])"
    unfolding perform_def by (rule does_call) simp_all
  have rest: "does m (\<lambda>new r. acks_justified env A new)" using assms by (simp add: keeps_def)
  show ?thesis
    by (rule does_seq [OF ack rest]) (auto simp: no_acks)
qed

lemma process_acks:
  assumes "ra_get env h q = Inr (Some d)" and "\<And>percent. input_targets env st (dl_data d) percent \<in> A (dl_data d)"
  shows "keeps (acks_justified env A) (process_input_delivery env st d)"
proof -
  have ack: "does (perform env (AmqpAck (dl_tag d))) (\<lambda>new r. \<exists>ok. new = [(AmqpAck (dl_tag d), ok)])"
    unfolding perform_def by (rule does_call) simp_all
  have obs: "does (observe_message env st body headers route) (\<lambda>new r. list_all (no_ack \<circ> fst) new)" for body headers route
    using calls_observe [of no_ack env st body headers route] by (simp add: only_calls_def)
  have after: "does (seqA (observe_message env st body headers route) (perform env (AmqpAck (dl_tag d))))
      (\<lambda>new r. \<exists>seen. list_all (no_ack \<circ> fst) seen \<and> (new = seen \<or> (\<exists>ok. new = seen @ [(AmqpAck (dl_tag d), ok)])))" for body headers route
    by (rule does_seq [OF obs ack]) auto
  show ?thesis
    unfolding keeps_def process_input_delivery_def
  proof (rule does_bind [OF route_does after])
    show "acks_justified env A n" if "list_all (no_ack \<circ> fst) n \<and> (\<forall>route. Inl e = Inr route \<longrightarrow> X route)" for n e X
      using that no_acks by blast
    fix m n' :: "amqp_call calls" and route r'
    assume m: "list_all (no_ack \<circ> fst) m \<and> (\<forall>route'. Inr route = Inr route' \<longrightarrow>
        (\<exists>percent. published_all d (input_targets env st (dl_data d) percent) m))"
      and n': "\<exists>seen. list_all (no_ack \<circ> fst) seen \<and> (n' = seen \<or> (\<exists>ok. n' = seen @ [(AmqpAck (dl_tag d), ok)]))"
    then obtain percent seen where pub: "published_all d (input_targets env st (dl_data d) percent) m" "list_all (no_ack \<circ> fst) seen"
        and n: "n' = seen \<or> (\<exists>ok. n' = seen @ [(AmqpAck (dl_tag d), ok)])" by auto
    have clean: "list_all (no_ack \<circ> fst) (m @ seen)" using m pub(2) by simp
    have "ack_justified env A (m @ seen) (dl_tag d)"
      unfolding ack_justified_def using assms(1) assms(2) [of percent] published_all_to [OF pub(1), of "m @ seen"] by auto
    then have "acks_justified env A ((m @ seen) @ [(AmqpAck (dl_tag d), ok)])" for ok by (rule no_acks_snoc [OF clean])
    then show "acks_justified env A (m @ n')" using n no_acks [OF clean] by auto
  qed
qed

lemma publish_ack_rest:
  assumes "ra_get env h q = Inr (Some d)" and "keeps (acks_justified env A) rest" and "only_calls no_ack mid"
    and "[target] \<in> A (dl_data d)"
  shows "keeps (acks_justified env A) (seqA (publish_confirmed env target (dl_data d) (dl_properties d))
     (seqA mid (seqA (perform env (AmqpAck (dl_tag d))) rest)))"
proof -
  have mid: "does mid (\<lambda>new r. list_all (no_ack \<circ> fst) new)" using assms(3) by (simp add: only_calls_def)
  have after: "does (seqA mid (seqA (perform env (AmqpAck (dl_tag d))) rest))
     (\<lambda>new r. \<exists>seen. list_all (no_ack \<circ> fst) seen \<and>
       (new = seen \<or> (\<exists>ok more. new = seen @ (AmqpAck (dl_tag d), ok) # more \<and> acks_justified env A more)))"
    by (rule does_seq [OF mid ack_then_does [OF assms(2)]]) auto
  show ?thesis
    unfolding keeps_def
  proof (rule does_seq [OF publish_does after])
    show "acks_justified env A x" if "\<exists>ok. x = [(AmqpPublish target (dl_data d) (dl_properties d), ok)] \<and> (Inl e = Inr () \<longrightarrow> ok)" for x e
      using that by (auto intro: no_acks)
    fix x a y r
    assume "\<exists>ok. x = [(AmqpPublish target (dl_data d) (dl_properties d), ok)] \<and> (Inr a = Inr () \<longrightarrow> ok)"
      and "\<exists>seen. list_all (no_ack \<circ> fst) seen \<and>
        (y = seen \<or> (\<exists>ok more. y = seen @ (AmqpAck (dl_tag d), ok) # more \<and> acks_justified env A more))"
    then obtain seen where x: "x = [(AmqpPublish target (dl_data d) (dl_properties d), True)]" and seen: "list_all (no_ack \<circ> fst) seen"
      and y: "y = seen \<or> (\<exists>ok more. y = seen @ (AmqpAck (dl_tag d), ok) # more \<and> acks_justified env A more)" by auto
    have clean: "list_all (no_ack \<circ> fst) (x @ seen)" using x seen by simp
    have "ack_justified env A (x @ seen) (dl_tag d)"
      unfolding ack_justified_def
      using assms(1,4) by (intro exI [of _ d] exI [of _ h] exI [of _ q] conjI bexI [of _ "[target]"]) (auto simp: published_to_def x)
    from acks_block [OF clean this] show "acks_justified env A (x @ y)" using y no_acks [OF clean] by auto
  qed
qed

section \<open>The loops\<close>

lemma calls_ret_unit: "only_calls no_ack (retA ())"
  by (rule calls_ret)

lemma seqA_ret: "seqA (retA ()) m = m"
  by (rule ext) (simp add: act_simps)

lemma move_acks:
  assumes "\<And>data. [target] \<in> A data"
  shows "keeps (acks_justified env A) (move_queue_messages env fuel source target moved)"
proof (induction fuel arbitrary: moved)
  case 0
  then show ?case by (simp add: keeps_fail additive_acks)
next
  case (Suc fuel)
  show ?case
    unfolding move_queue_messages.simps
  proof (rule basic_get_acks)
    fix r h
    assume get: "ra_get env h source = r"
    show "keeps (acks_justified env A) (case r of
        Inl e \<Rightarrow> if is_missing_queue_error e then retA moved else failA (AmqpError e)
      | Inr None \<Rightarrow> retA moved
      | Inr (Some d) \<Rightarrow> seqA (publish_confirmed env target (dl_data d) (dl_properties d))
          (seqA (perform env (AmqpAck (dl_tag d))) (move_queue_messages env fuel source target (moved + 1))))"
    proof (cases r)
      case (Inr got)
      show ?thesis
      proof (cases got)
        case (Some d)
        have "ra_get env h source = Inr (Some d)" using get Inr Some by simp
        from publish_ack_rest [OF this Suc.IH calls_ret_unit assms] show ?thesis by (simp add: Inr Some seqA_ret)
      qed (simp add: Inr keeps_ret additive_acks)
    qed (simp add: keeps_ret keeps_fail additive_acks)
  qed
qed

lemma move_back_acks:
  "(\<And>data. back_targets config base \<subseteq> A data) \<Longrightarrow> keeps (acks_justified env A) (move_back env fuel config source base)"
  unfolding move_back_def back_targets_def by (intro keeps_intros additive_acks move_acks) auto

lemma declare_base_shadow_acks: "keeps (acks_justified env A) (declare_base_shadow env config base)"
  unfolding declare_base_shadow_def by (rule keeps_no_ack) (intro calls_intros no_ack_simps)

lemma orFail_acks: "keeps (acks_justified env A) (orFail r)"
  unfolding orFail_def by (intro keeps_intros additive_acks)

lemma connect_acks: "keeps (acks_justified env A) (connect_with_retry env)" "keeps (acks_justified env A) (create_channel env)"
    "keeps (acks_justified env A) (declare_queue env queue decl)"
  by (rule keeps_no_ack; intro calls_intros no_ack_simps)+

lemma orFail_bind: "bindA (orFail (Inr x)) f = f x"
  by (rule ext) (simp add: orFail_def act_simps)

lemma drain_input_acks: "keeps (acks_justified env (input_allowed env st)) (drain_input_queues env fuel st)"
proof (cases "\<exists>base rest. input_drain_queues st = Inr (Some (base, rest))")
  case True
  then obtain base green blue where queues: "input_drain_queues st = Inr (Some (base, green, blue))" by auto
  have "back_targets (rs_config st) base \<subseteq> input_allowed env st data" for data by (simp add: input_allowed_def queues)
  then have "keeps (acks_justified env (input_allowed env st)) (seqA (declare_base_shadow env (rs_config st) base)
      (forA (\<lambda>source. move_back env fuel (rs_config st) source base) [green, blue]))"
    by (intro keeps_intros additive_acks declare_base_shadow_acks move_back_acks)
  then show ?thesis by (simp add: drain_input_queues_def queues orFail_bind)
next
  case False
  then show ?thesis
    by (cases "input_drain_queues st" rule: sum.exhaust)
      (auto simp: drain_input_queues_def orFail_def bindA_def tryA_def liftA_def keeps_def does_def retA_def failA_def
        acks_justified_def split: option.splits)
qed

lemma process_input_acks:
  "ra_get env h q = Inr (Some d) \<Longrightarrow> keeps (acks_justified env (input_allowed env st)) (process_input_delivery env st d)"
  by (erule process_acks) (simp add: input_allowed_def)

lemma input_poll_acks: "keeps (acks_justified env (input_allowed env st)) (input_poll env fuel st queue)"
proof (induction fuel)
  case 0
  then show ?case by (simp add: keeps_fail additive_acks)
next
  case (Suc fuel)
  have ok: "keeps (acks_justified env (input_allowed env st)) (case r of Inl _ \<Rightarrow> retA () | Inr _ \<Rightarrow> input_poll env fuel st queue)" for r
    by (cases r) (auto intro: Suc.IH keeps_ret additive_acks)
  have active: "keeps (acks_justified env (input_allowed env st)) (basic_get env queue (\<lambda>r. case r of
           Inr (Some d) \<Rightarrow>
             catchA (process_input_delivery env st d) (\<lambda>r. case r of Inl _ \<Rightarrow> retA () | Inr _ \<Rightarrow> input_poll env fuel st queue)
         | Inr None \<Rightarrow> input_poll env fuel st queue
         | Inl _ \<Rightarrow> retA ()))"
    by (rule basic_get_acks)
      (auto split: sum.splits option.splits intro: keeps_ret additive_acks Suc.IH catch_keeps process_input_acks ok)
  show ?case
    unfolding input_poll.simps
    by (rule read_mode_keeps) (auto split: RuntimeMode.splits intro: Suc.IH active catch_keeps additive_acks drain_input_acks ok)
qed

lemma input_pipeline_acks: "keeps (acks_justified env (input_allowed env st)) (run_input_pipeline env fuel st)"
proof (induction fuel)
  case 0
  then show ?case by (simp add: keeps_fail additive_acks)
next
  case (Suc fuel)
  have "keeps (acks_justified env (input_allowed env st)) (catchA (seqA (connect_with_retry env) (create_channel env)) (\<lambda>r. case r of
           Inl _ \<Rightarrow> run_input_pipeline env fuel st
         | Inr _ \<Rightarrow>
             bindA (orFail (worker_input_queue st)) (\<lambda>queue.
             seqA (if inceptor_infra_disabled (ra_vars env) then retA ()
                   else declare_queue env queue (rc_queue_declaration (rs_config st)))
            (seqA (input_poll env fuel st queue)
                  (run_input_pipeline env fuel st)))))"
    by (intro keeps_intros additive_acks connect_acks orFail_acks input_poll_acks Suc.IH)
  then show ?case
    unfolding run_input_pipeline.simps
    by (intro read_mode_keeps) (auto split: RuntimeMode.splits intro: Suc.IH)
qed

lemma combine_poll_acks: "keeps (acks_justified env (combine_allowed st result)) (combine_poll env fuel st combiner source result)"
proof (induction fuel)
  case 0
  then show ?case by (simp add: keeps_fail additive_acks)
next
  case (Suc fuel)
  let ?body = "\<lambda>d. read_mode env (\<lambda>mode.
     if mode \<noteq> ModeActive then perform env (AmqpNack (dl_tag d))
     else seqA (publish_confirmed env result (dl_data d) (dl_properties d))
         (seqA (observe_message env st (unwrap_or (ra_parse env (dl_data d)) JNull) (delivery_headers d)
                 (route_from_output_source combiner source))
         (seqA (perform env (AmqpAck (dl_tag d)))
               (combine_poll env fuel st combiner source result))))"
  have body: "keeps (acks_justified env (combine_allowed st result)) (?body d)" if "ra_get env h source = Inr (Some d)" for h d
    by (intro read_mode_keeps keeps_if publish_ack_rest [OF that Suc.IH] calls_observe) (auto simp: combine_allowed_def intro!: keeps_no_ack calls_perform)
  have "keeps (acks_justified env (combine_allowed st result)) (basic_get env source (\<lambda>r. case r of
         Inl e \<Rightarrow> failA (AmqpError e)
       | Inr None \<Rightarrow> combine_poll env fuel st combiner source result
       | Inr (Some d) \<Rightarrow> ?body d))"
    by (rule basic_get_acks) (auto split: sum.splits option.splits intro: keeps_fail additive_acks Suc.IH body)
  then show ?case
    unfolding combine_poll.simps by (intro read_mode_keeps keeps_if keeps_ret additive_acks)
qed

lemma combine_loop_acks: "keeps (acks_justified env (combine_allowed st result)) (run_combine_loop env fuel st source result)"
proof (induction fuel)
  case 0
  then show ?case by (simp add: keeps_fail additive_acks)
next
  case (Suc fuel)
  have "keeps (acks_justified env (combine_allowed st result)) (drain_output_queue env fuel st source result)"
    unfolding drain_output_queue_def
    by (intro keeps_intros additive_acks connect_acks declare_base_shadow_acks move_back_acks) (auto simp: combine_allowed_def)
  moreover have "keeps (acks_justified env (combine_allowed st result)) (run_combine_loop_once env fuel st source result)"
    unfolding run_combine_loop_once_def by (intro keeps_intros additive_acks connect_acks orFail_acks combine_poll_acks)
  ultimately show ?case
    unfolding run_combine_loop.simps
    by (intro read_mode_keeps) (auto split: RuntimeMode.splits intro: Suc.IH catch_keeps additive_acks)
qed

section \<open>Moving a queue back\<close>

definition gets :: "amqp_call calls \<Rightarrow> string \<Rightarrow> nat" where
  "gets h queue = length (filter (\<lambda>c. fst c = AmqpGet queue) h)"

text \<open>A broker that hands out the messages \<open>ds\<close> of a queue in order, and then says that it is empty.\<close>

definition serves :: "rabbit_env \<Rightarrow> string \<Rightarrow> delivery list \<Rightarrow> bool" where
  "serves env queue ds \<longleftrightarrow>
     (\<forall>h. ra_get env h queue = Inr (if gets h queue < length ds then Some (ds ! gets h queue) else None))"

definition broker_up :: "rabbit_env \<Rightarrow> bool" where
  "broker_up env \<longleftrightarrow> (\<forall>h c. ra_perform env h c = Inr ())"

fun moving :: "string \<Rightarrow> string \<Rightarrow> delivery list \<Rightarrow> amqp_call calls" where
  "moving source target [] = [(AmqpGet source, True)]"
| "moving source target (d # ds) =
     [(AmqpGet source, True), (AmqpPublish target (dl_data d) (dl_properties d), True), (AmqpAck (dl_tag d), True)]
     @ moving source target ds"

lemma gets_step: "gets (h @ [(AmqpGet q, True), (AmqpPublish t b p, True), (AmqpAck tag, True)]) q = Suc (gets h q)"
  by (simp add: gets_def)

lemma move_from:
  assumes serves: "serves env source ds" and up: "broker_up env"
  shows "gets h source + n = length ds \<Longrightarrow> n < fuel \<Longrightarrow>
    move_queue_messages env fuel source target moved h = (Inr (moved + n), h @ moving source target (drop (gets h source) ds))"
proof (induction n arbitrary: h fuel moved)
  case 0
  then obtain f where "fuel = Suc f" by (cases fuel) auto
  then show ?case using 0(1) serves by (simp add: serves_def basic_get_def act_simps)
next
  case (Suc n)
  then obtain f where f: "fuel = Suc f" "n < f" by (cases fuel) auto
  let ?d = "ds ! gets h source"
  let ?h = "h @ [(AmqpGet source, True), (AmqpPublish target (dl_data ?d) (dl_properties ?d), True), (AmqpAck (dl_tag ?d), True)]"
  have got: "ra_get env h source = Inr (Some ?d)" using serves Suc.prems(1) by (simp add: serves_def)
  have "move_queue_messages env fuel source target moved h = move_queue_messages env f source target (moved + 1) ?h"
    using up by (simp add: f(1) basic_get_def got publish_confirmed_def perform_def broker_up_def act_simps)
  also have "\<dots> = (Inr (moved + 1 + n), ?h @ moving source target (drop (gets ?h source) ds))"
    by (rule Suc.IH) (use Suc.prems f in \<open>simp_all add: gets_step\<close>)
  also have "\<dots> = (Inr (moved + Suc n), h @ moving source target (drop (gets h source) ds))"
    using Suc.prems(1) Cons_nth_drop_Suc [of "gets h source" ds, symmetric] by (simp add: gets_step)
  finally show ?case .
qed

section \<open>Properties\<close>

text \<open>A broker with one message in the queue \<open>in\<close>, for a duplicator.\<close>

definition demo_message :: delivery where
  "demo_message = \<lparr>dl_tag = 7, dl_data = [1], dl_properties = \<lparr>bp_headers = None, bp_other = []\<rparr>\<rparr>"

definition demo_rabbit_env :: rabbit_env where
  "demo_rabbit_env = \<lparr>ra_perform = (\<lambda>_ _. Inr ()),
     ra_get = (\<lambda>h q. Inr (if gets h q < length [demo_message] then Some ([demo_message] ! gets h q) else None)),
     ra_passive = (\<lambda>_ _. Inr (0, 0)), ra_http = (\<lambda>_ _. Inr (200, None)), ra_post = (\<lambda>_ _. Inr 200), ra_mode = (\<lambda>_. ModeActive),
     ra_traffic = (\<lambda>_. 100), ra_clock = (\<lambda>_. 0), ra_show_time = (\<lambda>_. ''now''), ra_vars = (\<lambda>_. None), ra_hash = (\<lambda>_. 0),
     ra_regex = (\<lambda>_ _. None), ra_show_f64 = (\<lambda>_. []), ra_parse_lossy = (\<lambda>_. None), ra_parse = (\<lambda>_. None),
     ra_to_string = (\<lambda>_. []), ra_field_table = (\<lambda>_. None)\<rparr>"

definition demo_duplicator :: DuplicatorConfig where
  "demo_duplicator = \<lparr>du_input_queue = Some ''in'', du_green_input_queue = Some ''green'', du_blue_input_queue = Some ''blue'',
     du_green_input_queue_env_var = None, du_blue_input_queue_env_var = None\<rparr>"

definition demo_combiner :: CombinerConfig where
  "demo_combiner = \<lparr>co_output_queue = Some ''out'', co_green_output_queue = Some ''green'', co_blue_output_queue = Some ''blue'',
     co_green_output_queue_env_var = None, co_blue_output_queue_env_var = None\<rparr>"

definition demo_rabbit_state :: RabbitState where
  "demo_rabbit_state = \<lparr>rs_config = default_rabbit_config\<lparr>rc_duplicator := Some demo_duplicator, rc_combiner := Some demo_combiner\<rparr>,
     rs_roles = [Duplicator], rs_runtime = runtime_from_env (\<lambda>_. None)\<rparr>"

lemma demo_env_simps [simp]:
  "ra_perform demo_rabbit_env h c = Inr ()" "ra_mode demo_rabbit_env h = ModeActive" "ra_vars demo_rabbit_env v = None"
  "ra_get demo_rabbit_env h q = Inr (if gets h q = 0 then Some demo_message else None)"
  by (simp_all add: demo_rabbit_env_def)

lemma demo_connects: "connect_with_retry demo_rabbit_env h = (Inr (), h @ [(AmqpConnect, True)])"
  by (simp add: connect_with_retry_def numeral_eq_Suc perform_def act_simps)

lemma demo_performs: "perform demo_rabbit_env c h = (Inr (), h @ [(c, True)])"
  by (simp add: perform_def act_simps)

lemma demo_observes: "observe_message demo_rabbit_env demo_rabbit_state body headers route = retA ()"
  by (simp add: observe_message_def observer_config_def demo_rabbit_state_def default_rabbit_config_def)

lemmas demo_run_simps = read_mode_def catchA_def tryA_def bindA_def seqA_def retA_def failA_def callA_def liftA_def basic_get_def gets_def
  demo_connects demo_performs demo_observes create_channel_def publish_confirmed_def inceptor_infra_disabled_def orFail_def Let_def
  numeral_2_eq_2 numeral_3_eq_3

text \<open>C9: the RabbitMQ input worker never loses a message by acknowledging it early: in every run, with every behaviour of
  the broker, of the verifier and of the operator, and however the mode changes meanwhile, each acknowledgement
  is of a delivered message that was before published, with its properties, to every queue its role prescribes
  (both queues of a duplicator, the one queue of a splitter that the traffic share picks), or moved back
  to the base queue or its shadow queue while draining.\<close>

theorem input_acked_only_after_forwarding:
  assumes "run_input_pipeline env fuel st h = (r, h')"
  shows "\<exists>new. h' = h @ new \<and> acks_justified env (input_allowed env st) new"
  using keepsD [OF input_pipeline_acks assms] .

lemma input_acked_only_after_forwarding_witness:
  "\<exists>new h'. snd (run_input_pipeline demo_rabbit_env 2 demo_rabbit_state []) = h' \<and> h' = [] @ new \<and> (AmqpAck 7, True) \<in> set h' \<and>
     acks_justified demo_rabbit_env (input_allowed demo_rabbit_env demo_rabbit_state) new"
proof -
  have ack: "(AmqpAck 7, True) \<in> set (snd (run_input_pipeline demo_rabbit_env 2 demo_rabbit_state []))"
  proof -
    obtain d where declared: "\<And>h. declare_queue demo_rabbit_env ''in'' (rc_queue_declaration (rs_config demo_rabbit_state)) h
        = (Inr (), h @ [(AmqpDeclare ''in'' d, True)])"
      by (auto simp: declare_queue_def orFail_bind demo_performs demo_rabbit_state_def default_rabbit_config_def default_declaration_def)
    have queue: "worker_input_queue demo_rabbit_state = Inr ''in''"
      by (simp add: worker_input_queue_def demo_rabbit_state_def demo_duplicator_def duplicator_config_def config_block_def
          required_def has_role_def)
    have routed: "route_delivery demo_rabbit_env demo_rabbit_state demo_message h = (Inr RouteBoth,
        h @ [(AmqpPublish ''green'' (dl_data demo_message) (dl_properties demo_message), True),
             (AmqpPublish ''blue'' (dl_data demo_message) (dl_properties demo_message), True)])" for h
      by (simp add: route_delivery_def publish_opt_def demo_run_simps demo_rabbit_state_def demo_duplicator_def duplicator_config_def
          config_block_def has_role_def)
    have "dl_tag demo_message = 7" by (simp add: demo_message_def)
    then show ?thesis by (simp add: demo_run_simps declared queue routed process_input_delivery_def)
  qed
  show ?thesis
    using input_acked_only_after_forwarding [of demo_rabbit_env 2 demo_rabbit_state "[]", OF surjective_pairing] ack by auto
qed

text \<open>C36: the combiner acknowledges a message of a green or blue output queue only after it published it to the result queue
  (or moved it back there, or to the shadow queue of the result, while draining).\<close>

theorem combiner_acked_only_after_forwarding:
  assumes "run_combine_loop env fuel st source result h = (r, h')"
  shows "\<exists>new. h' = h @ new \<and> acks_justified env (combine_allowed st result) new"
  using keepsD [OF combine_loop_acks assms] .

lemma combiner_acked_only_after_forwarding_witness:
  "\<exists>new h'. snd (run_combine_loop demo_rabbit_env 3 demo_rabbit_state ''green'' ''out'' []) = h' \<and> h' = [] @ new \<and>
     (AmqpAck 7, True) \<in> set h' \<and> acks_justified demo_rabbit_env (combine_allowed demo_rabbit_state ''out'') new"
proof -
  have ack: "(AmqpAck 7, True) \<in> set (snd (run_combine_loop demo_rabbit_env 3 demo_rabbit_state ''green'' ''out'' []))"
  proof -
    have declared: "declare_queue demo_rabbit_env q (rc_queue_declaration (rs_config demo_rabbit_state)) h
        = (Inr (), h @ [(AmqpDeclare q \<lparr>qdo_durable = durable_or_default default_declaration, qdo_exclusive = False,
             qdo_auto_delete = False, qdo_arguments = []\<rparr>, True)])" for q h
      by (simp add: declare_queue_def orFail_bind demo_performs demo_rabbit_state_def default_rabbit_config_def default_declaration_def)
    have combiner: "combiner_config (rs_config demo_rabbit_state) = Inr demo_combiner"
      by (simp add: combiner_config_def config_block_def demo_rabbit_state_def)
    have "dl_tag demo_message = 7" by (simp add: demo_message_def)
    then show ?thesis by (simp add: run_combine_loop_once_def demo_run_simps declared combiner)
  qed
  show ?thesis
    using combiner_acked_only_after_forwarding [of demo_rabbit_env 3 demo_rabbit_state "''green''" "''out''" "[]", OF surjective_pairing] ack
    by auto
qed

text \<open>C37: draining a queue ends and loses nothing: with a broker that hands out the messages of the source in order,
  the move returns the number of messages, after publishing each to the target with its properties and
  acknowledging it right after, in order; one round more than there are messages is enough.\<close>

theorem move_empties_the_queue:
  assumes "serves env source ds" and "broker_up env" and "gets h source = 0" and "length ds < fuel"
  shows "move_queue_messages env fuel source target 0 h = (Inr (length ds), h @ moving source target ds)"
  using move_from [OF assms(1,2), of h "length ds" fuel target 0] assms(3,4) by simp

lemma move_empties_the_queue_witness:
  "move_queue_messages demo_rabbit_env 2 ''green'' ''in'' 0 [] = (Inr 1, moving ''green'' ''in'' [demo_message])"
proof -
  have "serves demo_rabbit_env ''green'' [demo_message]" by (simp add: serves_def demo_rabbit_env_def)
  moreover have "broker_up demo_rabbit_env" by (simp add: broker_up_def demo_rabbit_env_def)
  ultimately show ?thesis using move_empties_the_queue [of demo_rabbit_env "''green''" "[demo_message]" "[]" 2 "''in''"] by (simp add: gets_def)
qed

end
