(* ===== verification/RabbitManagerSafety.thy ===== *)
theory RabbitManagerSafety
  imports RabbitManager RabbitSafety
begin

text \<open>What the RabbitMQ plugin manager may do to the broker on behalf of a request.\<close>

section \<open>Running after a check\<close>

lemma bind_lift: "bindA (liftA r) f h = (case r of Inl e \<Rightarrow> (Inl e, h) | Inr a \<Rightarrow> f a h)"
  by (simp add: act_simps split: sum.splits)

lemma seq_lift: "seqA (liftA r) m h = (case r of Inl e \<Rightarrow> (Inl e, h) | Inr _ \<Rightarrow> m h)"
  by (simp add: seqA_def bind_lift)

lemma calls_bind_lift: "(\<And>a. r = Inr a \<Longrightarrow> only_calls P (f a)) \<Longrightarrow> only_calls P (bindA (liftA r) f)"
  by (cases r) (simp_all add: only_calls_def does_def bind_lift)

lemma calls_status500 [calls_intros]: "only_calls P m \<Longrightarrow> only_calls P (status500 m)"
  unfolding status500_def by (intro calls_intros)

lemma calls_management [calls_intros]: "P (AmqpHttp verb url body) \<Longrightarrow> only_calls P (management_call env verb url body)"
  unfolding management_call_def Let_def by (rule calls_call)

lemma calls_error_for_status [calls_intros]: "only_calls P (error_for_status answer)"
  unfolding error_for_status_def by (intro calls_intros)

lemma calls_decoded [calls_intros]: "only_calls P (decoded decode body)"
  unfolding decoded_def by (intro calls_intros)

lemma calls_delete_queue [calls_intros]: "P (AmqpDelete queue) \<Longrightarrow> only_calls P (delete_queue env queue)"
  unfolding delete_queue_def by (intro calls_intros)

lemma calls_delete_user: "P (AmqpHttp ''DELETE'' (user_url m user) None) \<Longrightarrow> only_calls P (delete_user env m user)"
  unfolding delete_user_def by (intro calls_intros)

lemma calls_lists: "(\<And>url. P (AmqpHttp ''GET'' url None)) \<Longrightarrow> only_calls P (list_users env m)"
    "(\<And>url. P (AmqpHttp ''GET'' url None)) \<Longrightarrow> only_calls P (list_queues env m)"
  unfolding list_users_def list_queues_def by (intro calls_intros; simp)+

section \<open>Garbage collection\<close>

definition stale_user :: "manager_env \<Rightarrow> ActiveInception list \<Rightarrow> string \<Rightarrow> bool" where
  "stale_user env active user \<longleftrightarrow>
     strip_prefix ''fbg-rmq-'' user \<noteq> None \<and> user \<notin> scoped_username_from_active (me_sha env) ` set active"

definition stale_queue :: "manager_env \<Rightarrow> ActiveInception list \<Rightarrow> string \<Rightarrow> bool" where
  "stale_queue env active queue \<longleftrightarrow>
     strip_prefix ''fluidbg-'' queue \<noteq> None \<and> (\<forall>a \<in> set active. queue \<notin> set (local_queues env a))"

text \<open>What collecting garbage may ask of the broker.\<close>

definition collects :: "manager_env \<Rightarrow> ManagerState \<Rightarrow> ActiveInception list \<Rightarrow> amqp_call \<Rightarrow> bool" where
  "collects env st active c = (case c of
     AmqpConnect \<Rightarrow> True
   | AmqpChannel \<Rightarrow> True
   | AmqpDelete queue \<Rightarrow> stale_queue env active queue
   | AmqpHttp verb url body \<Rightarrow> verb = ''GET'' \<or>
       (verb = ''DELETE'' \<and> (\<exists>m user. management_client env st = Inr m \<and> url = user_url m user \<and> stale_user env active user))
   | _ \<Rightarrow> False)"

lemma collects_simps [simp]: "collects env st active AmqpConnect" "collects env st active AmqpChannel"
    "collects env st active (AmqpHttp ''GET'' url body)"
    "collects env st active (AmqpDelete queue) \<longleftrightarrow> stale_queue env active queue"
  by (simp_all add: collects_def)

lemma calls_gc_users: "only_calls (collects env st active) (garbage_collect_scoped_identities env st active)"
  unfolding garbage_collect_scoped_identities_def
  by (intro calls_bind_lift calls_bind calls_status500 calls_lists calls_for calls_if calls_ret calls_delete_user)
    (auto simp: collects_def stale_user_def)

lemma calls_gc_queues: "only_calls (collects env st active) (garbage_collect_temp_queues env st active)"
  unfolding garbage_collect_temp_queues_def
  by (intro calls_bind_lift calls_bind calls_status500 calls_lists calls_for calls_if calls_ret calls_delete_queue calls_seq
      calls_connect calls_channel)
    (auto simp: stale_queue_def active_queue_names_def)

section \<open>Preparing\<close>

text \<open>The queues that preparing an inception declares: its temporary queues, their shadows, and the shadows of its base queues.\<close>

definition base_shadows :: "PluginRole list \<Rightarrow> RabbitConfig \<Rightarrow> string set" where
  "base_shadows roles config = set (List.map_filter (shadow_queue_name config) (base_shadow_queue_names roles config))"

definition temp_queues :: "PluginRole list \<Rightarrow> RabbitConfig \<Rightarrow> string set" where
  "temp_queues roles config = (let names = managed_temp_queue_names roles config
     in set (names @ List.map_filter (shadow_queue_name config) names))"

definition prepares ::
  "manager_env \<Rightarrow> ManagerState \<Rightarrow> PluginAuthClaims \<Rightarrow> PluginRole list \<Rightarrow> RabbitConfig \<Rightarrow> ActiveInception list \<Rightarrow> amqp_call \<Rightarrow> bool" where
  "prepares env st claims roles config active c = (case c of
     AmqpConnect \<Rightarrow> True
   | AmqpChannel \<Rightarrow> True
   | AmqpDeclare queue _ \<Rightarrow> queue \<in> temp_queues roles config \<union> base_shadows roles config
   | AmqpHttp verb url body \<Rightarrow> verb = ''GET'' \<or>
       (\<exists>m. management_client env st = Inr m \<and>
         ((\<exists>user. verb = ''DELETE'' \<and> url = user_url m user \<and> stale_user env active user) \<or>
          (verb = ''PUT'' \<and> (let user = scoped_username (me_sha env) claims in
             (\<exists>token. sign_plugin_auth_token (me_jwt env) claims (ms_signing_key st) = Inr token \<and>
                url = user_url m user \<and> body = Some (user_body token)) \<or>
             (url = permissions_url m user \<and> body = Some (permissions_body (me_escape env) (inceptor_queue_names roles config)))))))
   | _ \<Rightarrow> False)"

lemma prepares_simps [simp]: "prepares env st claims roles config active AmqpConnect" "prepares env st claims roles config active AmqpChannel"
    "prepares env st claims roles config active (AmqpHttp ''GET'' url body)"
    "prepares env st claims roles config active (AmqpDeclare queue d) \<longleftrightarrow> queue \<in> temp_queues roles config \<union> base_shadows roles config"
  by (simp_all add: prepares_def)

lemma calls_gc_users_prepare:
  "only_calls (prepares env st claims roles config active) (garbage_collect_scoped_identities env st active)"
  unfolding garbage_collect_scoped_identities_def
  by (intro calls_bind_lift calls_bind calls_status500 calls_lists calls_for calls_if calls_ret calls_delete_user)
    (auto simp: prepares_def stale_user_def)

lemma calls_create_user:
  assumes "management_client env st = Inr m" and "sign_plugin_auth_token (me_jwt env) claims (ms_signing_key st) = Inr token"
  shows "only_calls (prepares env st claims roles config active)
    (create_inceptor_user env m (scoped_username (me_sha env) claims) token (inceptor_queue_names roles config))"
  unfolding create_inceptor_user_def
  by (intro calls_intros) (auto simp: prepares_def assms Let_def)

lemma calls_prepare_env:
  "only_calls (prepares env st claims (parse_roles role_names) config active) (prepare_scoped_inceptor_env env st claims role_names config)"
  unfolding prepare_scoped_inceptor_env_def Let_def
  by (intro calls_bind_lift calls_case_sum calls_fail calls_bind calls_status500 calls_create_user calls_ret)

lemma map_filter_in: "x \<in> set xs \<Longrightarrow> f x = Some y \<Longrightarrow> y \<in> set (List.map_filter f xs)"
  by (force simp: List.map_filter_def)

lemma calls_reconcile_create:
  "only_calls (prepares env st claims (parse_roles role_names) config active) (reconcile_queues env role_names config True)"
proof -
  have base: "only_calls (prepares env st claims (parse_roles role_names) config active) (case shadow_queue_name config queue of
       Some shadow_queue \<Rightarrow> declare_queue (me_rabbit env) shadow_queue d | None \<Rightarrow> retA ())"
    if "queue \<in> set (base_shadow_queue_names (parse_roles role_names) config)" for queue d
    by (intro calls_intros) (simp add: base_shadows_def map_filter_in [OF that])
  have temp: "only_calls (prepares env st claims (parse_roles role_names) config active) (declare_with_shadow env config queue)"
    if "queue \<in> set (managed_temp_queue_names (parse_roles role_names) config)" for queue
    unfolding declare_with_shadow_def
    by (intro calls_intros) (simp_all add: temp_queues_def Let_def that map_filter_in [OF that])
  show ?thesis
    unfolding reconcile_queues_def Let_def if_True
    by (intro calls_status500 calls_seq calls_connect calls_channel calls_case_option calls_ret calls_for base temp prepares_simps)
qed

section \<open>Properties\<close>

lemma prepare_run:
  assumes "manager_prepare_handler env st auth req h = (r, h')"
  shows "h' = h \<or> (\<exists>claims new. verify_manager_bearer_token (me_jwt env) auth (ms_signing_key st) = Inr claims \<and>
    require_manager_request_matches_claims req claims = Inr () \<and> h' = h @ new \<and>
    list_all (prepares env st claims (parse_roles (mr_roles req)) (snd (secured_config_from_claims env claims req))
      (mr_active_inceptions req) \<circ> fst) new)"
proof (cases "\<exists>claims. verify_manager_bearer_token (me_jwt env) auth (ms_signing_key st) = Inr claims \<and>
    require_manager_request_matches_claims req claims = Inr ()")
  case False
  then have "h' = h"
    using assms by (cases "verify_manager_bearer_token (me_jwt env) auth (ms_signing_key st)")
      (auto simp: manager_prepare_handler_def manager_authorize_def ensure_request_matches_claims_def bind_lift seq_lift split: sum.splits)
  then show ?thesis ..
next
  case True
  then obtain claims where claims: "verify_manager_bearer_token (me_jwt env) auth (ms_signing_key st) = Inr claims"
      "require_manager_request_matches_claims req claims = Inr ()" by blast
  let ?config = "snd (secured_config_from_claims env claims req)"
  let ?P = "prepares env st claims (parse_roles (mr_roles req)) ?config (mr_active_inceptions req)"
  let ?roles = "parse_roles (mr_roles req)"
  let ?work = "bindA (liftA (case queue_worker_role ?roles of Inl _ \<Rightarrow> Inl 400 | Inr w \<Rightarrow> Inr w)) (\<lambda>_.
      seqA (reconcile_queues env (mr_roles req) ?config True)
        (bindA (prepare_scoped_inceptor_env env st claims (mr_roles req) ?config) (\<lambda>inceptor_vars.
         seqA (garbage_collect_scoped_identities env st (mr_active_inceptions req))
           (retA \<lparr>plr_assignments = build_prepare_assignments (ra_to_string (me_rabbit env)) ?config ?roles,
                  plr_inceptor_env = inceptor_vars, plr_config = Some (fst (secured_config_from_claims env claims req))\<rparr>))))"
  have work: "only_calls ?P ?work"
    by (intro calls_bind_lift calls_seq calls_bind calls_ret calls_reconcile_create calls_prepare_env calls_gc_users_prepare)
  have "?work h = (r, h')"
    using assms by (simp add: manager_prepare_handler_def manager_authorize_def ensure_request_matches_claims_def bind_lift seq_lift
        claims case_prod_unfold Let_def)
  from only_callsD [OF work this] claims show ?thesis by blast
qed

lemma sync_run:
  assumes "manager_sync_handler env st auth req h = (r, h')"
  shows "h' = h \<or> (\<exists>claims new. verify_manager_bearer_token (me_jwt env) auth (ms_signing_key st) = Inr claims \<and>
    ensure_sync_request_matches_claims req claims = Inr () \<and> h' = h @ new \<and>
    list_all (collects env st (sr_active_inceptions req) \<circ> fst) new)"
proof (cases "\<exists>claims. verify_manager_bearer_token (me_jwt env) auth (ms_signing_key st) = Inr claims \<and>
    ensure_sync_request_matches_claims req claims = Inr ()")
  case False
  then have "h' = h"
    using assms by (cases "verify_manager_bearer_token (me_jwt env) auth (ms_signing_key st)")
      (auto simp: manager_sync_handler_def manager_authorize_def bind_lift seq_lift split: sum.splits)
  then show ?thesis ..
next
  case True
  then obtain claims where claims: "verify_manager_bearer_token (me_jwt env) auth (ms_signing_key st) = Inr claims"
      "ensure_sync_request_matches_claims req claims = Inr ()" by blast
  let ?work = "seqA (garbage_collect_scoped_identities env st (sr_active_inceptions req))
    (seqA (garbage_collect_temp_queues env st (sr_active_inceptions req)) (retA (JObj [(''ok'', JBool True)])))"
  have work: "only_calls (collects env st (sr_active_inceptions req)) ?work"
    by (intro calls_seq calls_gc_users calls_gc_queues calls_ret)
  have "?work h = (r, h')"
    using assms by (simp add: manager_sync_handler_def manager_authorize_def bind_lift seq_lift claims)
  from only_callsD [OF work this] claims show ?thesis by blast
qed

text \<open>The active inception that a lifecycle request describes.\<close>

definition inception_of :: "PluginManagerLifecycleRequest \<Rightarrow> ActiveInception" where
  "inception_of req = \<lparr>ai_namespace = mr_namespace req, ai_blue_green_ref = mr_blue_green_ref req,
     ai_blue_green_uid = mr_blue_green_uid req, ai_inception_point = mr_inception_point req, ai_plugin = mr_plugin req,
     ai_roles = mr_roles req, ai_config = mr_config req\<rparr>"

text \<open>A manager of one duplicator and its requests, for concrete runs. The token codec knows the claims of the
  inception and those of the inventory sync.\<close>

definition demo_claims :: PluginAuthClaims where
  "demo_claims = claims_new ''ns'' ''bg'' ''ip'' ''rabbitmq''"

definition demo_sync_claims :: PluginAuthClaims where
  "demo_sync_claims = claims_new ''ns'' ''__manager_sync__'' ''__manager_sync__'' ''rabbitmq''"

definition demo_jwt :: jwt_lib where
  "demo_jwt = (toy_jwt demo_claims)\<lparr>jl_claims_to_json := (\<lambda>c. if c = demo_sync_claims then [3] else [2]),
     jl_claims_from_json := (\<lambda>b. Some (if b = [3] then demo_sync_claims else demo_claims))\<rparr>"

definition demo_broker :: rabbit_env where
  "demo_broker = demo_rabbit_env\<lparr>ra_http := (\<lambda>_ _. Inr (200, Some (JArr [])))\<rparr>"

definition demo_manager_env :: manager_env where
  "demo_manager_env = \<lparr>me_rabbit = demo_broker, me_jwt = demo_jwt, me_sha = (\<lambda>_. []),
     me_parse_url = (\<lambda>_. Some \<lparr>pu_host = Some ''broker'', pu_username = [], pu_password = None, pu_query = None, pu_fragment = None,
       pu_scheme = ''https'', pu_path = ''/''\<rparr>),
     me_show_url = (\<lambda>_. ''https://broker/''), me_escape = id, me_decode_config = (\<lambda>_. Some (rs_config demo_rabbit_state)),
     me_http_client = (\<lambda>_ _. Inr ())\<rparr>"

definition demo_manager :: ManagerState where
  "demo_manager = \<lparr>ms_signing_key = [1, 2, 3], ms_amqp_url = ''amqp://broker'', ms_management_url = Some ''https://broker'',
     ms_management_username = Some ''admin'', ms_management_password = Some ''secret'', ms_management_vhost = None,
     ms_management_allow_insecure = False, ms_amqp_ca_cert_path = None, ms_management_ca_cert_path = None,
     ms_management_insecure_skip_verify = False\<rparr>"

definition demo_prepare :: PluginManagerLifecycleRequest where
  "demo_prepare = \<lparr>mr_namespace = ''ns'', mr_blue_green_ref = ''bg'', mr_blue_green_uid = None, mr_inception_point = ''ip'',
     mr_plugin = ''rabbitmq'', mr_roles = [''duplicator''], mr_config = JObj [], mr_active_inceptions = []\<rparr>"

definition demo_sync :: PluginManagerSyncRequest where
  "demo_sync = \<lparr>sr_plugin = ''rabbitmq'', sr_active_inceptions = [inception_of demo_prepare]\<rparr>"

lemma demo_tokens:
  assumes "claims = demo_claims \<or> claims = demo_sync_claims"
  obtains token where "verify_manager_bearer_token demo_jwt (Some (bearer_value token)) [1, 2, 3] = Inr claims"
proof -
  have "jwt_roundtrips demo_jwt claims"
    using assms by (auto simp: jwt_roundtrips_def demo_jwt_def toy_jwt_def hex_roundtrip hex_no_dot demo_claims_def demo_sync_claims_def
        claims_new_def)
  moreover have "cl_iss claims = plugin_auth_issuer" "cl_aud claims = plugin_auth_audience"
    using assms by (auto simp: demo_claims_def demo_sync_claims_def claims_new_def)
  ultimately obtain token where "verify_plugin_auth_token demo_jwt token [1, 2, 3] = Inr claims"
    using sign_verify [of demo_jwt claims "[1, 2, 3]"] by auto
  then show thesis by (intro that [of token]) (simp add: verify_manager_bearer_token_def bearer_token_def bearer_value_def)
qed

lemma demo_matches: "require_manager_request_matches_claims demo_prepare demo_claims = Inr ()"
  by (simp add: require_manager_request_matches_claims_def manager_request_matches_claims_def demo_prepare_def demo_claims_def claims_new_def)

lemma demo_config: "snd (secured_config_from_claims demo_manager_env claims req) = rs_config demo_rabbit_state"
  by (simp add: secured_config_from_claims_def demo_manager_env_def Let_def)

lemma demo_roles: "parse_roles [''duplicator''] = [Duplicator]"
  by (simp add: parse_roles_def parse_role_def List.map_filter_def Let_def trim_matches_def trim_end_matches_def trim_start_matches_def
      rust_whitespace_def)

lemma demo_client: "management_client demo_manager_env demo_manager =
    Inr \<lparr>mg_base_url = ''https://broker/'', mg_username = ''admin'', mg_password = ''secret'', mg_vhost = ''/''\<rparr>"
  by (simp add: management_client_def demo_manager_def demo_manager_env_def management_client_new_def validate_management_base_url_def
      non_empty_def ends_with_def)

lemma demo_broker_simps [simp]: "ra_perform demo_broker h c = Inr ()" "ra_vars demo_broker v = None" "ra_http demo_broker h c = Inr (200, Some (JArr []))"
  by (simp_all add: demo_broker_def)

lemma demo_broker_runs: "connect_with_retry demo_broker h = (Inr (), h @ [(AmqpConnect, True)])"
    "perform demo_broker c h = (Inr (), h @ [(c, True)])" "create_channel demo_broker h = (Inr (), h @ [(AmqpChannel, True)])"
    "management_call demo_broker verb url body h = (Inr (200, Some (JArr [])), h @ [(AmqpHttp verb url body, True)])"
  by (simp_all add: connect_with_retry_def create_channel_def management_call_def numeral_eq_Suc perform_def act_simps)

lemma demo_broker_declares: "declare_queue demo_broker queue default_declaration h = (Inr (), h @ [(AmqpDeclare queue
     \<lparr>qdo_durable = True, qdo_exclusive = False, qdo_auto_delete = False, qdo_arguments = []\<rparr>, True)])"
  by (simp add: declare_queue_def orFail_bind demo_broker_runs default_declaration_def durable_or_default_def)

lemma demo_env_parts: "me_rabbit demo_manager_env = demo_broker" "me_jwt demo_manager_env = demo_jwt" "ms_signing_key demo_manager = [1, 2, 3]"
    "me_decode_config demo_manager_env v = Some (rs_config demo_rabbit_state)"
  by (simp_all add: demo_manager_env_def demo_manager_def)

lemma demo_reconciles: "reconcile_queues demo_manager_env [''duplicator''] (rs_config demo_rabbit_state) True h =
   (Inr (), h @ [(AmqpConnect, True), (AmqpChannel, True),
      (AmqpDeclare ''green'' \<lparr>qdo_durable = True, qdo_exclusive = False, qdo_auto_delete = False, qdo_arguments = []\<rparr>, True),
      (AmqpDeclare ''blue'' \<lparr>qdo_durable = True, qdo_exclusive = False, qdo_auto_delete = False, qdo_arguments = []\<rparr>, True)])"
proof -
  have parts: "rc_shadow_queue (rs_config demo_rabbit_state) = None" "rc_queue_declaration (rs_config demo_rabbit_state) = default_declaration"
    by (simp_all add: demo_rabbit_state_def default_rabbit_config_def)
  have queues: "managed_temp_queue_names [Duplicator] (rs_config demo_rabbit_state) = [''green'', ''blue'']"
    by (simp add: managed_temp_queue_names_def when_role_def has_role_def demo_rabbit_state_def default_rabbit_config_def
        demo_duplicator_def List.map_filter_def)
  have declares: "declare_with_shadow demo_manager_env (rs_config demo_rabbit_state) queue = declare_queue demo_broker queue default_declaration" for queue
    by (simp add: declare_with_shadow_def shadow_queue_name_def parts demo_env_parts)
  show ?thesis
    by (simp add: reconcile_queues_def demo_roles parts queues declares demo_env_parts demo_broker_runs demo_broker_declares
        status500_def act_simps)
qed

lemma demo_collects_users: "garbage_collect_scoped_identities demo_manager_env demo_manager active h =
    (Inr (), h @ [(AmqpHttp ''GET'' ''https://broker/api/users'' None, True)])"
  by (simp add: garbage_collect_scoped_identities_def demo_client list_users_def demo_env_parts demo_broker_runs error_for_status_def
      decoded_def name_list_def status500_def act_simps)

lemma demo_prepares:
  assumes "verify_manager_bearer_token demo_jwt (Some (bearer_value token)) [1, 2, 3] = Inr demo_claims"
  shows "\<exists>made. snd (manager_prepare_handler demo_manager_env demo_manager (Some (bearer_value token)) demo_prepare []) = made \<and>
    (AmqpHttp ''GET'' ''https://broker/api/users'' None, True) \<in> set made \<and>
    (AmqpDeclare ''green'' \<lparr>qdo_durable = True, qdo_exclusive = False, qdo_auto_delete = False, qdo_arguments = []\<rparr>, True) \<in> set made"
proof -
  obtain password where password: "sign_plugin_auth_token demo_jwt demo_claims [1, 2, 3] = Inr password"
    by (simp add: sign_plugin_auth_token_def Let_def)
  have worker: "queue_worker_role [Duplicator] = Inr (Some WorkerInput)" by (simp add: queue_worker_role_def movement_roles_def)
  have roles: "mr_roles demo_prepare = [''duplicator'']" by (simp add: demo_prepare_def)
  have user: "create_inceptor_user demo_manager_env m user pw queues h = (Inr (), h @
      [(AmqpHttp ''PUT'' (user_url m user) (Some (user_body pw)), True),
       (AmqpHttp ''PUT'' (permissions_url m user) (Some (permissions_body (me_escape demo_manager_env) queues)), True)])" for m user pw queues h
    by (simp add: create_inceptor_user_def demo_env_parts demo_broker_runs error_for_status_def act_simps)
  show ?thesis
    by (simp add: manager_prepare_handler_def manager_authorize_def demo_env_parts assms ensure_request_matches_claims_def demo_matches
        roles demo_roles worker case_prod_unfold demo_config demo_reconciles prepare_scoped_inceptor_env_def demo_client password user
        demo_collects_users status500_def act_simps)
qed



lemma same_config:
  "manager_request_matches_claims req claims \<Longrightarrow> active_config env (inception_of req) = snd (secured_config_from_claims env claims req)"
  by (auto simp: active_config_def inception_of_def secured_config_from_claims_def manager_request_matches_claims_def Let_def)

lemma local_queues_are_temp:
  "manager_request_matches_claims req claims \<Longrightarrow>
   set (local_queues env (inception_of req)) = temp_queues (parse_roles (mr_roles req)) (snd (secured_config_from_claims env claims req))"
  by (simp add: local_queues_def temp_queues_def same_config Let_def) (simp add: inception_of_def)

text \<open>C11: the inventory sync never collects what an active inception was prepared with: of the queues that preparing an
  inception declared, a later sync that lists the inception as active deletes none, unless it is the shadow of a
  base queue (which is not in the inventory). Sync and prepare derive the names of the queues from the same
  coordinates and configuration, so they agree.\<close>

theorem sync_spares_prepared_queues:
  assumes "manager_prepare_handler env st auth req hp = (rp, hp @ made)" and "(AmqpDeclare queue d, ok) \<in> set made"
    and "verify_manager_bearer_token (me_jwt env) auth (ms_signing_key st) = Inr claims"
    and "queue \<notin> base_shadows (parse_roles (mr_roles req)) (snd (secured_config_from_claims env claims req))"
    and "inception_of req \<in> set (sr_active_inceptions sreq)"
    and "manager_sync_handler env st' auth' sreq hs = (rs, hs @ gone)"
  shows "(AmqpDelete queue, ok') \<notin> set gone"
proof
  assume deleted: "(AmqpDelete queue, ok') \<in> set gone"
  obtain c where c: "verify_manager_bearer_token (me_jwt env) auth (ms_signing_key st) = Inr c"
        "require_manager_request_matches_claims req c = Inr ()"
      and new: "list_all (prepares env st c (parse_roles (mr_roles req)) (snd (secured_config_from_claims env c req))
        (mr_active_inceptions req) \<circ> fst) made"
    using prepare_run [OF assms(1)] assms(2) by auto
  have claims: "c = claims" using c(1) assms(3) by simp
  have matches: "manager_request_matches_claims req claims"
    using c(2) claims by (simp add: require_manager_request_matches_claims_def split: if_splits)
  have "queue \<in> temp_queues (parse_roles (mr_roles req)) (snd (secured_config_from_claims env claims req))"
    using new assms(2,4) claims by (force simp: list_all_iff)
  moreover have "stale_queue env (sr_active_inceptions sreq) queue"
    using sync_run [OF assms(6)] deleted by (force simp: list_all_iff)
  ultimately show False using assms(5) matches by (auto simp: stale_queue_def local_queues_are_temp)
qed

lemma demo_syncs:
  assumes "verify_manager_bearer_token demo_jwt (Some (bearer_value token)) [1, 2, 3] = Inr demo_sync_claims"
  shows "snd (manager_sync_handler demo_manager_env demo_manager (Some (bearer_value token)) demo_sync []) =
    [(AmqpHttp ''GET'' ''https://broker/api/users'' None, True), (AmqpHttp ''GET'' ''https://broker/api/queues/%2F'' None, True),
     (AmqpConnect, True), (AmqpChannel, True)]"
proof -
  have sync: "ensure_sync_request_matches_claims demo_sync demo_sync_claims = Inr ()"
    by (simp add: ensure_sync_request_matches_claims_def demo_sync_def demo_sync_claims_def claims_new_def)
  have vhost: "encode_path_segment ''/'' = ''%2F''"
    by (simp add: encode_path_segment_def percent_encode_def as_bytes_def utf8_char_def is_unreserved_def upper_hex_digit_def Let_def) code_simp
  show ?thesis
    by (simp add: manager_sync_handler_def manager_authorize_def demo_env_parts assms sync demo_collects_users garbage_collect_temp_queues_def
        demo_client list_queues_def vhost demo_broker_runs error_for_status_def decoded_def name_list_def status500_def act_simps)
qed

lemma sync_spares_prepared_queues_witness:
  "\<exists>auth auth' made gone. snd (manager_prepare_handler demo_manager_env demo_manager auth demo_prepare []) = made \<and>
     (\<exists>d. (AmqpDeclare ''green'' d, True) \<in> set made) \<and>
     snd (manager_sync_handler demo_manager_env demo_manager auth' demo_sync []) = gone \<and> length gone = 4 \<and>
     (AmqpDelete ''green'', True) \<notin> set gone"
proof -
  obtain t1 where t1: "verify_manager_bearer_token demo_jwt (Some (bearer_value t1)) [1, 2, 3] = Inr demo_claims"
    using demo_tokens by blast
  obtain t2 where t2: "verify_manager_bearer_token demo_jwt (Some (bearer_value t2)) [1, 2, 3] = Inr demo_sync_claims"
    using demo_tokens by blast
  let ?prep = "manager_prepare_handler demo_manager_env demo_manager (Some (bearer_value t1)) demo_prepare []"
  let ?sync = "manager_sync_handler demo_manager_env demo_manager (Some (bearer_value t2)) demo_sync []"
  obtain d where d: "(AmqpDeclare ''green'' d, True) \<in> set (snd ?prep)" using demo_prepares [OF t1] by auto
  have prep: "?prep = (fst ?prep, [] @ snd ?prep)" and sync: "?sync = (fst ?sync, [] @ snd ?sync)" by simp_all
  have valid: "verify_manager_bearer_token (me_jwt demo_manager_env) (Some (bearer_value t1)) (ms_signing_key demo_manager) = Inr demo_claims"
    using t1 by (simp add: demo_env_parts)
  have base: "''green'' \<notin> base_shadows (parse_roles (mr_roles demo_prepare)) (snd (secured_config_from_claims demo_manager_env demo_claims demo_prepare))"
    unfolding demo_config
    by (simp add: base_shadows_def shadow_queue_name_def demo_rabbit_state_def default_rabbit_config_def List.map_filter_def)
  have listed: "inception_of demo_prepare \<in> set (sr_active_inceptions demo_sync)" by (simp add: demo_sync_def)
  have "(AmqpDelete ''green'', True) \<notin> set (snd ?sync)"
    by (rule sync_spares_prepared_queues [OF prep d valid base listed sync])
  moreover have "length (snd ?sync) = 4" using demo_syncs [OF t2] by simp
  ultimately show ?thesis using d by blast
qed

text \<open>C13: collecting garbage touches nothing else: whatever the broker answers, a sync does nothing unless its token is a
  valid sync token of this very plugin, and then deletes only queues with the prefix of temporary queues that no
  active inception uses and accounts with the plugin's prefix that belong to no active inception.\<close>

theorem sync_collects_only_garbage:
  assumes "manager_sync_handler env st auth req h = (r, h')"
  shows "h' = h \<or> (\<exists>claims new. verify_manager_bearer_token (me_jwt env) auth (ms_signing_key st) = Inr claims \<and>
    cl_blue_green_ref claims = ''__manager_sync__'' \<and> cl_plugin claims = sr_plugin req \<and> h' = h @ new \<and>
    list_all (collects env st (sr_active_inceptions req) \<circ> fst) new)"
  using sync_run [OF assms] by (auto simp: ensure_sync_request_matches_claims_def split: if_splits)

lemma sync_collects_only_garbage_witness:
  "\<exists>auth r h' new. manager_sync_handler demo_manager_env demo_manager auth demo_sync [] = (r, h') \<and> length h' = 4 \<and> h' = [] @ new \<and>
     list_all (collects demo_manager_env demo_manager [inception_of demo_prepare] \<circ> fst) new"
proof -
  obtain token where token: "verify_manager_bearer_token demo_jwt (Some (bearer_value token)) [1, 2, 3] = Inr demo_sync_claims"
    using demo_tokens by blast
  obtain r h' where run: "manager_sync_handler demo_manager_env demo_manager (Some (bearer_value token)) demo_sync [] = (r, h')"
    by fastforce
  have "length h' = 4" using demo_syncs [OF token] run by simp
  moreover have "h' \<noteq> []" using calculation by auto
  moreover have "sr_active_inceptions demo_sync = [inception_of demo_prepare]" by (simp add: demo_sync_def)
  ultimately show ?thesis using sync_collects_only_garbage [OF run] run by auto
qed

end
