(* ===== verification/CosmosStore.thy ===== *)
theory CosmosStore
  imports PostgresStore Naming AuthTokens
begin

text \<open>
  The Cosmos DB backend (\<open>src/operator/src/state_store/cosmos.rs\<close>). The backend reads a document and writes it back in
  two requests, so other clients of the container may act in between: before each request is served, the next of
  the functions \<open>cb_others\<close> acts on the container. The container is the list of its documents; what a request does
  to it is the documented effect of the REST operation (creating refuses a taken id, replacing compares the entity
  tag, every write gives the document a new tag). A request may also fail without effect, be refused, or be carried
  out although its answer is lost. A query is answered with its first page, which holds \<open>ce_page\<close> rows beside the
  first; the source never asks for the next one. Base64, SHA-256, the entity tags, the printing of instants and URLs are parameters.
\<close>

section \<open>Documents\<close>

record CosmosTestCase =
  cd_id :: string
  cd_etag :: "string option"
  cd_test_id :: string
  cd_blue_green_ref :: string
  cd_triggered_at :: int
  cd_trigger_inception_point :: string
  cd_timeout_seconds :: int
  cd_status :: string
  cd_verdict :: "bool option"
  cd_verification_mode :: string
  cd_verify_url :: string
  cd_verifier_auth_token :: string
  cd_retries_remaining :: int
  cd_failure_message :: "string option"
  cd_expires_at :: int

datatype CosmosAuth = MasterKey string | WorkloadIdentity "StoreError + string"

record cosmos_env =
  ce_lib :: jwt_lib
  ce_b64_encode :: "bytes \<Rightarrow> string"
  ce_b64_decode :: "string \<Rightarrow> bytes option"
  ce_etag :: "nat \<Rightarrow> string"
  ce_show_time :: "int \<Rightarrow> string"
  ce_json_array :: "string \<Rightarrow> string"
  ce_date :: string
  ce_parse_url :: "string \<Rightarrow> parsed_url option"
  ce_show_url :: "parsed_url \<Rightarrow> string"
  ce_endpoint :: string
  ce_page :: nat
  ce_database :: string
  ce_container :: string
  ce_auth :: CosmosAuth

definition cosmos_document_id :: "cosmos_env \<Rightarrow> string \<Rightarrow> string \<Rightarrow> string" where
  "cosmos_document_id env blue_green_ref test_id = jl_b64_encode (ce_lib env) (jl_sha256 (ce_lib env) (frame_parts [blue_green_ref, test_id]))"

definition doc_of_test :: "cosmos_env \<Rightarrow> TestCaseRecord \<Rightarrow> CosmosTestCase" where
  "doc_of_test env run = \<lparr>
     cd_id = cosmos_document_id env (tc_blue_green_ref run) (tc_test_id run),
     cd_etag = None,
     cd_test_id = tc_test_id run,
     cd_blue_green_ref = tc_blue_green_ref run,
     cd_triggered_at = tc_triggered_at run,
     cd_trigger_inception_point = tc_source_inception_point run,
     cd_timeout_seconds = num_seconds (tc_timeout run),
     cd_status = status_str (tc_status run),
     cd_verdict = tc_verdict run,
     cd_verification_mode = mode_str (tc_verification_mode run),
     cd_verify_url = tc_verify_url run,
     cd_verifier_auth_token = tc_verifier_auth_token run,
     cd_retries_remaining = tc_retries_remaining run,
     cd_failure_message = tc_failure_message run,
     cd_expires_at = expires_at run\<rparr>"

definition doc_to_test :: "CosmosTestCase \<Rightarrow> TestCaseRecord" where
  "doc_to_test doc = \<lparr>
     tc_test_id = cd_test_id doc,
     tc_blue_green_ref = cd_blue_green_ref doc,
     tc_triggered_at = cd_triggered_at doc,
     tc_source_inception_point = cd_trigger_inception_point doc,
     tc_timeout = cd_timeout_seconds doc * micros_per_second,
     tc_status = (if cd_status doc = ''Observing'' then Observing
       else if cd_status doc = ''Passed'' then Passed
       else if cd_status doc = ''Failed'' then Failed
       else if cd_status doc = ''TimedOut'' then TimedOut
       else Triggered),
     tc_verdict = cd_verdict doc,
     tc_verification_mode = (if cd_verification_mode doc = ''Custom'' then Custom else Data),
     tc_verify_url = cd_verify_url doc,
     tc_verifier_auth_token = cd_verifier_auth_token doc,
     tc_retries_remaining = cd_retries_remaining doc,
     tc_failure_message = cd_failure_message doc\<rparr>"

definition is_pending_status :: "string \<Rightarrow> bool" where
  "is_pending_status status \<longleftrightarrow> status \<in> {''Triggered'', ''Observing''}"

section \<open>The container\<close>

record cosmos_server =
  sv_docs :: "CosmosTestCase list"
  sv_clock :: nat

datatype outcome = Served | Unreachable | Lost | Throttled

record cosmos_db =
  cb_server :: cosmos_server
  cb_net :: "outcome list"
  cb_others :: "(cosmos_server \<Rightarrow> cosmos_server) list"

definition same_doc :: "string \<Rightarrow> string \<Rightarrow> CosmosTestCase \<Rightarrow> bool" where
  "same_doc pk doc_id d \<longleftrightarrow> cd_blue_green_ref d = pk \<and> cd_id d = doc_id"

definition sv_create :: "cosmos_env \<Rightarrow> CosmosTestCase \<Rightarrow> cosmos_server \<Rightarrow> nat \<times> cosmos_server" where
  "sv_create env doc sv =
     (if list_ex (same_doc (cd_blue_green_ref doc) (cd_id doc)) (sv_docs sv) then (409, sv)
      else (201, sv\<lparr>sv_docs := sv_docs sv @ [doc\<lparr>cd_etag := Some (ce_etag env (sv_clock sv))\<rparr>], sv_clock := sv_clock sv + 1\<rparr>))"

definition sv_replace :: "cosmos_env \<Rightarrow> CosmosTestCase \<Rightarrow> string option \<Rightarrow> cosmos_server \<Rightarrow> nat \<times> cosmos_server" where
  "sv_replace env doc if_match sv =
     (let here = same_doc (cd_blue_green_ref doc) (cd_id doc)
      in case List.find here (sv_docs sv) of
           None \<Rightarrow> (404, sv)
         | Some old \<Rightarrow>
             if if_match \<noteq> None \<and> cd_etag old \<noteq> if_match then (412, sv)
             else (200, sv\<lparr>sv_docs := map (\<lambda>d. if here d then doc\<lparr>cd_etag := Some (ce_etag env (sv_clock sv))\<rparr> else d) (sv_docs sv),
                           sv_clock := sv_clock sv + 1\<rparr>))"

definition sv_delete :: "string \<Rightarrow> string \<Rightarrow> cosmos_server \<Rightarrow> nat \<times> cosmos_server" where
  "sv_delete pk doc_id sv =
     (if list_ex (same_doc pk doc_id) (sv_docs sv)
      then (204, sv\<lparr>sv_docs := filter (\<lambda>d. \<not> same_doc pk doc_id d) (sv_docs sv)\<rparr>) else (404, sv))"

definition acts :: "cosmos_db \<Rightarrow> cosmos_server" where
  "acts db = (case cb_others db of [] \<Rightarrow> cb_server db | g # _ \<Rightarrow> g (cb_server db))"

section \<open>Requests\<close>

definition visible_ascii :: "char \<Rightarrow> bool" where
  "visible_ascii c = (let n = (of_char c :: nat) in n = 9 \<or> (32 \<le> n \<and> n < 127))"

definition header_value :: "string \<Rightarrow> string \<Rightarrow> StoreError + string" where
  "header_value name value = (if list_all visible_ascii value then Inr value
     else Inl (Other (''invalid '' @ name @ '' header value'')))"

definition newline :: string where
  "newline = [char_of (10 :: nat)]"

definition cosmos_master_auth :: "cosmos_env \<Rightarrow> string \<Rightarrow> string \<Rightarrow> string \<Rightarrow> string \<Rightarrow> string \<Rightarrow> StoreError + string" where
  "cosmos_master_auth env verb resource_type resource_link date key =
     (let payload = map to_ascii_lowercase verb @ newline @ map to_ascii_lowercase resource_type @ newline @ resource_link @ newline
            @ map to_ascii_lowercase date @ newline @ newline
      in case ce_b64_decode env key of
           None \<Rightarrow> Inl (Other ''invalid cosmos account key'')
         | Some k \<Rightarrow> Inr (percent_encode (''type=master&ver=1.0&sig='' @ ce_b64_encode env (hmac_sha256 (ce_lib env) k (as_bytes payload)))))"

definition cosmos_authorization :: "cosmos_env \<Rightarrow> string \<Rightarrow> string \<Rightarrow> string \<Rightarrow> StoreError + string" where
  "cosmos_authorization env verb resource_type resource_link = (case ce_auth env of
     MasterKey key \<Rightarrow> cosmos_master_auth env verb resource_type resource_link (ce_date env) key
   | WorkloadIdentity answer \<Rightarrow> map_sum id (\<lambda>token. percent_encode (''type=aad&ver=1.0&sig='' @ token)) answer)"

definition cosmos_headers ::
  "cosmos_env \<Rightarrow> string \<Rightarrow> string \<Rightarrow> string \<Rightarrow> string option \<Rightarrow> StoreError + (string \<times> string) list" where
  "cosmos_headers env verb resource_type resource_link partition_key =
     (case cosmos_authorization env verb resource_type resource_link of Inl e \<Rightarrow> Inl e | Inr auth \<Rightarrow>
     (case header_value ''authorization'' auth of Inl e \<Rightarrow> Inl e | Inr a \<Rightarrow>
     (case header_value ''x-ms-date'' (ce_date env) of Inl e \<Rightarrow> Inl e | Inr date \<Rightarrow>
      let hs = [(''authorization'', a), (''x-ms-date'', date), (''x-ms-version'', ''2018-12-31'')]
      in (case partition_key of
            None \<Rightarrow> Inr hs
          | Some pk \<Rightarrow> map_sum id (\<lambda>v. hs @ [(''x-ms-documentdb-partitionkey'', v)])
              (header_value ''x-ms-documentdb-partitionkey'' (ce_json_array env pk))))))"

definition container_link :: "cosmos_env \<Rightarrow> string" where
  "container_link env = ''dbs/'' @ ce_database env @ ''/colls/'' @ ce_container env"

text \<open>One request: nothing is sent when its headers cannot be built.\<close>

definition cosmos_send ::
  "StoreError + (string \<times> string) list \<Rightarrow> (cosmos_server \<Rightarrow> (nat \<times> 'r) \<times> cosmos_server) \<Rightarrow> cosmos_db \<Rightarrow>
   (StoreError + nat \<times> 'r option) \<times> cosmos_db" where
  "cosmos_send hs serve db = (case hs of
     Inl e \<Rightarrow> (Inl e, db)
   | Inr _ \<Rightarrow>
       (let sv = acts db; db' = db\<lparr>cb_server := sv, cb_net := tl (cb_net db), cb_others := tl (cb_others db)\<rparr>;
            ((status, answer), sv') = serve sv
        in case cb_net db of
             Unreachable # _ \<Rightarrow> (Inl (Other ''cosmos http request failed''), db')
           | Lost # _ \<Rightarrow> (Inl (Other ''cosmos http request failed''), db'\<lparr>cb_server := sv'\<rparr>)
           | Throttled # _ \<Rightarrow> (Inr (429, None), db')
           | _ \<Rightarrow> (Inr (status, Some answer), db'\<lparr>cb_server := sv'\<rparr>)))"

definition is_success :: "nat \<Rightarrow> bool" where
  "is_success status \<longleftrightarrow> 200 \<le> status \<and> status < 300"

definition cosmos_query ::
  "cosmos_env \<Rightarrow> (CosmosTestCase list \<Rightarrow> 'r list) \<Rightarrow> cosmos_db \<Rightarrow> (StoreError + 'r list) \<times> cosmos_db" where
  "cosmos_query env run db =
     (case cosmos_send (cosmos_headers env ''POST'' ''docs'' (container_link env) None)
         (\<lambda>sv. ((200, take (Suc (ce_page env)) (run (sv_docs sv))), sv)) db of
        (Inl e, db') \<Rightarrow> (Inl e, db')
      | (Inr (status, answer), db') \<Rightarrow>
          if \<not> is_success status then (Inl (Other (''cosmos query failed: '' @ show_nat status)), db')
          else (case answer of
                  Some rows \<Rightarrow> (Inr rows, db')
                | None \<Rightarrow> (Inl (Other ''failed to decode cosmos query''), db')))"

section \<open>The store operations\<close>

definition unit_answer :: "nat \<times> cosmos_server \<Rightarrow> (nat \<times> unit) \<times> cosmos_server" where
  "unit_answer r = ((fst r, ()), snd r)"

definition cosmos_register :: "cosmos_env \<Rightarrow> TestCaseRecord \<Rightarrow> cosmos_db \<Rightarrow> (StoreError + unit) \<times> cosmos_db" where
  "cosmos_register env run db =
     (let doc = doc_of_test env run
      in case cosmos_send (cosmos_headers env ''POST'' ''docs'' (container_link env) (Some (cd_blue_green_ref doc)))
             (\<lambda>sv. unit_answer (sv_create env doc sv)) db of
           (Inl e, db') \<Rightarrow> (Inl e, db')
         | (Inr (status, _), db') \<Rightarrow>
             if status \<in> {200, 201, 409} then (Inr (), db')
             else (Inl (Other (''cosmos register failed: '' @ show_nat status)), db'))"

definition at_key :: "string \<Rightarrow> string \<Rightarrow> CosmosTestCase \<Rightarrow> bool" where
  "at_key bg i d \<longleftrightarrow> cd_blue_green_ref d = bg \<and> cd_test_id d = i"

definition first_row :: "'a list \<Rightarrow> 'a option" where
  "first_row rows = (case rows of [] \<Rightarrow> None | r # _ \<Rightarrow> Some r)"

definition get_doc :: "cosmos_env \<Rightarrow> string \<Rightarrow> string \<Rightarrow> cosmos_db \<Rightarrow> (StoreError + CosmosTestCase option) \<times> cosmos_db" where
  "get_doc env bg i db = map_prod (map_sum id first_row) id (cosmos_query env (filter (at_key bg i)) db)"

definition cosmos_get :: "cosmos_env \<Rightarrow> string \<Rightarrow> string \<Rightarrow> cosmos_db \<Rightarrow> (StoreError + TestCaseRecord option) \<times> cosmos_db" where
  "cosmos_get env bg i db = map_prod (map_sum id (\<lambda>rows. map_option doc_to_test (first_row rows))) id (cosmos_query env (filter (at_key bg i)) db)"

definition replace_doc :: "cosmos_env \<Rightarrow> CosmosTestCase \<Rightarrow> cosmos_db \<Rightarrow> (StoreError + unit) \<times> cosmos_db" where
  "replace_doc env doc db =
     (let link = container_link env @ ''/docs/'' @ cd_id doc;
          hs = (case cosmos_headers env ''PUT'' ''docs'' link (Some (cd_blue_green_ref doc)) of
                  Inl e \<Rightarrow> Inl e
                | Inr hs \<Rightarrow> (case cd_etag doc of None \<Rightarrow> Inr hs | Some etag \<Rightarrow>
                    map_sum id (\<lambda>v. hs @ [(''if-match'', v)]) (header_value ''if-match'' etag)))
      in case cosmos_send hs (\<lambda>sv. unit_answer (sv_replace env doc (cd_etag doc) sv)) db of
           (Inl e, db') \<Rightarrow> (Inl e, db')
         | (Inr (status, _), db') \<Rightarrow>
             if is_success status then (Inr (), db')
             else if status = 412 then (Inl (Conflict (cd_test_id doc)), db')
             else (Inl (Other (''cosmos replace failed: '' @ show_nat status)), db'))"

text \<open>Reading the pending document of a case, changing it and writing it back, as the two finalizing operations do.\<close>

definition finalize_doc ::
  "cosmos_env \<Rightarrow> (CosmosTestCase \<Rightarrow> CosmosTestCase) \<Rightarrow> string \<Rightarrow> string \<Rightarrow> cosmos_db \<Rightarrow> (StoreError + unit) \<times> cosmos_db" where
  "finalize_doc env f bg i db = (case get_doc env bg i db of
     (Inl e, db') \<Rightarrow> (Inl e, db')
   | (Inr None, db') \<Rightarrow> (Inl (NotFound i), db')
   | (Inr (Some doc), db') \<Rightarrow>
       if \<not> is_pending_status (cd_status doc) then (Inl (NotFound i), db') else replace_doc env (f doc) db')"

definition cosmos_set_verdict ::
  "cosmos_env \<Rightarrow> string \<Rightarrow> string \<Rightarrow> bool \<Rightarrow> string option \<Rightarrow> cosmos_db \<Rightarrow> (StoreError + unit) \<times> cosmos_db" where
  "cosmos_set_verdict env bg i passed failure_message =
     finalize_doc env (\<lambda>doc. doc\<lparr>cd_status := (if passed then ''Passed'' else ''Failed''), cd_verdict := Some passed,
       cd_failure_message := failure_message\<rparr>) bg i"

definition cosmos_mark_timed_out :: "cosmos_env \<Rightarrow> string \<Rightarrow> string \<Rightarrow> cosmos_db \<Rightarrow> (StoreError + unit) \<times> cosmos_db" where
  "cosmos_mark_timed_out env bg i = finalize_doc env (\<lambda>doc. doc\<lparr>cd_status := ''TimedOut'', cd_verdict := None\<rparr>) bg i"

definition cosmos_decrement_retries ::
  "cosmos_env \<Rightarrow> string \<Rightarrow> string \<Rightarrow> cosmos_db \<Rightarrow> (StoreError + int option) \<times> cosmos_db" where
  "cosmos_decrement_retries env bg i db = (case get_doc env bg i db of
     (Inl e, db') \<Rightarrow> (Inl e, db')
   | (Inr None, db') \<Rightarrow> (Inl (NotFound i), db')
   | (Inr (Some doc), db') \<Rightarrow>
       if \<not> is_pending_status (cd_status doc) \<or> cd_retries_remaining doc \<le> 0 then (Inr None, db')
       else let remaining = cd_retries_remaining doc - 1
            in map_prod (map_sum id (\<lambda>_. Some remaining)) id (replace_doc env (doc\<lparr>cd_retries_remaining := remaining\<rparr>) db'))"

definition cosmos_list_pending :: "cosmos_env \<Rightarrow> cosmos_db \<Rightarrow> (StoreError + TestCaseRecord list) \<times> cosmos_db" where
  "cosmos_list_pending env = cosmos_query env (\<lambda>docs. map doc_to_test (filter (\<lambda>d. cd_status d \<in> {''Triggered'', ''Observing''}) docs))"

definition cosmos_list_blue_green_refs :: "cosmos_env \<Rightarrow> cosmos_db \<Rightarrow> (StoreError + string list) \<times> cosmos_db" where
  "cosmos_list_blue_green_refs env = cosmos_query env (\<lambda>docs. remdups (map cd_blue_green_ref docs))"

definition cosmos_counts_query :: "cosmos_env \<Rightarrow> string \<Rightarrow> VerificationMode option \<Rightarrow> cosmos_db \<Rightarrow> (StoreError + Counts) \<times> cosmos_db" where
  "cosmos_counts_query env bg mode db = map_prod (map_sum id (\<lambda>rows. case rows of
       [] \<Rightarrow> \<lparr>counts_passed = 0, counts_failed = 0, counts_timed_out = 0, counts_pending = 0\<rparr> | row # _ \<Rightarrow> row)) id
     (cosmos_query env (\<lambda>docs.
     let sel = filter (\<lambda>d. cd_blue_green_ref d = bg \<and> (case mode of None \<Rightarrow> True | Some m \<Rightarrow> cd_verification_mode d = mode_str m)) docs;
         count = (\<lambda>P. int (length (filter P sel)))
     in [\<lparr>counts_passed = count (\<lambda>d. cd_status d = ''Passed''), counts_failed = count (\<lambda>d. cd_status d = ''Failed''),
         counts_timed_out = count (\<lambda>d. cd_status d = ''TimedOut''),
         counts_pending = count (\<lambda>d. cd_status d \<in> {''Triggered'', ''Observing''})\<rparr>]) db)"

definition cosmos_latest_failure_message :: "cosmos_env \<Rightarrow> string \<Rightarrow> cosmos_db \<Rightarrow> (StoreError + string option) \<times> cosmos_db" where
  "cosmos_latest_failure_message env bg db = map_prod (map_sum id (\<lambda>rows. Option.bind (first_row rows) id)) id (cosmos_query env (\<lambda>docs.
     case rev (sort_key (\<lambda>d. ce_show_time env (cd_triggered_at d))
         (filter (\<lambda>d. cd_blue_green_ref d = bg \<and> cd_failure_message d \<noteq> None) docs)) of
       [] \<Rightarrow> [] | d # _ \<Rightarrow> [cd_failure_message d]) db)"

fun delete_docs :: "cosmos_env \<Rightarrow> CosmosTestCase list \<Rightarrow> nat \<Rightarrow> cosmos_db \<Rightarrow> (StoreError + nat) \<times> cosmos_db" where
  "delete_docs env [] deleted db = (Inr deleted, db)"
| "delete_docs env (doc # docs) deleted db =
     (case cosmos_send (cosmos_headers env ''DELETE'' ''docs'' (container_link env @ ''/docs/'' @ cd_id doc) (Some (cd_blue_green_ref doc)))
         (\<lambda>sv. unit_answer (sv_delete (cd_blue_green_ref doc) (cd_id doc) sv)) db of
        (Inl e, db') \<Rightarrow> (Inl e, db')
      | (Inr (status, _), db') \<Rightarrow> delete_docs env docs (if is_success status then deleted + 1 else deleted) db')"

definition query_and_delete :: "cosmos_env \<Rightarrow> (CosmosTestCase \<Rightarrow> bool) \<Rightarrow> cosmos_db \<Rightarrow> (StoreError + nat) \<times> cosmos_db" where
  "query_and_delete env P db = (case cosmos_query env (filter P) db of
     (Inl e, db') \<Rightarrow> (Inl e, db') | (Inr rows, db') \<Rightarrow> delete_docs env rows 0 db')"

definition cosmos_cleanup_blue_green :: "cosmos_env \<Rightarrow> string \<Rightarrow> cosmos_db \<Rightarrow> (StoreError + nat) \<times> cosmos_db" where
  "cosmos_cleanup_blue_green env bg = query_and_delete env (\<lambda>d. cd_blue_green_ref d = bg)"

text \<open>Instants are stored as strings, and compared as strings.\<close>

definition expired_doc :: "cosmos_env \<Rightarrow> int \<Rightarrow> CosmosTestCase \<Rightarrow> bool" where
  "expired_doc env now d \<longleftrightarrow> ce_show_time env (cd_expires_at d) < ce_show_time env now \<and> cd_status d \<in> {''Triggered'', ''Observing''}"

definition cosmos_cleanup_expired :: "cosmos_env \<Rightarrow> int \<Rightarrow> cosmos_db \<Rightarrow> (StoreError + nat) \<times> cosmos_db" where
  "cosmos_cleanup_expired env now = query_and_delete env (expired_doc env now)"

definition cosmos_ops :: "cosmos_env \<Rightarrow> cosmos_db StateStore" where
  "cosmos_ops env = \<lparr>
     op_register = cosmos_register env,
     op_get = cosmos_get env,
     op_set_verdict = cosmos_set_verdict env,
     op_mark_timed_out = cosmos_mark_timed_out env,
     op_decrement_retries = cosmos_decrement_retries env,
     op_list_pending = cosmos_list_pending env,
     op_list_blue_green_refs = cosmos_list_blue_green_refs env,
     op_counts = (\<lambda>bg. cosmos_counts_query env bg None),
     op_counts_for_mode = (\<lambda>bg mode. cosmos_counts_query env bg (Some mode)),
     op_latest_failure_message = cosmos_latest_failure_message env,
     op_cleanup_blue_green = cosmos_cleanup_blue_green env,
     op_cleanup_expired = cosmos_cleanup_expired env\<rparr>"

section \<open>Opening a store\<close>

definition conn_value :: "string \<Rightarrow> string list \<Rightarrow> string option" where
  "conn_value name parts = fold (\<lambda>part found. case split_once (CHR ''='') part of
     Some (n, v) \<Rightarrow> if n = name then Some v else found | None \<Rightarrow> found) parts None"

definition parse_connection_string :: "string \<Rightarrow> StoreError + string \<times> string" where
  "parse_connection_string value =
     (let parts = filter (\<lambda>part. part \<noteq> []) (split_on (CHR '';'') value)
      in case (conn_value ''AccountEndpoint'' parts, conn_value ''AccountKey'' parts) of
           (None, _) \<Rightarrow> Inl (Other ''cosmos connection string missing AccountEndpoint'')
         | (Some _, None) \<Rightarrow> Inl (Other ''cosmos connection string missing AccountKey'')
         | (Some endpoint, Some key) \<Rightarrow> Inr (endpoint, key))"

definition cosmos_host :: "string \<Rightarrow> bool" where
  "cosmos_host host = list_ex (\<lambda>suffix. take (length suffix) (rev host) = rev suffix)
     [''.documents.azure.com'', ''.documents.azure.us'', ''.documents.azure.cn'']"

definition trim_slash :: "string \<Rightarrow> string" where
  "trim_slash s = trim_end_matches (\<lambda>c. c = CHR ''/'') s"

definition validate_cosmos_endpoint :: "cosmos_env \<Rightarrow> string \<Rightarrow> StoreError + string" where
  "validate_cosmos_endpoint env value = (case ce_parse_url env (trim_matches rust_whitespace value) of
     None \<Rightarrow> Inl (Other ''invalid cosmos endpoint'')
   | Some url \<Rightarrow>
       if pu_scheme url \<noteq> ''https'' then Inl (Other ''cosmos endpoint must use https'')
       else (case pu_host url of
               None \<Rightarrow> Inl (Other ''cosmos endpoint must include a host'')
             | Some host \<Rightarrow>
                 if \<not> cosmos_host host then Inl (Other (''cosmos endpoint host '' @ quoted host @ '' is not a Cosmos DB endpoint''))
                 else if pu_username url \<noteq> [] \<or> pu_password url \<noteq> None then Inl (Other ''cosmos endpoint must not contain credentials'')
                 else if pu_query url \<noteq> None \<or> pu_fragment url \<noteq> None
                 then Inl (Other ''cosmos endpoint must not contain query or fragment components'')
                 else if pu_path url \<noteq> ''/'' \<and> pu_path url \<noteq> [] then Inl (Other ''cosmos endpoint must not contain a path'')
                 else Inr (trim_slash (ce_show_url env (url\<lparr>pu_path := trim_slash (pu_path url)\<rparr>)))))"

definition new_master_key :: "cosmos_env \<Rightarrow> string \<Rightarrow> string \<Rightarrow> string \<Rightarrow> string \<Rightarrow> StoreError + cosmos_env" where
  "new_master_key env endpoint database container key = map_sum id (\<lambda>e.
     env\<lparr>ce_endpoint := e, ce_database := database, ce_container := container, ce_auth := MasterKey key\<rparr>)
     (validate_cosmos_endpoint env endpoint)"

definition new_workload_identity :: "cosmos_env \<Rightarrow> string \<Rightarrow> string \<Rightarrow> string \<Rightarrow> (StoreError + string) \<Rightarrow> StoreError + cosmos_env" where
  "new_workload_identity env endpoint database container token = map_sum id (\<lambda>e.
     env\<lparr>ce_endpoint := e, ce_database := database, ce_container := container, ce_auth := WorkloadIdentity token\<rparr>)
     (validate_cosmos_endpoint env endpoint)"

definition from_connection_string :: "cosmos_env \<Rightarrow> string \<Rightarrow> string \<Rightarrow> string \<Rightarrow> StoreError + cosmos_env" where
  "from_connection_string env value database container = (case parse_connection_string value of
     Inl e \<Rightarrow> Inl e | Inr (endpoint, key) \<Rightarrow> new_master_key env endpoint database container key)"

definition validate_container :: "cosmos_env \<Rightarrow> cosmos_db \<Rightarrow> (StoreError + unit) \<times> cosmos_db" where
  "validate_container env db =
     (case cosmos_send (cosmos_headers env ''GET'' ''colls'' (container_link env) None) (\<lambda>sv. unit_answer (200, sv)) db of
        (Inl e, db') \<Rightarrow> (Inl e, db')
      | (Inr (status, _), db') \<Rightarrow>
          if status = 200 then (Inr (), db')
          else (Inl (Other (''cosmos container validation failed: '' @ show_nat status)), db'))"

end
