(* ===== verification/CosmosSafety.thy ===== *)
theory CosmosSafety
  imports CosmosStore StoreClients
begin

text \<open>
  What the Cosmos DB backend guarantees while other clients write to the same container: the entity tags make its
  read-modify-write operations atomic.
\<close>

section \<open>Containers\<close>

definition doc_ok :: "cosmos_env \<Rightarrow> cosmos_server \<Rightarrow> CosmosTestCase \<Rightarrow> bool" where
  "doc_ok env sv d \<longleftrightarrow> cd_id d = cosmos_document_id env (cd_blue_green_ref d) (cd_test_id d) \<and>
     cd_status d \<in> status_str ` UNIV \<and> cd_verification_mode d \<in> mode_str ` UNIV \<and>
     (\<exists>n < sv_clock sv. cd_etag d = Some (ce_etag env n))"

definition sv_tests :: "cosmos_server \<Rightarrow> TestCaseRecord list" where
  "sv_tests sv = map doc_to_test (sv_docs sv)"

definition sv_ok :: "cosmos_env \<Rightarrow> cosmos_server \<Rightarrow> bool" where
  "sv_ok env sv \<longleftrightarrow> table_ok (sv_tests sv) \<and> (\<forall>d \<in> set (sv_docs sv). doc_ok env sv d)"

definition sv_abs :: "cosmos_server \<Rightarrow> store_map" where
  "sv_abs sv = table_map (sv_tests sv)"

text \<open>What the backend relies on: within a partition no two cases share a document id (a hash of both names), and
  no two writes give the same entity tag.\<close>

definition ids_unique :: "cosmos_env \<Rightarrow> bool" where
  "ids_unique env \<longleftrightarrow> (\<forall>bg i j. cosmos_document_id env bg i = cosmos_document_id env bg j \<longrightarrow> i = j)"

definition tags_unique :: "cosmos_env \<Rightarrow> bool" where
  "tags_unique env \<longleftrightarrow> inj (ce_etag env)"

text \<open>What other clients may do: anything that leaves a well-formed container in which a document with an old tag is an
  old document.\<close>

definition honest :: "cosmos_env \<Rightarrow> (cosmos_server \<Rightarrow> cosmos_server) \<Rightarrow> bool" where
  "honest env g \<longleftrightarrow> (\<forall>sv. sv_ok env sv \<longrightarrow> sv_ok env (g sv) \<and> sv_clock sv \<le> sv_clock (g sv) \<and>
     (\<forall>d \<in> set (sv_docs (g sv)). \<forall>n < sv_clock sv. cd_etag d = Some (ce_etag env n) \<longrightarrow> d \<in> set (sv_docs sv)))"

definition others_honest :: "cosmos_env \<Rightarrow> cosmos_db \<Rightarrow> bool" where
  "others_honest env db \<longleftrightarrow> (\<forall>g \<in> set (cb_others db). honest env g)"

text \<open>The container after the first \<open>k\<close> actions of the others.\<close>

definition after_others :: "nat \<Rightarrow> cosmos_db \<Rightarrow> cosmos_server" where
  "after_others k db = fold (\<lambda>g. g) (take k (cb_others db)) (cb_server db)"

lemma after_others_simps [simp]: "after_others 0 db = cb_server db" "after_others (Suc 0) db = acts db"
  by (simp_all add: after_others_def acts_def split: list.splits)

lemma after_two: "cb_server db' = acts db \<Longrightarrow> cb_others db' = tl (cb_others db) \<Longrightarrow> after_others 2 db = acts db'"
  by (cases "cb_others db") (auto simp: after_others_def acts_def numeral_2_eq_2 split: list.splits)

lemma acts_ok:
  assumes "sv_ok env (cb_server db)" and "others_honest env db"
  shows "sv_ok env (acts db)" and "sv_clock (cb_server db) \<le> sv_clock (acts db)"
    and "d \<in> set (sv_docs (acts db)) \<Longrightarrow> n < sv_clock (cb_server db) \<Longrightarrow> cd_etag d = Some (ce_etag env n) \<Longrightarrow>
      d \<in> set (sv_docs (cb_server db))"
  using assms by (auto simp: acts_def others_honest_def honest_def split: list.splits)

lemma others_tl: "others_honest env db \<Longrightarrow> cb_others db' = tl (cb_others db) \<Longrightarrow> others_honest env db'"
  by (cases "cb_others db") (auto simp: others_honest_def)

section \<open>Documents and records\<close>

lemma doc_of_test_to_test: "micros_per_second dvd tc_timeout run \<Longrightarrow> doc_to_test (doc_of_test env run) = run"
proof -
  assume "micros_per_second dvd tc_timeout run"
  then obtain q where q: "tc_timeout run = micros_per_second * q" ..
  have pos: "micros_per_second \<noteq> 0" by (simp add: micros_per_second_def)
  have "num_seconds (tc_timeout run) * micros_per_second = tc_timeout run"
    unfolding num_seconds_def q using pos by (simp flip: mult_minus_right)
  then show ?thesis
    by (intro TestCaseRecord.equality; cases "tc_status run"; cases "tc_verification_mode run")
      (simp_all add: doc_to_test_def doc_of_test_def status_str_def mode_str_def)
qed

lemma doc_to_test_etag [simp]: "doc_to_test (d\<lparr>cd_etag := e\<rparr>) = doc_to_test d"
  by (simp add: doc_to_test_def)

lemma doc_key: "tc_key (doc_to_test d) = (cd_blue_green_ref d, cd_test_id d)"
  by (simp add: tc_key_def doc_to_test_def)

lemma pending_iff:
  assumes "doc_ok env sv d"
  shows "is_pending_status (cd_status d) \<longleftrightarrow> is_pending (doc_to_test d)"
proof -
  obtain s where "cd_status d = status_str s" using assms by (auto simp: doc_ok_def)
  then show ?thesis
    by (cases s) (simp_all add: is_pending_status_def is_pending_def doc_to_test_def status_str_def)
qed

lemma doc_ok_mono: "doc_ok env sv d \<Longrightarrow> sv_clock sv \<le> sv_clock sv' \<Longrightarrow> doc_ok env sv' d"
  unfolding doc_ok_def using less_le_trans by blast

lemma sv_abs_Some:
  "sv_ok env sv \<Longrightarrow> sv_abs sv k = Some r \<longleftrightarrow> (\<exists>d \<in> set (sv_docs sv). doc_to_test d = r \<and> (cd_blue_green_ref d, cd_test_id d) = k)"
  by (auto simp: sv_abs_def sv_ok_def table_map_Some sv_tests_def doc_key)

lemma same_key_same_doc:
  assumes "sv_ok env sv" and "d \<in> set (sv_docs sv)" and "e \<in> set (sv_docs sv)"
    and "cd_blue_green_ref d = cd_blue_green_ref e" and "cd_test_id d = cd_test_id e"
  shows "d = e"
proof -
  have "distinct (map (\<lambda>d. tc_key (doc_to_test d)) (sv_docs sv))"
    using assms(1) by (simp add: sv_ok_def table_ok_def sv_tests_def comp_def)
  then show ?thesis using assms(2-) by (auto simp: distinct_map inj_on_def doc_key)
qed

lemma same_doc_iff:
  assumes "ids_unique env" and "sv_ok env sv" and "d \<in> set (sv_docs sv)"
  shows "same_doc bg (cosmos_document_id env bg i) d \<longleftrightarrow> at_key bg i d"
  using assms by (auto simp: same_doc_def at_key_def sv_ok_def doc_ok_def ids_unique_def)

lemma first_row_take: "first_row (take (Suc n) xs) = first_row xs"
  by (cases xs) (simp_all add: first_row_def)

lemma first_row_filter: "first_row (filter P xs) = List.find P xs"
  by (induction xs) (auto simp: first_row_def)

lemma find_key:
  assumes "sv_ok env sv"
  shows "List.find (at_key bg i) (sv_docs sv) = None \<longleftrightarrow> sv_abs sv (bg, i) = None"
    and "List.find (at_key bg i) (sv_docs sv) = Some d \<Longrightarrow>
      d \<in> set (sv_docs sv) \<and> at_key bg i d \<and> sv_abs sv (bg, i) = Some (doc_to_test d)"
proof -
  show "List.find (at_key bg i) (sv_docs sv) = None \<longleftrightarrow> sv_abs sv (bg, i) = None"
    by (auto simp: find_None_iff sv_abs_def table_map_None sv_tests_def doc_key at_key_def)
  show "d \<in> set (sv_docs sv) \<and> at_key bg i d \<and> sv_abs sv (bg, i) = Some (doc_to_test d)"
    if "List.find (at_key bg i) (sv_docs sv) = Some d"
    using that assms by (auto simp: find_Some_iff sv_abs_Some at_key_def)
qed

section \<open>Requests\<close>

text \<open>What can become of a request: not sent, not carried out, carried out with its answer lost, or answered.\<close>

lemma send_cases:
  assumes "cosmos_send hs serve db = (r, db')"
  obtains (unsent) e where "r = Inl e" "db' = db"
  | (failed) "cb_server db' = acts db" "cb_others db' = tl (cb_others db)" "(\<exists>e. r = Inl e) \<or> r = Inr (429, None)"
  | (lost) e where "r = Inl e" "cb_server db' = snd (serve (acts db))" "cb_others db' = tl (cb_others db)"
  | (served) "r = Inr (fst (fst (serve (acts db))), Some (snd (fst (serve (acts db)))))" "cb_server db' = snd (serve (acts db))"
      "cb_others db' = tl (cb_others db)"
proof (cases hs)
  case (Inl e)
  then have "r = Inl e" "db' = db" using assms by (simp_all add: cosmos_send_def)
  then show thesis by (rule unsent)
next
  case (Inr hs')
  obtain status answer sv' where served: "serve (acts db) = ((status, answer), sv')" by (metis prod.collapse)
  show thesis
  proof (cases "cb_net db")
    case Nil
    then show thesis using assms Inr served that(4) by (simp add: cosmos_send_def Let_def) force
  next
    case (Cons o' os)
    then show thesis using assms Inr served that(2-4) by (cases o') (auto simp: cosmos_send_def Let_def)
  qed
qed

lemma query_cases:
  assumes "cosmos_query env run db = (r, db')"
  obtains (unsent) e where "r = Inl e" "db' = db"
  | (failed) e where "r = Inl e" "cb_server db' = acts db" "cb_others db' = tl (cb_others db)"
  | (rows) "r = Inr (take (Suc (ce_page env)) (run (sv_docs (acts db))))" "cb_server db' = acts db" "cb_others db' = tl (cb_others db)"
proof -
  let ?serve = "\<lambda>sv. ((200, take (Suc (ce_page env)) (run (sv_docs sv))), sv)"
  obtain r1 db1 where send: "cosmos_send (cosmos_headers env ''POST'' ''docs'' (container_link env) None) ?serve db = (r1, db1)"
    by fastforce
  have q: "(r, db') = (case r1 of Inl e \<Rightarrow> (Inl e, db1) | Inr (status, answer) \<Rightarrow>
      if \<not> is_success status then (Inl (Other (''cosmos query failed: '' @ show_nat status)), db1)
      else (case answer of Some rows \<Rightarrow> (Inr rows, db1) | None \<Rightarrow> (Inl (Other ''failed to decode cosmos query''), db1)))"
    using assms send by (simp add: cosmos_query_def split: sum.splits)
  from send show thesis
  proof (cases rule: send_cases)
    case (unsent e)
    then show thesis using q that(1) by simp
  next
    case failed
    then show thesis using q that(2) by (auto simp: is_success_def)
  next
    case (lost e)
    then show thesis using q that(2) by simp
  next
    case served
    then show thesis using q that(3) by (simp add: is_success_def)
  qed
qed

section \<open>Writing a document back\<close>

text \<open>A change of a document that corresponds to a change of its record.\<close>

definition doc_update :: "(CosmosTestCase \<Rightarrow> CosmosTestCase) \<Rightarrow> (TestCaseRecord \<Rightarrow> TestCaseRecord) \<Rightarrow> bool" where
  "doc_update f F \<longleftrightarrow> (\<forall>d. cd_id (f d) = cd_id d \<and> cd_etag (f d) = cd_etag d \<and> cd_blue_green_ref (f d) = cd_blue_green_ref d \<and>
     cd_test_id (f d) = cd_test_id d \<and> cd_verification_mode (f d) = cd_verification_mode d \<and>
     (cd_status d \<in> status_str ` UNIV \<longrightarrow> cd_status (f d) \<in> status_str ` UNIV) \<and> doc_to_test (f d) = F (doc_to_test d))"

lemma doc_updates:
  "doc_update (\<lambda>d. d\<lparr>cd_status := (if p then ''Passed'' else ''Failed''), cd_verdict := Some p, cd_failure_message := msg\<rparr>) (verdict_of p msg)"
  "doc_update (\<lambda>d. d\<lparr>cd_status := ''TimedOut'', cd_verdict := None\<rparr>) timed_out_of"
proof -
  have strs: "''Passed'' = status_str Passed" "''Failed'' = status_str Failed" "''TimedOut'' = status_str TimedOut"
    by (simp_all add: status_str_def)
  show "doc_update (\<lambda>d. d\<lparr>cd_status := (if p then ''Passed'' else ''Failed''), cd_verdict := Some p, cd_failure_message := msg\<rparr>) (verdict_of p msg)"
    by (auto simp: doc_update_def doc_to_test_def verdict_of_def strs(1,2))
      (auto simp: status_str_def)
  show "doc_update (\<lambda>d. d\<lparr>cd_status := ''TimedOut'', cd_verdict := None\<rparr>) timed_out_of"
    by (auto simp: doc_update_def doc_to_test_def timed_out_of_def strs(3)) (auto simp: status_str_def)
qed

lemma replace_effect:
  assumes ok: "sv_ok env sv" and ids: "ids_unique env" and upd: "doc_update f F"
    and old: "old \<in> set (sv_docs sv)"
    and sv': "sv' = sv\<lparr>sv_docs := map (\<lambda>d. if same_doc (cd_blue_green_ref old) (cd_id old) d
        then (f old)\<lparr>cd_etag := Some (ce_etag env (sv_clock sv))\<rparr> else d) (sv_docs sv), sv_clock := sv_clock sv + 1\<rparr>"
  shows "sv_ok env sv' \<and> sv_abs sv' = (sv_abs sv)((cd_blue_green_ref old, cd_test_id old) \<mapsto> F (doc_to_test old))"
proof -
  let ?k = "(cd_blue_green_ref old, cd_test_id old)"
  let ?new = "(f old)\<lparr>cd_etag := Some (ce_etag env (sv_clock sv))\<rparr>"
  have here: "same_doc (cd_blue_green_ref old) (cd_id old) d \<longleftrightarrow> d = old" if "d \<in> set (sv_docs sv)" for d
  proof -
    have "cd_id old = cosmos_document_id env (cd_blue_green_ref old) (cd_test_id old)"
      using ok old by (simp add: sv_ok_def doc_ok_def)
    then have "same_doc (cd_blue_green_ref old) (cd_id old) d \<longleftrightarrow> at_key (cd_blue_green_ref old) (cd_test_id old) d"
      using same_doc_iff [OF ids ok that] by simp
    then show ?thesis using same_key_same_doc [OF ok that old] by (auto simp: at_key_def)
  qed
  have new_key: "tc_key (F (doc_to_test d)) = tc_key (doc_to_test d)" for d
    using upd doc_key [of "f d"] doc_key [of d] by (simp add: doc_update_def)
  let ?G = "\<lambda>r. if tc_key r = ?k then F (doc_to_test old) else r"
  have tests: "sv_tests sv' = update_where (\<lambda>r. tc_key r = ?k) (\<lambda>r. if tc_key r = ?k then F (doc_to_test old) else r) (sv_tests sv)"
    using here same_key_same_doc [OF ok _ old] upd
    by (auto simp: sv' sv_tests_def update_where_def doc_key doc_update_def)
  have keys: "tc_key (?G r) = tc_key r" for r using new_key [of old] by (simp add: doc_key)
  have tab: "table_ok (sv_tests sv)" using ok by (simp add: sv_ok_def)
  have "table_ok (sv_tests sv')" unfolding tests by (rule table_ok_update [OF tab keys])
  moreover have "doc_ok env sv' d" if "d \<in> set (sv_docs sv')" for d
  proof (cases "d = ?new")
    case True
    have "doc_ok env sv old" using ok old by (simp add: sv_ok_def)
    then show ?thesis using upd unfolding True by (auto simp: doc_ok_def doc_update_def sv')
  next
    case False
    then have "d \<in> set (sv_docs sv)" using that by (auto simp: sv' split: if_splits)
    then have "doc_ok env sv d" using ok by (simp add: sv_ok_def)
    then show ?thesis by (rule doc_ok_mono) (simp add: sv')
  qed
  moreover have "sv_abs sv' = (sv_abs sv)(?k := map_option (\<lambda>r. if True then ?G r else r) (sv_abs sv ?k))"
    unfolding sv_abs_def tests by (rule table_map_update [OF keys]) simp
  moreover have "sv_abs sv ?k = Some (doc_to_test old)" using ok old by (auto simp: sv_abs_Some)
  ultimately show ?thesis by (simp add: sv_ok_def doc_key)
qed

text \<open>The compare-and-swap at the heart of the backend: a document read from one container and written back to a later
  one succeeds only when no one wrote it in between.\<close>

lemma replace_doc_atomic:
  assumes ok: "sv_ok env (cb_server db)" and others: "others_honest env db" and ids: "ids_unique env" and tags: "tags_unique env"
    and upd: "doc_update f F" and doc: "doc \<in> set (sv_docs (cb_server db))" and run: "replace_doc env (f doc) db = (res, db')"
  shows "sv_ok env (cb_server db') \<and> others_honest env db' \<and>
    (cb_server db' \<in> {cb_server db, acts db} \<and> res \<noteq> Inr () \<or>
     doc \<in> set (sv_docs (acts db)) \<and>
     sv_abs (cb_server db') = (sv_abs (acts db))((cd_blue_green_ref doc, cd_test_id doc) \<mapsto> F (doc_to_test doc)))"
proof -
  let ?hs = "(case cosmos_headers env ''PUT'' ''docs'' (container_link env @ ''/docs/'' @ cd_id (f doc)) (Some (cd_blue_green_ref (f doc))) of
      Inl e \<Rightarrow> Inl e
    | Inr hs \<Rightarrow> (case cd_etag (f doc) of None \<Rightarrow> Inr hs | Some etag \<Rightarrow>
        map_sum id (\<lambda>v. hs @ [(''if-match'', v)]) (header_value ''if-match'' etag)))"
  let ?serve = "\<lambda>sv. unit_answer (sv_replace env (f doc) (cd_etag (f doc)) sv)"
  obtain r1 db1 where send: "cosmos_send ?hs ?serve db = (r1, db1)" by fastforce
  have q: "(res, db') = (case r1 of Inl e \<Rightarrow> (Inl e, db1) | Inr (status, x) \<Rightarrow>
      if is_success status then (Inr (), db1) else if status = 412 then (Inl (Conflict (cd_test_id (f doc))), db1)
      else (Inl (Other (''cosmos replace failed: '' @ show_nat status)), db1))"
    using run send by (simp add: replace_doc_def Let_def split: sum.splits)
  have db': "db' = db1" using q by (auto split: sum.splits if_splits)
  have same: "cd_id (f doc) = cd_id doc" "cd_etag (f doc) = cd_etag doc" "cd_blue_green_ref (f doc) = cd_blue_green_ref doc"
    using upd by (simp_all add: doc_update_def)
  obtain n where tag: "cd_etag doc = Some (ce_etag env n)" "n < sv_clock (cb_server db)"
    using ok doc by (auto simp: sv_ok_def doc_ok_def)
  have acts: "sv_ok env (acts db)" by (rule acts_ok [OF ok others])
  text \<open>What serving the request does: nothing, with a status that is no success, or the update of the document read.\<close>
  have effect: "(\<not> is_success (fst (sv_replace env (f doc) (cd_etag (f doc)) (acts db))) \<and>
        snd (sv_replace env (f doc) (cd_etag (f doc)) (acts db)) = acts db) \<or>
      (doc \<in> set (sv_docs (acts db)) \<and> sv_ok env (snd (sv_replace env (f doc) (cd_etag (f doc)) (acts db))) \<and>
       sv_abs (snd (sv_replace env (f doc) (cd_etag (f doc)) (acts db))) =
         (sv_abs (acts db))((cd_blue_green_ref doc, cd_test_id doc) \<mapsto> F (doc_to_test doc)))"
  proof (cases "List.find (same_doc (cd_blue_green_ref doc) (cd_id doc)) (sv_docs (acts db))")
    case None
    then show ?thesis by (simp add: sv_replace_def Let_def same is_success_def)
  next
    case (Some old)
    have here: "old \<in> set (sv_docs (acts db))" "same_doc (cd_blue_green_ref doc) (cd_id doc) old"
      using Some by (auto simp: find_Some_iff)
    show ?thesis
    proof (cases "cd_etag old = cd_etag doc")
      case False
      then show ?thesis by (simp add: sv_replace_def Let_def same Some tag(1) is_success_def)
    next
      case True
      have "old \<in> set (sv_docs (cb_server db))" by (rule acts_ok(3) [OF ok others here(1) tag(2)]) (simp add: True tag(1))
      moreover have "cd_id doc = cosmos_document_id env (cd_blue_green_ref doc) (cd_test_id doc)"
        using ok doc by (simp add: sv_ok_def doc_ok_def)
      ultimately have "old = doc"
        using here(2) same_doc_iff [OF ids ok, of old "cd_blue_green_ref doc" "cd_test_id doc"] same_key_same_doc [OF ok _ doc]
        by (auto simp: at_key_def)
      then have in_acts: "doc \<in> set (sv_docs (acts db))" using here(1) by simp
      have served: "snd (sv_replace env (f doc) (cd_etag (f doc)) (acts db)) =
          (acts db)\<lparr>sv_docs := map (\<lambda>d. if same_doc (cd_blue_green_ref doc) (cd_id doc) d
             then (f doc)\<lparr>cd_etag := Some (ce_etag env (sv_clock (acts db)))\<rparr> else d) (sv_docs (acts db)),
           sv_clock := sv_clock (acts db) + 1\<rparr>"
        by (simp add: sv_replace_def Let_def same Some True)
      show ?thesis using replace_effect [OF acts ids upd in_acts served] in_acts by simp
    qed
  qed
  from send show ?thesis
  proof (cases rule: send_cases)
    case (unsent e)
    then show ?thesis using q db' ok others by auto
  next
    case failed
    then show ?thesis using q db' acts others_tl [OF others] by (auto simp: is_success_def)
  next
    case (lost e)
    then have "cb_server db' = snd (sv_replace env (f doc) (cd_etag (f doc)) (acts db))" "res = Inl e"
      using q db' by (auto simp: unit_answer_def)
    moreover have "others_honest env db'" using others_tl [OF others lost(3)] db' by simp
    ultimately show ?thesis using effect acts by auto
  next
    case served
    then have sv: "cb_server db' = snd (sv_replace env (f doc) (cd_etag (f doc)) (acts db))"
        and r: "res = Inr () \<longleftrightarrow> is_success (fst (sv_replace env (f doc) (cd_etag (f doc)) (acts db)))"
      using q db' by (auto simp: unit_answer_def split: if_splits)
    have "others_honest env db'" using others_tl [OF others served(3)] db' by simp
    then show ?thesis using effect acts by (auto simp: sv r)
  qed
qed

section \<open>The operations\<close>

lemma get_doc_cases:
  assumes "get_doc env bg i db = (r, db')"
  obtains (unsent) e where "r = Inl e" "db' = db"
  | (failed) e where "r = Inl e" "cb_server db' = acts db" "cb_others db' = tl (cb_others db)"
  | (read) "r = Inr (List.find (at_key bg i) (sv_docs (acts db)))" "cb_server db' = acts db" "cb_others db' = tl (cb_others db)"
proof -
  obtain r1 where q: "cosmos_query env (filter (at_key bg i)) db = (r1, db')" and r: "r = map_sum id first_row r1"
    using assms by (cases "cosmos_query env (filter (at_key bg i)) db") (auto simp: get_doc_def)
  from q show thesis by (cases rule: query_cases) (use r that in \<open>auto simp: first_row_take first_row_filter\<close>)
qed

lemma finalize_atomic:
  assumes ok: "sv_ok env (cb_server db)" and others: "others_honest env db" and ids: "ids_unique env" and tags: "tags_unique env"
    and upd: "doc_update f F" and run: "finalize_doc env f bg i db = (res, db')"
  shows "sv_ok env (cb_server db') \<and> others_honest env db' \<and>
    (\<exists>k \<le> 2. sv_abs (cb_server db') = sv_abs (after_others k db) \<and> res \<noteq> Inr () \<or>
       finalize_spec F bg i (sv_abs (after_others k db)) = (Inr (), sv_abs (cb_server db')))"
proof -
  obtain got db1 where get: "get_doc env bg i db = (got, db1)" by fastforce
  have two: "(0 :: nat) \<le> 2" "Suc 0 \<le> 2" "(2 :: nat) \<le> 2" by simp_all
  have acts: "sv_ok env (acts db)" by (rule acts_ok [OF ok others])
  from get show ?thesis
  proof (cases rule: get_doc_cases)
    case (unsent e)
    then have "db' = db" "res \<noteq> Inr ()" using run get by (auto simp: finalize_doc_def)
    then show ?thesis using ok others two(1) after_others_simps(1) by metis
  next
    case (failed e)
    then have "db' = db1" "res \<noteq> Inr ()" using run get by (auto simp: finalize_doc_def)
    then show ?thesis using failed acts others_tl [OF others] two(2) after_others_simps(2) by metis
  next
    case read
    have ok1: "sv_ok env (cb_server db1)" and others1: "others_honest env db1" using read acts others_tl [OF others] by simp_all
    have skip: ?thesis if "db' = db1" "res \<noteq> Inr ()"
      using that ok1 others1 read(2) two(2) after_others_simps(2) by metis
    show ?thesis
    proof (cases "List.find (at_key bg i) (sv_docs (acts db))")
      case None
      then show ?thesis using run get read by (intro skip) (auto simp: finalize_doc_def)
    next
      case (Some doc)
      have doc: "doc \<in> set (sv_docs (acts db))" "cd_blue_green_ref doc = bg" "cd_test_id doc = i"
        using find_key(2) [OF acts Some] by (simp_all add: at_key_def)
      show ?thesis
      proof (cases "is_pending_status (cd_status doc)")
        case False
        then show ?thesis using run get read Some by (intro skip) (auto simp: finalize_doc_def)
      next
        case True
        have rep: "replace_doc env (f doc) db1 = (res, db')"
          using run get read Some True by (simp add: finalize_doc_def)
        have doc1: "doc \<in> set (sv_docs (cb_server db1))" using doc(1) read(2) by simp
        note atomic = replace_doc_atomic [OF ok1 others1 ids tags upd doc1 rep]
        have last: "after_others 2 db = acts db1" by (rule after_two [OF read(2,3)])
        have "doc_ok env (acts db) doc" using acts doc(1) by (simp add: sv_ok_def)
        then have pend: "is_pending (doc_to_test doc)" using True pending_iff by blast
        consider "cb_server db' = acts db" "res \<noteq> Inr ()" | "cb_server db' = acts db1" "res \<noteq> Inr ()"
          | "doc \<in> set (sv_docs (acts db1))" "sv_abs (cb_server db') = (sv_abs (acts db1))((bg, i) \<mapsto> F (doc_to_test doc))"
          using atomic read(2) doc(2,3) by auto
        then show ?thesis
        proof cases
          case 1
          then show ?thesis using atomic two(2) after_others_simps(2) by metis
        next
          case 2
          then show ?thesis using atomic two(3) last by metis
        next
          case 3
          have "sv_ok env (acts db1)" by (rule acts_ok [OF ok1 others1])
          then have "sv_abs (acts db1) (bg, i) = Some (doc_to_test doc)" using 3(1) doc(2,3) by (auto simp: sv_abs_Some)
          then have "finalize_spec F bg i (sv_abs (after_others 2 db)) = (Inr (), sv_abs (cb_server db'))"
            using 3(2) pend by (simp add: finalize_spec_def last)
          then show ?thesis using atomic two(3) by blast
        qed
      qed
    qed
  qed
qed

lemma create_effect:
  assumes ok: "sv_ok env sv" and ids: "ids_unique env" and storable: "micros_per_second dvd tc_timeout run"
    and ref: "valid_ref (tc_blue_green_ref run)"
  shows "sv_ok env (snd (sv_create env (doc_of_test env run) sv)) \<and>
    (if sv_abs sv (tc_key run) = None
     then fst (sv_create env (doc_of_test env run) sv) = 201 \<and>
       sv_abs (snd (sv_create env (doc_of_test env run) sv)) = (sv_abs sv)(tc_key run \<mapsto> run)
     else sv_create env (doc_of_test env run) sv = (409, sv))"
proof -
  let ?doc = "doc_of_test env run"
  have id: "cd_blue_green_ref ?doc = tc_blue_green_ref run" "cd_id ?doc = cosmos_document_id env (tc_blue_green_ref run) (tc_test_id run)"
    by (simp_all add: doc_of_test_def)
  have taken: "list_ex (same_doc (cd_blue_green_ref ?doc) (cd_id ?doc)) (sv_docs sv) \<longleftrightarrow> sv_abs sv (tc_key run) \<noteq> None"
    using same_doc_iff [OF ids ok] sv_abs_Some [OF ok, of "tc_key run"]
    by (auto simp: list_ex_iff id at_key_def tc_key_def)
  show ?thesis
  proof (cases "sv_abs sv (tc_key run) = None")
    case False
    then show ?thesis using taken ok by (simp add: sv_create_def)
  next
    case True
    let ?new = "?doc\<lparr>cd_etag := Some (ce_etag env (sv_clock sv))\<rparr>"
    let ?sv = "sv\<lparr>sv_docs := sv_docs sv @ [?new], sv_clock := sv_clock sv + 1\<rparr>"
    have created: "sv_create env ?doc sv = (201, ?sv)" using taken True by (simp add: sv_create_def)
    have tests: "sv_tests ?sv = sv_tests sv @ [run]" by (simp add: sv_tests_def doc_of_test_to_test [OF storable])
    have free: "\<forall>r \<in> set (sv_tests sv). tc_key r \<noteq> tc_key run" using True by (simp add: sv_abs_def table_map_None)
    have tab: "table_ok (sv_tests sv)" using ok by (simp add: sv_ok_def)
    have "table_ok (sv_tests sv @ [run])" using table_ok_insert [OF tab free ref, of "length (sv_tests sv)"] by simp
    then have "table_ok (sv_tests ?sv)" by (simp only: tests)
    moreover have "table_map (sv_tests sv @ [run]) = (table_map (sv_tests sv))(tc_key run \<mapsto> run)"
      using table_map_insert [OF free, of "length (sv_tests sv)"] by simp
    then have "sv_abs ?sv = (sv_abs sv)(tc_key run \<mapsto> run)" by (simp only: sv_abs_def tests)
    moreover have "doc_ok env ?sv d" if "d \<in> set (sv_docs ?sv)" for d
    proof (cases "d = ?new")
      case True
      then show ?thesis by (auto simp: doc_ok_def doc_of_test_def)
    next
      case False
      then have "doc_ok env sv d" using that ok by (simp add: sv_ok_def)
      then show ?thesis by (rule doc_ok_mono) simp
    qed
    ultimately show ?thesis using True by (simp add: created sv_ok_def)
  qed
qed

lemma register_atomic:
  assumes ok: "sv_ok env (cb_server db)" and others: "others_honest env db" and ids: "ids_unique env"
    and storable: "micros_per_second dvd tc_timeout run" and ref: "valid_ref (tc_blue_green_ref run)"
    and run: "cosmos_register env run db = (res, db')"
  shows "sv_ok env (cb_server db') \<and> others_honest env db' \<and>
    (\<exists>k \<le> 1. sv_abs (cb_server db') = sv_abs (after_others k db) \<and> (res = Inr () \<longrightarrow> sv_abs (after_others k db) (tc_key run) \<noteq> None) \<or>
       sv_abs (after_others k db) (tc_key run) = None \<and> sv_abs (cb_server db') = (sv_abs (after_others k db))(tc_key run \<mapsto> run))"
proof -
  let ?serve = "\<lambda>sv. unit_answer (sv_create env (doc_of_test env run) sv)"
  obtain r1 db1 where send: "cosmos_send (cosmos_headers env ''POST'' ''docs'' (container_link env)
      (Some (cd_blue_green_ref (doc_of_test env run)))) ?serve db = (r1, db1)" by fastforce
  have q: "(res, db') = (case r1 of Inl e \<Rightarrow> (Inl e, db1) | Inr (status, x) \<Rightarrow>
      if status \<in> {200, 201, 409} then (Inr (), db1) else (Inl (Other (''cosmos register failed: '' @ show_nat status)), db1))"
    using run send by (simp add: cosmos_register_def Let_def split: sum.splits)
  then have db': "db' = db1" by (auto split: sum.splits if_splits)
  have one: "(0 :: nat) \<le> 1" "Suc 0 \<le> 1" by simp_all
  have acts: "sv_ok env (acts db)" by (rule acts_ok [OF ok others])
  note effect = create_effect [OF acts ids storable ref]
  from send show ?thesis
  proof (cases rule: send_cases)
    case (unsent e)
    then have "res \<noteq> Inr ()" "db' = db" using q db' by auto
    then show ?thesis using ok others one(1) after_others_simps(1) by metis
  next
    case failed
    then have "res \<noteq> Inr ()" "cb_server db' = acts db" "others_honest env db'" using q db' others_tl [OF others] by auto
    then show ?thesis using acts one(2) after_others_simps(2) by metis
  next
    case (lost e)
    then have "res \<noteq> Inr ()" "cb_server db' = snd (sv_create env (doc_of_test env run) (acts db))" "others_honest env db'"
      using q db' others_tl [OF others] by (auto simp: unit_answer_def)
    then show ?thesis using effect one(2) after_others_simps(2) [of db] by (metis snd_conv)
  next
    case served
    then have "cb_server db' = snd (sv_create env (doc_of_test env run) (acts db))" "others_honest env db'"
      using q db' others_tl [OF others] by (auto simp: unit_answer_def)
    then show ?thesis using effect one(2) after_others_simps(2) [of db] by (metis snd_conv)
  qed
qed

text \<open>What an answered count counts.\<close>

lemma cosmos_counts_exact:
  assumes ok: "sv_ok env (cb_server db)" and others: "others_honest env db"
    and run: "cosmos_counts_query env bg mode db = (Inr c, db')"
  shows "c = counts_spec {r \<in> records_of (sv_abs (acts db)) bg. case mode of None \<Rightarrow> True | Some m \<Rightarrow> tc_verification_mode r = m}"
proof -
  let ?Q = "\<lambda>r. case mode of None \<Rightarrow> True | Some m \<Rightarrow> tc_verification_mode r = m"
  let ?P = "\<lambda>d. cd_blue_green_ref d = bg \<and> (case mode of None \<Rightarrow> True | Some m \<Rightarrow> cd_verification_mode d = mode_str m)"
  have acts: "sv_ok env (acts db)" by (rule acts_ok [OF ok others])
  have mode_iff: "cd_verification_mode d = mode_str m \<longleftrightarrow> tc_verification_mode (doc_to_test d) = m" if "d \<in> set (sv_docs (acts db))" for d m
  proof -
    obtain m' where "cd_verification_mode d = mode_str m'" using acts \<open>d \<in> _\<close> by (auto simp: sv_ok_def doc_ok_def)
    then show ?thesis by (cases m; cases m') (simp_all add: doc_to_test_def mode_str_def)
  qed
  have status_iff: "cd_status d = status_str t \<longleftrightarrow> tc_status (doc_to_test d) = t" if "d \<in> set (sv_docs (acts db))" for d t
  proof -
    obtain t' where "cd_status d = status_str t'" using acts \<open>d \<in> _\<close> by (auto simp: sv_ok_def doc_ok_def)
    then show ?thesis by (cases t; cases t') (simp_all add: doc_to_test_def status_str_def)
  qed
  have strs: "''Passed'' = status_str Passed" "''Failed'' = status_str Failed" "''TimedOut'' = status_str TimedOut"
    by (simp_all add: status_str_def)
  let ?sel = "filter ?P (sv_docs (acts db))"
  have sel: "filter (\<lambda>r. tc_blue_green_ref r = bg \<and> ?Q r) (sv_tests (acts db)) = map doc_to_test ?sel"
    unfolding sv_tests_def filter_map
    by (rule arg_cong [of _ _ "map doc_to_test"], rule filter_cong [OF refl])
      (auto simp: mode_iff doc_to_test_def split: option.splits)
  have len: "length (filter P ?sel) = length (filter R (map doc_to_test ?sel))"
    if "\<And>d. d \<in> set (sv_docs (acts db)) \<Longrightarrow> P d \<longleftrightarrow> R (doc_to_test d)" for P R
  proof -
    have "filter P ?sel = filter (R \<circ> doc_to_test) ?sel" by (rule filter_cong [OF refl]) (simp add: that)
    then show ?thesis by (simp only: filter_map length_map)
  qed
  have pend: "cd_status d \<in> {''Triggered'', ''Observing''} \<longleftrightarrow> is_pending (doc_to_test d)" if "d \<in> set (sv_docs (acts db))" for d
    using pending_iff [of env "acts db" d] acts that by (simp add: sv_ok_def is_pending_status_def)
  from run have c: "c = \<lparr>counts_passed = int (length (filter (\<lambda>d. cd_status d = ''Passed'') ?sel)),
      counts_failed = int (length (filter (\<lambda>d. cd_status d = ''Failed'') ?sel)),
      counts_timed_out = int (length (filter (\<lambda>d. cd_status d = ''TimedOut'') ?sel)),
      counts_pending = int (length (filter (\<lambda>d. cd_status d \<in> {''Triggered'', ''Observing''}) ?sel))\<rparr>"
    unfolding cosmos_counts_query_def map_prod_def by (auto simp: Let_def elim!: query_cases split: prod.splits)
  have "c = counts_lengths (map doc_to_test ?sel)"
    unfolding c counts_lengths_def strs
    by (simp only: len [of _ "\<lambda>r. tc_status r = _", OF status_iff] len [of _ is_pending, OF pend])
  also have "\<dots> = counts_spec {r \<in> records_of (table_map (sv_tests (acts db))) bg. ?Q r}"
    unfolding sel [symmetric] by (rule counts_table) (use acts in \<open>simp add: sv_ok_def\<close>)
  finally show ?thesis by (simp add: sv_abs_def)
qed

text \<open>Deleting the rows of one page.\<close>

lemma distinct_single: "distinct xs \<Longrightarrow> (\<And>a b. a \<in> set xs \<Longrightarrow> b \<in> set xs \<Longrightarrow> a = b) \<Longrightarrow> length xs \<le> 1"
proof (rule ccontr)
  assume "distinct xs" and same: "\<And>a b. a \<in> set xs \<Longrightarrow> b \<in> set xs \<Longrightarrow> a = b" and "\<not> length xs \<le> 1"
  then obtain a b ys where "xs = a # b # ys" by (metis One_nat_def Suc_le_length_iff not_less_eq_eq)
  then show False using \<open>distinct xs\<close> same [of a b] by simp
qed

lemma filter_split_length: "length (filter P xs) \<le> length (filter P (filter (\<lambda>x. \<not> Q x) xs)) + length (filter Q xs)"
  by (induction xs) auto

lemma delete_effect:
  assumes ok: "sv_ok env sv" and ids: "ids_unique env" and id: "doc_id = cosmos_document_id env bg i"
  shows "sv_ok env (snd (sv_delete bg doc_id sv)) \<and> set (sv_docs (snd (sv_delete bg doc_id sv))) \<subseteq> set (sv_docs sv) \<and>
    length (filter P (sv_docs sv)) \<le> length (filter P (sv_docs (snd (sv_delete bg doc_id sv)))) + 1"
proof -
  have at: "same_doc bg doc_id d \<longleftrightarrow> at_key bg i d" if "d \<in> set (sv_docs sv)" for d
    using same_doc_iff [OF ids ok that] id by simp
  let ?rest = "filter (\<lambda>d. \<not> same_doc bg doc_id d) (sv_docs sv)"
  have dist: "distinct (sv_docs sv)" using ok by (auto simp: sv_ok_def table_ok_def sv_tests_def distinct_map)
  have tests: "map doc_to_test ?rest = filter (\<lambda>r. tc_key r \<noteq> (bg, i)) (sv_tests sv)"
    unfolding sv_tests_def filter_map
    by (rule arg_cong [of _ _ "map doc_to_test"], rule filter_cong [OF refl]) (auto simp: at doc_key at_key_def)
  have "table_ok (map doc_to_test ?rest)"
    using ok unfolding tests by (auto simp: sv_ok_def table_ok_def distinct_map_filter)
  then have "sv_ok env (sv\<lparr>sv_docs := ?rest\<rparr>)" using ok by (simp add: sv_ok_def sv_tests_def doc_ok_def)
  then have "sv_ok env (snd (sv_delete bg doc_id sv))" using ok by (simp add: sv_delete_def)
  moreover have "length (filter (same_doc bg doc_id) (sv_docs sv)) \<le> 1"
  proof (rule distinct_single)
    show "distinct (filter (same_doc bg doc_id) (sv_docs sv))" using dist by simp
    show "d = e" if "d \<in> set (filter (same_doc bg doc_id) (sv_docs sv))" "e \<in> set (filter (same_doc bg doc_id) (sv_docs sv))" for d e
      using that by (intro same_key_same_doc [OF ok]) (auto simp: at at_key_def)
  qed
  moreover have "length (filter P (sv_docs sv)) \<le>
      length (filter P ?rest) + length (filter (same_doc bg doc_id) (sv_docs sv))"
    by (rule filter_split_length)
  ultimately show ?thesis by (auto simp: sv_delete_def)
qed

lemma delete_docs_bound:
  assumes "sv_ok env (cb_server db)" and "cb_others db = []" and ids: "ids_unique env"
    and "\<forall>d \<in> set ds. cd_id d = cosmos_document_id env (cd_blue_green_ref d) (cd_test_id d)"
    and "delete_docs env ds n db = (r, db')"
  shows "length (filter P (sv_docs (cb_server db))) \<le> length (filter P (sv_docs (cb_server db'))) + length ds"
  using assms(1,2,4,5)
proof (induction ds arbitrary: n db)
  case Nil
  then show ?case by simp
next
  case (Cons d ds)
  let ?hs = "cosmos_headers env ''DELETE'' ''docs'' (container_link env @ ''/docs/'' @ cd_id d) (Some (cd_blue_green_ref d))"
  let ?serve = "\<lambda>sv. unit_answer (sv_delete (cd_blue_green_ref d) (cd_id d) sv)"
  obtain r1 db1 where send: "cosmos_send ?hs ?serve db = (r1, db1)" by fastforce
  have acts: "acts db = cb_server db" using Cons.prems(2) by (simp add: acts_def)
  have effect: "sv_ok env (snd (sv_delete (cd_blue_green_ref d) (cd_id d) (cb_server db))) \<and>
      length (filter P (sv_docs (cb_server db))) \<le>
        length (filter P (sv_docs (snd (sv_delete (cd_blue_green_ref d) (cd_id d) (cb_server db))))) + 1"
    using delete_effect [OF Cons.prems(1) ids, of "cd_id d" "cd_blue_green_ref d" "cd_test_id d" P] Cons.prems(3) by simp
  have after: "sv_ok env (cb_server db1) \<and> cb_others db1 = [] \<and>
      length (filter P (sv_docs (cb_server db))) \<le> length (filter P (sv_docs (cb_server db1))) + 1"
    using send by (cases rule: send_cases) (use Cons.prems(1,2) effect in \<open>auto simp: acts unit_answer_def\<close>)
  consider "db' = db1" | m where "delete_docs env ds m db1 = (r, db')"
    using Cons.prems(4) unfolding delete_docs.simps send by (auto split: sum.splits prod.splits)
  then show ?case
  proof cases
    case 1
    then show ?thesis using after by simp
  next
    case (2 m)
    have "length (filter P (sv_docs (cb_server db1))) \<le> length (filter P (sv_docs (cb_server db'))) + length ds"
      by (rule Cons.IH [OF _ _ _ 2]) (use after Cons.prems(3) in auto)
    then show ?thesis using after by simp
  qed
qed

lemma query_and_delete_bound:
  assumes ok: "sv_ok env (cb_server db)" and none: "cb_others db = []" and ids: "ids_unique env"
    and run: "query_and_delete env Q db = (r, db')"
  shows "length (filter P (sv_docs (cb_server db))) \<le> length (filter P (sv_docs (cb_server db'))) + Suc (ce_page env)"
proof -
  obtain rows db1 where query: "cosmos_query env (filter Q) db = (rows, db1)" by fastforce
  have acts: "acts db = cb_server db" using none by (simp add: acts_def)
  from query show ?thesis
  proof (cases rule: query_cases)
    case (unsent e)
    then show ?thesis using run query by (simp add: query_and_delete_def)
  next
    case (failed e)
    then show ?thesis using run query acts by (simp add: query_and_delete_def)
  next
    case rows
    let ?rows = "take (Suc (ce_page env)) (filter Q (sv_docs (cb_server db)))"
    have del: "delete_docs env ?rows 0 db1 = (r, db')" using run query rows acts by (simp add: query_and_delete_def)
    have "set ?rows \<subseteq> set (sv_docs (cb_server db))" by (auto dest: in_set_takeD)
    then have "\<forall>d \<in> set ?rows. cd_id d = cosmos_document_id env (cd_blue_green_ref d) (cd_test_id d)"
      using ok by (auto simp: sv_ok_def doc_ok_def)
    moreover have "sv_ok env (cb_server db1)" "cb_others db1 = []" using rows acts ok none by simp_all
    ultimately have "length (filter P (sv_docs (cb_server db1))) \<le> length (filter P (sv_docs (cb_server db'))) + length ?rows"
      using delete_docs_bound [OF _ _ ids _ del] by blast
    then show ?thesis using rows(2) acts by simp
  qed
qed

section \<open>Other operators are such clients\<close>

text \<open>Another operator that finalizes a case is an honest client: every write gives a tag that was never given before.\<close>

definition newer :: "cosmos_env \<Rightarrow> cosmos_server \<Rightarrow> cosmos_server \<Rightarrow> bool" where
  "newer env sv sv' \<longleftrightarrow> sv_clock sv \<le> sv_clock sv' \<and>
     (\<forall>d \<in> set (sv_docs sv'). \<forall>n < sv_clock sv. cd_etag d = Some (ce_etag env n) \<longrightarrow> d \<in> set (sv_docs sv))"

lemma newer_refl: "newer env sv sv"
  by (simp add: newer_def)

lemma replace_newer:
  assumes "tags_unique env"
  shows "newer env sv (snd (sv_replace env doc tag sv))"
proof -
  have "ce_etag env n = ce_etag env m \<longleftrightarrow> n = m" for n m
    using assms by (simp add: tags_unique_def inj_eq)
  then show ?thesis
    by (auto simp: newer_def sv_replace_def Let_def split: option.splits if_splits)
qed

definition alone :: "cosmos_server \<Rightarrow> cosmos_db" where
  "alone sv = \<lparr>cb_server = sv, cb_net = [], cb_others = []\<rparr>"

lemma alone_acts: "acts (alone sv) = sv"
  by (simp add: acts_def alone_def)

lemma replace_doc_newer:
  assumes "tags_unique env" and "cb_server db = sv" and "cb_others db = []"
  shows "newer env sv (cb_server (snd (replace_doc env doc db)))"
proof -
  let ?hs = "(case cosmos_headers env ''PUT'' ''docs'' (container_link env @ ''/docs/'' @ cd_id doc) (Some (cd_blue_green_ref doc)) of
      Inl e \<Rightarrow> Inl e
    | Inr hs \<Rightarrow> (case cd_etag doc of None \<Rightarrow> Inr hs | Some etag \<Rightarrow>
        map_sum id (\<lambda>v. hs @ [(''if-match'', v)]) (header_value ''if-match'' etag)))"
  obtain r1 db1 where send: "cosmos_send ?hs (\<lambda>sv. unit_answer (sv_replace env doc (cd_etag doc) sv)) db = (r1, db1)" by fastforce
  have acts: "acts db = sv" using assms(2,3) by (simp add: acts_def)
  have "cb_server (snd (replace_doc env doc db)) = cb_server db1"
    unfolding replace_doc_def Let_def send by (auto split: sum.splits prod.splits)
  moreover have "cb_server db1 \<in> {sv, snd (sv_replace env doc (cd_etag doc) sv)}"
    using send by (cases rule: send_cases) (use acts assms(2) in \<open>auto simp: unit_answer_def\<close>)
  ultimately show ?thesis using replace_newer [OF assms(1)] newer_refl by auto
qed

lemma finalize_newer:
  assumes "tags_unique env"
  shows "newer env sv (cb_server (snd (finalize_doc env f bg i (alone sv))))"
proof -
  obtain got db1 where get: "get_doc env bg i (alone sv) = (got, db1)" by fastforce
  have db1: "cb_server db1 = sv" "cb_others db1 = []"
    using get by (cases rule: get_doc_cases; simp add: alone_acts; simp add: alone_def)+
  then have rep: "newer env sv (cb_server (snd (replace_doc env doc db1)))" for doc
    using replace_doc_newer [OF assms] by blast
  show ?thesis
    using db1 rep newer_refl by (auto simp: finalize_doc_def get split: sum.splits option.splits)
qed

lemma finalize_honest:
  assumes "ids_unique env" and "tags_unique env" and "doc_update f F"
  shows "honest env (\<lambda>sv. cb_server (snd (finalize_doc env f bg i (alone sv))))"
proof -
  have "sv_ok env (cb_server (snd (finalize_doc env f bg i (alone sv))))" if "sv_ok env sv" for sv
  proof -
    have "sv_ok env (cb_server (alone sv))" "others_honest env (alone sv)" using that by (simp_all add: alone_def others_honest_def)
    from finalize_atomic [OF this assms surjective_pairing] show ?thesis by blast
  qed
  then show ?thesis using finalize_newer [OF assms(2)] by (simp add: honest_def newer_def)
qed

section \<open>A container\<close>

text \<open>A container whose answers hold one row, and a client that presents a token.\<close>

definition demo_cosmos :: cosmos_env where
  "demo_cosmos = \<lparr>ce_lib = (toy_jwt (claims_new ''ns'' ''bg'' ''ip'' ''p''))\<lparr>jl_sha256 := id\<rparr>, ce_b64_encode = (\<lambda>_. []), ce_b64_decode = (\<lambda>_. None),
     ce_etag = (\<lambda>n. replicate n (CHR ''x'')), ce_show_time = (\<lambda>t. replicate (nat t) (CHR ''x'')), ce_json_array = id, ce_date = ''now'',
     ce_parse_url = (\<lambda>_. None), ce_show_url = (\<lambda>_. []), ce_endpoint = [], ce_page = 0, ce_database = ''db'', ce_container = ''c'',
     ce_auth = WorkloadIdentity (Inr ''t'')\<rparr>"

lemma demo_tags: "tags_unique demo_cosmos"
proof -
  have "replicate n (CHR ''x'') = replicate m (CHR ''x'') \<Longrightarrow> n = m" for n m
    by (drule arg_cong [where f = length]) simp
  then show ?thesis by (auto simp: tags_unique_def inj_def demo_cosmos_def)
qed

lemma demo_ids: "ids_unique demo_cosmos"
proof -
  have hex: "hex_encode a = hex_encode b \<Longrightarrow> a = b" for a b by (metis hex_roundtrip option.inject)
  have "i = j" if "cosmos_document_id demo_cosmos bg i = cosmos_document_id demo_cosmos bg j" for bg i j
  proof -
    have "frame_parts [bg, i] = frame_parts [bg, j]"
      using that by (auto simp: cosmos_document_id_def demo_cosmos_def toy_jwt_def dest: hex)
    then have "as_bytes i = as_bytes j" by (simp add: frame_parts_def append_eq_append_conv)
    then show ?thesis by (simp add: as_bytes_inj)
  qed
  then show ?thesis by (auto simp: ids_unique_def)
qed

lemma demo_headers:
  assumes "pk = None \<or> pk = Some ''ns/app''"
  shows "\<exists>hs. cosmos_headers demo_cosmos verb resource_type link pk = Inr hs"
proof -
  have auth: "list_all visible_ascii (percent_encode (''type=aad&ver=1.0&sig='' @ ''t''))" by code_simp
  have parts: "ce_auth demo_cosmos = WorkloadIdentity (Inr ''t'')" "ce_date demo_cosmos = ''now''" "ce_json_array demo_cosmos = id"
    by (simp_all add: demo_cosmos_def)
  have vis: "list_all visible_ascii ''now''" "list_all visible_ascii ''ns/app''" by (simp_all add: visible_ascii_def)
  have "cosmos_authorization demo_cosmos verb resource_type link = Inr (percent_encode (''type=aad&ver=1.0&sig='' @ ''t''))"
    by (simp add: cosmos_authorization_def parts)
  then show ?thesis using assms auth vis unfolding cosmos_headers_def by (auto simp: header_value_def parts)
qed

lemma demo_tag_header: "header_value name (ce_etag demo_cosmos n) = Inr (ce_etag demo_cosmos n)"
  by (simp add: header_value_def demo_cosmos_def list_all_iff visible_ascii_def)

text \<open>A request that is sent and answered.\<close>

lemma send_served:
  "cb_net db = [] \<Longrightarrow> cosmos_send (Inr hs) serve db =
     (Inr (fst (fst (serve (acts db))), Some (snd (fst (serve (acts db))))),
      \<lparr>cb_server = snd (serve (acts db)), cb_net = [], cb_others = tl (cb_others db)\<rparr>)"
  by (cases db) (simp add: cosmos_send_def case_prod_unfold Let_def)

lemma demo_query:
  "cb_net db = [] \<Longrightarrow> cosmos_query demo_cosmos run db =
     (Inr (take 1 (run (sv_docs (acts db)))), \<lparr>cb_server = acts db, cb_net = [], cb_others = tl (cb_others db)\<rparr>)"
proof -
  assume net: "cb_net db = []"
  obtain hs where hs: "cosmos_headers demo_cosmos ''POST'' ''docs'' (container_link demo_cosmos) None = Inr hs"
    using demo_headers [of None] by blast
  have page: "ce_page demo_cosmos = 0" by (simp add: demo_cosmos_def)
  show ?thesis unfolding cosmos_query_def hs send_served [OF net] by (simp add: is_success_def page)
qed

lemma demo_get:
  "cb_net db = [] \<Longrightarrow> get_doc demo_cosmos bg i db =
     (Inr (List.find (at_key bg i) (sv_docs (acts db))), \<lparr>cb_server = acts db, cb_net = [], cb_others = tl (cb_others db)\<rparr>)"
  by (simp add: get_doc_def demo_query first_row_take first_row_filter)

lemma demo_replace:
  assumes net: "cb_net db = []" and bg: "cd_blue_green_ref doc = ''ns/app''" and tag: "cd_etag doc = Some (ce_etag demo_cosmos n)"
  shows "replace_doc demo_cosmos doc db =
    (let st = fst (sv_replace demo_cosmos doc (cd_etag doc) (acts db))
     in if is_success st then Inr () else if st = 412 then Inl (Conflict (cd_test_id doc))
        else Inl (Other (''cosmos replace failed: '' @ show_nat st)),
     \<lparr>cb_server = snd (sv_replace demo_cosmos doc (cd_etag doc) (acts db)), cb_net = [], cb_others = tl (cb_others db)\<rparr>)"
proof -
  obtain hs where hs: "cosmos_headers demo_cosmos ''PUT'' ''docs'' (container_link demo_cosmos @ ''/docs/'' @ cd_id doc)
      (Some (cd_blue_green_ref doc)) = Inr hs"
    using demo_headers bg by blast
  show ?thesis
    unfolding replace_doc_def Let_def hs tag demo_tag_header sum.case option.case map_sum.simps send_served [OF net]
    by (simp add: unit_answer_def)
qed

lemma demo_delete:
  assumes net: "cb_net db = []" and bg: "cd_blue_green_ref doc = ''ns/app''"
  shows "delete_docs demo_cosmos (doc # docs) n db = delete_docs demo_cosmos docs
      (if is_success (fst (sv_delete ''ns/app'' (cd_id doc) (acts db))) then n + 1 else n)
      \<lparr>cb_server = snd (sv_delete ''ns/app'' (cd_id doc) (acts db)), cb_net = [], cb_others = tl (cb_others db)\<rparr>"
proof -
  obtain hs where hs: "cosmos_headers demo_cosmos ''DELETE'' ''docs'' (container_link demo_cosmos @ ''/docs/'' @ cd_id doc)
      (Some (cd_blue_green_ref doc)) = Inr hs"
    using demo_headers bg by blast
  show ?thesis unfolding delete_docs.simps hs send_served [OF net] by (simp add: unit_answer_def bg)
qed

definition demo_doc :: "string \<Rightarrow> nat \<Rightarrow> CosmosTestCase" where
  "demo_doc i n = (doc_of_test demo_cosmos (sample_case i))\<lparr>cd_etag := Some (ce_etag demo_cosmos n)\<rparr>"

lemma demo_doc_simps [simp]:
  "cd_blue_green_ref (demo_doc i n) = ''ns/app''" "cd_test_id (demo_doc i n) = i" "cd_etag (demo_doc i n) = Some (ce_etag demo_cosmos n)"
  "cd_id (demo_doc i n) = cosmos_document_id demo_cosmos ''ns/app'' i" "cd_status (demo_doc i n) = ''Triggered''"
  "cd_expires_at (demo_doc i n) = 60000000"
  by (simp_all add: demo_doc_def doc_of_test_def sample_simps status_str_def)

lemma demo_doc_test [simp]: "doc_to_test (demo_doc i n) = sample_case i"
  unfolding demo_doc_def doc_to_test_etag by (rule doc_of_test_to_test) (simp add: sample_simps)

definition demo_server :: cosmos_server where
  "demo_server = \<lparr>sv_docs = [demo_doc ''a'' 0], sv_clock = 1\<rparr>"

lemma demo_doc_ok: "n < sv_clock sv \<Longrightarrow> doc_ok demo_cosmos sv (demo_doc i n)"
proof -
  assume "n < sv_clock sv"
  moreover have "cd_status (demo_doc i n) = status_str Triggered" "cd_verification_mode (demo_doc i n) = mode_str Custom"
    by (simp_all add: demo_doc_def doc_of_test_def sample_case_def)
  ultimately show ?thesis by (auto simp only: doc_ok_def demo_doc_simps intro!: rangeI)
qed

lemma demo_server_ok: "sv_ok demo_cosmos demo_server"
  by (auto simp: sv_ok_def sv_tests_def demo_server_def demo_doc_ok table_ok_def) (simp add: sample_simps)

text \<open>The other client finds the case pending and finalizes it.\<close>

lemma demo_finalize:
  assumes "doc_update f F" and "acts db = demo_server" and "cb_net db = []" and "cb_others db = []"
  shows "finalize_doc demo_cosmos f ''ns/app'' ''a'' db = (Inr (), \<lparr>cb_server = \<lparr>sv_docs = [(f (demo_doc ''a'' 0))
    \<lparr>cd_etag := Some (ce_etag demo_cosmos 1)\<rparr>], sv_clock = 2\<rparr>, cb_net = [], cb_others = []\<rparr>)"
proof -
  have same: "cd_id (f d) = cd_id d" "cd_etag (f d) = cd_etag d" "cd_blue_green_ref (f d) = cd_blue_green_ref d" for d
    using assms(1) by (simp_all add: doc_update_def)
  have got: "get_doc demo_cosmos ''ns/app'' ''a'' db =
      (Inr (Some (demo_doc ''a'' 0)), \<lparr>cb_server = demo_server, cb_net = [], cb_others = []\<rparr>)"
    unfolding demo_get [OF assms(3)] assms(2,4) by (simp add: demo_server_def at_key_def)
  have here: "acts \<lparr>cb_server = demo_server, cb_net = [], cb_others = []\<rparr> = demo_server" by (simp add: acts_def)
  show ?thesis
    by (simp add: finalize_doc_def got is_pending_status_def demo_replace [where n = 0] same here)
      (simp add: demo_server_def sv_replace_def Let_def same same_doc_def is_success_def)
qed

text \<open>Another client acts between the two requests of an operation.\<close>

definition raced :: "(cosmos_server \<Rightarrow> cosmos_server) \<Rightarrow> cosmos_db" where
  "raced g = \<lparr>cb_server = demo_server, cb_net = [], cb_others = [\<lambda>sv. sv, g]\<rparr>"

definition timing_out :: "cosmos_server \<Rightarrow> cosmos_server" where
  "timing_out sv = cb_server (snd (cosmos_mark_timed_out demo_cosmos ''ns/app'' ''a'' (alone sv)))"

definition judging :: "cosmos_server \<Rightarrow> cosmos_server" where
  "judging sv = cb_server (snd (cosmos_set_verdict demo_cosmos ''ns/app'' ''a'' True None (alone sv)))"

lemma clients_honest: "honest demo_cosmos timing_out" "honest demo_cosmos judging"
  unfolding timing_out_def cosmos_mark_timed_out_def judging_def cosmos_set_verdict_def
  by (rule finalize_honest [OF demo_ids demo_tags doc_updates(2)]) (rule finalize_honest [OF demo_ids demo_tags doc_updates(1)])

lemma raced_honest: "honest demo_cosmos g \<Longrightarrow> others_honest demo_cosmos (raced g)"
  by (simp add: others_honest_def raced_def honest_def)

lemma timing_out_demo: "timing_out demo_server = \<lparr>sv_docs = [(demo_doc ''a'' 0)\<lparr>cd_status := ''TimedOut'', cd_verdict := None,
    cd_etag := Some (ce_etag demo_cosmos 1)\<rparr>], sv_clock = 2\<rparr>"
  unfolding timing_out_def cosmos_mark_timed_out_def
  by (subst demo_finalize [OF doc_updates(2) alone_acts]) (simp_all add: alone_def)

lemma judging_demo: "judging demo_server = \<lparr>sv_docs = [(demo_doc ''a'' 0)\<lparr>cd_status := ''Passed'', cd_verdict := Some True,
    cd_failure_message := None, cd_etag := Some (ce_etag demo_cosmos 1)\<rparr>], sv_clock = 2\<rparr>"
  unfolding judging_def cosmos_set_verdict_def
  by (subst demo_finalize [OF doc_updates(1) alone_acts]) (simp_all add: alone_def)

lemma raced_query: "acts (raced g) = demo_server" "cb_net (raced g) = []" "cb_server (raced g) = demo_server"
  "acts \<lparr>cb_server = demo_server, cb_net = [], cb_others = tl (cb_others (raced g))\<rparr> = g demo_server"
  by (simp_all add: acts_def raced_def)

lemma raced_verdict: "fst (cosmos_set_verdict demo_cosmos ''ns/app'' ''a'' True None (raced timing_out)) = Inl (Conflict ''a'')"
proof -
  have got: "get_doc demo_cosmos ''ns/app'' ''a'' (raced timing_out) = (Inr (Some (demo_doc ''a'' 0)),
      \<lparr>cb_server = demo_server, cb_net = [], cb_others = tl (cb_others (raced timing_out))\<rparr>)"
    unfolding demo_get [OF raced_query(2)] raced_query(1) by (simp add: demo_server_def at_key_def)
  have tags: "ce_etag demo_cosmos (Suc 0) \<noteq> ce_etag demo_cosmos 0" using demo_tags by (simp add: tags_unique_def inj_eq)
  show ?thesis
    by (simp add: cosmos_set_verdict_def finalize_doc_def got is_pending_status_def demo_replace [where n = 0] raced_query(4)
        timing_out_demo sv_replace_def Let_def same_doc_def is_success_def tags)
qed

lemma show_time_less: "0 \<le> t \<Longrightarrow> t < u \<Longrightarrow> ce_show_time demo_cosmos t < ce_show_time demo_cosmos u"
proof -
  assume "0 \<le> t" "t < u"
  then obtain k where "nat u = nat t + Suc k" by (metis less_iff_Suc_add add_Suc_right nat_less_eq_zless)
  moreover have "replicate n x < replicate (n + Suc k) x" for n and x :: char by (induction n) simp_all
  ultimately show ?thesis by (simp add: demo_cosmos_def)
qed

lemma raced_cleanup:
  "cosmos_cleanup_expired demo_cosmos 60000001 (raced judging) =
     (Inr 1, \<lparr>cb_server = \<lparr>sv_docs = [], sv_clock = 2\<rparr>, cb_net = [], cb_others = []\<rparr>)"
proof -
  have expired: "expired_doc demo_cosmos 60000001 (demo_doc ''a'' 0)" using show_time_less by (simp add: expired_doc_def)
  have rows: "cosmos_query demo_cosmos (filter (expired_doc demo_cosmos 60000001)) (raced judging) = (Inr [demo_doc ''a'' 0],
      \<lparr>cb_server = demo_server, cb_net = [], cb_others = tl (cb_others (raced judging))\<rparr>)"
    unfolding demo_query [OF raced_query(2)] raced_query(1) using expired by (simp add: demo_server_def)
  have others: "tl (tl (cb_others (raced judging))) = []" by (simp add: raced_def)
  show ?thesis
    by (simp add: cosmos_cleanup_expired_def query_and_delete_def rows demo_delete raced_query(4) judging_demo others
        sv_delete_def same_doc_def is_success_def del: delete_docs.simps(2))
qed

section \<open>Properties\<close>

text \<open>C15: a verdict is a compare-and-swap, although it takes two requests. Whatever well-behaved clients do to the container
  before each of them, and whether requests fail, are refused or are carried out without an answer, the operation
  either leaves what the others made of the container, and then does not report success, or has exactly the effect
  of the specification on it; so a final status that another client wrote in between is never overwritten.\<close>

theorem cosmos_verdict_is_atomic:
  assumes "sv_ok env (cb_server db)" and "others_honest env db" and "ids_unique env" and "tags_unique env"
    and "cosmos_set_verdict env bg i passed msg db = (res, db')"
  shows "sv_ok env (cb_server db') \<and>
    (\<exists>k \<le> 2. sv_abs (cb_server db') = sv_abs (after_others k db) \<and> res \<noteq> Inr () \<or>
       finalize_spec (verdict_of passed msg) bg i (sv_abs (after_others k db)) = (Inr (), sv_abs (cb_server db')))"
  using finalize_atomic [OF assms(1-4) doc_updates(1) assms(5) [unfolded cosmos_set_verdict_def]] by blast

text \<open>Here the case is timed out between the read and the write, and the verdict is refused.\<close>

theorem cosmos_verdict_is_atomic_witness:
  "\<exists>db'. cosmos_set_verdict demo_cosmos ''ns/app'' ''a'' True None (raced timing_out) = (Inl (Conflict ''a''), db') \<and>
     sv_ok demo_cosmos (cb_server db') \<and>
     (\<exists>k. k \<le> 2 \<and> (sv_abs (cb_server db') = sv_abs (after_others k (raced timing_out)) \<or>
       finalize_spec (verdict_of True None) ''ns/app'' ''a'' (sv_abs (after_others k (raced timing_out))) = (Inr (), sv_abs (cb_server db'))))"
proof -
  obtain res db' where run: "cosmos_set_verdict demo_cosmos ''ns/app'' ''a'' True None (raced timing_out) = (res, db')" by fastforce
  have res: "res = Inl (Conflict ''a'')" using raced_verdict run by simp
  have "sv_ok demo_cosmos (cb_server (raced timing_out))" by (simp add: raced_query demo_server_ok)
  from cosmos_verdict_is_atomic [OF this raced_honest [OF clients_honest(1)] demo_ids demo_tags run] show ?thesis
    using run res by auto
qed

text \<open>C38: a registration creates a document, or is ignored: it never changes a case that is already there, even a pending
  one, into which the in-memory and the Postgres stores merge the later registration.\<close>

theorem cosmos_register_keeps_first:
  assumes "sv_ok env (cb_server db)" and "others_honest env db" and "ids_unique env"
    and "micros_per_second dvd tc_timeout run" and "valid_ref (tc_blue_green_ref run)"
    and "cosmos_register env run db = (res, db')"
  shows "sv_ok env (cb_server db') \<and>
    (\<exists>k \<le> 1. sv_abs (cb_server db') = sv_abs (after_others k db) \<and> (res \<noteq> Inr () \<or> sv_abs (after_others k db) (tc_key run) \<noteq> None) \<or>
       sv_abs (after_others k db) (tc_key run) = None \<and> sv_abs (cb_server db') = register_spec run (sv_abs (after_others k db)))"
proof -
  from register_atomic [OF assms] obtain k where k: "k \<le> 1" and
    cases: "sv_abs (cb_server db') = sv_abs (after_others k db) \<and> (res = Inr () \<longrightarrow> sv_abs (after_others k db) (tc_key run) \<noteq> None) \<or>
       sv_abs (after_others k db) (tc_key run) = None \<and> sv_abs (cb_server db') = (sv_abs (after_others k db))(tc_key run \<mapsto> run)"
    and ok: "sv_ok env (cb_server db')" by blast
  have "sv_abs (after_others k db) (tc_key run) = None \<Longrightarrow>
      register_spec run (sv_abs (after_others k db)) = (sv_abs (after_others k db))(tc_key run \<mapsto> run)"
    by (simp add: register_spec_def)
  with k cases ok show ?thesis by auto
qed

text \<open>Here a registration of a pending case with a longer timeout is answered with success, and nothing changes.\<close>

theorem cosmos_register_keeps_first_witness:
  "\<exists>res db'. cosmos_register demo_cosmos ((sample_case ''a'')\<lparr>tc_timeout := 120000000\<rparr>) (alone demo_server) = (res, db') \<and>
     sv_ok demo_cosmos (cb_server db') \<and> sv_abs (cb_server db') (''ns/app'', ''a'') = Some (sample_case ''a'')"
proof -
  let ?run = "(sample_case ''a'')\<lparr>tc_timeout := 120000000\<rparr>"
  obtain res db' where run: "cosmos_register demo_cosmos ?run (alone demo_server) = (res, db')" by fastforce
  have there: "sv_abs (after_others k (alone demo_server)) = [(''ns/app'', ''a'') \<mapsto> sample_case ''a'']" for k
    by (auto simp: after_others_def alone_def demo_server_def sv_abs_def sv_tests_def table_map_def) (simp_all add: sample_simps)
  have key: "tc_key ?run = (''ns/app'', ''a'')" by (simp add: sample_simps)
  have "sv_ok demo_cosmos (cb_server (alone demo_server))" "others_honest demo_cosmos (alone demo_server)"
    by (simp_all add: alone_def demo_server_ok others_honest_def)
  from cosmos_register_keeps_first [OF this demo_ids _ _ run] show ?thesis
    using run by (auto simp: there key) (simp_all add: sample_simps)
qed

text \<open>C39: cleaning up expired cases is not atomic: the delete request carries no entity tag, so a verdict that a client
  has written, and whose success it was told, after the query is deleted with the case.\<close>

theorem cosmos_cleanup_can_lose_a_verdict:
  "sv_ok demo_cosmos (cb_server (raced judging)) \<and> others_honest demo_cosmos (raced judging) \<and>
   fst (cosmos_set_verdict demo_cosmos ''ns/app'' ''a'' True None (alone demo_server)) = Inr () \<and>
   sv_abs (after_others 2 (raced judging)) (''ns/app'', ''a'') = Some (verdict_of True None (sample_case ''a'')) \<and>
   fst (cosmos_cleanup_expired demo_cosmos 60000001 (raced judging)) = Inr 1 \<and>
   sv_abs (cb_server (snd (cosmos_cleanup_expired demo_cosmos 60000001 (raced judging)))) = Map.empty"
proof -
  have told: "fst (cosmos_set_verdict demo_cosmos ''ns/app'' ''a'' True None (alone demo_server)) = Inr ()"
    unfolding cosmos_set_verdict_def by (subst demo_finalize [OF doc_updates(1) alone_acts]) (simp_all add: alone_def)
  have "doc_to_test ((demo_doc ''a'' 0)\<lparr>cd_status := ''Passed'', cd_verdict := Some True, cd_failure_message := None\<rparr>) =
      verdict_of True None (sample_case ''a'')"
    using doc_updates(1) [where p = True and msg = None] by (simp add: doc_update_def)
  then have "doc_to_test ((demo_doc ''a'' 0)\<lparr>cd_status := ''Passed'', cd_verdict := Some True, cd_failure_message := None,
      cd_etag := Some (ce_etag demo_cosmos 1)\<rparr>) = verdict_of True None (sample_case ''a'')" by simp
  moreover have "after_others 2 (raced judging) = judging demo_server" by (simp add: after_others_def raced_def numeral_2_eq_2)
  ultimately have "sv_abs (after_others 2 (raced judging)) (''ns/app'', ''a'') = Some (verdict_of True None (sample_case ''a''))"
    by (simp add: judging_demo sv_abs_def sv_tests_def table_map_def) (simp add: verdict_of_def sample_simps)
  then show ?thesis
    using told by (simp add: raced_query demo_server_ok raced_honest clients_honest raced_cleanup sv_abs_def sv_tests_def table_map_def)
qed

text \<open>C40: cleaning up a BlueGreenDeployment deletes one page of its cases at most, although it reports success: when no one
  interferes, every case beyond the page stays in the container.\<close>

theorem cosmos_cleanup_deletes_one_page:
  assumes "sv_ok env (cb_server db)" and "cb_others db = []" and "ids_unique env"
    and "cosmos_cleanup_blue_green env bg db = (res, db')"
  shows "length (filter (\<lambda>r. tc_blue_green_ref r = bg) (sv_tests (cb_server db))) \<le>
    length (filter (\<lambda>r. tc_blue_green_ref r = bg) (sv_tests (cb_server db'))) + Suc (ce_page env)"
  using query_and_delete_bound [OF assms(1-3) assms(4) [unfolded cosmos_cleanup_blue_green_def], of "\<lambda>d. cd_blue_green_ref d = bg"]
  by (simp add: sv_tests_def filter_map comp_def doc_to_test_def)

text \<open>Two cases, with pages of one row.\<close>

theorem cosmos_cleanup_deletes_one_page_witness:
  "\<exists>res db'. cosmos_cleanup_blue_green demo_cosmos ''ns/app'' (alone \<lparr>sv_docs = [demo_doc ''a'' 0, demo_doc ''b'' 1], sv_clock = 2\<rparr>) = (res, db') \<and>
     1 \<le> length (filter (\<lambda>r. tc_blue_green_ref r = ''ns/app'') (sv_tests (cb_server db')))"
proof -
  let ?sv = "\<lparr>sv_docs = [demo_doc ''a'' 0, demo_doc ''b'' 1], sv_clock = 2\<rparr>"
  obtain res db' where run: "cosmos_cleanup_blue_green demo_cosmos ''ns/app'' (alone ?sv) = (res, db')" by fastforce
  have "sv_ok demo_cosmos (cb_server (alone ?sv))"
    by (auto simp: sv_ok_def sv_tests_def alone_def demo_doc_ok table_ok_def) (simp_all add: sample_simps)
  from cosmos_cleanup_deletes_one_page [OF this _ demo_ids run] show ?thesis
    using run by (auto simp: alone_def sv_tests_def demo_cosmos_def [THEN arg_cong [of _ _ ce_page]]) (simp add: sample_simps)
qed

end
