(* ===== verification/Spec2Isabelle.thy ===== *)
theory Spec2Isabelle
  imports StoreClients Promotion Sdk AuthTokens Naming Validation Status Lease
    Deployments Resources Cleanup Reconciler PluginLifecycle Rollout InceptionPhase Draining Controller ReconcileLoop
    Histories ReconcileSafety PhaseMachine OrphanSafety HttpApi HttpDrain HttpPluginSafety RabbitManagerSafety
    CosmosSafety
begin

text \<open>
  A model of the FluidBG operator and of its plugins, with the theorems that make it correct.

  \<^bold>\<open>The program.\<close> A BlueGreenDeployment describes a rollout. The operator (\<open>src/operator\<close>) deploys a candidate,
  sets up inception points through plugins (\<open>src/plugins\<close>) that observe, split or duplicate traffic, collects test
  cases in a state store, decides from their counts whether to promote or to roll back, drains the plugins and
  cleans up. The plugins share an SDK (\<open>src/sdk/rust\<close>); plugins and operator talk over HTTP with signed tokens.

  \<^bold>\<open>Theories and sources.\<close>
  \<^item> \<open>Prelude\<close>, \<open>Json\<close>, \<open>Float64\<close>, \<open>KubeTypes\<close>: what the code uses of Rust, \<open>serde_json\<close>, IEEE arithmetic and the
    Kubernetes types. Strings are byte-ordered character lists, casts wrap (\<open>as_i32\<close>, \<open>as_u8\<close>, \<open>as_usize\<close>),
    JSON objects are sorted association lists, doubles are exact rationals rounded once per operation.
  \<^item> \<open>StateStore\<close> (\<open>state_store/mod.rs\<close>), \<open>StoreTable\<close>, \<open>MemoryStore\<close> (\<open>memory.rs\<close>), \<open>PostgresStore\<close> (\<open>postgres.rs\<close>):
    the trait as a record of operations, its contract as the locale \<open>state_store\<close> over a finite-map specification,
    and the two backends, which interpret it. \<open>Tracker\<close> (\<open>inception.rs\<close>) and \<open>StoreClients\<close> are its clients.
  \<^item> \<open>CosmosStore\<close>, \<open>CosmosSafety\<close> (\<open>cosmos.rs\<close>): the third backend. An operation is several REST requests, and the model
    lets other clients write to the container before each of them (\<open>cb_others\<close>) and requests fail (\<open>cb_net\<close>); so the
    backend is not an instance of the locale, and its theorems say which of its operations are atomic.
  \<^item> \<open>Crd\<close> (\<open>crd/*.rs\<close>), \<open>Sdk\<close>, \<open>AuthTokens\<close> (\<open>src/sdk/rust/src\<close>), \<open>Naming\<close> (every derived name), \<open>Validation\<close>
    (\<open>validation.rs\<close>, \<open>plugins/schema.rs\<close>), \<open>Promotion\<close> (\<open>strategy/*.rs\<close>, \<open>evaluator.rs\<close>, \<open>controller/promotion.rs\<close>).
  \<^item> \<open>Kube\<close>: the effects of the operator. A run takes the environment (the answers of the cluster, the plugins and
    the clock, as arbitrary functions of what was asked before) and a world (the requests so far and the store), and
    returns a result or an error with the new world. Every request is logged with whether it succeeded.
  \<^item> \<open>Status\<close>, \<open>Lease\<close>, \<open>Deployments\<close>, \<open>Resources\<close>, \<open>Cleanup\<close>, \<open>Reconciler\<close>, \<open>PluginLifecycle\<close>, \<open>Rollout\<close>,
    \<open>InceptionPhase\<close>, \<open>Draining\<close>, \<open>Controller\<close>, \<open>ReconcileLoop\<close>: the files of \<open>src/operator/src/controller\<close> and
    \<open>controller.rs\<close>, up to one whole reconciliation. \<open>HttpApi\<close> (\<open>http_api.rs\<close>): the operator's HTTP interface.
  \<^item> \<open>Histories\<close>, \<open>ReconcileSafety\<close>, \<open>PhaseMachine\<close>, \<open>OrphanSafety\<close>: what a whole reconciliation guarantees.
  \<^item> \<open>PluginEffects\<close>: the effects of the plugins, in the same style, and the runtime and deliveries of the SDK.
    \<open>HttpPlugin\<close>, \<open>HttpDrain\<close>, \<open>HttpPluginSafety\<close>: the HTTP proxy (\<open>src/plugins/http/src\<close>), its drain protocol as an
    interleaving of atomic steps. \<open>RabbitConfig\<close>, \<open>RabbitWorkers\<close>, \<open>RabbitLifecycle\<close>, \<open>RabbitSafety\<close>,
    \<open>RabbitManager\<close>, \<open>RabbitManagerSafety\<close>: the RabbitMQ plugin and its manager (\<open>src/plugins/rabbitmq/src\<close>).

  Definitions carry the names of the functions they model; a suffix or a prefix avoids clashes. A loop body or a
  part of a long function is a definition of its own when a lemma speaks about it.

  \<^bold>\<open>What is shown.\<close>
  \<^item> Stores and tracker: every backend refines the finite map, so the backends agree; a verdict is final;
    on Cosmos DB a verdict is a compare-and-swap, while a registration of a known case is ignored and a cleanup is
    neither atomic nor complete.
  \<^item> Decisions: promotion needs every criterion, the strategies decide exactly as counted, an early rollback is
    never premature, steps advance one at a time.
  \<^item> Concurrency: the lease is taken over only when it has expired, the work of a reconciliation follows a
    successful lease write, a status write is a compare-and-set on the generation and phase, phases never regress,
    and every phase that a reconciliation writes is an edge of the rollout's state machine.
  \<^item> Ordering: finalizers go last, activation comes after readiness, draining ends only when every plugin
    drained or timed out, waits are bounded.
  \<^item> Ownership: apply never touches a foreign object, the orphan cleanup spares every existing rollout and is
    complete, green is unambiguous, promotion keeps the candidate.
  \<^item> Authority: tokens are checked against claims and identities, verdicts and registrations need the right
    token, a manager does nothing without it and then no more than its request needs.
  \<^item> Plugins: the proxy observes before it forwards and is empty when it reports drained; the queue workers
    acknowledge a message only after it was passed on; moving a queue back loses nothing; the inventory sync
    deletes nothing that an active inception was prepared with.

  \<^bold>\<open>How the proofs are organised.\<close> Per combinator of an effect there is one rule for every predicate on runs
  (\<open>makes_only\<close>, \<open>yields\<close>, \<open>guarded\<close> for the operator; \<open>only_calls\<close>, \<open>does\<close>, \<open>keeps\<close> for the plugins), collected
  under a name; a component's lemma is then the introduction of these rules. Step relations (\<open>lease_step\<close>,
  \<open>status_step\<close>, \<open>phase_edge\<close>, \<open>drain_step\<close>) carry invariants by rule induction. Facts of the locales reach the
  properties through their interpretations.

  \<^bold>\<open>Bounds and fuel.\<close> Waits and retries have the bounds of the code: 60 attempts for readiness and deletion, 10
  and 3 for plugin calls, 10 deliveries, 30 connection attempts, 32 candidate names; the recursion runs on that
  number. Only the loops of the queue workers never end: they take fuel, a run out of fuel is the error
  \<open>StillRunning\<close>, which no code handles, and the safety theorems hold for every fuel. Moving a queue also takes
  fuel; one more round than there are messages is proved to be enough.

  \<^bold>\<open>Parameters.\<close> SHA-256, base64, JWT codecs, regular expressions, number and time formatting, the default hasher,
  URL parsing, the JSON codecs that are derived, and every server are parameters. What a theorem needs of them is
  a named hypothesis (for instance \<open>jwt_roundtrips\<close>, \<open>serves\<close>), and a witness instantiates it.

  \<^bold>\<open>Not modelled.\<close> The watch streams, queues and timers that call the reconciler and the background renewal of the
  lease (scheduling); TLS set-up, HTTP routing and listeners (libraries); connecting to Postgres and creating its
  table; the identity tokens of Azure that the Cosmos DB store presents; the built-in plugin manifests and the CRD generator (data);
  the NATS and Azure Service Bus plugins, which have the structure of the RabbitMQ plugin on other brokers; the
  test applications and the end-to-end tests.
\<close>

end
